(* ===== verification/Prelude.thy ===== *)
theory Prelude
  imports Main "HOL-Library.Multiset"
begin

text \<open>
  The shared base of the development: the named collections the component theories feed, and the
  generic facts on lists, filters, multisets and updates by key that several components use.
  Nothing here is about the program itself.
\<close>

named_theorems io_defs "defining equations of the effect combinators"

section \<open>Lists\<close>

lemma sum_list_update_add:
  fixes ns :: "nat list"
  assumes "i < length ns"
  shows "sum_list (ns[i := ns ! i + k]) = sum_list ns + k"
  using assms by (induction ns arbitrary: i) (auto split: nat.splits)

lemma mset_concat_snoc_at:
  assumes "i < length xss"
  shows "mset (concat (xss[i := xss ! i @ [x]])) = add_mset x (mset (concat xss))"
  using assms by (induction xss arbitrary: i) (auto split: nat.splits)

lemma length_concat_snoc_at:
  assumes "i < length xss"
  shows "length (concat (xss[i := xss ! i @ [x]])) = Suc (length (concat xss))"
proof -
  have "size (mset (concat (xss[i := xss ! i @ [x]]))) = Suc (size (mset (concat xss)))"
    by (simp add: mset_concat_snoc_at [OF assms])
  then show ?thesis by simp
qed

lemma distinct_map_filter: "distinct (map f xs) \<Longrightarrow> distinct (map f (filter P xs))"
  by (induction xs) auto

lemma distinct_map_eqD:
  "distinct (map f xs) \<Longrightarrow> x \<in> set xs \<Longrightarrow> y \<in> set xs \<Longrightarrow> f x = f y \<Longrightarrow> x = y"
  by (simp add: distinct_map inj_on_def)

lemma find_None_filter: "find P xs = None \<longleftrightarrow> filter P xs = []"
  by (induction xs) auto

lemma find_Some_mem: "find P xs = Some x \<Longrightarrow> x \<in> set xs \<and> P x"
  by (induction xs) (auto split: if_splits)

lemma map_if_id: "(\<And>x. x \<in> set xs \<Longrightarrow> \<not> P x) \<Longrightarrow> map (\<lambda>x. if P x then f x else x) xs = xs"
  by (induction xs) auto

lemma takeWhile_append_stop:
  "(\<And>x. x \<in> set xs \<Longrightarrow> P x) \<Longrightarrow> (case ys of [] \<Rightarrow> True | y # _ \<Rightarrow> \<not> P y) \<Longrightarrow>
   takeWhile P (xs @ ys) = xs"
  by (induction xs) (auto split: list.splits)

lemma dropWhile_append_stop:
  "(\<And>x. x \<in> set xs \<Longrightarrow> P x) \<Longrightarrow> (case ys of [] \<Rightarrow> True | y # _ \<Rightarrow> \<not> P y) \<Longrightarrow>
   dropWhile P (xs @ ys) = ys"
  by (induction xs) (auto split: list.splits)

lemma dropWhile_id: "(case xs of [] \<Rightarrow> True | x # _ \<Rightarrow> \<not> P x) \<Longrightarrow> dropWhile P xs = xs"
  by (cases xs) auto

lemma le_length_takeWhile_iff:
  "n \<le> length (takeWhile P xs) \<longleftrightarrow> n \<le> length xs \<and> (\<forall>x \<in> set (take n xs). P x)"
proof (induction xs arbitrary: n)
  case (Cons x xs)
  then show ?case by (cases n) auto
qed simp

text \<open>Two ways to split one list: one of the first parts is a prefix of the other.\<close>

lemma append_overlap:
  assumes "x @ y = u @ v"
  obtains w where "x = u @ w" "v = w @ y" | w where "w \<noteq> []" "u = x @ w" "y = w @ v"
proof -
  from assms obtain w where "x = u @ w \<and> w @ y = v \<or> x @ w = u \<and> y = w @ v"
    unfolding append_eq_append_conv2 by blast
  then show thesis using that by (cases "w = []") auto
qed

section \<open>Fresh row numbers\<close>

text \<open>
  The next value of an integer primary key as SQLite assigns it: one more than the largest in
  the table, 1 for an empty table.
\<close>

definition fresh_id :: "int list \<Rightarrow> int" where
  "fresh_id ids = 1 + foldr max ids 0"

lemma fold_max_ge: "x \<in> set ids \<Longrightarrow> x \<le> foldr max ids (0 :: int)"
  by (induction ids) auto

lemma fresh_id_greater: "x \<in> set ids \<Longrightarrow> x < fresh_id ids"
  using fold_max_ge [of x ids] by (simp add: fresh_id_def)

lemma fresh_id_notin [simp]: "fresh_id ids \<notin> set ids"
  using fresh_id_greater by fastforce

end
