(* ===== verification/PyText.thy ===== *)
theory PyText
  imports Prelude Complex_Main "HOL-Library.Char_ord" "HOL-Library.List_Lexorder"
begin

text \<open>
  The Python \<open>str\<close> operations the program uses. A Python string is a \<open>string\<close>, a list of
  characters; a character stands for the code point of the same number, so the model covers
  strings of code points 0 to 255. The character classes below are those of Python's
  \<open>str.isspace\<close> and of \<open>\s\<close>, \<open>\w\<close> and \<open>\d\<close> on that range.
\<close>

section \<open>Character classes\<close>

definition py_space :: "char \<Rightarrow> bool" where
  "py_space c \<longleftrightarrow> (let n = (of_char c :: nat) in
     9 \<le> n \<and> n \<le> 13 \<or> 28 \<le> n \<and> n \<le> 32 \<or> n = 133 \<or> n = 160)"

definition py_digit :: "char \<Rightarrow> bool" where
  "py_digit c \<longleftrightarrow> (let n = (of_char c :: nat) in 48 \<le> n \<and> n \<le> 57)"

definition py_word :: "char \<Rightarrow> bool" where
  "py_word c \<longleftrightarrow> (let n = (of_char c :: nat) in
     48 \<le> n \<and> n \<le> 57 \<or> 65 \<le> n \<and> n \<le> 90 \<or> n = 95 \<or> 97 \<le> n \<and> n \<le> 122
     \<or> n \<in> {170, 178, 179, 181, 185, 186, 188, 189, 190}
     \<or> 192 \<le> n \<and> n \<noteq> 215 \<and> n \<noteq> 247)"

definition py_lower_char :: "char \<Rightarrow> char" where
  "py_lower_char c = (let n = (of_char c :: nat) in
     if 65 \<le> n \<and> n \<le> 90 \<or> 192 \<le> n \<and> n \<le> 222 \<and> n \<noteq> 215 then char_of (n + 32) else c)"

text \<open>
  Upper case on the same range. Three characters (181, 223 and 255) have upper-case forms outside
  the range; the model leaves them alone.
\<close>

definition py_upper_char :: "char \<Rightarrow> char" where
  "py_upper_char c = (let n = (of_char c :: nat) in
     if 97 \<le> n \<and> n \<le> 122 \<or> 224 \<le> n \<and> n \<le> 254 \<and> n \<noteq> 247 then char_of (n - 32) else c)"

definition py_line_break :: "char \<Rightarrow> bool" where
  "py_line_break c \<longleftrightarrow> (let n = (of_char c :: nat) in
     10 \<le> n \<and> n \<le> 13 \<or> 28 \<le> n \<and> n \<le> 30 \<or> n = 133)"

abbreviation nl :: string where
  "nl \<equiv> ''\<newline>''"

abbreviation newline_char :: char where
  "newline_char \<equiv> CHR 0x0A"

section \<open>String operations\<close>

definition py_lower :: "string \<Rightarrow> string" where
  "py_lower s = map py_lower_char s"

definition py_upper :: "string \<Rightarrow> string" where
  "py_upper s = map py_upper_char s"

definition lstrip :: "string \<Rightarrow> string" where
  "lstrip s = dropWhile py_space s"

definition rstrip :: "string \<Rightarrow> string" where
  "rstrip s = rev (dropWhile py_space (rev s))"

definition strip :: "string \<Rightarrow> string" where
  "strip s = rstrip (lstrip s)"

fun join :: "string \<Rightarrow> string list \<Rightarrow> string" where
  "join sep [] = []"
| "join sep [x] = x"
| "join sep (x # y # ys) = x @ sep @ join sep (y # ys)"

text \<open>\<open>str.splitlines()\<close>: \<open>cur\<close> is the line read so far, reversed.\<close>

fun splitlines_from :: "string \<Rightarrow> string \<Rightarrow> string list" where
  "splitlines_from cur [] = (if cur = [] then [] else [rev cur])"
| "splitlines_from cur [c] =
     (if py_line_break c then [rev cur] else [rev (c # cur)])"
| "splitlines_from cur (c # d # cs) =
     (if c = CHR 0x0D \<and> d = newline_char then rev cur # splitlines_from [] cs
      else if py_line_break c then rev cur # splitlines_from [] (d # cs)
      else splitlines_from (c # cur) (d # cs))"

definition splitlines :: "string \<Rightarrow> string list" where
  "splitlines s = splitlines_from [] s"

text \<open>\<open>s.partition(c)\<close> and \<open>s.rpartition(c)\<close> for a one-character separator.\<close>

definition py_partition :: "char \<Rightarrow> string \<Rightarrow> string \<times> string \<times> string" where
  "py_partition c s =
     (let a = takeWhile (\<lambda>x. x \<noteq> c) s; b = dropWhile (\<lambda>x. x \<noteq> c) s
      in case b of [] \<Rightarrow> (s, [], []) | x # r \<Rightarrow> (a, [x], r))"

definition py_rpartition :: "char \<Rightarrow> string \<Rightarrow> string \<times> string \<times> string" where
  "py_rpartition c s =
     (let a = takeWhile (\<lambda>x. x \<noteq> c) (rev s); b = dropWhile (\<lambda>x. x \<noteq> c) (rev s)
      in case b of [] \<Rightarrow> ([], [], s) | x # r \<Rightarrow> (rev r, [x], rev a))"

text \<open>\<open>s[a:b]\<close> for indices in range.\<close>

definition slice :: "string \<Rightarrow> nat \<Rightarrow> nat \<Rightarrow> string" where
  "slice s a b = take (b - a) (drop a s)"

fun starts_with :: "string \<Rightarrow> string \<Rightarrow> bool" where
  "starts_with s [] = True"
| "starts_with [] (p # ps) = False"
| "starts_with (c # cs) (p # ps) = (c = p \<and> starts_with cs ps)"

definition ends_with :: "string \<Rightarrow> string \<Rightarrow> bool" where
  "ends_with s p = starts_with (rev s) (rev p)"

section \<open>Numbers as text\<close>

definition digit_char :: "nat \<Rightarrow> char" where
  "digit_char d = char_of (48 + d)"

fun str_nat :: "nat \<Rightarrow> string" where
  "str_nat n = (if n < 10 then [digit_char n] else str_nat (n div 10) @ [digit_char (n mod 10)])"

declare str_nat.simps [simp del]

definition str_int :: "int \<Rightarrow> string" where
  "str_int i = (if i < 0 then ''-'' @ str_nat (nat (- i)) else str_nat (nat i))"

text \<open>\<open>int(s)\<close> on a string of decimal digits.\<close>

definition int_of_digits :: "string \<Rightarrow> int" where
  "int_of_digits s = foldl (\<lambda>a c. 10 * a + (int (of_char c) - 48)) 0 s"

text \<open>\<open>f"{n:02d}"\<close> for a natural number.\<close>

definition fmt_02d :: "nat \<Rightarrow> string" where
  "fmt_02d n = (if n < 10 then ''0'' @ str_nat n else str_nat n)"

text \<open>
  \<open>f"{x:.1f}"\<close>: the exact value of the float, a rational, rounded to tenths with ties to even;
  the sign is written before the rounded magnitude.
\<close>

definition round_tenths :: "rat \<Rightarrow> nat" where
  "round_tenths x = (let t = 10 * x; f = floor t; r = t - of_int f in
     nat (if r < 1 / 2 then f else if 1 / 2 < r then f + 1 else if even f then f else f + 1))"

definition fmt_1f :: "rat \<Rightarrow> string" where
  "fmt_1f x = (let n = round_tenths \<bar>x\<bar> in
     (if x < 0 then ''-'' else []) @ str_nat (n div 10) @ ''.'' @ str_nat (n mod 10))"

section \<open>Facts\<close>

lemma starts_with_iff: "starts_with s p \<longleftrightarrow> (\<exists>r. s = p @ r)"
  by (induction s p rule: starts_with.induct) auto

lemma strip_idem_front: "(case s of [] \<Rightarrow> True | c # _ \<Rightarrow> \<not> py_space c) \<Longrightarrow> lstrip s = s"
  by (simp add: lstrip_def dropWhile_id)

lemma dropWhile_not_head: "dropWhile P xs = y # ys \<Longrightarrow> \<not> P y"
  by (metis hd_dropWhile list.sel(1) list.simps(3))

definition stripped :: "string \<Rightarrow> bool" where
  "stripped s \<longleftrightarrow> (s = [] \<or> \<not> py_space (hd s) \<and> \<not> py_space (last s))"

lemma rstrip_decomp: "\<exists>t. s = rstrip s @ t \<and> (\<forall>c \<in> set t. py_space c)"
proof -
  have "s = rev (takeWhile py_space (rev s) @ dropWhile py_space (rev s))" by simp
  then have "s = rstrip s @ rev (takeWhile py_space (rev s))"
    unfolding rstrip_def by (metis rev_append)
  moreover have "\<forall>c \<in> set (rev (takeWhile py_space (rev s))). py_space c"
    by (auto dest: set_takeWhileD)
  ultimately show ?thesis by blast
qed

lemma stripped_strip [simp]: "stripped (strip s)"
proof (cases "strip s")
  case Nil
  then show ?thesis by (simp add: stripped_def)
next
  case (Cons c cs)
  have last: "\<not> py_space (last (strip s))"
  proof -
    have "dropWhile py_space (rev (lstrip s)) \<noteq> []"
      using Cons by (simp add: strip_def rstrip_def)
    then have "\<not> py_space (hd (dropWhile py_space (rev (lstrip s))))"
      by (rule hd_dropWhile)
    moreover have "last (strip s) = hd (dropWhile py_space (rev (lstrip s)))"
      unfolding strip_def rstrip_def by (simp add: last_rev)
    ultimately show ?thesis by simp
  qed
  obtain t where t: "lstrip s = strip s @ t"
    using rstrip_decomp [of "lstrip s"] unfolding strip_def by blast
  then have "lstrip s = c # cs @ t" using Cons by simp
  then have "\<not> py_space c"
    unfolding lstrip_def by (rule dropWhile_not_head)
  then show ?thesis using Cons last by (simp add: stripped_def)
qed

lemma strip_id: "stripped s \<Longrightarrow> strip s = s"
proof (cases s)
  case Nil
  then show ?thesis by (simp add: strip_def lstrip_def rstrip_def)
next
  case (Cons c cs)
  assume st: "stripped s"
  have front: "lstrip s = s" using st Cons by (simp add: stripped_def lstrip_def)
  have "\<not> py_space (last s)" using st Cons by (simp add: stripped_def)
  then have "\<not> py_space (hd (rev s))" by (simp add: hd_rev)
  then have "dropWhile py_space (rev s) = rev s"
    by (cases "rev s") auto
  then show ?thesis using front by (simp add: strip_def rstrip_def)
qed

lemma strip_idem [simp]: "strip (strip s) = strip s"
  by (simp add: strip_id)

lemma of_char_digit_char [simp]: "d < 10 \<Longrightarrow> (of_char (digit_char d) :: nat) = 48 + d"
  by (simp add: digit_char_def)

lemma py_digit_digit_char [simp]: "d < 10 \<Longrightarrow> py_digit (digit_char d)"
  by (simp add: py_digit_def)

lemma str_nat_digits: "c \<in> set (str_nat n) \<Longrightarrow> py_digit c"
proof (induction n rule: str_nat.induct)
  case (1 n)
  then show ?case
    by (cases "n < 10") (auto simp: str_nat.simps [of n])
qed

lemma str_nat_nonempty [simp]: "str_nat n \<noteq> []"
  by (subst str_nat.simps) simp

lemma int_of_digits_append_digit:
  "d < 10 \<Longrightarrow> int_of_digits (s @ [digit_char d]) = 10 * int_of_digits s + int d"
  by (simp add: int_of_digits_def)

lemma int_of_digits_str_nat [simp]: "int_of_digits (str_nat n) = int n"
proof (induction n rule: str_nat.induct)
  case (1 n)
  show ?case
  proof (cases "n < 10")
    case True
    then show ?thesis
      using int_of_digits_append_digit [of n "[]"] by (simp add: str_nat.simps [of n] int_of_digits_def)
  next
    case False
    then show ?thesis
      using 1 by (simp add: str_nat.simps [of n] int_of_digits_append_digit)
        (metis mult_div_mod_eq of_nat_add of_nat_mult of_nat_numeral)
  qed
qed

lemma length_join:
  "length (join sep xs) = sum_list (map length xs) + length sep * (length xs - 1)"
  by (induction sep xs rule: join.induct) auto

text \<open>White space at either end does not change what \<open>strip\<close> returns.\<close>

lemma lstrip_spaces: "\<forall>c \<in> set w. py_space c \<Longrightarrow> lstrip (w @ x) = lstrip x"
  by (simp add: lstrip_def dropWhile_append)

lemma strip_spaces_front: "\<forall>c \<in> set w. py_space c \<Longrightarrow> strip (w @ x) = strip x"
  by (simp add: strip_def lstrip_spaces)

lemma rstrip_spaces: "\<forall>c \<in> set w. py_space c \<Longrightarrow> rstrip (x @ w) = rstrip x"
  by (simp add: rstrip_def dropWhile_append)

lemma strip_spaces_back:
  assumes "\<forall>c \<in> set w. py_space c"
  shows "strip (x @ w) = strip x"
proof (cases "\<forall>c \<in> set x. py_space c")
  case True
  then show ?thesis using assms strip_spaces_front [of x w] strip_spaces_front [of x "[]"] strip_spaces_front [of w "[]"]
    by simp
next
  case False
  then have "lstrip (x @ w) = lstrip x @ w" by (auto simp: lstrip_def dropWhile_append)
  then show ?thesis by (simp add: strip_def rstrip_spaces [OF assms])
qed

lemma py_space_newline: "py_space newline_char" by (simp add: py_space_def)

lemma strip_lines: "strip (nl @ b @ nl) = strip b"
  using strip_spaces_front [of nl "b @ nl"] strip_spaces_back [of nl b] py_space_newline by simp

lemma slice_middle: "slice (a @ r @ s) (length a) (length (a @ r)) = r"
  by (simp add: slice_def)

end
