(* ===== verification/Models.thy ===== *)
theory Models
  imports PyText
begin

text \<open>
  The data of the program: the enumerations and models of \<open>models/review.py\<close>,
  \<open>models/storage.py\<close>, \<open>config/defaults.py\<close> and \<open>llm/types.py\<close>. Each
  \<open>StrEnum\<close> is a datatype with a function giving the member's string value; each model class is a
  record with the class's fields in order.
\<close>

section \<open>models/review.py\<close>

datatype language =
  PYTHON | JAVASCRIPT | TYPESCRIPT | PHP | DRUPAL | KOTLIN | C | CPP | BASH | YAML | SQL | GENERIC

fun language_value :: "language \<Rightarrow> string" where
  "language_value PYTHON = ''python''"
| "language_value JAVASCRIPT = ''javascript''"
| "language_value TYPESCRIPT = ''typescript''"
| "language_value PHP = ''php''"
| "language_value DRUPAL = ''drupal''"
| "language_value KOTLIN = ''kotlin''"
| "language_value C = ''c''"
| "language_value CPP = ''cpp''"
| "language_value BASH = ''bash''"
| "language_value YAML = ''yaml''"
| "language_value SQL = ''sql''"
| "language_value GENERIC = ''generic''"

lemma language_value_inject: "language_value a = language_value b \<Longrightarrow> a = b"
  by (cases a; cases b) simp_all

text \<open>Languages are ordered by their string value, as \<open>sorted(..., key=value)\<close> orders them.\<close>

instantiation language :: linorder
begin

definition less_eq_language :: "language \<Rightarrow> language \<Rightarrow> bool" where
  "less_eq_language a b \<longleftrightarrow> language_value a \<le> language_value b"

definition less_language :: "language \<Rightarrow> language \<Rightarrow> bool" where
  "less_language a b \<longleftrightarrow> language_value a < language_value b"

instance
  by standard
    (auto simp: less_eq_language_def less_language_def language_value_inject
      intro: order_trans dest: antisym)

end

datatype file_status = ADDED | MODIFIED | REMOVED | RENAMED

fun file_status_value :: "file_status \<Rightarrow> string" where
  "file_status_value ADDED = ''added''"
| "file_status_value MODIFIED = ''modified''"
| "file_status_value REMOVED = ''removed''"
| "file_status_value RENAMED = ''renamed''"

record changed_file =
  filename :: string
  file_status :: file_status
  additions :: int
  deletions :: int
  patch :: "string option"

record pr_info =
  info_number :: int
  info_title :: string
  info_body :: "string option"
  info_head_sha :: string
  info_base_ref :: string
  info_author_login :: string
  info_draft :: bool

text \<open>
  A \<open>datetime\<close> as its calendar fields; the offset from UTC is in minutes, None for a naive value.
\<close>

record py_datetime =
  dt_year :: nat
  dt_month :: nat
  dt_day :: nat
  dt_hour :: nat
  dt_minute :: nat
  dt_second :: nat
  dt_microsecond :: nat
  dt_offset :: "int option"

record conversation_comment =
  comment_author_login :: string
  comment_is_bot :: bool
  comment_body :: string
  comment_created_at :: py_datetime

record chunk =
  chunk_index :: nat
  chunk_total :: nat
  chunk_files :: "changed_file list"

record parsed_review =
  rev_summary :: string
  rev_findings :: string
  rev_suggestions :: string
  rev_positives :: string
  rev_raw :: string
  rev_parse_failed :: bool

record repo_info =
  repo_full_name :: string
  repo_default_branch :: string
  repo_private :: bool

record pr_content =
  content_pr :: pr_info
  content_files :: "changed_file list"
  content_conversation :: "conversation_comment list"

section \<open>models/storage.py\<close>

datatype job_status = PENDING | RUNNING | DONE | FAILED

fun job_status_value :: "job_status \<Rightarrow> string" where
  "job_status_value PENDING = ''pending''"
| "job_status_value RUNNING = ''running''"
| "job_status_value DONE = ''done''"
| "job_status_value FAILED = ''failed''"

definition TERMINAL_JOB_STATUSES :: "job_status list" where
  "TERMINAL_JOB_STATUSES = [DONE, FAILED]"

datatype job_type = REVIEW

fun job_type_value :: "job_type \<Rightarrow> string" where
  "job_type_value REVIEW = ''review''"

datatype trigger_kind = AUTO | COMMENT

fun trigger_kind_value :: "trigger_kind \<Rightarrow> string" where
  "trigger_kind_value AUTO = ''auto''"
| "trigger_kind_value COMMENT = ''comment''"

datatype job_status_detail =
    INTERRUPTED_BY_RESTART
  | TIMEOUT
  | NO_REVIEWABLE_FILES
  | DRAFTED_AFTER_EVENT
  | PR_CLOSED
  | PARSE_FAILED
  | LLM_FAILURE
  | GITHUB_FAILURE

fun status_detail_value :: "job_status_detail \<Rightarrow> string" where
  "status_detail_value INTERRUPTED_BY_RESTART = ''interrupted_by_restart''"
| "status_detail_value TIMEOUT = ''timeout''"
| "status_detail_value NO_REVIEWABLE_FILES = ''no_reviewable_files''"
| "status_detail_value DRAFTED_AFTER_EVENT = ''drafted_after_event''"
| "status_detail_value PR_CLOSED = ''pr_closed''"
| "status_detail_value PARSE_FAILED = ''parse_failed''"
| "status_detail_value LLM_FAILURE = ''llm_failure''"
| "status_detail_value GITHUB_FAILURE = ''github_failure''"

text \<open>The column is of text; a member of the enumeration is stored as its value.\<close>

abbreviation detail_text :: "job_status_detail option \<Rightarrow> string option" where
  "detail_text \<equiv> map_option status_detail_value"

text \<open>
  The tables' rows. Times are naive UTC datetimes, counted in microseconds.
\<close>

record job =
  job_id :: int
  job_type :: job_type
  job_installation_id :: int
  job_repo :: string
  job_pr_number :: int
  job_head_sha :: string
  job_trigger_kind :: trigger_kind
  job_extra_context :: "string option"
  job_status :: job_status
  job_status_detail :: "string option"
  job_attempts :: int
  job_created_at :: int
  job_updated_at :: int
  job_error :: "string option"

record webhook_delivery =
  delivery_id :: string
  delivery_received_at :: int

record pr_lock =
  lock_repo :: string
  lock_pr_number :: int
  lock_locked_at :: int
  lock_job_id :: int

record review_posted =
  posted_id :: int
  posted_repo :: string
  posted_pr_number :: int
  posted_head_sha :: string
  posted_review_id :: int
  posted_posted_at :: int
  posted_duration_ms :: int
  posted_chunk_count :: int

record failure_cooldown =
  cooldown_repo :: string
  cooldown_pr_number :: int
  cooldown_last_posted_at :: int

section \<open>config/defaults.py\<close>

datatype strictness = LENIENT | NORMAL | STRICT

fun strictness_value :: "strictness \<Rightarrow> string" where
  "strictness_value LENIENT = ''lenient''"
| "strictness_value NORMAL = ''normal''"
| "strictness_value STRICT = ''strict''"

definition DEFAULT_ENABLED :: bool where
  "DEFAULT_ENABLED = True"

definition DEFAULT_ALLOWED_ASSOCIATIONS :: "string list" where
  "DEFAULT_ALLOWED_ASSOCIATIONS = [''OWNER'', ''COLLABORATOR'']"

definition DEFAULT_STRICTNESS :: strictness where
  "DEFAULT_STRICTNESS = NORMAL"

definition DEFAULT_INCLUDE_CONVERSATION :: bool where
  "DEFAULT_INCLUDE_CONVERSATION = True"

definition ABSENT_CONFIG_ALLOWED_ASSOCIATIONS :: "string list" where
  "ABSENT_CONFIG_ALLOWED_ASSOCIATIONS = [''OWNER'']"

section \<open>llm/types.py\<close>

datatype role = SYSTEM | USER | ASSISTANT

fun role_value :: "role \<Rightarrow> string" where
  "role_value SYSTEM = ''system''"
| "role_value USER = ''user''"
| "role_value ASSISTANT = ''assistant''"

record message =
  msg_role :: role
  msg_content :: string

record token_usage =
  usage_prompt_tokens :: int
  usage_completion_tokens :: int
  usage_total_tokens :: int

record chat_response =
  resp_content :: string
  resp_model :: string
  resp_usage :: token_usage
  resp_reasoning_content :: string
  resp_finish_reason :: "string option"

section \<open>Data the program reads as JSON or YAML\<close>

text \<open>
  What \<open>response.json()\<close> and \<open>yaml.safe_load\<close> return: an object is a list of entries with
  distinct keys.
\<close>

datatype json =
    JNull
  | JBool bool
  | JInt int
  | JFloat rat
  | JStr string
  | JArr "json list"
  | JObj "(string \<times> json) list"

text \<open>Python's truth value of such data, as \<open>x or y\<close> tests it.\<close>

fun json_truthy :: "json \<Rightarrow> bool" where
  "json_truthy JNull = False"
| "json_truthy (JBool b) = b"
| "json_truthy (JInt n) = (n \<noteq> 0)"
| "json_truthy (JFloat x) = (x \<noteq> 0)"
| "json_truthy (JStr s) = (s \<noteq> [])"
| "json_truthy (JArr xs) = (xs \<noteq> [])"
| "json_truthy (JObj kvs) = (kvs \<noteq> [])"

end
