(* ===== verification/Chunking.thy ===== *)
theory Chunking
  imports Models "HOL-Library.Multiset" "HOL-Library.Sublist"
begin

text \<open>
  \<open>pipeline/chunking.py\<close>: first-fit packing of the changed files, largest first, into at most
  \<open>max_chunks\<close> chunks of at most \<open>max_chunk_chars\<close> characters. The loop's local variables are
  the record \<open>packing\<close>; one iteration is \<open>place_file\<close>.
\<close>

section \<open>The code\<close>

record packing_result =
  packed_chunks :: "chunk list"
  packed_skipped :: "string list"

definition file_size :: "changed_file \<Rightarrow> nat" where
  "file_size f = (case patch f of None \<Rightarrow> 0 | Some p \<Rightarrow> length p)"

text \<open>\<open>sorted(files, key=_file_size, reverse=True)\<close>: Python keeps the order of equal keys.\<close>

definition sort_by_size :: "changed_file list \<Rightarrow> changed_file list" where
  "sort_by_size files = sort_key (\<lambda>f. - int (file_size f)) files"

record packing =
  chunks_files :: "changed_file list list"
  chunks_sizes :: "nat list"
  skipped :: "string list"
  placed_count :: nat

definition packing_init :: packing where
  "packing_init = \<lparr>chunks_files = [], chunks_sizes = [], skipped = [], placed_count = 0\<rparr>"

text \<open>The inner loop: the first chunk with room for \<open>size\<close> more characters.\<close>

fun find_target :: "nat \<Rightarrow> nat \<Rightarrow> nat \<Rightarrow> nat list \<Rightarrow> nat option" where
  "find_target max_chunk_chars fsize i [] = None"
| "find_target max_chunk_chars fsize i (existing_size # rest) =
     (if existing_size + fsize \<le> max_chunk_chars then Some i
      else find_target max_chunk_chars fsize (Suc i) rest)"

definition skip_file :: "changed_file \<Rightarrow> packing \<Rightarrow> packing" where
  "skip_file f st = st\<lparr>skipped := skipped st @ [filename f]\<rparr>"

definition place_file :: "nat \<Rightarrow> nat \<Rightarrow> nat \<Rightarrow> packing \<Rightarrow> changed_file \<Rightarrow> packing" where
  "place_file max_files max_chunks max_chunk_chars st f =
     (if max_files \<le> placed_count st then skip_file f st
      else let fsize = file_size f in
        if max_chunk_chars < fsize then skip_file f st
        else (case find_target max_chunk_chars fsize 0 (chunks_sizes st) of
            None \<Rightarrow>
              (if max_chunks \<le> length (chunks_files st) then skip_file f st
               else st\<lparr>chunks_files := chunks_files st @ [[f]],
                       chunks_sizes := chunks_sizes st @ [fsize],
                       placed_count := placed_count st + 1\<rparr>)
          | Some t \<Rightarrow>
              st\<lparr>chunks_files := (chunks_files st)[t := chunks_files st ! t @ [f]],
                 chunks_sizes := (chunks_sizes st)[t := chunks_sizes st ! t + fsize],
                 placed_count := placed_count st + 1\<rparr>))"

definition number_chunks :: "changed_file list list \<Rightarrow> chunk list" where
  "number_chunks fss =
     map (\<lambda>i. \<lparr>chunk_index = i + 1, chunk_total = length fss, chunk_files = fss ! i\<rparr>)
       [0..<length fss]"

definition pack_chunks :: "changed_file list \<Rightarrow> nat \<Rightarrow> nat \<Rightarrow> nat \<Rightarrow> packing_result" where
  "pack_chunks files max_files max_chunks max_chunk_chars =
     (let st = foldl (place_file max_files max_chunks max_chunk_chars) packing_init
                 (sort_by_size files)
      in \<lparr>packed_chunks = number_chunks (chunks_files st), packed_skipped = skipped st\<rparr>)"

section \<open>What one iteration keeps\<close>

definition files_size :: "changed_file list \<Rightarrow> nat" where
  "files_size fs = sum_list (map file_size fs)"

lemma find_target_shift:
  "find_target m s i sizes = map_option ((+) i) (find_target m s 0 sizes)"
proof (induction sizes arbitrary: i)
  case (Cons x xs)
  show ?case by (simp add: Cons [of "Suc i"] Cons [of "Suc 0"] option.map_comp comp_def)
qed simp

lemma find_target_Some:
  "find_target m s 0 sizes = Some t \<Longrightarrow>
   t < length sizes \<and> sizes ! t + s \<le> m \<and> (\<forall>k < t. m < sizes ! k + s)"
proof (induction sizes arbitrary: t)
  case (Cons x xs)
  show ?case
  proof (cases "x + s \<le> m")
    case True
    then show ?thesis using Cons.prems by simp
  next
    case False
    with Cons.prems obtain t' where "find_target m s 0 xs = Some t'" "t = Suc t'"
      by (auto simp: find_target_shift [of m s "Suc 0"])
    with Cons.IH False show ?thesis by (auto simp: nth_Cons split: nat.splits)
  qed
qed simp

lemma find_target_None:
  "find_target m s i sizes = None \<Longrightarrow> (\<forall>z \<in> set sizes. m < z + s)"
  by (induction sizes arbitrary: i) (auto split: if_splits)

text \<open>
  The loop invariant: the recorded sizes are the chunks' sizes, no chunk is empty or too big, the
  number of chunks and of placed files is bounded, and no chunk could have taken the first file of a
  later one.
\<close>

definition packing_ok :: "nat \<Rightarrow> nat \<Rightarrow> nat \<Rightarrow> packing \<Rightarrow> bool" where
  "packing_ok max_files max_chunks max_chunk_chars st \<longleftrightarrow>
     chunks_sizes st = map files_size (chunks_files st) \<and>
     (\<forall>fs \<in> set (chunks_files st). fs \<noteq> [] \<and> files_size fs \<le> max_chunk_chars) \<and>
     length (chunks_files st) \<le> max_chunks \<and>
     placed_count st = length (concat (chunks_files st)) \<and>
     placed_count st \<le> max_files \<and>
     (\<forall>j < length (chunks_files st). \<forall>i < j.
        max_chunk_chars < files_size (chunks_files st ! i) + file_size (hd (chunks_files st ! j)))"

lemma packing_ok_init: "packing_ok mf mc mm packing_init"
  by (simp add: packing_ok_def packing_init_def)

lemma files_size_append [simp]: "files_size (xs @ ys) = files_size xs + files_size ys"
  by (simp add: files_size_def)

lemma files_size_single [simp]: "files_size [f] = file_size f"
  by (simp add: files_size_def)

text \<open>The three ways an iteration can go.\<close>

lemma place_file_cases:
  obtains (skip) "place_file mf mc mm st f = skip_file f st"
      "mf \<le> placed_count st \<or> mm < file_size f \<or>
       (mc \<le> length (chunks_files st) \<and> (\<forall>z \<in> set (chunks_sizes st). mm < z + file_size f))"
  | (fresh) "place_file mf mc mm st f =
        st\<lparr>chunks_files := chunks_files st @ [[f]], chunks_sizes := chunks_sizes st @ [file_size f],
           placed_count := placed_count st + 1\<rparr>"
      "placed_count st < mf" "file_size f \<le> mm" "length (chunks_files st) < mc"
      "\<forall>z \<in> set (chunks_sizes st). mm < z + file_size f"
  | (add) t where "place_file mf mc mm st f =
        st\<lparr>chunks_files := (chunks_files st)[t := chunks_files st ! t @ [f]],
           chunks_sizes := (chunks_sizes st)[t := chunks_sizes st ! t + file_size f],
           placed_count := placed_count st + 1\<rparr>"
      "placed_count st < mf" "file_size f \<le> mm" "t < length (chunks_sizes st)"
      "chunks_sizes st ! t + file_size f \<le> mm"
proof (cases "mf \<le> placed_count st \<or> mm < file_size f")
  case True
  then show thesis by (intro skip) (auto simp: place_file_def Let_def)
next
  case False
  show thesis
  proof (cases "find_target mm (file_size f) 0 (chunks_sizes st)")
    case None
    with False find_target_None [OF None] show thesis
      by (cases "mc \<le> length (chunks_files st)")
        (auto simp: place_file_def Let_def intro: skip fresh)
  next
    case (Some t)
    with False find_target_Some [OF Some] show thesis
      by (intro add [of t]) (auto simp: place_file_def Let_def)
  qed
qed

lemma packing_ok_place_file:
  assumes ok: "packing_ok mf mc mm st"
  shows "packing_ok mf mc mm (place_file mf mc mm st f)"
proof (cases rule: place_file_cases [of mf mc mm st f])
  case skip
  then show ?thesis using ok by (simp add: packing_ok_def skip_file_def)
next
  case fresh
  then show ?thesis using ok by (auto simp: packing_ok_def nth_append less_Suc_eq)
next
  case (add t)
  have t: "t < length (chunks_files st)" using ok add(4) by (simp add: packing_ok_def)
  have ne: "chunks_files st ! j \<noteq> []" if "j < length (chunks_files st)" for j
    using ok that by (auto simp: packing_ok_def)
  have len: "length (concat ((chunks_files st)[t := chunks_files st ! t @ [f]])) =
      Suc (length (concat (chunks_files st)))"
    by (rule length_concat_snoc_at [OF t])
  have sz: "chunks_sizes st = map files_size (chunks_files st)"
    using ok by (simp add: packing_ok_def)
  have "map files_size ((chunks_files st)[t := chunks_files st ! t @ [f]]) =
      (chunks_sizes st)[t := chunks_sizes st ! t + file_size f]"
    using t by (simp add: sz map_update)
  moreover have "fs \<noteq> [] \<and> files_size fs \<le> mm"
    if "fs \<in> set ((chunks_files st)[t := chunks_files st ! t @ [f]])" for fs
    using that ok add(5) t set_update_subset_insert [of "chunks_files st" t "chunks_files st ! t @ [f]"]
    by (auto simp: packing_ok_def sz)
  moreover have "mm < files_size ((chunks_files st)[t := chunks_files st ! t @ [f]] ! i) +
      file_size (hd ((chunks_files st)[t := chunks_files st ! t @ [f]] ! j))"
    if "j < length (chunks_files st)" "i < j" for i j
  proof -
    have "mm < files_size (chunks_files st ! i) + file_size (hd (chunks_files st ! j))"
      using ok that by (simp add: packing_ok_def)
    then show ?thesis using that t ne [of j] by (auto simp: nth_list_update)
  qed
  ultimately show ?thesis using ok add len by (simp add: packing_ok_def)
qed

lemma packing_ok_foldl:
  "packing_ok mf mc mm st \<Longrightarrow> packing_ok mf mc mm (foldl (place_file mf mc mm) st fs)"
  by (induction fs arbitrary: st) (auto simp: packing_ok_place_file)

text \<open>Every file of the loop ends in a chunk or among the skipped names.\<close>

lemma place_file_conserves:
  assumes "packing_ok mf mc mm st"
  shows "image_mset filename (mset (concat (chunks_files (place_file mf mc mm st f)))) +
         mset (skipped (place_file mf mc mm st f)) =
         add_mset (filename f)
           (image_mset filename (mset (concat (chunks_files st))) + mset (skipped st))"
proof (cases rule: place_file_cases [of mf mc mm st f])
  case skip
  then show ?thesis by (simp add: skip_file_def)
next
  case fresh
  then show ?thesis by simp
next
  case (add t)
  have "t < length (chunks_files st)" using assms add(4) by (simp add: packing_ok_def)
  from mset_concat_snoc_at [OF this] add(1) show ?thesis by simp
qed

lemma foldl_place_file_conserves:
  "packing_ok mf mc mm st \<Longrightarrow>
   image_mset filename (mset (concat (chunks_files (foldl (place_file mf mc mm) st fs)))) +
   mset (skipped (foldl (place_file mf mc mm) st fs)) =
   image_mset filename (mset fs) +
     (image_mset filename (mset (concat (chunks_files st))) + mset (skipped st))"
  by (induction fs arbitrary: st) (simp_all add: place_file_conserves packing_ok_place_file)

lemma concat_number_chunks [simp]: "map chunk_files (number_chunks fss) = fss"
  by (simp add: number_chunks_def comp_def map_nth)

lemma length_number_chunks [simp]: "length (number_chunks fss) = length fss"
  by (simp add: number_chunks_def)

lemma nth_number_chunks:
  "i < length fss \<Longrightarrow>
   number_chunks fss ! i = \<lparr>chunk_index = i + 1, chunk_total = length fss, chunk_files = fss ! i\<rparr>"
  by (simp add: number_chunks_def)

lemma map_index_number_chunks: "map chunk_index (number_chunks fss) = [1..<Suc (length fss)]"
  by (simp add: number_chunks_def comp_def map_Suc_upt [symmetric] del: upt_Suc)

text \<open>The state the loop ends in, and the invariant there.\<close>

definition packed_state :: "changed_file list \<Rightarrow> nat \<Rightarrow> nat \<Rightarrow> nat \<Rightarrow> packing" where
  "packed_state files mf mc mm =
     foldl (place_file mf mc mm) packing_init (sort_by_size files)"

lemma pack_chunks_state:
  "packed_chunks (pack_chunks files mf mc mm) = number_chunks (chunks_files (packed_state files mf mc mm))"
  "packed_skipped (pack_chunks files mf mc mm) = skipped (packed_state files mf mc mm)"
  by (simp_all add: pack_chunks_def packed_state_def Let_def)

lemma packed_state_ok: "packing_ok mf mc mm (packed_state files mf mc mm)"
  by (simp add: packed_state_def packing_ok_foldl packing_ok_init)

lemma mset_sort_by_size [simp]: "mset (sort_by_size files) = mset files"
  by (simp add: sort_by_size_def)


section \<open>Skipped files\<close>

text \<open>Why a file of this size cannot be placed in this state.\<close>

definition unplaceable :: "nat \<Rightarrow> nat \<Rightarrow> nat \<Rightarrow> packing \<Rightarrow> changed_file \<Rightarrow> bool" where
  "unplaceable mf mc mm st f \<longleftrightarrow>
     mf \<le> placed_count st \<or> mm < file_size f \<or>
     mc \<le> length (chunks_files st) \<and> list_all (\<lambda>z. mm < z + file_size f) (chunks_sizes st)"

text \<open>Chunks only grow, so what cannot be placed now cannot be placed later.\<close>

lemma unplaceable_place_file:
  assumes "unplaceable mf mc mm st f"
  shows "unplaceable mf mc mm (place_file mf mc mm st g) f"
proof (cases rule: place_file_cases [of mf mc mm st g])
  case skip
  then show ?thesis using assms by (simp add: unplaceable_def skip_file_def)
next
  case fresh
  then show ?thesis using assms by (auto simp: unplaceable_def)
next
  case (add t)
  have "list_all (\<lambda>z. mm < z + file_size f) ((chunks_sizes st)[t := chunks_sizes st ! t + file_size g])"
    if "list_all (\<lambda>z. mm < z + file_size f) (chunks_sizes st)"
    using that add(4) set_update_subset_insert [of "chunks_sizes st" t "chunks_sizes st ! t + file_size g"]
    by (fastforce simp: list_all_iff dest: nth_mem)
  then show ?thesis using assms add by (auto simp: unplaceable_def)
qed

definition skips_justified :: "nat \<Rightarrow> nat \<Rightarrow> nat \<Rightarrow> changed_file list \<Rightarrow> packing \<Rightarrow> bool" where
  "skips_justified mf mc mm files st \<longleftrightarrow>
     list_all (\<lambda>name. list_ex (\<lambda>f. filename f = name \<and> unplaceable mf mc mm st f) files) (skipped st)"

lemma skips_justified_place_file:
  assumes "skips_justified mf mc mm files st" "g \<in> set files"
  shows "skips_justified mf mc mm files (place_file mf mc mm st g)"
proof -
  have old: "list_all (\<lambda>name. list_ex (\<lambda>f. filename f = name \<and>
      unplaceable mf mc mm (place_file mf mc mm st g) f) files) (skipped st)"
    using assms(1) unplaceable_place_file
    by (fastforce simp: skips_justified_def list_all_iff list_ex_iff)
  show ?thesis
  proof (cases rule: place_file_cases [of mf mc mm st g])
    case skip
    have "unplaceable mf mc mm (place_file mf mc mm st g) g"
      using skip by (auto simp: unplaceable_def skip_file_def list_all_iff)
    then show ?thesis
      using old assms(2) skip(1) by (auto simp: skips_justified_def skip_file_def list_ex_iff)
  next
    case fresh
    then show ?thesis using old by (simp add: skips_justified_def)
  next
    case (add t)
    then show ?thesis using old by (simp add: skips_justified_def)
  qed
qed

lemma skips_justified_foldl:
  "skips_justified mf mc mm files st \<Longrightarrow> set fs \<subseteq> set files \<Longrightarrow>
   skips_justified mf mc mm files (foldl (place_file mf mc mm) st fs)"
  by (induction fs arbitrary: st) (auto simp: skips_justified_place_file)

section \<open>Order inside the chunks\<close>

lemma subseq_update_snoc:
  assumes "list_all (\<lambda>xs. subseq xs zs) xss" "t < length xss"
  shows "list_all (\<lambda>xs. subseq xs (zs @ [y])) (xss[t := xss ! t @ [y]])"
  using assms
  by (simp add: list_all_length nth_list_update list_emb_prefix list_emb_append_mono)

lemma place_file_subseq:
  assumes "list_all (\<lambda>xs. subseq xs zs) (chunks_files st)"
    and "packing_ok mf mc mm st"
  shows "list_all (\<lambda>xs. subseq xs (zs @ [f])) (chunks_files (place_file mf mc mm st f))"
proof (cases rule: place_file_cases [of mf mc mm st f])
  case skip
  then show ?thesis using assms
    by (auto simp: skip_file_def list_all_iff intro: list_emb_prefix)
next
  case fresh
  then show ?thesis using assms
    by (auto simp: list_all_iff intro: list_emb_prefix)
next
  case (add t)
  then have "t < length (chunks_files st)" using assms(2) by (simp add: packing_ok_def)
  from subseq_update_snoc [OF assms(1) this] show ?thesis by (simp add: add(1))
qed

lemma foldl_place_file_subseq:
  "list_all (\<lambda>xs. subseq xs zs) (chunks_files st) \<Longrightarrow> packing_ok mf mc mm st \<Longrightarrow>
   list_all (\<lambda>xs. subseq xs (zs @ fs)) (chunks_files (foldl (place_file mf mc mm) st fs))"
proof (induction fs arbitrary: st zs)
  case (Cons f fs)
  from Cons.IH [OF place_file_subseq [OF Cons.prems] packing_ok_place_file [OF Cons.prems(2)]]
  show ?case by simp
qed simp

section \<open>How full the chunks are\<close>

lemma pairwise_full_sum:
  fixes sizes :: "nat list"
  assumes "sorted_wrt (\<lambda>a b. m < a + b) sizes"
  shows "sizes \<noteq> [] \<Longrightarrow> m * (length sizes - 1) + hd sizes \<le> 2 * sum_list sizes"
  using assms
proof (induction sizes)
  case (Cons x xs)
  show ?case
  proof (cases xs)
    case (Cons y ys)
    then have "m * (length xs - 1) + y \<le> 2 * sum_list xs" "m < x + y"
      using Cons.IH Cons.prems by auto
    moreover have "m * (length (x # xs) - 1) = m + m * (length xs - 1)"
      using Cons by simp
    ultimately show ?thesis by simp
  qed simp
qed simp

lemma hd_size_le: "fs \<noteq> [] \<Longrightarrow> file_size (hd fs) \<le> files_size fs"
  by (cases fs) (simp_all add: files_size_def)

lemma packing_ok_first_fit:
  assumes "packing_ok mf mc mm st"
  shows "sorted_wrt (\<lambda>fs gs. mm < files_size fs + file_size (hd gs)) (chunks_files st)"
  using assms by (auto simp: packing_ok_def sorted_wrt_iff_nth_less)

lemma packing_ok_pairwise:
  assumes "packing_ok mf mc mm st"
  shows "sorted_wrt (\<lambda>a b. mm < a + b) (map files_size (chunks_files st))"
proof -
  have "mm < files_size fs + files_size gs"
    if "mm < files_size fs + file_size (hd gs)" "gs \<in> set (chunks_files st)" for fs gs
    using that hd_size_le [of gs] assms by (fastforce simp: packing_ok_def)
  from sorted_wrt_mono_rel [OF this packing_ok_first_fit [OF assms]]
  show ?thesis by (simp add: sorted_wrt_map)
qed

text \<open>File by file: each file of the input is in a chunk, or its name is among the skipped ones.\<close>

definition accounted :: "packing \<Rightarrow> changed_file \<Rightarrow> bool" where
  "accounted st f \<longleftrightarrow> f \<in> set (concat (chunks_files st)) \<or> filename f \<in> set (skipped st)"

lemma place_file_accounts:
  assumes "packing_ok mf mc mm st"
  shows "accounted (place_file mf mc mm st f) f"
    and "accounted st g \<Longrightarrow> accounted (place_file mf mc mm st f) g"
proof -
  have "accounted (place_file mf mc mm st f) f \<and> (accounted st g \<longrightarrow> accounted (place_file mf mc mm st f) g)"
  proof (cases rule: place_file_cases [of mf mc mm st f])
    case skip
    then show ?thesis by (simp add: skip_file_def accounted_def)
  next
    case fresh
    then show ?thesis by (simp add: accounted_def)
  next
    case (add t)
    have "t < length (chunks_files st)" using assms add(4) by (simp add: packing_ok_def)
    from arg_cong [OF mset_concat_snoc_at [OF this, of f], of set_mset] add(1)
    show ?thesis by (simp add: accounted_def del: set_concat)
  qed
  then show "accounted (place_file mf mc mm st f) f"
    and "accounted st g \<Longrightarrow> accounted (place_file mf mc mm st f) g" by blast+
qed

lemma foldl_place_file_accounts:
  "packing_ok mf mc mm st \<Longrightarrow> f \<in> set fs \<or> accounted st f \<Longrightarrow>
   accounted (foldl (place_file mf mc mm) st fs) f"
  by (induction fs arbitrary: st) (auto simp: packing_ok_place_file place_file_accounts)

lemma pack_chunks_accounts:
  assumes "f \<in> set files"
  shows "(\<exists>c \<in> set (packed_chunks (pack_chunks files mf mc mm)). f \<in> set (chunk_files c)) \<or>
    filename f \<in> set (packed_skipped (pack_chunks files mf mc mm))"
proof -
  have "accounted (packed_state files mf mc mm) f"
    unfolding packed_state_def
    by (rule foldl_place_file_accounts [OF packing_ok_init]) (simp add: assms sort_by_size_def)
  moreover have "set (concat (map chunk_files ncs)) = (\<Union>c \<in> set ncs. set (chunk_files c))" for ncs
    by (simp only: set_concat set_map image_image)
  note this [of "number_chunks (chunks_files (packed_state files mf mc mm))", unfolded concat_number_chunks]
  ultimately show ?thesis unfolding accounted_def pack_chunks_state by blast
qed

section \<open>Properties\<close>

text \<open>
  C13: packing neither loses nor duplicates a file: the names in the chunks and the skipped names
  together are exactly the names of the input files, each as often as in the input.
\<close>
theorem pack_chunks_conserves_files:
  "image_mset filename (mset (concat (map chunk_files (packed_chunks (pack_chunks files mf mc mm))))) +
   mset (packed_skipped (pack_chunks files mf mc mm)) = image_mset filename (mset files)"
  using foldl_place_file_conserves [OF packing_ok_init, of mf mc mm "sort_by_size files"]
  by (simp add: pack_chunks_state packed_state_def) (simp add: packing_init_def)

text \<open>
  C30: the packing keeps its three limits: at most \<open>max_chunks\<close> chunks, at most \<open>max_files\<close>
  files in them, and each chunk non-empty with at most \<open>max_chunk_chars\<close> characters of patch;
  chunks are numbered from 1 and each carries the number of chunks.
\<close>
theorem pack_chunks_within_limits:
  "length (packed_chunks (pack_chunks files mf mc mm)) \<le> mc \<and>
   length (concat (map chunk_files (packed_chunks (pack_chunks files mf mc mm)))) \<le> mf \<and>
   list_all (\<lambda>c. chunk_files c \<noteq> [] \<and> files_size (chunk_files c) \<le> mm \<and>
       chunk_total c = length (packed_chunks (pack_chunks files mf mc mm)))
     (packed_chunks (pack_chunks files mf mc mm)) \<and>
   map chunk_index (packed_chunks (pack_chunks files mf mc mm)) =
     [1..<Suc (length (packed_chunks (pack_chunks files mf mc mm)))]"
  using packed_state_ok [of mf mc mm files]
  by (simp add: pack_chunks_state packing_ok_def list_all_length nth_number_chunks map_index_number_chunks
      del: upt_Suc)

text \<open>
  C31: a file is skipped only for one of the three documented reasons, and the reason still holds for
  the finished packing: \<open>max_files\<close> files are placed, or the file alone is larger than a chunk, or
  all \<open>max_chunks\<close> chunks are open and none has room for it.
\<close>
theorem pack_chunks_skips_justified:
  "list_all (\<lambda>name. list_ex (\<lambda>f. filename f = name \<and>
       (mf \<le> length (concat (map chunk_files (packed_chunks (pack_chunks files mf mc mm)))) \<or>
        mm < file_size f \<or>
        mc \<le> length (packed_chunks (pack_chunks files mf mc mm)) \<and>
        list_all (\<lambda>c. mm < files_size (chunk_files c) + file_size f)
          (packed_chunks (pack_chunks files mf mc mm)))) files)
     (packed_skipped (pack_chunks files mf mc mm))"
proof -
  have "skips_justified mf mc mm files packing_init"
    by (simp add: skips_justified_def packing_init_def)
  then have "skips_justified mf mc mm files (packed_state files mf mc mm)"
    unfolding packed_state_def
    by (rule skips_justified_foldl) (simp add: sort_by_size_def)
  then show ?thesis
    using packed_state_ok [of mf mc mm files]
    by (simp add: skips_justified_def unplaceable_def pack_chunks_state packing_ok_def
        list_all_length nth_number_chunks)
qed

text \<open>
  Each chunk lists its files in the sorted order: it is a subsequence of the files sorted by
  falling patch size with equal sizes in their input order.
\<close>
lemma pack_chunks_keeps_sorted_order:
  "list_all (\<lambda>c. subseq (chunk_files c) (sort_by_size files))
     (packed_chunks (pack_chunks files mf mc mm))"
  using foldl_place_file_subseq [OF _ packing_ok_init, where zs = "[]" and fs = "sort_by_size files"]
  by (simp add: pack_chunks_state flip: packed_state_def)
    (simp add: list_all_length nth_number_chunks packing_init_def)

text \<open>
  First fit: no chunk had room for the first file of a later chunk, and so the chunks are on
  average more than half full: \<open>n\<close> chunks hold at least \<open>(n - 1) / 2\<close> times
  \<open>max_chunk_chars\<close> characters.
\<close>
lemma pack_chunks_first_fit:
  "sorted_wrt (\<lambda>c d. mm < files_size (chunk_files c) + file_size (hd (chunk_files d)))
     (packed_chunks (pack_chunks files mf mc mm)) \<and>
   mm * (length (packed_chunks (pack_chunks files mf mc mm)) - 1)
     \<le> 2 * sum_list (map (\<lambda>c. files_size (chunk_files c)) (packed_chunks (pack_chunks files mf mc mm)))"
proof -
  let ?fss = "chunks_files (packed_state files mf mc mm)"
  note ok = packed_state_ok [of mf mc mm files]
  have 1: "sorted_wrt (\<lambda>c d. mm < files_size (chunk_files c) + file_size (hd (chunk_files d)))
      (number_chunks ?fss)"
    using packing_ok_first_fit [OF ok] sorted_wrt_map [of _ chunk_files "number_chunks ?fss"]
    by simp
  have "map (\<lambda>c. files_size (chunk_files c)) (number_chunks ?fss) = map files_size ?fss"
    using map_map [of files_size chunk_files "number_chunks ?fss"] by (simp add: comp_def)
  with pairwise_full_sum [OF packing_ok_pairwise [OF ok]]
  have "mm * (length ?fss - 1) \<le> 2 * sum_list (map (\<lambda>c. files_size (chunk_files c)) (number_chunks ?fss))"
    by (cases "?fss = []") auto
  with 1 show ?thesis by (simp add: pack_chunks_state)
qed

end
