(* ===== verification/PyRegex.thy ===== *)
theory PyRegex
  imports PyText
begin

text \<open>
  The part of Python's \<open>re\<close> module that the program's six patterns use. A pattern is a value of
  \<open>rx\<close>, transcribed from the source's pattern string; repetition is over single-character
  classes only, as in the source. Matching is by backtracking: \<open>rx_run r s i\<close> lists every way
  \<open>r\<close> matches \<open>s\<close> from position \<open>i\<close>, in the order Python tries them, so the first entry is
  Python's match. Captures are (group number, start, end).
\<close>

section \<open>Patterns\<close>

datatype cclass =
    Space                  \<comment> \<open>\<open>\s\<close>\<close>
  | Word                   \<comment> \<open>\<open>\w\<close>\<close>
  | Digit                  \<comment> \<open>\<open>\d\<close>\<close>
  | AnyButNewline          \<comment> \<open>\<open>.\<close>\<close>
  | OneOf string           \<comment> \<open>\<open>[abc]\<close>\<close>
  | NotSpaceNor string     \<comment> \<open>\<open>[^abc\s]\<close>\<close>

fun in_class :: "cclass \<Rightarrow> char \<Rightarrow> bool" where
  "in_class Space c = py_space c"
| "in_class Word c = py_word c"
| "in_class Digit c = py_digit c"
| "in_class AnyButNewline c = (c \<noteq> newline_char)"
| "in_class (OneOf cs) c = (c \<in> set cs)"
| "in_class (NotSpaceNor cs) c = (c \<notin> set cs \<and> \<not> py_space c)"

datatype rx =
    Lit string             \<comment> \<open>literal text\<close>
  | LitIgnoreCase string   \<comment> \<open>literal text under \<open>re.IGNORECASE\<close>\<close>
  | One cclass             \<comment> \<open>\<open>[c]\<close>\<close>
  | Many cclass            \<comment> \<open>\<open>[c]*\<close>\<close>
  | Some1 cclass           \<comment> \<open>\<open>[c]+\<close>\<close>
  | LazyMany cclass        \<comment> \<open>\<open>[c]*?\<close>\<close>
  | Seq rx rx
  | Alt rx rx
  | Group nat rx           \<comment> \<open>\<open>(r)\<close>\<close>
  | LineStart              \<comment> \<open>\<open>^\<close> under \<open>re.MULTILINE\<close>\<close>
  | LineEnd                \<comment> \<open>\<open>$\<close> under \<open>re.MULTILINE\<close>\<close>
  | TextStart              \<comment> \<open>\<open>^\<close>\<close>
  | TextEnd                \<comment> \<open>\<open>$\<close>: the end, or before one last newline\<close>
  | WordBoundary           \<comment> \<open>\<open>\b\<close>\<close>

type_synonym captures = "(nat \<times> nat \<times> nat) list"

definition word_at :: "string \<Rightarrow> nat \<Rightarrow> bool" where
  "word_at s i \<longleftrightarrow> i < length s \<and> py_word (s ! i)"

definition word_boundary :: "string \<Rightarrow> nat \<Rightarrow> bool" where
  "word_boundary s i \<longleftrightarrow> (0 < i \<and> word_at s (i - 1)) \<noteq> word_at s i"

definition line_start :: "string \<Rightarrow> nat \<Rightarrow> bool" where
  "line_start s i \<longleftrightarrow> i = 0 \<or> i \<le> length s \<and> s ! (i - 1) = newline_char"

definition line_end :: "string \<Rightarrow> nat \<Rightarrow> bool" where
  "line_end s i \<longleftrightarrow> i = length s \<or> i < length s \<and> s ! i = newline_char"

definition text_end :: "string \<Rightarrow> nat \<Rightarrow> bool" where
  "text_end s i \<longleftrightarrow> i = length s \<or> Suc i = length s \<and> s ! i = newline_char"

text \<open>How many characters of the class follow position \<open>i\<close>.\<close>

definition run_length :: "cclass \<Rightarrow> string \<Rightarrow> nat \<Rightarrow> nat" where
  "run_length c s i = length (takeWhile (in_class c) (drop i s))"

definition guard_at :: "bool \<Rightarrow> nat \<Rightarrow> (nat \<times> captures) list" where
  "guard_at b i = (if b then [(i, [])] else [])"

fun rx_run :: "rx \<Rightarrow> string \<Rightarrow> nat \<Rightarrow> (nat \<times> captures) list" where
  "rx_run (Lit t) s i = guard_at (starts_with (drop i s) t) (i + length t)"
| "rx_run (LitIgnoreCase t) s i =
     guard_at (starts_with (py_lower (drop i s)) (py_lower t)) (i + length t)"
| "rx_run (One c) s i = guard_at (i < length s \<and> in_class c (s ! i)) (Suc i)"
| "rx_run (Many c) s i = map (\<lambda>k. (i + k, [])) (rev [0..<Suc (run_length c s i)])"
| "rx_run (Some1 c) s i = map (\<lambda>k. (i + k, [])) (rev [1..<Suc (run_length c s i)])"
| "rx_run (LazyMany c) s i = map (\<lambda>k. (i + k, [])) [0..<Suc (run_length c s i)]"
| "rx_run (Seq a b) s i =
     concat (map (\<lambda>(j, ca). map (\<lambda>(k, cb). (k, ca @ cb)) (rx_run b s j)) (rx_run a s i))"
| "rx_run (Alt a b) s i = rx_run a s i @ rx_run b s i"
| "rx_run (Group n r) s i = map (\<lambda>(j, c). (j, (n, i, j) # c)) (rx_run r s i)"
| "rx_run LineStart s i = guard_at (line_start s i) i"
| "rx_run LineEnd s i = guard_at (line_end s i) i"
| "rx_run TextStart s i = guard_at (i = 0) i"
| "rx_run TextEnd s i = guard_at (text_end s i) i"
| "rx_run WordBoundary s i = guard_at (word_boundary s i) i"

text \<open>A sequence of more than two parts.\<close>

fun rx_seq :: "rx list \<Rightarrow> rx" where
  "rx_seq [] = Lit []"
| "rx_seq [r] = r"
| "rx_seq (r # q # rs) = Seq r (rx_seq (q # rs))"

section \<open>Matching, searching, all matches\<close>

text \<open>A match: its start, its end and its captures.\<close>

type_synonym rx_hit = "nat \<times> nat \<times> captures"

definition rx_match_at :: "rx \<Rightarrow> string \<Rightarrow> nat \<Rightarrow> rx_hit option" where
  "rx_match_at r s i = (case rx_run r s i of [] \<Rightarrow> None | (j, c) # _ \<Rightarrow> Some (i, j, c))"

fun rx_first :: "rx \<Rightarrow> string \<Rightarrow> nat list \<Rightarrow> rx_hit option" where
  "rx_first r s [] = None"
| "rx_first r s (i # is) =
     (case rx_match_at r s i of Some h \<Rightarrow> Some h | None \<Rightarrow> rx_first r s is)"

text \<open>\<open>pattern.search(s, i)\<close> and \<open>pattern.match(s)\<close>.\<close>

definition rx_search_from :: "rx \<Rightarrow> string \<Rightarrow> nat \<Rightarrow> rx_hit option" where
  "rx_search_from r s i = rx_first r s [i..<Suc (length s)]"

definition rx_search :: "rx \<Rightarrow> string \<Rightarrow> rx_hit option" where
  "rx_search r s = rx_search_from r s 0"

definition rx_match :: "rx \<Rightarrow> string \<Rightarrow> rx_hit option" where
  "rx_match r s = rx_match_at r s 0"

lemma rx_first_Some:
  "rx_first r s is = Some (i, j, c) \<Longrightarrow>
   i \<in> set is \<and> rx_match_at r s i = Some (i, j, c)"
  by (induction "is") (auto simp: rx_match_at_def split: option.splits list.splits)

lemma rx_search_from_bounds:
  "rx_search_from r s k = Some (i, j, c) \<Longrightarrow> k \<le> i \<and> i \<le> length s"
  by (auto simp: rx_search_from_def dest!: rx_first_Some)

text \<open>
  \<open>pattern.finditer(s)\<close>, from position \<open>i\<close>: the next search starts where the last match ended.
  A match of the program's patterns is never empty; the maximum makes the scan move on in any case.
\<close>

function rx_finditer :: "rx \<Rightarrow> string \<Rightarrow> nat \<Rightarrow> rx_hit list" where
  "rx_finditer r s i =
     (case rx_search_from r s i of
        None \<Rightarrow> []
      | Some (a, b, c) \<Rightarrow> (a, b, c) # rx_finditer r s (max (Suc a) b))"
  by pat_completeness auto
termination
  by (relation "measure (\<lambda>(r, s, i). Suc (length s) - i)") (auto dest!: rx_search_from_bounds)

declare rx_finditer.simps [simp del]

text \<open>\<open>match.group(n)\<close>, None for a group that took no part in the match.\<close>

definition rx_group :: "string \<Rightarrow> captures \<Rightarrow> nat \<Rightarrow> string option" where
  "rx_group s cs n = map_option (\<lambda>(a, b). slice s a b) (map_of cs n)"

section \<open>Facts\<close>

lemma guard_at_mem [simp]: "(j, c) \<in> set (guard_at b i) \<longleftrightarrow> b \<and> j = i \<and> c = []"
  by (auto simp: guard_at_def)

lemma guard_at_Nil [simp]: "guard_at b i = [] \<longleftrightarrow> \<not> b"
  by (simp add: guard_at_def)

lemma run_length_bound: "i \<le> length s \<Longrightarrow> i + run_length c s i \<le> length s"
  using length_takeWhile_le [of "in_class c" "drop i s"] by (simp add: run_length_def)

lemma starts_with_length: "starts_with s p \<Longrightarrow> length p \<le> length s"
  by (auto simp: starts_with_iff)

lemma rx_run_bounds:
  "i \<le> length s \<Longrightarrow> (j, c) \<in> set (rx_run r s i) \<Longrightarrow> i \<le> j \<and> j \<le> length s"
proof (induction r arbitrary: i j c)
  case (Lit t)
  then show ?case by (auto dest: starts_with_length)
next
  case (LitIgnoreCase t)
  then show ?case by (auto simp: py_lower_def dest!: starts_with_length)
next
  case (Many x)
  then show ?case using run_length_bound [of i s x] by auto
next
  case (Some1 x)
  then show ?case using run_length_bound [of i s x] by auto
next
  case (LazyMany x)
  then show ?case using run_length_bound [of i s x] by auto
next
  case (Seq a b)
  from Seq.prems(2) obtain m ca cb where "(m, ca) \<in> set (rx_run a s i)" "(j, cb) \<in> set (rx_run b s m)"
    by auto
  with Seq.IH(1) [OF Seq.prems(1)] Seq.IH(2) [of m] show ?case by (meson le_trans)
next
  case (Alt a b)
  from Alt.prems(2) have "(j, c) \<in> set (rx_run a s i) \<or> (j, c) \<in> set (rx_run b s i)" by simp
  then show ?case using Alt.IH Alt.prems(1) by blast
next
  case (Group n r)
  from Group.prems(2) obtain c' where "(j, c') \<in> set (rx_run r s i)" by auto
  then show ?case using Group.IH Group.prems(1) by blast
qed simp_all

lemma rx_match_at_Some:
  "rx_match_at r s i = Some (a, b, c) \<Longrightarrow> a = i \<and> (b, c) \<in> set (rx_run r s i)"
  by (auto simp: rx_match_at_def split: list.splits)

lemma rx_search_hit:
  assumes "rx_search_from r s k = Some (a, b, c)"
  shows "k \<le> a" "a \<le> b" "b \<le> length s" "(b, c) \<in> set (rx_run r s a)"
proof -
  have m: "rx_match_at r s a = Some (a, b, c)" and a: "k \<le> a" "a \<le> length s"
    using assms rx_search_from_bounds [OF assms]
    by (auto simp: rx_search_from_def dest!: rx_first_Some)
  then show "(b, c) \<in> set (rx_run r s a)" by (auto dest: rx_match_at_Some)
  then show "k \<le> a" "a \<le> b" "b \<le> length s"
    using rx_run_bounds [of a s b c r] a by auto
qed

lemma rx_first_None: "rx_first r s is = None \<longleftrightarrow> (\<forall>i \<in> set is. rx_run r s i = [])"
  by (induction "is") (auto simp: rx_match_at_def split: list.splits option.splits)

lemma rx_search_None: "rx_search r s = None \<longleftrightarrow> (\<forall>i \<le> length s. rx_run r s i = [])"
  by (auto simp: rx_search_def rx_search_from_def rx_first_None simp del: upt_Suc)

lemma rx_first_skip:
  "(\<And>i. i \<in> set as \<Longrightarrow> rx_run r s i = []) \<Longrightarrow> rx_first r s (as @ bs) = rx_first r s bs"
  by (induction as) (auto simp: rx_match_at_def)

text \<open>The first hit is at the first position where the pattern can match.\<close>

lemma rx_search_from_at:
  assumes "k \<le> i" "i \<le> length s" "\<And>j. k \<le> j \<Longrightarrow> j < i \<Longrightarrow> rx_run r s j = []"
    and "rx_match_at r s i = Some h"
  shows "rx_search_from r s k = Some h"
proof -
  have "[k..<Suc (length s)] = [k..<i] @ i # [Suc i..<Suc (length s)]"
    using assms(1,2) upt_add_eq_append [of k i "Suc (length s) - i"]
    by (simp add: upt_conv_Cons del: upt_Suc)
  moreover have "rx_first r s ([k..<i] @ i # [Suc i..<Suc (length s)]) =
      rx_first r s (i # [Suc i..<Suc (length s)])"
    using assms(3) by (intro rx_first_skip) auto
  ultimately show ?thesis using assms(4) by (simp add: rx_search_from_def del: upt_Suc)
qed

lemma rx_search_from_skip:
  assumes "k \<le> i" "i \<le> length s" "\<And>j. k \<le> j \<Longrightarrow> j < i \<Longrightarrow> rx_run r s j = []"
  shows "rx_search_from r s k = rx_search_from r s i"
proof -
  have "[k..<Suc (length s)] = [k..<i] @ [i..<Suc (length s)]"
    using assms(1,2) upt_add_eq_append [of k i "Suc (length s) - i"] by (simp del: upt_Suc)
  moreover have "rx_first r s ([k..<i] @ [i..<Suc (length s)]) = rx_first r s [i..<Suc (length s)]"
    using assms(3) by (intro rx_first_skip) simp
  ultimately show ?thesis by (simp add: rx_search_from_def del: upt_Suc)
qed

lemma rx_finditer_skip:
  assumes "k \<le> i" "i \<le> length s" "\<And>j. k \<le> j \<Longrightarrow> j < i \<Longrightarrow> rx_run r s j = []"
  shows "rx_finditer r s k = rx_finditer r s i"
  by (subst (1 2) rx_finditer.simps) (simp add: rx_search_from_skip [OF assms])

lemma rx_finditer_hit:
  assumes "rx_match_at r s i = Some (i, b, c)" "i < b" "i \<le> length s"
  shows "rx_finditer r s i = (i, b, c) # rx_finditer r s b"
proof -
  have "rx_search_from r s i = Some (i, b, c)"
    using assms(1,3) by (intro rx_search_from_at) auto
  then show ?thesis using assms(2) by (subst rx_finditer.simps) (simp add: max_absorb2 Suc_le_eq)
qed

lemma rx_finditer_end: "rx_run r s (length s) = [] \<Longrightarrow> rx_finditer r s (length s) = []"
  by (subst rx_finditer.simps) (simp add: rx_search_from_def rx_match_at_def)

lemma rx_run_Group_Nil [simp]: "rx_run (Group n r) s i = [] \<longleftrightarrow> rx_run r s i = []"
  by simp

lemma rx_run_Seq_Nil:
  "rx_run (Seq a b) s i = [] \<longleftrightarrow> (\<forall>(j, c) \<in> set (rx_run a s i). rx_run b s j = [])"
  by (auto simp: case_prod_unfold)

text \<open>The first alternative of a sequence when the first part has its first alternative alone
  leading on.\<close>

lemma rx_run_Seq_head:
  assumes "rx_run a s i = (j, ca) # rest" and "rx_run b s j = (k, cb) # rest'"
  shows "\<exists>more. rx_run (Seq a b) s i = (k, ca @ cb) # more"
  using assms by simp

lemma run_length_append:
  assumes "\<And>c. c \<in> set w \<Longrightarrow> in_class k c"
    and "case r of [] \<Rightarrow> True | c # _ \<Rightarrow> \<not> in_class k c"
  shows "run_length k (p @ w @ r) (length p) = length w"
  using takeWhile_append_stop [of w "in_class k" r] assms by (simp add: run_length_def)


section \<open>The first way to match\<close>

text \<open>
  The head of the backtracking list decides the match. \<open>rx_head\<close> reads it, and the rules below
  compute it for a sequence from its parts.
\<close>

definition rx_head :: "rx \<Rightarrow> string \<Rightarrow> nat \<Rightarrow> (nat \<times> captures) option" where
  "rx_head r s i = (case rx_run r s i of [] \<Rightarrow> None | x # _ \<Rightarrow> Some x)"

lemma rx_match_at_head: "rx_match_at r s i = map_option (\<lambda>(j, c). (i, j, c)) (rx_head r s i)"
  by (simp add: rx_match_at_def rx_head_def split: list.splits)

lemma rx_head_None: "rx_head r s i = None \<longleftrightarrow> rx_run r s i = []"
  by (simp add: rx_head_def split: list.splits)

lemma rx_head_guard: "rx_run r s i = guard_at b j \<Longrightarrow> rx_head r s i = (if b then Some (j, []) else None)"
  by (simp add: rx_head_def guard_at_def)

lemma rx_head_Group: "rx_head (Group n r) s i = map_option (\<lambda>(j, c). (j, (n, i, j) # c)) (rx_head r s i)"
  by (simp add: rx_head_def split: list.splits)

lemma rx_head_Alt:
  "rx_head (Alt a b) s i = (case rx_head a s i of None \<Rightarrow> rx_head b s i | Some x \<Rightarrow> Some x)"
  by (simp add: rx_head_def split: list.splits)

text \<open>A sequence whose first part cannot continue from its earlier alternatives.\<close>

lemma rx_head_Seq:
  assumes "rx_run a s i = pre @ (j, ca) # post"
    and "\<And>j' c'. (j', c') \<in> set pre \<Longrightarrow> rx_run b s j' = []"
    and "rx_head b s j = Some (k, cb)"
  shows "rx_head (Seq a b) s i = Some (k, ca @ cb)"
proof -
  let ?f = "\<lambda>(j, ca). map (\<lambda>(k, cb). (k, ca @ cb)) (rx_run b s j)"
  obtain rest where b: "rx_run b s j = (k, cb) # rest"
    using assms(3) by (auto simp: rx_head_def split: list.splits)
  have "concat (map ?f pre) = []" using assms(2) by auto
  then have "rx_run (Seq a b) s i = (k, ca @ cb) # map (\<lambda>(k, cb). (k, ca @ cb)) rest @ concat (map ?f post)"
    by (simp add: assms(1) b)
  then show ?thesis by (simp add: rx_head_def)
qed

lemma rx_head_Seq_guard:
  assumes "rx_run a s i = guard_at True j"
  shows "rx_head (Seq a b) s i = rx_head b s j"
  by (simp add: rx_head_def assms guard_at_def case_prod_unfold split: list.splits)

text \<open>A greedy run that can go on from its longest reach.\<close>

lemma rx_head_Seq_Many:
  assumes "run_length c s i = n" and "rx_head b s (i + n) = Some x"
  shows "rx_head (Seq (Many c) b) s i = Some x"
proof (cases x)
  case (Pair k cb)
  have "rx_run (Many c) s i = [] @ (i + n, []) # map (\<lambda>k. (i + k, [])) (rev [0..<n])"
    by (simp add: assms(1))
  from rx_head_Seq [OF this, of b k cb] assms(2) Pair show ?thesis by simp
qed

lemma rx_head_Seq_Some1:
  assumes "run_length c s i = Suc n" and "rx_head b s (i + Suc n) = Some x"
  shows "rx_head (Seq (Some1 c) b) s i = Some x"
proof (cases x)
  case (Pair k cb)
  have "rx_run (Some1 c) s i = [] @ (i + Suc n, []) # map (\<lambda>k. (i + k, [])) (rev [1..<Suc n])"
    by (simp add: assms(1))
  from rx_head_Seq [OF this, of b k cb] assms(2) Pair show ?thesis by simp
qed


section \<open>Where a pattern can match\<close>

text \<open>
  \<open>rx_ok r p s\<close>: \<open>r\<close> can match at the point of the text with \<open>p\<close> before it and \<open>s\<close>
  after it. The equations below turn a transcribed pattern into a statement about how the text
  splits, without positions.
\<close>

definition ends_line :: "string \<Rightarrow> bool" where
  "ends_line a \<longleftrightarrow> a = [] \<or> last a = newline_char"

definition at_line_end :: "string \<Rightarrow> bool" where
  "at_line_end r \<longleftrightarrow> r = [] \<or> hd r = newline_char"

lemma line_start_append [simp]: "line_start (a @ b) (length a) \<longleftrightarrow> ends_line a"
  by (cases a rule: rev_cases) (auto simp: line_start_def ends_line_def nth_append)

lemma line_end_append [simp]: "line_end (a @ b) (length a) \<longleftrightarrow> at_line_end b"
  by (cases b) (auto simp: line_end_def at_line_end_def nth_append)

definition rx_ok :: "rx \<Rightarrow> string \<Rightarrow> string \<Rightarrow> bool" where
  "rx_ok r p s \<longleftrightarrow> rx_run r (p @ s) (length p) \<noteq> []"

lemma rx_ok_Seq_guard:
  assumes "rx_run a (p @ s) (length p) = guard_at g (length p + n)" "n \<le> length s"
  shows "rx_ok (Seq a b) p s \<longleftrightarrow> g \<and> rx_ok b (p @ take n s) (drop n s)"
  using assms by (auto simp: rx_ok_def guard_at_def)

lemma rx_ok_LineEnd: "rx_ok LineEnd p s \<longleftrightarrow> at_line_end s"
  by (simp add: rx_ok_def)

lemma rx_ok_WordBoundary: "rx_ok WordBoundary p s \<longleftrightarrow> word_boundary (p @ s) (length p)"
  by (simp add: rx_ok_def)

lemma rx_ok_Seq_LineStart: "rx_ok (Seq LineStart b) p s \<longleftrightarrow> ends_line p \<and> rx_ok b p s"
  using rx_ok_Seq_guard [of LineStart p s _ 0] by simp

lemma rx_ok_Seq_WordBoundary:
  "rx_ok (Seq WordBoundary b) p s \<longleftrightarrow> word_boundary (p @ s) (length p) \<and> rx_ok b p s"
  using rx_ok_Seq_guard [of WordBoundary p s _ 0] by simp

lemma rx_ok_Seq_Lit: "rx_ok (Seq (Lit t) b) p s \<longleftrightarrow> (\<exists>r. s = t @ r \<and> rx_ok b (p @ t) r)"
proof (cases "starts_with s t")
  case True
  then obtain r where r: "s = t @ r" by (auto simp: starts_with_iff)
  show ?thesis using rx_ok_Seq_guard [of "Lit t" p s True "length t" b] True by (simp add: r)
next
  case False
  then have "\<not> rx_ok (Seq (Lit t) b) p s" by (simp add: rx_ok_def guard_at_def)
  then show ?thesis using False by (auto simp: starts_with_iff)
qed

lemma rx_ok_Seq_LitIgnoreCase:
  "rx_ok (Seq (LitIgnoreCase t) b) p s \<longleftrightarrow>
   (\<exists>m r. s = m @ r \<and> py_lower m = py_lower t \<and> rx_ok b (p @ m) r)"
proof (cases "starts_with (py_lower s) (py_lower t)")
  case True
  then obtain r' where r': "py_lower s = py_lower t @ r'" by (auto simp: starts_with_iff)
  then have len: "length t \<le> length s" by (simp add: py_lower_def) (metis le_add1 length_append length_map)
  have low: "py_lower (take (length t) s) = py_lower t"
    using r' by (simp add: py_lower_def flip: take_map)
  have "rx_ok (Seq (LitIgnoreCase t) b) p s \<longleftrightarrow> rx_ok b (p @ take (length t) s) (drop (length t) s)"
    using rx_ok_Seq_guard [of "LitIgnoreCase t" p s True "length t" b] True len by simp
  moreover have "m = take (length t) s \<and> r = drop (length t) s"
    if "s = m @ r" "py_lower m = py_lower t" for m r
    using that by (auto simp: py_lower_def dest: map_eq_imp_length_eq)
  ultimately show ?thesis using low by (metis append_take_drop_id)
next
  case False
  then have "\<not> rx_ok (Seq (LitIgnoreCase t) b) p s" by (simp add: rx_ok_def guard_at_def)
  moreover have "\<not> (\<exists>m r. s = m @ r \<and> py_lower m = py_lower t)"
    using False by (auto simp: starts_with_iff py_lower_def)
  ultimately show ?thesis by blast
qed

lemma run_length_split: "run_length c (p @ s) (length p) = length (takeWhile (in_class c) s)"
  by (simp add: run_length_def)

lemma rx_ok_Seq_upto:
  assumes "set (rx_run a (p @ s) (length p)) =
      (\<lambda>n. (length p + n, [])) ` {n. P n \<and> n \<le> length (takeWhile (in_class c) s)}"
  shows "rx_ok (Seq a b) p s \<longleftrightarrow>
    (\<exists>w r. s = w @ r \<and> P (length w) \<and> (\<forall>x \<in> set w. in_class c x) \<and> rx_ok b (p @ w) r)"
proof -
  have "rx_ok (Seq a b) p s \<longleftrightarrow>
      (\<exists>n. P n \<and> n \<le> length (takeWhile (in_class c) s) \<and> rx_run b (p @ s) (length p + n) \<noteq> [])"
    unfolding rx_ok_def rx_run_Seq_Nil assms by auto
  also have "\<dots> \<longleftrightarrow> (\<exists>n. P n \<and> n \<le> length s \<and> (\<forall>x \<in> set (take n s). in_class c x) \<and>
      rx_ok b (p @ take n s) (drop n s))"
    by (auto simp: le_length_takeWhile_iff rx_ok_def min_absorb2)
  also have "\<dots> \<longleftrightarrow> (\<exists>w r. s = w @ r \<and> P (length w) \<and> (\<forall>x \<in> set w. in_class c x) \<and> rx_ok b (p @ w) r)"
    (is "?L \<longleftrightarrow> ?R")
  proof
    assume ?L
    then obtain n where "P n" "n \<le> length s" "\<forall>x \<in> set (take n s). in_class c x"
      "rx_ok b (p @ take n s) (drop n s)" by blast
    then show ?R by (intro exI [of _ "take n s"] exI [of _ "drop n s"]) (simp add: min_absorb2)
  next
    assume ?R
    then obtain w r where "s = w @ r" "P (length w)" "\<forall>x \<in> set w. in_class c x" "rx_ok b (p @ w) r"
      by blast
    then show ?L by (intro exI [of _ "length w"]) simp
  qed
  finally show ?thesis .
qed

lemma rx_ok_Seq_Many:
  "rx_ok (Seq (Many c) b) p s \<longleftrightarrow>
   (\<exists>w r. s = w @ r \<and> (\<forall>x \<in> set w. in_class c x) \<and> rx_ok b (p @ w) r)"
  by (subst rx_ok_Seq_upto [where P = "\<lambda>_. True" and c = c])
    (auto simp: run_length_split less_Suc_eq_le image_iff)

lemma rx_ok_Seq_LazyMany:
  "rx_ok (Seq (LazyMany c) b) p s \<longleftrightarrow>
   (\<exists>w r. s = w @ r \<and> (\<forall>x \<in> set w. in_class c x) \<and> rx_ok b (p @ w) r)"
  by (subst rx_ok_Seq_upto [where P = "\<lambda>_. True" and c = c])
    (auto simp: run_length_split less_Suc_eq_le image_iff)

lemma rx_ok_Seq_Some1:
  "rx_ok (Seq (Some1 c) b) p s \<longleftrightarrow>
   (\<exists>w r. s = w @ r \<and> w \<noteq> [] \<and> (\<forall>x \<in> set w. in_class c x) \<and> rx_ok b (p @ w) r)"
  by (subst rx_ok_Seq_upto [where P = "\<lambda>n. 0 < n" and c = c])
    (auto simp: run_length_split less_Suc_eq_le image_iff Suc_le_eq simp del: upt_Suc)

lemma rx_ok_Seq_Group: "rx_ok (Seq (Group n a) b) p s \<longleftrightarrow> rx_ok (Seq a b) p s"
  by (auto simp: rx_ok_def)

lemma rx_ok_Seq_Alt: "rx_ok (Seq (Alt a a') b) p s \<longleftrightarrow> rx_ok (Seq a b) p s \<or> rx_ok (Seq a' b) p s"
  by (auto simp: rx_ok_def)

lemmas rx_ok_Seq =
  rx_ok_Seq_LineStart rx_ok_Seq_WordBoundary rx_ok_Seq_Lit rx_ok_Seq_LitIgnoreCase
  rx_ok_Seq_Many rx_ok_Seq_LazyMany rx_ok_Seq_Some1 rx_ok_Seq_Group rx_ok_Seq_Alt rx_ok_LineEnd

lemma rx_search_ok: "rx_search r t \<noteq> None \<longleftrightarrow> (\<exists>p s. t = p @ s \<and> rx_ok r p s)"
proof
  assume "rx_search r t \<noteq> None"
  then obtain i where "i \<le> length t" "rx_run r t i \<noteq> []" by (auto simp: rx_search_None)
  then show "\<exists>p s. t = p @ s \<and> rx_ok r p s"
    by (intro exI [of _ "take i t"] exI [of _ "drop i t"]) (simp add: rx_ok_def min_absorb2)
next
  assume "\<exists>p s. t = p @ s \<and> rx_ok r p s"
  then obtain p s where "t = p @ s" "rx_run r t (length p) \<noteq> []" by (auto simp: rx_ok_def)
  then have "length p \<le> length t \<and> rx_run r t (length p) \<noteq> []" by simp
  then show "rx_search r t \<noteq> None" unfolding rx_search_None by blast
qed

text \<open>The greedy white space before the end of a line: it ends somewhere in the white space.\<close>

lemma in_class_Space: "in_class Space = py_space" by (rule ext) simp

lemma rx_head_line_rest:
  assumes "at_line_end rest"
  shows "\<exists>w r. rest = w @ r \<and> (\<forall>c \<in> set w. py_space c) \<and>
    rx_head (Seq (Many Space) LineEnd) (p @ rest) (length p) = Some (length p + length w, [])"
proof -
  have "rx_ok (Seq (Many Space) LineEnd) p rest"
    unfolding rx_ok_Seq_Many rx_ok_LineEnd using assms by (intro exI [of _ "[]"] exI [of _ rest]) simp
  then obtain j c where h: "rx_head (Seq (Many Space) LineEnd) (p @ rest) (length p) = Some (j, c)"
    by (cases "rx_head (Seq (Many Space) LineEnd) (p @ rest) (length p)")
      (auto simp: rx_ok_def rx_head_None simp del: rx_run.simps)
  then have "(j, c) \<in> set (rx_run (Seq (Many Space) LineEnd) (p @ rest) (length p))"
    by (auto simp: rx_head_def simp del: rx_run.simps split: list.splits)
  then obtain k where k: "k \<le> length (takeWhile py_space rest)" "j = length p + k" "c = []"
    by (auto simp: run_length_split in_class_Space less_Suc_eq_le)
  then have "rest = take k rest @ drop k rest" "\<forall>c \<in> set (take k rest). py_space c" "length (take k rest) = k"
    by (auto simp: le_length_takeWhile_iff)
  with h k show ?thesis by metis
qed

end
