(* ===== verification/Parsing.thy ===== *)
theory Parsing
  imports PyRegex Models
begin

text \<open>
  \<open>pipeline/parsing.py\<close>: splitting a model reply into the four canonical sections by their
  level-2 headings.
\<close>

section \<open>The code\<close>

definition section_names :: "string list" where
  "section_names = [''Summary'', ''Findings'', ''Suggestions'', ''Positives'']"

text \<open>\<open>^##\s+(Summary|Findings|Suggestions|Positives)\s*$\<close>, multi-line.\<close>

definition HEADING :: rx where
  "HEADING = rx_seq [LineStart, Lit ''##'', Some1 Space,
     Group 1 (Alt (Lit ''Summary'') (Alt (Lit ''Findings'') (Alt (Lit ''Suggestions'') (Lit ''Positives'')))),
     Many Space, LineEnd]"

text \<open>
  The loop over the matches: the body of a heading runs to the start of the next match, or to the end
  of the text; a later heading of the same name overwrites an earlier one.
\<close>

fun fill_sections :: "string \<Rightarrow> rx_hit list \<Rightarrow> (string \<Rightarrow> string) \<Rightarrow> (string \<Rightarrow> string)" where
  "fill_sections text [] sections = sections"
| "fill_sections text ((a, body_start, cs) # rest) sections =
     (let body_end = (case rest of [] \<Rightarrow> length text | (a', _, _) # _ \<Rightarrow> a');
          body = strip (slice text body_start body_end)
      in fill_sections text rest
           (case rx_group text cs 1 of
              None \<Rightarrow> sections
            | Some name \<Rightarrow> sections(name := body)))"

definition parse_review_output :: "string \<Rightarrow> parsed_review" where
  "parse_review_output text =
     (case rx_finditer HEADING text 0 of
        [] \<Rightarrow>
          \<lparr>rev_summary = [], rev_findings = [], rev_suggestions = [], rev_positives = [],
           rev_raw = text, rev_parse_failed = True\<rparr>
      | matches \<Rightarrow>
          (let sections = fill_sections text matches (\<lambda>_. []) in
           \<lparr>rev_summary = sections ''Summary'', rev_findings = sections ''Findings'',
            rev_suggestions = sections ''Suggestions'', rev_positives = sections ''Positives'',
            rev_raw = text, rev_parse_failed = False\<rparr>))"

section \<open>Where a heading is\<close>

text \<open>
  The specification of a heading line, without patterns: \<open>a\<close> is the text before it, which is empty
  or ends a line, and after the name and optional white space comes the end of a line.
\<close>

definition has_heading :: "string \<Rightarrow> bool" where
  "has_heading t \<longleftrightarrow> (\<exists>a ws name ws' rest.
     t = a @ ''##'' @ ws @ name @ ws' @ rest \<and> ends_line a \<and>
     ws \<noteq> [] \<and> (\<forall>c \<in> set ws. py_space c) \<and> name \<in> set section_names \<and>
     (\<forall>c \<in> set ws'. py_space c) \<and> at_line_end rest)"


text \<open>The four alternatives of the pattern's group, as membership in the list of names.\<close>

lemma rx_ok_section_name:
  "rx_ok (Seq (Group 1 (Alt (Lit ''Summary'') (Alt (Lit ''Findings'') (Alt (Lit ''Suggestions'') (Lit ''Positives''))))) b) p s
   \<longleftrightarrow> (\<exists>name r. s = name @ r \<and> name \<in> set section_names \<and> rx_ok b (p @ name) r)"
  unfolding rx_ok_Seq_Group rx_ok_Seq_Alt rx_ok_Seq_Lit section_names_def set_simps insert_iff empty_iff
  by blast

lemma rx_ok_HEADING:
  "rx_ok HEADING a s \<longleftrightarrow> ends_line a \<and> (\<exists>ws name ws' rest.
     s = ''##'' @ ws @ name @ ws' @ rest \<and> ws \<noteq> [] \<and> (\<forall>c \<in> set ws. py_space c) \<and>
     name \<in> set section_names \<and> (\<forall>c \<in> set ws'. py_space c) \<and> at_line_end rest)"
    (is "_ \<longleftrightarrow> _ \<and> (\<exists>ws name ws' rest. ?H ws name ws' rest)")
proof -
  have "rx_ok HEADING a s \<longleftrightarrow> ends_line a \<and> (\<exists>r. s = ''##'' @ r \<and> (\<exists>ws r'. r = ws @ r' \<and>
      ws \<noteq> [] \<and> (\<forall>c \<in> set ws. py_space c) \<and> (\<exists>name r''. r' = name @ r'' \<and>
      name \<in> set section_names \<and> (\<exists>ws' rest. r'' = ws' @ rest \<and>
      (\<forall>c \<in> set ws'. py_space c) \<and> at_line_end rest))))"
    unfolding HEADING_def rx_seq.simps rx_ok_section_name rx_ok_Seq_LineStart rx_ok_Seq_Lit
      rx_ok_Seq_Some1 rx_ok_Seq_Many rx_ok_LineEnd in_class.simps ..
  also have "\<dots> \<longleftrightarrow> ends_line a \<and> (\<exists>ws name ws' rest. ?H ws name ws' rest)"
    by (intro conj_cong refl iffI; elim exE conjE; hypsubst; intro exI conjI; (assumption | rule refl))
  finally show ?thesis .
qed

lemma HEADING_search: "rx_search HEADING t \<noteq> None \<longleftrightarrow> has_heading t"
proof -
  have "rx_search HEADING t \<noteq> None \<longleftrightarrow> (\<exists>a s. t = a @ s \<and> ends_line a \<and> (\<exists>ws name ws' rest.
     s = ''##'' @ ws @ name @ ws' @ rest \<and> ws \<noteq> [] \<and> (\<forall>c \<in> set ws. py_space c) \<and>
     name \<in> set section_names \<and> (\<forall>c \<in> set ws'. py_space c) \<and> at_line_end rest))"
    unfolding rx_search_ok rx_ok_HEADING ..
  also have "\<dots> \<longleftrightarrow> has_heading t"
    unfolding has_heading_def
    by (intro iffI; elim exE conjE; hypsubst; intro exI conjI; (assumption | rule refl))
  finally show ?thesis .
qed

lemma rx_finditer_Nil: "rx_finditer r s 0 = [] \<longleftrightarrow> rx_search r s = None"
  by (subst rx_finditer.simps) (auto simp: rx_search_def split: option.splits)

text \<open>
  A reply counts as unparseable exactly when it has no heading line for one of the four names;
  the raw text is kept as it is in every case, and an unparseable reply has four empty sections.
\<close>
lemma parse_review_output_failed_iff:
  "(rev_parse_failed (parse_review_output t) \<longleftrightarrow> \<not> has_heading t) \<and>
   rev_raw (parse_review_output t) = t \<and>
   (has_heading t \<or> rev_summary (parse_review_output t) = [] \<and> rev_findings (parse_review_output t) = [] \<and>
     rev_suggestions (parse_review_output t) = [] \<and> rev_positives (parse_review_output t) = [])"
proof (cases "rx_finditer HEADING t 0")
  case Nil
  then have "\<not> has_heading t" using HEADING_search [of t] by (simp add: rx_finditer_Nil)
  with Nil show ?thesis by (simp add: parse_review_output_def)
next
  case (Cons h hs)
  then have "has_heading t" using HEADING_search [of t] rx_finditer_Nil [of HEADING t] by auto
  with Cons show ?thesis by (simp add: parse_review_output_def Let_def)
qed

end
