(* ===== verification/ReplySections.thy ===== *)
theory ReplySections
  imports Parsing
begin

text \<open>
  \<open>pipeline/parsing.py\<close>, read back: a reply written in the format the prompt asks for, with an
  introduction and any sequence of the four sections, is taken apart into the bodies that were put
  in. The lemmas follow the scan of \<open>finditer\<close> over such a reply, heading by heading.
\<close>

section \<open>Replies in the requested format\<close>

definition render_reply :: "string \<Rightarrow> (string \<times> string) list \<Rightarrow> string" where
  "render_reply intro sections =
     intro @ nl @ concat (map (\<lambda>(name, body). ''## '' @ name @ nl @ body @ nl) sections)"

text \<open>The body of a section, stripped: the last one for a name that is given twice, and empty for a
  name that is not there.\<close>

definition section_body :: "(string \<times> string) list \<Rightarrow> string \<Rightarrow> string" where
  "section_body sections name =
     (case map_of (rev sections) name of None \<Rightarrow> [] | Some body \<Rightarrow> strip body)"

definition good_sections :: "(string \<times> string) list \<Rightarrow> bool" where
  "good_sections = list_all (\<lambda>(name, body). name \<in> set section_names \<and> \<not> has_heading body)"

abbreviation section_text :: "string \<times> string \<Rightarrow> string" where
  "section_text \<equiv> \<lambda>(name, body). ''## '' @ name @ nl @ body @ nl"

abbreviation sections_text :: "(string \<times> string) list \<Rightarrow> string" where
  "sections_text secs \<equiv> concat (map section_text secs)"

section \<open>Where the scan finds a heading\<close>

lemma section_name_chars:
  "name \<in> set section_names \<Longrightarrow> name \<noteq> [] \<and> hd name \<noteq> CHR ''#'' \<and> (\<forall>c \<in> set name. \<not> py_space c)"
  by (auto simp: section_names_def py_space_def)

text \<open>A heading that starts in a text followed by a line break and another heading ends in the text.\<close>

lemma heading_within:
  assumes "b @ nl @ after = ''##'' @ ws @ name @ rest" "after = [] \<or> hd after = CHR ''#''"
    and "\<forall>c \<in> set ws. py_space c" "name \<in> set section_names" "b \<noteq> []"
  shows "\<exists>u. b = ''##'' @ ws @ name @ u \<and> rest = u @ nl @ after"
proof -
  have n: "name \<noteq> []" "hd name \<noteq> CHR ''#''" "newline_char \<notin> set name"
    using section_name_chars [OF assms(4)] py_space_newline by blast+
  obtain b1 where b1: "b = ''##'' @ b1" "b1 @ nl @ after = ws @ name @ rest"
    using assms(1,5) by (cases b; cases "tl b") auto
  from b1(2) show ?thesis
  proof (cases rule: append_overlap)
    case (1 b2)
    from 1(2) [symmetric] show ?thesis
    proof (cases rule: append_overlap)
      case (1 u)
      then show ?thesis using b1(1) \<open>b1 = ws @ b2\<close> by simp
    next
      case (2 w)
      then have "newline_char \<in> set name" by (cases w) auto
      then show ?thesis using n(3) by contradiction
    qed
  next
    case (2 w)
    then obtain w' where w: "w = newline_char # w'" "after = w' @ name @ rest" by (cases w) auto
    then have "hd (w' @ name) = CHR ''#''" using assms(2) n(1) by (auto simp: hd_append)
    moreover have "\<forall>c \<in> set w'. py_space c" using 2(2) w(1) assms(3) by simp
    ultimately have "py_space (CHR ''#'')" using n(2) by (cases w') auto
    then show ?thesis by (simp add: py_space_def)
  qed
qed

text \<open>No heading starts in a heading-free body, nor in the line breaks around it.\<close>

lemma no_heading_in_gap:
  assumes "\<not> has_heading c" "ends_line q" "after = [] \<or> hd after = CHR ''#''"
    and "p @ s = c @ nl @ after" "length p \<le> length c"
  shows "\<not> rx_ok HEADING (q @ p) s"
proof
  assume "rx_ok HEADING (q @ p) s"
  then obtain ws name ws' rest where h: "ends_line (q @ p)" "s = ''##'' @ ws @ name @ ws' @ rest"
    "ws \<noteq> []" "\<forall>c \<in> set ws. py_space c" "name \<in> set section_names" "\<forall>c \<in> set ws'. py_space c" "at_line_end rest"
    unfolding rx_ok_HEADING by blast
  obtain b where b: "c = p @ b" "s = b @ nl @ after"
    using assms(4,5) by (auto simp: append_eq_append_conv_if) (metis append_take_drop_id append_eq_conv_conj)
  then have "b \<noteq> []" using h(2) by auto
  from heading_within [OF _ assms(3) h(4,5) this, of "ws' @ rest"] b(2) h(2)
  obtain u where u: "b = ''##'' @ ws @ name @ u" "ws' @ rest = u @ nl @ after" by auto
  have "ends_line p" using h(1) by (cases "p = []") (auto simp: ends_line_def)
  moreover have "\<exists>w r. u = w @ r \<and> (\<forall>c \<in> set w. py_space c) \<and> at_line_end r"
    using u(2) [symmetric]
  proof (cases rule: append_overlap)
    case (1 w)
    then have "at_line_end w" using h(7) by (cases w) (auto simp: at_line_end_def)
    then show ?thesis using 1(1) h(6) by blast
  next
    case (2 w)
    then have "u = u @ [] \<and> (\<forall>c \<in> set u. py_space c) \<and> at_line_end []"
      using h(6) by (simp add: at_line_end_def)
    then show ?thesis by blast
  qed
  ultimately have "has_heading c"
    unfolding has_heading_def using h(3-5) b(1) u(1) by (metis append.assoc)
  then show False using assms(1) by contradiction
qed

lemma heading_name_head:
  assumes "name \<in> set section_names" and "rx_head b (p @ name @ s) (length p + length name) = Some (k, [])"
  shows "rx_head (Seq (Group 1 (Alt (Lit ''Summary'') (Alt (Lit ''Findings'') (Alt (Lit ''Suggestions'') (Lit ''Positives''))))) b)
    (p @ name @ s) (length p) = Some (k, [(1, length p, length p + length name)])"
proof -
  have "rx_run (Group 1 (Alt (Lit ''Summary'') (Alt (Lit ''Findings'') (Alt (Lit ''Suggestions'') (Lit ''Positives'')))))
    (p @ name @ s) (length p) = [] @ (length p + length name, [(1, length p, length p + length name)]) # []"
    using assms(1) by (auto simp: section_names_def guard_at_def)
  from rx_head_Seq [OF this _ assms(2)] show ?thesis by simp
qed

lemma heading_hit:
  assumes "ends_line p" "name \<in> set section_names" "at_line_end rest"
  shows "\<exists>w r. rest = w @ r \<and> (\<forall>c \<in> set w. py_space c) \<and>
    rx_match_at HEADING (p @ ''## '' @ name @ rest) (length p) = Some (length p,
      length (p @ ''## '' @ name @ w), [(1, length p + 3, length p + 3 + length name)])"
proof -
  let ?t = "p @ ''## '' @ name @ rest"
  obtain w r where w: "rest = w @ r" "\<forall>c \<in> set w. py_space c"
    "rx_head (Seq (Many Space) LineEnd) ?t (length p + 3 + length name) = Some (length (p @ ''## '' @ name @ w), [])"
    using rx_head_line_rest [OF assms(3), of "p @ ''## '' @ name"] by (auto simp: numeral_eq_Suc)
  have t: "?t = (p @ ''## '') @ name @ rest" by simp
  obtain c name' where name: "name = c # name'" "\<not> py_space c"
    using section_name_chars [OF assms(2)] by (cases name) auto
  have "rx_run LineStart ?t (length p) = guard_at True (length p)" using assms(1) by simp
  moreover have "rx_run (Lit ''##'') ?t (length p) = guard_at True (length p + 2)" by simp
  moreover have "run_length Space ?t (length p + 2) = Suc 0"
    using name by (simp add: run_length_def) (simp add: py_space_def)
  moreover have "rx_head (Seq (Group 1 (Alt (Lit ''Summary'') (Alt (Lit ''Findings'') (Alt (Lit ''Suggestions'') (Lit ''Positives'')))))
     (Seq (Many Space) LineEnd)) ?t (length p + 3) = Some (length (p @ ''## '' @ name @ w), [(1, length p + 3, length p + 3 + length name)])"
    using heading_name_head [OF assms(2), of "Seq (Many Space) LineEnd" "p @ ''## ''" rest] w(3) by (simp add: numeral_eq_Suc)
  ultimately have "rx_head HEADING ?t (length p) =
      Some (length (p @ ''## '' @ name @ w), [(1, length p + 3, length p + 3 + length name)])"
    by (simp add: HEADING_def rx_head_Seq_guard rx_head_Seq_Some1 numeral_eq_Suc del: rx_run.simps)
  then show ?thesis using w(1,2) by (auto simp: rx_match_at_head)
qed

lemma skip_intro:
  assumes "\<not> has_heading c" "after = [] \<or> hd after = CHR ''#''"
  shows "rx_finditer HEADING (c @ nl @ after) 0 = rx_finditer HEADING (c @ nl @ after) (length (c @ nl))"
proof (rule rx_finditer_skip)
  fix j assume "0 \<le> j" "j < length (c @ nl)"
  then have j: "j \<le> length c" by simp
  let ?p = "take j (c @ nl @ after)" and ?s = "drop j (c @ nl @ after)"
  have "\<not> rx_ok HEADING ([] @ ?p) ?s"
    using j by (intro no_heading_in_gap [OF assms(1) _ assms(2)]) (simp_all add: ends_line_def)
  moreover have "length ([] @ ?p) = j" using j by simp
  ultimately show "rx_run HEADING (c @ nl @ after) j = []"
    unfolding rx_ok_def by (simp only: append_Nil append_take_drop_id simp_thms)
qed simp_all

text \<open>Behind a heading, the scan goes on at the next heading wherever in the body it is.\<close>

lemma skip_body:
  assumes "\<not> has_heading c" "after = [] \<or> hd after = CHR ''#''" "k \<le> length (nl @ c @ nl)"
  shows "rx_finditer HEADING (q @ nl @ c @ nl @ after) (length q + k) =
     rx_finditer HEADING (q @ nl @ c @ nl @ after) (length (q @ nl @ c @ nl))"
proof (rule rx_finditer_skip)
  fix j assume j: "length q + k \<le> j" "j < length (q @ nl @ c @ nl)"
  show "rx_run HEADING (q @ nl @ c @ nl @ after) j = []"
  proof (cases "j = length q")
    case True
    have "\<not> rx_ok HEADING q (nl @ c @ nl @ after)" by (simp add: rx_ok_HEADING)
    then show ?thesis unfolding rx_ok_def True by simp
  next
    case False
    define i where "i = j - length (q @ nl)"
    let ?p = "take i (c @ nl @ after)" and ?s = "drop i (c @ nl @ after)"
    have i: "i \<le> length c" "j = length ((q @ nl) @ ?p)" using j False by (auto simp: i_def)
    have "\<not> rx_ok HEADING ((q @ nl) @ ?p) ?s"
      using i(1) by (intro no_heading_in_gap [OF assms(1) _ assms(2)]) (simp_all add: ends_line_def)
    then show ?thesis unfolding rx_ok_def i(2) by (simp only: append.assoc append_take_drop_id simp_thms)
  qed
qed (use assms(3) in simp_all)

section \<open>The sections of a reply\<close>

lemma sections_text_head: "sections_text secs = [] \<or> hd (sections_text secs) = CHR ''#''"
  by (cases secs) (auto split: prod.splits)

text \<open>The headings found from the start of a section: its own, then those of the sections after it.\<close>

lemma finditer_section:
  assumes "ends_line q" "name \<in> set section_names" "\<not> has_heading body" "after = [] \<or> hd after = CHR ''#''"
    and "t = (q @ ''## '' @ name) @ nl @ body @ nl @ after"
  shows "\<exists>w r. nl @ body @ nl = w @ r \<and> (\<forall>c \<in> set w. py_space c) \<and> rx_finditer HEADING t (length q) =
    (length q, length (q @ ''## '' @ name) + length w, [(1, length q + 3, length q + 3 + length name)]) #
    rx_finditer HEADING t (length (q @ section_text (name, body)))"
proof -
  obtain w r where w: "nl @ body @ nl @ after = w @ r" "\<forall>c \<in> set w. py_space c"
    and m: "rx_match_at HEADING t (length q) = Some (length q, length (q @ ''## '' @ name @ w),
      [(1, length q + 3, length q + 3 + length name)])"
    using heading_hit [OF assms(1,2), of "nl @ body @ nl @ after"] unfolding assms(5)
    by (auto simp: at_line_end_def)
  have "(nl @ body @ nl) @ after = w @ r" using w(1) by simp
  then obtain r' where r': "nl @ body @ nl = w @ r'"
  proof (cases rule: append_overlap)
    case (2 u)
    then have "py_space (CHR ''#'')" using assms(4) w(2) by (cases u) auto
    then show ?thesis by (simp add: py_space_def)
  qed
  have "rx_finditer HEADING t (length q) =
      (length q, length (q @ ''## '' @ name @ w), [(1, length q + 3, length q + 3 + length name)]) #
      rx_finditer HEADING t (length (q @ ''## '' @ name @ w))"
    by (rule rx_finditer_hit [OF m]) (simp_all add: assms(5))
  moreover have "length w \<le> length (nl @ body @ nl)" unfolding r' by simp
  from skip_body [OF assms(3,4) this, of "q @ ''## '' @ name"]
  have "rx_finditer HEADING t (length (q @ ''## '' @ name @ w)) =
      rx_finditer HEADING t (length (q @ section_text (name, body)))"
    unfolding assms(5) by (simp add: numeral_eq_Suc add.assoc)
  ultimately have "rx_finditer HEADING t (length q) =
    (length q, length (q @ ''## '' @ name) + length w, [(1, length q + 3, length q + 3 + length name)]) #
    rx_finditer HEADING t (length (q @ section_text (name, body)))" by (simp add: add.assoc)
  with r' w(2) show ?thesis by blast
qed

lemma heading_needs_text: "rx_run HEADING q (length q) = []"
proof -
  have "\<not> rx_ok HEADING q []" by (simp add: rx_ok_HEADING)
  then show ?thesis by (simp add: rx_ok_def)
qed

lemma next_heading:
  assumes "ends_line q" "good_sections secs" "t = q @ sections_text secs"
  shows "(case rx_finditer HEADING t (length q) of [] \<Rightarrow> length t | (a, _, _) # _ \<Rightarrow> a) = length q"
proof (cases secs)
  case Nil
  then show ?thesis by (simp add: assms(3) rx_finditer_end heading_needs_text)
next
  case (Cons x xs)
  obtain name body where x: "x = (name, body)" by fastforce
  have "name \<in> set section_names" "\<not> has_heading body" using assms(2) by (simp_all add: Cons x good_sections_def)
  from finditer_section [OF assms(1) this sections_text_head [of xs], of t]
  obtain b cs rest where "rx_finditer HEADING t (length q) = (length q, b, cs) # rest"
    by (auto simp: assms(3) Cons x)
  then show ?thesis by simp
qed

lemma fill_sections_rendered:
  "ends_line q \<Longrightarrow> good_sections secs \<Longrightarrow> t = q @ sections_text secs \<Longrightarrow>
   fill_sections t (rx_finditer HEADING t (length q)) f = fold (\<lambda>(name, body) f. f(name := strip body)) secs f"
proof (induction secs arbitrary: q f)
  case Nil
  then show ?case by (simp add: rx_finditer_end heading_needs_text)
next
  case (Cons x secs)
  obtain name body where x: "x = (name, body)" by fastforce
  define q' where "q' = q @ section_text x"
  have t: "t = (q @ ''## '' @ name) @ nl @ body @ nl @ sections_text secs" "t = q' @ sections_text secs"
    using Cons.prems(3) by (simp_all add: q'_def x)
  have ok: "name \<in> set section_names" "\<not> has_heading body" "good_sections secs"
    using Cons.prems(2) by (simp_all add: good_sections_def x)
  have q': "ends_line q'" by (simp add: q'_def x ends_line_def)
  let ?j = "length (q @ ''## '' @ name)" and ?cs = "[(1, length q + 3, length q + 3 + length name)]"
  obtain w r where w: "nl @ body @ nl = w @ r" "\<forall>c \<in> set w. py_space c"
    and hits: "rx_finditer HEADING t (length q) = (length q, ?j + length w, ?cs) # rx_finditer HEADING t (length q')"
    using finditer_section [OF Cons.prems(1) ok(1,2) sections_text_head t(1)] unfolding q'_def x by blast
  have "q' = ((q @ ''## '' @ name) @ w) @ r" unfolding q'_def x by (simp flip: w(1))
  then have "slice t (?j + length w) (length q') = r"
    using slice_middle [of "(q @ ''## '' @ name) @ w" r "sections_text secs"] unfolding t(2) by (simp only: append.assoc length_append add.assoc)
  then have body: "strip (slice t (?j + length w) (length q')) = strip body"
    using strip_spaces_front [OF w(2), of r] strip_lines [of body] unfolding w(1) by simp
  have name: "rx_group t ?cs 1 = Some name"
    unfolding t(1) by (simp add: rx_group_def slice_def)
  show ?case
    unfolding hits fill_sections.simps Let_def next_heading [OF q' ok(3) t(2)] name option.case body
    by (simp add: Cons.IH [OF q' ok(3) t(2)] x)
qed

lemma fold_sections:
  "fold (\<lambda>(name, body) f. f(name := strip body)) secs (\<lambda>_. []) = section_body secs"
proof (induction secs rule: rev_induct)
  case (snoc x secs)
  then show ?case by (auto simp: section_body_def split: prod.splits)
qed (simp add: section_body_def fun_eq_iff)

lemma headings_found:
  assumes "ends_line q" "good_sections secs" "t = q @ sections_text secs"
  shows "rx_finditer HEADING t (length q) = [] \<longleftrightarrow> secs = []"
proof
  assume "rx_finditer HEADING t (length q) = []"
  then have "length t = length q" using next_heading [OF assms] by simp
  then show "secs = []" by (cases secs) (auto simp: assms(3) split: prod.splits)
next
  assume "secs = []"
  then show "rx_finditer HEADING t (length q) = []" by (simp add: assms(3) rx_finditer_end heading_needs_text)
qed

text \<open>
  C15: a reply in the requested format is parsed back: every section gets the stripped body written
  under its heading, whatever the order; of a section given twice the last one counts, a missing one
  is empty, the introduction is in no section, and headings of other names or levels stay in the
  bodies. No text but a heading line of one of the four names is excluded.
\<close>
theorem parse_review_output_roundtrip:
  assumes "\<not> has_heading intro"
    and "list_all (\<lambda>(name, body). name \<in> set section_names \<and> \<not> has_heading body) sections"
  shows "parse_review_output (render_reply intro sections) =
    \<lparr>rev_summary = section_body sections ''Summary'', rev_findings = section_body sections ''Findings'',
     rev_suggestions = section_body sections ''Suggestions'', rev_positives = section_body sections ''Positives'',
     rev_raw = render_reply intro sections, rev_parse_failed = (sections = [])\<rparr>"
    (is "_ = ?r (render_reply intro sections)")
proof -
  define t where "t = render_reply intro sections"
  have t: "t = (intro @ nl) @ sections_text sections" by (simp add: t_def render_reply_def)
  have good: "good_sections sections" using assms(2) by (simp add: good_sections_def)
  have q: "ends_line (intro @ nl)" by (simp add: ends_line_def)
  have start: "rx_finditer HEADING t 0 = rx_finditer HEADING t (length (intro @ nl))"
    using skip_intro [OF assms(1) sections_text_head] unfolding t append.assoc .
  show ?thesis unfolding t_def [symmetric]
  proof (cases "sections = []")
    case True
    then have "rx_finditer HEADING t 0 = []" using start headings_found [OF q good t] by simp
    then show "parse_review_output t = ?r t"
      unfolding parse_review_output_def True by (simp add: section_body_def)
  next
    case False
    then have "rx_finditer HEADING t 0 \<noteq> []" using start headings_found [OF q good t] by simp
    then obtain h hs where hits: "rx_finditer HEADING t 0 = h # hs" by (meson neq_Nil_conv)
    have "fill_sections t (h # hs) (\<lambda>_. []) = section_body sections"
      unfolding hits [symmetric] start fill_sections_rendered [OF q good t] fold_sections ..
    then show "parse_review_output t = ?r t"
      unfolding parse_review_output_def hits by (simp add: False Let_def)
  qed
qed

definition sample_sections :: "(string \<times> string) list" where
  "sample_sections = [(''Findings'', nl @ ''### A'' @ nl @ ''## Other'' @ nl), (''Positives'', []), (''Findings'', ''none'')]"

theorem parse_review_output_roundtrip_witness:
  "parse_review_output (''Hi'' @ nl @ ''## Findings'' @ nl @ nl @ ''### A'' @ nl @ ''## Other'' @ nl @ nl @
     ''## Positives'' @ nl @ nl @ ''## Findings'' @ nl @ ''none'' @ nl) =
   \<lparr>rev_summary = [], rev_findings = ''none'', rev_suggestions = [], rev_positives = [],
    rev_raw = ''Hi'' @ nl @ ''## Findings'' @ nl @ nl @ ''### A'' @ nl @ ''## Other'' @ nl @ nl @
     ''## Positives'' @ nl @ nl @ ''## Findings'' @ nl @ ''none'' @ nl, rev_parse_failed = False\<rparr>"
proof -
  have "rx_search HEADING ''Hi'' = None" "rx_search HEADING (nl @ ''### A'' @ nl @ ''## Other'' @ nl) = None"
    "rx_search HEADING [] = None" "rx_search HEADING ''none'' = None"
    by code_simp+
  then have "\<not> has_heading ''Hi''" "\<not> has_heading (nl @ ''### A'' @ nl @ ''## Other'' @ nl)"
    "\<not> has_heading []" "\<not> has_heading ''none''"
    using HEADING_search by blast+
  then show ?thesis
    using parse_review_output_roundtrip [of "''Hi''" sample_sections]
    by (simp add: sample_sections_def render_reply_def section_names_def section_body_def strip_def lstrip_def rstrip_def py_space_def)
qed

end
