(* ===== verification/Triggers.thy ===== *)
theory Triggers
  imports PyRegex Models
begin

text \<open>
  \<open>orchestration/triggers.py\<close>: recognising a review command in a comment, and the copy of its
  pattern that \<open>pipeline/fetcher.py\<close> uses to keep commands out of the conversation.
\<close>

section \<open>The code\<close>

text \<open>\<open>^@vidi-pr\s+review\b\s*(.*?)\s*$\<close>, ignoring case, multi-line.\<close>

definition TRIGGER :: rx where
  "TRIGGER = rx_seq [LineStart, LitIgnoreCase ''@vidi-pr'', Some1 Space, LitIgnoreCase ''review'',
     WordBoundary, Many Space, Group 1 (LazyMany AnyButNewline), Many Space, LineEnd]"

record parsed_trigger =
  trigger_extra_context :: "string option"

definition parse_trigger :: "string option \<Rightarrow> parsed_trigger option" where
  "parse_trigger body =
     (case body of
        None \<Rightarrow> None
      | Some b \<Rightarrow>
          if b = [] then None
          else (case rx_search TRIGGER b of
              None \<Rightarrow> None
            | Some (i, j, cs) \<Rightarrow>
                (let extra = strip (case rx_group b cs 1 of None \<Rightarrow> [] | Some g \<Rightarrow> g) in
                 Some \<lparr>trigger_extra_context = (if extra = [] then None else Some extra)\<rparr>)))"

text \<open>\<open>^@vidi-pr\s+review\b\<close>, ignoring case, multi-line: the fetcher's pattern.\<close>

definition TRIGGER_PATTERN :: rx where
  "TRIGGER_PATTERN = rx_seq [LineStart, LitIgnoreCase ''@vidi-pr'', Some1 Space,
     LitIgnoreCase ''review'', WordBoundary]"

section \<open>Where a command is\<close>

text \<open>
  The specification of a command without patterns: at the start of a line the bot's name, then white
  space, the word \<open>review\<close>, and no further word character. The white space may contain line ends, so
  that the name and the word need not be on one line.
\<close>

definition has_command :: "string \<Rightarrow> bool" where
  "has_command t \<longleftrightarrow> (\<exists>a name ws verb rest.
     t = a @ name @ ws @ verb @ rest \<and> ends_line a \<and>
     py_lower name = ''@vidi-pr'' \<and> ws \<noteq> [] \<and> (\<forall>c \<in> set ws. py_space c) \<and>
     py_lower verb = ''review'' \<and> (rest = [] \<or> \<not> py_word (hd rest)))"

lemma py_lower_review_last: "py_lower verb = ''review'' \<Longrightarrow> verb \<noteq> [] \<and> py_word (last verb)"
proof -
  assume v: "py_lower verb = ''review''"
  then have ne: "verb \<noteq> []" by (auto simp: py_lower_def)
  have "py_lower_char (last verb) = CHR ''w''"
    using v ne by (metis last_map py_lower_def last.simps list.simps(3))
  then have "(of_char (py_lower_char (last verb)) :: nat) = 119" by simp
  then have "of_char (last verb) = (119 :: nat) \<or> of_char (last verb) = (87 :: nat)"
    by (auto simp: py_lower_char_def Let_def split: if_splits)
  then have "py_word (last verb)" by (auto simp: py_word_def)
  with ne show ?thesis by blast
qed


lemma word_boundary_after_verb:
  assumes "py_lower verb = ''review''"
  shows "word_boundary ((a @ verb) @ r) (length (a @ verb)) \<longleftrightarrow> r = [] \<or> \<not> py_word (hd r)"
proof -
  have ne: "verb \<noteq> []" and w: "py_word (last verb)" using py_lower_review_last [OF assms] by auto
  have "((a @ verb) @ r) ! (length (a @ verb) - 1) = last verb"
    using ne by (cases verb rule: rev_cases) (simp_all add: nth_append)
  then have "word_at ((a @ verb) @ r) (length (a @ verb) - 1)"
    using ne w unfolding word_at_def by (metis append_is_Nil_conv diff_less length_append length_greater_0_conv trans_less_add1 zero_less_one)
  moreover have "word_at ((a @ verb) @ r) (length (a @ verb)) \<longleftrightarrow> r \<noteq> [] \<and> py_word (hd r)"
    by (cases r) (auto simp: word_at_def nth_append)
  moreover have "0 < length (a @ verb)" using ne by simp
  ultimately show ?thesis by (auto simp: word_boundary_def)
qed

text \<open>The common part of the two patterns, followed by any rest of a pattern.\<close>

lemma rx_ok_command:
  "rx_ok (Seq LineStart (Seq (LitIgnoreCase ''@vidi-pr'') (Seq (Some1 Space)
     (Seq (LitIgnoreCase ''review'') b)))) a s \<longleftrightarrow>
   ends_line a \<and> (\<exists>name ws verb rest. s = name @ ws @ verb @ rest \<and>
     py_lower name = ''@vidi-pr'' \<and> ws \<noteq> [] \<and> (\<forall>c \<in> set ws. py_space c) \<and>
     py_lower verb = ''review'' \<and> rx_ok b (a @ name @ ws @ verb) rest)"
proof -
  have low: "py_lower ''@vidi-pr'' = ''@vidi-pr''" "py_lower ''review'' = ''review''"
    by (simp_all add: py_lower_def py_lower_char_def)
  show ?thesis
    unfolding rx_ok_Seq_LineStart rx_ok_Seq_LitIgnoreCase rx_ok_Seq_Some1 in_class.simps low append_assoc
    by (intro conj_cong refl iffI; elim exE conjE; hypsubst; intro exI conjI; (assumption | rule refl))
qed

lemma rx_ok_TRIGGER_PATTERN:
  "rx_ok TRIGGER_PATTERN a s \<longleftrightarrow>
   ends_line a \<and> (\<exists>name ws verb rest. s = name @ ws @ verb @ rest \<and>
     py_lower name = ''@vidi-pr'' \<and> ws \<noteq> [] \<and> (\<forall>c \<in> set ws. py_space c) \<and>
     py_lower verb = ''review'' \<and> (rest = [] \<or> \<not> py_word (hd rest)))"
  unfolding TRIGGER_PATTERN_def rx_seq.simps rx_ok_command rx_ok_WordBoundary
  using word_boundary_after_verb [of _ "a @ _ @ _"] by (metis append_assoc)

text \<open>What follows the word boundary in the trigger pattern can always match.\<close>

lemma rx_ok_trigger_tail:
  "rx_ok (Seq (Many Space) (Seq (Group 1 (LazyMany AnyButNewline)) (Seq (Many Space) LineEnd))) p s"
proof -
  let ?l = "takeWhile (\<lambda>c. c \<noteq> newline_char) s" and ?r = "dropWhile (\<lambda>c. c \<noteq> newline_char) s"
  have "at_line_end ?r" using hd_dropWhile [of "\<lambda>c. c \<noteq> newline_char" s] by (auto simp: at_line_end_def)
  then have "rx_ok (Seq (Many Space) LineEnd) (p @ ?l) ?r"
    unfolding rx_ok_Seq_Many rx_ok_LineEnd by (intro exI [of _ "[]"] exI [of _ ?r]) simp
  then have "rx_ok (Seq (Group 1 (LazyMany AnyButNewline)) (Seq (Many Space) LineEnd)) p s"
    unfolding rx_ok_Seq_Group rx_ok_Seq_LazyMany
    by (intro exI [of _ ?l] exI [of _ ?r]) (auto dest: set_takeWhileD)
  then show ?thesis
    unfolding rx_ok_Seq_Many [of Space "Seq (Group 1 (LazyMany AnyButNewline)) (Seq (Many Space) LineEnd)"]
    by (intro exI [of _ "[]"] exI [of _ s]) simp
qed

lemma rx_ok_TRIGGER: "rx_ok TRIGGER a s \<longleftrightarrow> rx_ok TRIGGER_PATTERN a s"
  unfolding TRIGGER_def TRIGGER_PATTERN_def rx_seq.simps rx_ok_command
    rx_ok_Seq_WordBoundary rx_ok_WordBoundary
  by (simp only: rx_ok_trigger_tail simp_thms)

lemma TRIGGER_PATTERN_search: "rx_search TRIGGER_PATTERN t \<noteq> None \<longleftrightarrow> has_command t"
  unfolding rx_search_ok rx_ok_TRIGGER_PATTERN has_command_def
  by (intro iffI; elim exE conjE; hypsubst; intro exI conjI; (assumption | rule refl))

lemma TRIGGER_search: "rx_search TRIGGER t \<noteq> None \<longleftrightarrow> has_command t"
  using TRIGGER_PATTERN_search [of t] unfolding rx_search_ok rx_ok_TRIGGER .

lemma has_command_nonempty: "has_command t \<Longrightarrow> t \<noteq> []"
  by (auto simp: has_command_def py_lower_def)


section \<open>What the command captures\<close>

lemma py_space_not_word: "py_space c \<Longrightarrow> \<not> py_word c"
  by (auto simp: py_space_def py_word_def Let_def)

lemma no_line_end_inside:
  assumes "x \<noteq> []" "stripped x" "newline_char \<notin> set x" "k < length x"
  shows "rx_run (Seq (Many Space) LineEnd) (p @ x @ rest) (length p + k) = []"
proof (rule ccontr)
  assume can: "\<not> ?thesis"
  have "rx_ok (Seq (Many Space) LineEnd) (p @ take k x) (drop k x @ rest)"
  proof -
    have split: "(p @ take k x) @ (drop k x @ rest) = p @ x @ rest" "length (p @ take k x) = length p + k"
      using assms(4) by simp_all
    show ?thesis using can unfolding rx_ok_def split .
  qed
  then obtain w r where w: "drop k x @ rest = w @ r" "\<forall>c \<in> set w. py_space c" "at_line_end r"
    unfolding rx_ok_Seq_Many rx_ok_LineEnd by auto
  show False
  proof (cases "length w < length (drop k x)")
    case True
    then obtain u where u: "drop k x = w @ u" "r = u @ rest"
      using w(1) by (auto simp: append_eq_append_conv2)
    with True have "u \<noteq> []" "hd u \<in> set x" by (auto intro: in_set_dropD [of _ k] simp: hd_in_set)
    then show False using w(3) u(2) assms(3) by (auto simp: at_line_end_def)
  next
    case False
    then have "drop k x = take (length (drop k x)) w" using w(1)
      by (metis append_eq_conv_conj append_take_drop_id le_antisym linorder_not_less nat_le_linear take_all take_append append_Nil2 diff_is_0_eq take0)
    then have "set (drop k x) \<subseteq> set w" by (metis set_take_subset)
    moreover have "last x \<in> set (drop k x)" using assms(4) by (metis drop_eq_Nil last_drop last_in_set linorder_not_le)
    ultimately show False using w(2) assms(1,2) by (auto simp: stripped_def)
  qed
qed

lemma rx_head_capture_line:
  assumes "x \<noteq> []" "stripped x" "newline_char \<notin> set x" "at_line_end rest"
  shows "\<exists>j. rx_head (Seq (Group 1 (LazyMany AnyButNewline)) (Seq (Many Space) LineEnd)) (p @ x @ rest) (length p)
    = Some (j, [(1, length p, length p + length x)])"
proof -
  obtain j where j: "rx_head (Seq (Many Space) LineEnd) (p @ x @ rest) (length p + length x) = Some (j, [])"
    using rx_head_line_rest [OF assms(4), of "p @ x"] by auto
  have "takeWhile (in_class AnyButNewline) (x @ rest) = x"
    using assms(3,4) by (intro takeWhile_append_stop) (auto simp: at_line_end_def split: list.splits)
  then have run: "run_length AnyButNewline (p @ x @ rest) (length p) = length x"
    by (simp add: run_length_split)
  let ?cap = "\<lambda>k. (length p + k, [(1 :: nat, length p, length p + k)])"
  have "rx_run (Group 1 (LazyMany AnyButNewline)) (p @ x @ rest) (length p) =
      map ?cap [0..<length x] @ ?cap (length x) # []"
    by (simp add: run)
  moreover have "rx_run (Seq (Many Space) LineEnd) (p @ x @ rest) j' = []"
    if "(j', c') \<in> set (map ?cap [0..<length x])" for j' c'
    using that no_line_end_inside [OF assms(1-3), of _ p rest] by (auto simp del: rx_run.simps)
  ultimately show ?thesis
    using rx_head_Seq [of _ "p @ x @ rest" "length p" "map ?cap [0..<length x]"] j by fastforce
qed

lemma rx_head_command:
  assumes "ws \<noteq> []" "\<forall>c \<in> set ws. py_space c" "case s of [] \<Rightarrow> True | c # _ \<Rightarrow> \<not> py_space c"
    and "rx_head b (''@vidi-pr review'' @ ws @ s) (15 + length ws) = Some h"
  shows "rx_head (Seq LineStart (Seq (LitIgnoreCase ''@vidi-pr'') (Seq (Some1 Space)
     (Seq (LitIgnoreCase ''review'') (Seq WordBoundary (Seq (Many Space) b))))))
     (''@vidi-pr review'' @ ws @ s) 0 = Some h"
proof -
  let ?t = "''@vidi-pr review'' @ ws @ s"
  obtain w ws' where ws: "ws = w # ws'" "py_space w" using assms(1,2) by (cases ws) auto
  have "rx_run LineStart ?t 0 = guard_at True 0" by (simp add: line_start_def)
  moreover have "rx_run (LitIgnoreCase ''@vidi-pr'') ?t 0 = guard_at True 8"
    by (simp add: py_lower_def py_lower_char_def) (simp add: numeral_eq_Suc)
  moreover have "run_length Space ?t 8 = Suc 0"
    by (simp add: run_length_def py_space_def)
  moreover have "rx_run (LitIgnoreCase ''review'') ?t 9 = guard_at True 15"
    by (simp add: py_lower_def py_lower_char_def)
  moreover have "rx_run WordBoundary ?t 15 = guard_at True 15"
    using ws py_space_not_word [of w] by (simp add: word_boundary_def word_at_def py_word_def)
  moreover have "run_length Space ?t 15 = length ws"
    using takeWhile_append_stop [of ws "in_class Space" s] assms(2,3) by (simp add: run_length_def split: list.splits)
  ultimately show ?thesis
    using assms(4) by (simp add: rx_head_Seq_guard rx_head_Seq_Some1 rx_head_Seq_Many del: rx_run.simps)
qed

section \<open>Properties\<close>

text \<open>
  C33: a comment triggers a review exactly when the bot's name stands at the start of one of its lines,
  followed by white space and the word \<open>review\<close>; a quoted or mid-line mention, an empty body or an
  absent body does not. The white space may be line ends: the name on one line and the word on the next
  are a command too, although the source speaks of a match within a line. The pattern of the fetcher,
  which keeps commands out of the conversation, finds exactly the same comments.
\<close>
theorem parse_trigger_iff_command:
  "(parse_trigger (Some t) \<noteq> None \<longleftrightarrow> has_command t) \<and> parse_trigger None = None \<and>
   parse_trigger (Some (''@vidi-pr'' @ nl @ ''review'')) \<noteq> None \<and>
   (rx_search TRIGGER_PATTERN t \<noteq> None \<longleftrightarrow> parse_trigger (Some t) \<noteq> None)"
proof -
  have iff: "parse_trigger (Some u) \<noteq> None \<longleftrightarrow> has_command u" for u
  proof (cases "rx_search TRIGGER u")
    case None
    then have "\<not> has_command u" using TRIGGER_search [of u] by simp
    with None show ?thesis by (simp add: parse_trigger_def)
  next
    case (Some h)
    then have "has_command u" using TRIGGER_search [of u] by simp
    with Some show ?thesis
      using has_command_nonempty [of u] by (cases h) (simp add: parse_trigger_def Let_def)
  qed
  have "has_command (''@vidi-pr'' @ nl @ ''review'')"
    unfolding has_command_def
    by (rule exI [of _ "[]"], rule exI [of _ "''@vidi-pr''"], rule exI [of _ nl], rule exI [of _ "''review''"],
        rule exI [of _ "[]"]) (simp add: ends_line_def py_lower_def py_lower_char_def py_space_def)
  moreover have "parse_trigger None = None" by (simp add: parse_trigger_def)
  ultimately show ?thesis using iff TRIGGER_PATTERN_search by simp
qed

text \<open>
  C39: what a command carries: after the command and any white space, the text \<open>x\<close> up to the end of
  the line it is on is the extra context. The white space may contain newlines, so the text may be
  on a later line than the command.
\<close>
theorem parse_trigger_extra_context:
  assumes "ws \<noteq> []" "\<forall>c \<in> set ws. py_space c"
    and "x \<noteq> []" "stripped x" "newline_char \<notin> set x" "at_line_end rest"
  shows "parse_trigger (Some (''@vidi-pr review'' @ ws @ x @ rest)) = Some \<lparr>trigger_extra_context = Some x\<rparr>"
proof -
  define p where "p = ''@vidi-pr review'' @ ws"
  have p: "length p = 15 + length ws" by (simp add: p_def)
  obtain j where j: "rx_head (Seq (Group 1 (LazyMany AnyButNewline)) (Seq (Many Space) LineEnd))
      (p @ x @ rest) (length p) = Some (j, [(1, length p, length p + length x)])"
    using rx_head_capture_line [OF assms(3-6)] by blast
  have "case x @ rest of [] \<Rightarrow> True | c # _ \<Rightarrow> \<not> py_space c"
    using assms(3,4) by (cases x) (auto simp: stripped_def)
  from rx_head_command [OF assms(1,2) this j [unfolded p, unfolded p_def append_assoc]]
  have "rx_head TRIGGER (p @ x @ rest) 0 = Some (j, [(1, length p, length p + length x)])"
    unfolding TRIGGER_def rx_seq.simps p by (simp only: p_def append_assoc)
  then have "rx_match_at TRIGGER (p @ x @ rest) 0 = Some (0, j, [(1, length p, length p + length x)])"
    by (simp only: rx_match_at_head option.map prod.case)
  then have hit: "rx_search TRIGGER (p @ x @ rest) = Some (0, j, [(1, length p, length p + length x)])"
    unfolding rx_search_def by (intro rx_search_from_at) auto
  have "parse_trigger (Some (p @ x @ rest)) = Some \<lparr>trigger_extra_context = Some x\<rparr>"
    using assms(3) strip_id [OF assms(4)]
    by (simp add: parse_trigger_def rx_group_def slice_def hit)
  then show ?thesis by (simp add: p_def)
qed

theorem parse_trigger_extra_context_witness:
  "parse_trigger (Some (''@vidi-pr review'' @ nl @ ''Looks good'' @ nl)) =
     Some \<lparr>trigger_extra_context = Some ''Looks good''\<rparr>"
  by (rule parse_trigger_extra_context)
    (simp_all add: py_space_def stripped_def at_line_end_def)

end
