(* ===== verification/Footer.thy ===== *)
theory Footer
  imports PyText
begin

text \<open>
  \<open>prompts/footer.py\<close>: the duration and the footer line under a posted review. A duration is a
  float, modelled by its exact value, a rational.
\<close>

section \<open>The code\<close>

definition format_duration :: "rat \<Rightarrow> string" where
  "format_duration seconds =
     (if seconds < 1 then fmt_1f seconds @ ''s''
      else let seconds_int = nat (floor seconds) in
        if seconds_int < 60 then str_nat seconds_int @ ''s''
        else if seconds_int < 3600 then
          (let minutes = seconds_int div 60; remainder = seconds_int mod 60
           in str_nat minutes @ ''m'' @ fmt_02d remainder @ ''s'')
        else
          (let hours = seconds_int div 3600; remainder = seconds_int mod 3600;
               minutes = remainder div 60
           in str_nat hours @ ''h'' @ fmt_02d minutes @ ''m''))"

definition render_footer :: "string \<Rightarrow> rat \<Rightarrow> int \<Rightarrow> int \<Rightarrow> string" where
  "render_footer model duration_seconds prompt_tokens completion_tokens =
     (let total = prompt_tokens + completion_tokens; duration = format_duration duration_seconds
      in ''---'' @ nl @
         ''_Reviewed by vidi-pr - model: '' @ model @ '' - '' @
         ''took '' @ duration @ '' - tokens: '' @ str_int prompt_tokens @ ''+'' @
         str_int completion_tokens @ ''='' @ str_int total @ ''_'')"

section \<open>Properties\<close>

lemma round_tenths_close: "0 \<le> x \<Longrightarrow> \<bar>10 * x - of_nat (round_tenths x)\<bar> \<le> 1 / 2"
proof -
  assume x: "0 \<le> x"
  let ?t = "10 * x" and ?f = "floor (10 * x)"
  have f: "0 \<le> ?f" "of_int ?f \<le> ?t" "?t < of_int ?f + 1"
    using x by (simp, linarith, linarith)
  have n: "of_nat (nat ?f) = (of_int ?f :: rat)" "of_nat (nat (?f + 1)) = (of_int ?f + 1 :: rat)"
    using f(1) by simp_all
  show ?thesis
    using f n by (auto simp: round_tenths_def Let_def abs_le_iff)
qed

text \<open>The part of \<open>format_duration\<close> after the rounding down to whole seconds.\<close>

definition whole_seconds_text :: "nat \<Rightarrow> string" where
  "whole_seconds_text n =
     (if n < 60 then str_nat n @ ''s''
      else if n < 3600 then str_nat (n div 60) @ ''m'' @ fmt_02d (n mod 60) @ ''s''
      else str_nat (n div 3600) @ ''h'' @ fmt_02d (n mod 3600 div 60) @ ''m'')"

lemma whole_seconds_units:
  "\<exists>h m s. n = 3600 * h + 60 * m + s \<and> m < 60 \<and> s < 60 \<and>
     whole_seconds_text n =
       (if 0 < h then str_nat h @ ''h'' @ fmt_02d m @ ''m''
        else if 0 < m then str_nat m @ ''m'' @ fmt_02d s @ ''s''
        else str_nat s @ ''s'')"
proof -
  consider "n < 60" | "60 \<le> n" "n < 3600" | "3600 \<le> n" by linarith
  then show ?thesis
  proof cases
    case 1
    show ?thesis
      by (rule exI [of _ 0], rule exI [of _ 0], rule exI [of _ n]) (simp add: whole_seconds_text_def 1)
  next
    case 2
    then have m: "0 < n div 60" "n div 60 < 60"
      by (simp add: div_greater_zero_iff, simp add: less_mult_imp_div_less)
    show ?thesis
      by (rule exI [of _ 0], rule exI [of _ "n div 60"], rule exI [of _ "n mod 60"])
        (simp add: whole_seconds_text_def m 2 leD [OF 2(1)])
  next
    case 3
    have "n mod 3600 mod 60 = n mod 60" by (simp add: mod_mod_cancel)
    then have eq: "n = 3600 * (n div 3600) + 60 * (n mod 3600 div 60) + n mod 60"
      using mult_div_mod_eq [of 3600 n] mult_div_mod_eq [of 60 "n mod 3600"] by linarith
    have m: "n mod 3600 div 60 < 60" by (simp add: less_mult_imp_div_less)
    have shown: "whole_seconds_text n = str_nat (n div 3600) @ ''h'' @ fmt_02d (n mod 3600 div 60) @ ''m''"
      using 3 by (simp add: whole_seconds_text_def)
    have h: "0 < n div 3600" using 3 by (simp add: div_greater_zero_iff)
    show ?thesis
      by (rule exI [of _ "n div 3600"], rule exI [of _ "n mod 3600 div 60"], rule exI [of _ "n mod 60"], intro conjI)
        (fact eq, simp_all add: m shown h)
  qed
qed

text \<open>
  A duration of a second or more is shown by whole units that account for all its whole seconds,
  with the smaller unit below 60 and in two digits: seconds below a minute, minutes and seconds below
  an hour, hours and minutes above. A shorter duration is shown in tenths of a second, off by at most
  half a tenth.
\<close>
lemma format_duration_units:
  "if seconds < 1
   then format_duration seconds = fmt_1f seconds @ ''s'' \<and>
     (if 0 \<le> seconds then \<bar>seconds - of_nat (round_tenths seconds) / 10\<bar> \<le> 1 / 20 else True)
   else (\<exists>h m s. nat \<lfloor>seconds\<rfloor> = 3600 * h + 60 * m + s \<and> m < 60 \<and> s < 60 \<and>
     format_duration seconds =
       (if 0 < h then str_nat h @ ''h'' @ fmt_02d m @ ''m''
        else if 0 < m then str_nat m @ ''m'' @ fmt_02d s @ ''s''
        else str_nat s @ ''s''))"
proof (cases "seconds < 1")
  case True
  have "\<bar>seconds - of_nat (round_tenths seconds) / 10\<bar> \<le> 1 / 20" if "0 \<le> seconds"
    using round_tenths_close [OF that] by (simp add: abs_le_iff field_simps)
  with True show ?thesis by (simp add: format_duration_def)
next
  case False
  define n where "n = nat \<lfloor>seconds\<rfloor>"
  have fd: "format_duration seconds = whole_seconds_text n"
    using False by (simp add: format_duration_def whole_seconds_text_def n_def Let_def)
  show ?thesis
    using whole_seconds_units [of n] unfolding fd n_def [symmetric] using False by (simp only: if_False)
qed

end
