(* ===== verification/Effects.thy ===== *)
theory Effects
  imports Models
begin

text \<open>
  Effects. A call that may raise and that may change the world is a function from the world to a
  result and the new world (\<open>io\<close>); the result is \<open>Inl\<close> of an exception or \<open>Inr\<close> of a value. The
  world is a type parameter: what GitHub, the model endpoint and the clock answer may depend on
  anything that happened before. The exception classes are those of \<open>errors.py\<close>,
  \<open>llm/errors.py\<close> and \<open>transport/errors.py\<close>, with the classes the modules derive from
  \<open>VidiPrError\<close> and the exceptions of other packages the code catches.
\<close>

section \<open>Exceptions\<close>

datatype exc_class =
    BaseError                  \<comment> \<open>\<open>Exception\<close>\<close>
  | ValueError
  | TimeoutError
  | AttributeError
  | OtherError string
  | ValidationError
  | RequestFailed int string   \<comment> \<open>githubkit: the response's status and text\<close>
  | RateLimitExceeded int string
  | HttpTimeoutException       \<comment> \<open>httpx\<close>
  | HttpRequestError
  | VidiPrError
  | StorageError
  | TemplateError
  | OperatorConfigError
  | RepoConfigError
  | DryRunError
  | GitHubError
  | GitHubAuthError
  | GitHubNotFound
  | GitHubTransientError
  | GitHubPermanentError
  | WebhookError
  | WebhookAuthError
  | WebhookBadRequest
  | LLMError
  | LLMTransientError
  | LLMPermanentError

text \<open>The base class written in each class statement.\<close>

fun base_class :: "exc_class \<Rightarrow> exc_class option" where
  "base_class BaseError = None"
| "base_class (RateLimitExceeded s t) = Some (RequestFailed s t)"
| "base_class HttpTimeoutException = Some HttpRequestError"
| "base_class StorageError = Some VidiPrError"
| "base_class TemplateError = Some VidiPrError"
| "base_class OperatorConfigError = Some VidiPrError"
| "base_class RepoConfigError = Some VidiPrError"
| "base_class DryRunError = Some VidiPrError"
| "base_class GitHubError = Some VidiPrError"
| "base_class GitHubAuthError = Some GitHubError"
| "base_class GitHubNotFound = Some GitHubError"
| "base_class GitHubTransientError = Some GitHubError"
| "base_class GitHubPermanentError = Some GitHubError"
| "base_class WebhookError = Some VidiPrError"
| "base_class WebhookAuthError = Some WebhookError"
| "base_class WebhookBadRequest = Some WebhookError"
| "base_class LLMError = Some VidiPrError"
| "base_class LLMTransientError = Some LLMError"
| "base_class LLMPermanentError = Some LLMError"
| "base_class _ = Some BaseError"

text \<open>How far a class is below \<open>Exception\<close>, which bounds the walk up the bases.\<close>

fun class_depth :: "exc_class \<Rightarrow> nat" where
  "class_depth BaseError = 0"
| "class_depth (RateLimitExceeded s t) = 2"
| "class_depth HttpTimeoutException = 2"
| "class_depth StorageError = 2"
| "class_depth TemplateError = 2"
| "class_depth OperatorConfigError = 2"
| "class_depth RepoConfigError = 2"
| "class_depth DryRunError = 2"
| "class_depth GitHubError = 2"
| "class_depth WebhookError = 2"
| "class_depth LLMError = 2"
| "class_depth GitHubAuthError = 3"
| "class_depth GitHubNotFound = 3"
| "class_depth GitHubTransientError = 3"
| "class_depth GitHubPermanentError = 3"
| "class_depth WebhookAuthError = 3"
| "class_depth WebhookBadRequest = 3"
| "class_depth LLMTransientError = 3"
| "class_depth LLMPermanentError = 3"
| "class_depth _ = 1"

lemma base_class_depth: "base_class c = Some p \<Longrightarrow> class_depth p < class_depth c"
  by (cases c) auto

text \<open>\<open>issubclass(c, d)\<close>.\<close>

function is_subclass :: "exc_class \<Rightarrow> exc_class \<Rightarrow> bool" where
  "is_subclass c d = (c = d \<or> (case base_class c of None \<Rightarrow> False | Some p \<Rightarrow> is_subclass p d))"
  by pat_completeness auto
termination
  by (relation "measure (\<lambda>(c, d). class_depth c)") (auto simp: base_class_depth)

declare is_subclass.simps [simp del]

lemma is_subclass_refl [simp]: "is_subclass c c"
  by (subst is_subclass.simps) simp

lemma is_subclass_trans: "is_subclass c d \<Longrightarrow> is_subclass d e \<Longrightarrow> is_subclass c e"
proof (induction c d rule: is_subclass.induct)
  case (1 c d)
  show ?case
  proof (cases "c = d")
    case False
    then obtain p where p: "base_class c = Some p" "is_subclass p d"
      using "1.prems"(1) by (subst (asm) is_subclass.simps) (auto split: option.splits)
    then have "is_subclass p e" using "1.IH" False "1.prems"(2) by blast
    with p(1) show ?thesis by (subst is_subclass.simps) simp
  qed (use "1.prems" in simp)
qed

record exc =
  exc_class :: exc_class
  exc_message :: string

abbreviation raised :: "exc_class \<Rightarrow> string \<Rightarrow> exc" where
  "raised c m \<equiv> \<lparr>exc_class = c, exc_message = m\<rparr>"

definition isinstance :: "exc \<Rightarrow> exc_class \<Rightarrow> bool" where
  "isinstance e c = is_subclass (exc_class e) c"

section \<open>Calls with effects\<close>

type_synonym ('w, 'a) io = "'w \<Rightarrow> (exc + 'a) \<times> 'w"

definition io_return :: "'a \<Rightarrow> ('w, 'a) io" where
  [io_defs]: "io_return a = (\<lambda>w. (Inr a, w))"

definition io_raise :: "exc \<Rightarrow> ('w, 'a) io" where
  [io_defs]: "io_raise e = (\<lambda>w. (Inl e, w))"

definition io_bind :: "('w, 'a) io \<Rightarrow> ('a \<Rightarrow> ('w, 'b) io) \<Rightarrow> ('w, 'b) io" where
  [io_defs]: "io_bind m f =
     (\<lambda>w. case m w of (Inl e, w') \<Rightarrow> (Inl e, w') | (Inr a, w') \<Rightarrow> f a w')"

text \<open>\<open>try: m except ...: h\<close>: the handler is given every exception and raises again those
  that the source's clauses do not name.\<close>

definition io_try :: "('w, 'a) io \<Rightarrow> (exc \<Rightarrow> ('w, 'a) io) \<Rightarrow> ('w, 'a) io" where
  [io_defs]: "io_try m h =
     (\<lambda>w. case m w of (Inl e, w') \<Rightarrow> h e w' | (Inr a, w') \<Rightarrow> (Inr a, w'))"

text \<open>A call that cannot raise, and a pure result.\<close>

definition io_total :: "('w \<Rightarrow> 'a \<times> 'w) \<Rightarrow> ('w, 'a) io" where
  [io_defs]: "io_total f = (\<lambda>w. case f w of (a, w') \<Rightarrow> (Inr a, w'))"

definition io_result :: "exc + 'a \<Rightarrow> ('w, 'a) io" where
  [io_defs]: "io_result r = (\<lambda>w. (r, w))"

text \<open>\<open>for x in xs: f(x)\<close>, collecting the results.\<close>

fun io_map :: "('a \<Rightarrow> ('w, 'b) io) \<Rightarrow> 'a list \<Rightarrow> ('w, 'b list) io" where
  "io_map f [] = io_return []"
| "io_map f (x # xs) = io_bind (f x) (\<lambda>y. io_bind (io_map f xs) (\<lambda>ys. io_return (y # ys)))"

text \<open>Statements one after the other, until one raises.\<close>

fun io_steps :: "('w, unit) io list \<Rightarrow> ('w, unit) io" where
  "io_steps [] = io_return ()"
| "io_steps (m # ms) = io_bind m (\<lambda>_. io_steps ms)"

text \<open>\<open>try: m finally: f\<close>: \<open>f\<close> runs in any case, and an exception of its own takes the place of the
  outcome of \<open>m\<close>.\<close>

definition io_finally :: "('w, 'a) io \<Rightarrow> ('w, unit) io \<Rightarrow> ('w, 'a) io" where
  [io_defs]: "io_finally m f =
     (\<lambda>w. case m w of (r, w1) \<Rightarrow> (case f w1 of (Inl e, w2) \<Rightarrow> (Inl e, w2) | (Inr _, w2) \<Rightarrow> (r, w2)))"

text \<open>A call on one part of the world.\<close>

definition io_zoom :: "('w \<Rightarrow> 'v) \<Rightarrow> ('v \<Rightarrow> 'w \<Rightarrow> 'w) \<Rightarrow> ('v, 'a) io \<Rightarrow> ('w, 'a) io" where
  [io_defs]: "io_zoom get put m = (\<lambda>w. case m (get w) of (r, v) \<Rightarrow> (r, put v w))"

lemma io_bind_return [simp]: "io_bind (io_return a) f = f a"
  by (simp add: io_defs)

lemma io_bind_raise [simp]: "io_bind (io_raise e) f = io_raise e"
  by (simp add: io_defs)

lemma io_bind_result: "io_bind (io_result (Inr a)) f = f a"
  by (simp add: io_defs)

lemma io_bind_return_right [simp]: "io_bind m io_return = m"
  by (auto simp: io_defs fun_eq_iff split: prod.splits sum.splits)

lemma io_bind_assoc: "io_bind (io_bind m f) g = io_bind m (\<lambda>a. io_bind (f a) g)"
  by (auto simp: io_defs fun_eq_iff split: prod.splits sum.splits)

lemma io_try_return [simp]: "io_try (io_return a) h = io_return a"
  by (simp add: io_defs)

lemma io_try_raise [simp]: "io_try (io_raise e) h = h e"
  by (simp add: io_defs)

section \<open>What a call does to the world\<close>

text \<open>
  \<open>io_keeps R m\<close>: whatever \<open>m\<close> returns or raises, the world before and after are related by
  \<open>R\<close>. With \<open>R\<close> an equality of a part, this says that part is not touched.
\<close>

definition io_keeps :: "('w \<Rightarrow> 'w \<Rightarrow> bool) \<Rightarrow> ('w, 'a) io \<Rightarrow> bool" where
  "io_keeps R m \<longleftrightarrow> (\<forall>w. R w (snd (m w)))"

locale io_frame =
  fixes R :: "'w \<Rightarrow> 'w \<Rightarrow> bool"
  assumes frame_refl: "R w w"
    and frame_trans: "R w v \<Longrightarrow> R v u \<Longrightarrow> R w u"
begin

lemma keeps_return: "io_keeps R (io_return a)"
  by (simp add: io_keeps_def io_defs frame_refl)

lemma keeps_raise: "io_keeps R (io_raise e)"
  by (simp add: io_keeps_def io_defs frame_refl)

lemma keeps_result: "io_keeps R (io_result r)"
  by (simp add: io_keeps_def io_defs frame_refl)

lemma keeps_bind: "io_keeps R m \<Longrightarrow> (\<And>a. io_keeps R (f a)) \<Longrightarrow> io_keeps R (io_bind m f)"
  by (auto simp: io_keeps_def io_bind_def split: prod.splits sum.splits
      intro: frame_trans) (metis snd_conv frame_trans)+

lemma keeps_try: "io_keeps R m \<Longrightarrow> (\<And>e. io_keeps R (h e)) \<Longrightarrow> io_keeps R (io_try m h)"
  by (auto simp: io_keeps_def io_try_def split: prod.splits sum.splits
      intro: frame_trans) (metis snd_conv frame_trans)+

lemma keeps_map: "(\<And>x. io_keeps R (f x)) \<Longrightarrow> io_keeps R (io_map f xs)"
  by (induction xs) (auto intro: keeps_bind keeps_return)

lemma keeps_steps: "list_all (io_keeps R) ms \<Longrightarrow> io_keeps R (io_steps ms)"
  by (induction ms) (auto intro: keeps_bind keeps_return)

end

section \<open>What a call returns\<close>

text \<open>\<open>io_yields P m\<close>: whenever \<open>m\<close> returns, its value satisfies \<open>P\<close>.\<close>

definition io_yields :: "('a \<Rightarrow> bool) \<Rightarrow> ('w, 'a) io \<Rightarrow> bool" where
  "io_yields P m \<longleftrightarrow> (\<forall>w a w'. m w = (Inr a, w') \<longrightarrow> P a)"

lemma io_yieldsD: "io_yields P m \<Longrightarrow> m w = (Inr a, w') \<Longrightarrow> P a"
  unfolding io_yields_def by blast

lemma yields_True [simp]: "io_yields (\<lambda>_. True) m"
  by (simp add: io_yields_def)

lemma yields_return [simp]: "io_yields P (io_return a) \<longleftrightarrow> P a"
  by (simp add: io_yields_def io_return_def)

lemma yields_raise [simp]: "io_yields P (io_raise e)"
  by (simp add: io_yields_def io_raise_def)

lemma yields_result: "io_yields P (io_result r) \<longleftrightarrow> (\<forall>a. r = Inr a \<longrightarrow> P a)"
  by (auto simp: io_yields_def io_result_def)

lemma io_bind_returns:
  "io_bind m f w = (Inr b, w') \<longleftrightarrow> (\<exists>a v. m w = (Inr a, v) \<and> f a v = (Inr b, w'))"
  by (auto simp: io_bind_def split: prod.splits sum.splits)

lemma io_try_returns:
  "io_try m h w = (Inr b, w') \<longleftrightarrow> m w = (Inr b, w') \<or> (\<exists>e v. m w = (Inl e, v) \<and> h e v = (Inr b, w'))"
  by (auto simp: io_try_def split: prod.splits sum.splits)

lemma yields_bind: "io_yields Q m \<Longrightarrow> (\<And>a. Q a \<Longrightarrow> io_yields P (f a)) \<Longrightarrow> io_yields P (io_bind m f)"
  unfolding io_yields_def io_bind_returns by blast

lemma yields_bind_any: "(\<And>a. io_yields P (f a)) \<Longrightarrow> io_yields P (io_bind m f)"
  by (rule yields_bind [where Q = "\<lambda>_. True"]) simp_all

lemma yields_try: "io_yields P m \<Longrightarrow> (\<And>e. io_yields P (h e)) \<Longrightarrow> io_yields P (io_try m h)"
  unfolding io_yields_def io_try_returns by blast

lemma yields_mono: "io_yields Q m \<Longrightarrow> (\<And>a. Q a \<Longrightarrow> P a) \<Longrightarrow> io_yields P m"
  unfolding io_yields_def by blast

end
