(* ===== verification/Templates.thy ===== *)
theory Templates
  imports PyRegex Effects
begin

text \<open>
  \<open>prompts/loader.py\<close>: loading a prompt template and filling its placeholders. The package's
  resource files are a parameter: a function from a file name to its text, None for a name that is
  not a file. The variables of a template are a map.
\<close>

section \<open>The code\<close>

text \<open>\<open>\{\{(\w+)\}\}\<close>.\<close>

definition PLACEHOLDER :: rx where
  "PLACEHOLDER = rx_seq [Lit ''{{'', Group 1 (Some1 Word), Lit ''}}'']"

type_synonym resources = "string \<Rightarrow> string option"

definition load_template :: "resources \<Rightarrow> string \<Rightarrow> exc + string" where
  "load_template files name =
     (let file = (if ends_with name ''.md'' then name else name @ ''.md'') in
      case files file of
        None \<Rightarrow> Inl (raised TemplateError (''prompt template not found: '' @ file))
      | Some text \<Rightarrow> Inr text)"

text \<open>
  \<open>pattern.sub(_replace, template)\<close> over the matches: the text between matches is copied, each
  match is replaced by its variable; \<open>pos\<close> is where the last match ended.
\<close>

fun replace_matches :: "string \<Rightarrow> (string \<rightharpoonup> string) \<Rightarrow> nat \<Rightarrow> rx_hit list \<Rightarrow> exc + string" where
  "replace_matches template variables pos [] = Inr (drop pos template)"
| "replace_matches template variables pos ((a, b, cs) # rest) =
     (let name = (case rx_group template cs 1 of None \<Rightarrow> [] | Some n \<Rightarrow> n) in
      case variables name of
        None \<Rightarrow> Inl (raised TemplateError (''unknown template variable: '' @ name))
      | Some v \<Rightarrow>
          (case replace_matches template variables b rest of
             Inl e \<Rightarrow> Inl e
           | Inr out \<Rightarrow> Inr (slice template pos a @ v @ out)))"

definition render_template :: "string \<Rightarrow> (string \<rightharpoonup> string) \<Rightarrow> exc + string" where
  "render_template template variables =
     replace_matches template variables 0 (rx_finditer PLACEHOLDER template 0)"

section \<open>Templates as segments\<close>

text \<open>
  The specification: a template is a list of literal pieces and variables, and rendering puts each
  variable's value in its place, once. Literal pieces have no opening brace.
\<close>

datatype segment = Text string | Var string

fun segment_source :: "segment \<Rightarrow> string" where
  "segment_source (Text s) = s"
| "segment_source (Var n) = ''{{'' @ n @ ''}}''"

definition template_source :: "segment list \<Rightarrow> string" where
  "template_source segs = concat (map segment_source segs)"

fun segment_ok :: "segment \<Rightarrow> bool" where
  "segment_ok (Text s) = (CHR ''{'' \<notin> set s)"
| "segment_ok (Var n) = (n \<noteq> [] \<and> list_all py_word n)"

fun fill_segments :: "(string \<rightharpoonup> string) \<Rightarrow> segment list \<Rightarrow> exc + string" where
  "fill_segments vs [] = Inr []"
| "fill_segments vs (Text s # segs) = map_sum id ((@) s) (fill_segments vs segs)"
| "fill_segments vs (Var n # segs) =
     (case vs n of
        None \<Rightarrow> Inl (raised TemplateError (''unknown template variable: '' @ n))
      | Some v \<Rightarrow> map_sum id ((@) v) (fill_segments vs segs))"

lemma template_source_Cons [simp]:
  "template_source (x # xs) = segment_source x @ template_source xs"
  by (simp add: template_source_def)

lemma template_source_Nil [simp]: "template_source [] = []"
  by (simp add: template_source_def)

lemma placeholder_needs_brace:
  "s = [] \<or> hd s \<noteq> CHR ''{'' \<Longrightarrow> rx_run PLACEHOLDER (p @ s) (length p) = []"
  by (cases s) (auto simp: PLACEHOLDER_def guard_at_def)

lemma placeholder_hit:
  assumes "n \<noteq> []" "list_all py_word n"
  shows "rx_match_at PLACEHOLDER (p @ ''{{'' @ n @ ''}}'' @ r) (length p) =
    Some (length p, length p + 4 + length n, [(1, length p + 2, length p + 2 + length n)])"
proof -
  define q where "q = p @ ''{{''"
  have q: "length q = length p + 2" "p @ ''{{'' @ n @ ''}}'' @ r = q @ n @ ''}}'' @ r"
    by (simp_all add: q_def)
  obtain m where m: "length n = Suc m" using assms(1) by (cases n) auto
  have "takeWhile (in_class Word) (n @ ''}}'' @ r) = n"
    using assms(2) by (intro takeWhile_append_stop) (auto simp: list_all_iff py_word_def)
  then have run: "run_length Word (q @ n @ ''}}'' @ r) (length q) = Suc m"
    by (simp add: run_length_split m)
  have tail: "rx_head (Lit ''}}'') (q @ n @ ''}}'' @ r) (length q + Suc m) = Some (length q + length n + 2, [])"
    by (simp add: rx_head_def guard_at_def flip: m)
  have group: "rx_run (Group 1 (Some1 Word)) (q @ n @ ''}}'' @ r) (length q) =
      [] @ (length q + Suc m, [(1, length q, length q + Suc m)]) #
      map (\<lambda>k. (length q + k, [(1, length q, length q + k)])) (rev [1..<Suc m])"
    unfolding rx_run.simps run by simp
  have "rx_head (Seq (Group 1 (Some1 Word)) (Lit ''}}'')) (q @ n @ ''}}'' @ r) (length q) =
      Some (length q + length n + 2, [(1, length q, length q + length n)])"
    using rx_head_Seq [OF group _ tail] by (simp add: m)
  moreover have "rx_run (Lit ''{{'') (q @ n @ ''}}'' @ r) (length p) = guard_at True (length q)"
    by (simp add: q_def)
  ultimately have "rx_head PLACEHOLDER (q @ n @ ''}}'' @ r) (length p) =
      Some (length q + length n + 2, [(1, length q, length q + length n)])"
    by (simp add: PLACEHOLDER_def rx_head_Seq_guard del: rx_run.simps)
  then show ?thesis unfolding q(2) by (simp add: rx_match_at_head q(1))
qed


lemma placeholder_skip_text:
  assumes "CHR ''{'' \<notin> set s"
  shows "rx_finditer PLACEHOLDER (p @ s @ r) (length p) = rx_finditer PLACEHOLDER (p @ s @ r) (length (p @ s))"
proof (rule rx_finditer_skip)
  fix j assume j: "length p \<le> j" "j < length (p @ s)"
  define k where "k = j - length p"
  have k: "k < length s" "j = length (p @ take k s)" using j by (auto simp: k_def)
  have "p @ s @ r = (p @ take k s) @ (drop k s @ r)" by simp
  moreover have "hd (drop k s @ r) \<noteq> CHR ''{''"
    using k(1) assms by (metis hd_append2 hd_drop_conv_nth nth_mem drop_eq_Nil linorder_not_le)
  ultimately show "rx_run PLACEHOLDER (p @ s @ r) j = []"
    unfolding k(2) using placeholder_needs_brace [of "drop k s @ r" "p @ take k s"] by metis
qed simp_all

lemma replace_segments:
  "list_all segment_ok segs \<Longrightarrow> pos \<le> length p \<Longrightarrow>
   replace_matches (p @ template_source segs) vs pos
     (rx_finditer PLACEHOLDER (p @ template_source segs) (length p)) =
   map_sum id ((@) (drop pos p)) (fill_segments vs segs)"
proof (induction segs arbitrary: p pos)
  case Nil
  have "rx_run PLACEHOLDER p (length p) = []" using placeholder_needs_brace [of "[]" p] by simp
  then show ?case by (simp add: rx_finditer_end)
next
  case (Cons x segs)
  have ok: "list_all segment_ok segs" using Cons.prems(1) by simp
  show ?case
  proof (cases x)
    case (Text s)
    have "CHR ''{'' \<notin> set s" using Cons.prems(1) Text by simp
    from placeholder_skip_text [OF this, of p "template_source segs"]
    show ?thesis using Cons.IH [OF ok, of pos "p @ s"] Cons.prems(2)
      by (simp add: Text sum.map_comp comp_def)
  next
    case (Var n)
    let ?q = "p @ ''{{'' @ n @ ''}}''"
    let ?t = "p @ ''{{'' @ n @ ''}}'' @ template_source segs"
    have n: "n \<noteq> []" "list_all py_word n" using Cons.prems(1) Var by simp_all
    have q: "length ?q = length p + 4 + length n" "?q @ template_source segs = ?t" by simp_all
    have fi: "rx_finditer PLACEHOLDER ?t (length p) =
        (length p, length ?q, [(1, length p + 2, length p + 2 + length n)]) #
        rx_finditer PLACEHOLDER ?t (length ?q)"
      unfolding q(1) by (rule rx_finditer_hit [OF placeholder_hit [OF n]]) simp_all
    have name: "rx_group ?t [(1, length p + 2, length p + 2 + length n)] 1 = Some n"
      by (simp add: rx_group_def slice_def)
    have pre: "slice ?t pos (length p) = drop pos p"
      using Cons.prems(2) by (simp add: slice_def)
    have IH: "replace_matches ?t vs (length ?q) (rx_finditer PLACEHOLDER ?t (length ?q)) =
        map_sum id id (fill_segments vs segs)"
      using Cons.IH [OF ok, of "length ?q" ?q] unfolding q(2) by (simp add: id_def)
    have src: "p @ template_source (x # segs) = ?t" by (simp add: Var)
    show ?thesis
      unfolding src fi replace_matches.simps name pre IH
      by (auto simp: Var sum.map_id sum.map_comp comp_def split: option.splits sum.splits)
  qed
qed

section \<open>Properties\<close>

text \<open>
  C34: rendering fills every placeholder once, from left to right, with the value of its variable, and
  raises for the first variable that is not given. The values are not scanned again: a value that
  contains \<open>{{name}}\<close> is copied as it is, so untrusted text cannot name a template variable.
\<close>
theorem render_template_fills_once:
  assumes "list_all segment_ok segs"
  shows "render_template (template_source segs) variables = fill_segments variables segs"
  using replace_segments [OF assms, of 0 "[]" variables]
  by (cases "fill_segments variables segs") (simp_all add: render_template_def)

theorem render_template_fills_once_witness:
  "render_template (template_source [Text ''Focus: '', Var ''focus'', Text ''.''])
     [''focus'' \<mapsto> ''{{diff}}''] = Inr ''Focus: {{diff}}.''"
  by (subst render_template_fills_once) (simp_all add: py_word_def)

end
