(* ===== verification/Storage.thy ===== *)
theory Storage
  imports Models "HOL-Library.Product_Lexorder"
begin

text \<open>
  The storage layer: \<open>storage/dedup.py\<close>, \<open>storage/jobs.py\<close>, \<open>storage/locks.py\<close>,
  \<open>storage/failures.py\<close>, \<open>storage/reviews.py\<close>, \<open>storage/recovery.py\<close> and
  \<open>orchestration/locks.py\<close>. A table is the list of its rows in the order they were inserted; a
  statement of the source is the list operation it denotes: \<open>select ... where\<close> a filter,
  \<open>delete ... where\<close> the complementary filter, \<open>update ... where\<close> a conditional map,
  \<open>insert ... on_conflict_do_nothing\<close> an insertion unless the key is present. The value of
  \<open>utcnow()\<close> is an argument \<open>now\<close>, in microseconds.
\<close>

section \<open>Tables and sessions\<close>

record database =
  deliveries :: "webhook_delivery list"
  jobs :: "job list"
  pr_locks :: "pr_lock list"
  reviews_posted :: "review_posted list"
  failure_cooldowns :: "failure_cooldown list"

text \<open>The database after the migration that creates the tables.\<close>

definition empty_database :: database where
  "empty_database = \<lparr>deliveries = [], jobs = [], pr_locks = [], reviews_posted = [], failure_cooldowns = []\<rparr>"

text \<open>
  A session sees the committed database and its own uncommitted changes; closing it without a commit
  drops the changes.
\<close>

record session =
  committed :: database
  working :: database

definition session_open :: "database \<Rightarrow> session" where
  "session_open db = \<lparr>committed = db, working = db\<rparr>"

definition session_commit :: "session \<Rightarrow> session" where
  "session_commit s = s\<lparr>committed := working s\<rparr>"

definition session_rollback :: "session \<Rightarrow> session" where
  "session_rollback s = s\<lparr>working := committed s\<rparr>"

definition session_close :: "session \<Rightarrow> database" where
  "session_close s = committed s"

text \<open>A statement run in a session.\<close>

definition session_exec :: "(database \<Rightarrow> 'a \<times> database) \<Rightarrow> session \<Rightarrow> 'a \<times> session" where
  "session_exec f s = (case f (working s) of (a, db) \<Rightarrow> (a, s\<lparr>working := db\<rparr>))"

section \<open>Statements by key\<close>

definition insert_or_ignore :: "('r \<Rightarrow> 'k) \<Rightarrow> 'r \<Rightarrow> 'r list \<Rightarrow> bool \<times> 'r list" where
  "insert_or_ignore key row rows =
     (if key row \<in> set (map key rows) then (False, rows) else (True, rows @ [row]))"

definition insert_or_update :: "('r \<Rightarrow> 'k) \<Rightarrow> 'r \<Rightarrow> ('r \<Rightarrow> 'r) \<Rightarrow> 'r list \<Rightarrow> 'r list" where
  "insert_or_update key row f rows =
     (if key row \<in> set (map key rows)
      then map (\<lambda>r. if key r = key row then f r else r) rows
      else rows @ [row])"

section \<open>storage/dedup.py\<close>

definition record_delivery :: "string \<Rightarrow> int \<Rightarrow> database \<Rightarrow> bool \<times> database" where
  "record_delivery d now db =
     (case insert_or_ignore delivery_id \<lparr>delivery_id = d, delivery_received_at = now\<rparr> (deliveries db) of
        (is_new, rows) \<Rightarrow> (is_new, db\<lparr>deliveries := rows\<rparr>))"

section \<open>storage/jobs.py\<close>

definition insert_job ::
  "job_type \<Rightarrow> int \<Rightarrow> string \<Rightarrow> int \<Rightarrow> string \<Rightarrow> trigger_kind \<Rightarrow> string option \<Rightarrow> int \<Rightarrow>
   database \<Rightarrow> job \<times> database" where
  "insert_job jtype installation_id repo pr_number head_sha trigger_kind extra_context now db =
     (let j = \<lparr>job_id = fresh_id (map job_id (jobs db)), job_type = jtype,
           job_installation_id = installation_id, job_repo = repo, job_pr_number = pr_number,
           job_head_sha = head_sha, job_trigger_kind = trigger_kind, job_extra_context = extra_context,
           job_status = PENDING, job_status_detail = None, job_attempts = 0,
           job_created_at = now, job_updated_at = now, job_error = None\<rparr>
      in (j, db\<lparr>jobs := jobs db @ [j]\<rparr>))"

definition fetch_job :: "int \<Rightarrow> database \<Rightarrow> job option" where
  "fetch_job jid db = find (\<lambda>j. job_id j = jid) (jobs db)"

definition list_jobs_with_status :: "job_status \<Rightarrow> database \<Rightarrow> job list" where
  "list_jobs_with_status st db =
     sort_key (\<lambda>j. (job_created_at j, job_id j)) (filter (\<lambda>j. job_status j = st) (jobs db))"

definition update_job_status ::
  "int \<Rightarrow> job_status \<Rightarrow> string option \<Rightarrow> string option \<Rightarrow> int \<Rightarrow> database \<Rightarrow> database" where
  "update_job_status jid st detail err now db =
     db\<lparr>jobs := map (\<lambda>j. if job_id j = jid
         then j\<lparr>job_status := st, job_status_detail := detail, job_error := err, job_updated_at := now\<rparr>
         else j) (jobs db)\<rparr>"

definition increment_job_attempts :: "int \<Rightarrow> int \<Rightarrow> database \<Rightarrow> database" where
  "increment_job_attempts jid now db =
     db\<lparr>jobs := map (\<lambda>j. if job_id j = jid
         then j\<lparr>job_attempts := job_attempts j + 1, job_updated_at := now\<rparr> else j) (jobs db)\<rparr>"

section \<open>storage/locks.py\<close>

abbreviation lock_key :: "pr_lock \<Rightarrow> string \<times> int" where
  "lock_key l \<equiv> (lock_repo l, lock_pr_number l)"

abbreviation job_key :: "job \<Rightarrow> string \<times> int" where
  "job_key j \<equiv> (job_repo j, job_pr_number j)"

definition acquire_lock :: "string \<Rightarrow> int \<Rightarrow> int \<Rightarrow> int \<Rightarrow> database \<Rightarrow> bool \<times> database" where
  "acquire_lock repo pr_number jid now db =
     (case insert_or_ignore lock_key
         \<lparr>lock_repo = repo, lock_pr_number = pr_number, lock_locked_at = now, lock_job_id = jid\<rparr> (pr_locks db) of
        (taken, rows) \<Rightarrow> (taken, db\<lparr>pr_locks := rows\<rparr>))"

definition release_lock :: "string \<Rightarrow> int \<Rightarrow> database \<Rightarrow> database" where
  "release_lock repo pr_number db =
     db\<lparr>pr_locks := filter (\<lambda>l. \<not> (lock_repo l = repo \<and> lock_pr_number l = pr_number)) (pr_locks db)\<rparr>"

definition fetch_lock :: "string \<Rightarrow> int \<Rightarrow> database \<Rightarrow> pr_lock option" where
  "fetch_lock repo pr_number db =
     find (\<lambda>l. lock_repo l = repo \<and> lock_pr_number l = pr_number) (pr_locks db)"

definition terminal_job_ids :: "database \<Rightarrow> int list" where
  "terminal_job_ids db =
     map job_id (filter (\<lambda>j. job_status j \<in> set TERMINAL_JOB_STATUSES) (jobs db))"

definition clear_stale_locks :: "database \<Rightarrow> nat \<times> database" where
  "clear_stale_locks db =
     (let stale = (\<lambda>l. lock_job_id l \<in> set (terminal_job_ids db)) in
      (length (filter stale (pr_locks db)),
       db\<lparr>pr_locks := filter (\<lambda>l. \<not> stale l) (pr_locks db)\<rparr>))"

section \<open>storage/failures.py\<close>

abbreviation cooldown_key :: "failure_cooldown \<Rightarrow> string \<times> int" where
  "cooldown_key c \<equiv> (cooldown_repo c, cooldown_pr_number c)"

definition microseconds :: "int \<Rightarrow> int" where
  "microseconds seconds = seconds * 1000000"

definition claim_failure_slot :: "string \<Rightarrow> int \<Rightarrow> int \<Rightarrow> int \<Rightarrow> session \<Rightarrow> bool \<times> session" where
  "claim_failure_slot repo pr_number cooldown_seconds now s =
     (let cutoff = now - microseconds cooldown_seconds;
          existing = find (\<lambda>c. cooldown_repo c = repo \<and> cooldown_pr_number c = pr_number)
            (failure_cooldowns (working s))
      in if (case existing of None \<Rightarrow> False | Some c \<Rightarrow> cutoff < cooldown_last_posted_at c)
         then (False, s)
         else
           (True, session_commit (s\<lparr>working := (working s)\<lparr>failure_cooldowns :=
              insert_or_update cooldown_key
                \<lparr>cooldown_repo = repo, cooldown_pr_number = pr_number, cooldown_last_posted_at = now\<rparr>
                (\<lambda>c. c\<lparr>cooldown_last_posted_at := now\<rparr>) (failure_cooldowns (working s))\<rparr>\<rparr>)))"

section \<open>storage/reviews.py\<close>

definition record_review_posted ::
  "string \<Rightarrow> int \<Rightarrow> string \<Rightarrow> int \<Rightarrow> int \<Rightarrow> int \<Rightarrow> int \<Rightarrow> database \<Rightarrow> review_posted \<times> database" where
  "record_review_posted repo pr_number head_sha review_id duration_ms chunk_count now db =
     (let posted = \<lparr>posted_id = fresh_id (map posted_id (reviews_posted db)), posted_repo = repo,
           posted_pr_number = pr_number, posted_head_sha = head_sha, posted_review_id = review_id,
           posted_posted_at = now, posted_duration_ms = duration_ms, posted_chunk_count = chunk_count\<rparr>
      in (posted, db\<lparr>reviews_posted := reviews_posted db @ [posted]\<rparr>))"

definition fetch_review_posted :: "int \<Rightarrow> database \<Rightarrow> review_posted option" where
  "fetch_review_posted row_id db = find (\<lambda>r. posted_id r = row_id) (reviews_posted db)"

definition list_reviews_for_pr :: "string \<Rightarrow> int \<Rightarrow> database \<Rightarrow> review_posted list" where
  "list_reviews_for_pr repo pr_number db =
     sort_key (\<lambda>r. (posted_posted_at r, posted_id r))
       (filter (\<lambda>r. posted_repo r = repo \<and> posted_pr_number r = pr_number) (reviews_posted db))"

section \<open>storage/recovery.py\<close>

definition INTERRUPTED_ERROR :: string where
  "INTERRUPTED_ERROR = ''interrupted by service restart''"

definition recover_on_startup :: "int \<Rightarrow> database \<Rightarrow> nat \<times> database" where
  "recover_on_startup now db =
     (let recovered = length (filter (\<lambda>j. job_status j = RUNNING) (jobs db));
          db1 = db\<lparr>jobs := map (\<lambda>j. if job_status j = RUNNING
             then j\<lparr>job_status := FAILED, job_status_detail := Some (status_detail_value INTERRUPTED_BY_RESTART),
                    job_error := (case job_error j of None \<Rightarrow> Some INTERRUPTED_ERROR | Some e \<Rightarrow> Some e),
                    job_updated_at := now\<rparr>
             else j) (jobs db)\<rparr>;
          db2 = db1\<lparr>pr_locks := filter (\<lambda>l. lock_job_id l \<notin> set (terminal_job_ids db1)) (pr_locks db1)\<rparr>
      in (recovered, db2))"

section \<open>orchestration/locks.py\<close>

record enqueue_request =
  req_installation_id :: int
  req_repo :: string
  req_pr_number :: int
  req_head_sha :: string
  req_trigger_kind :: trigger_kind
  req_extra_context :: "string option"

text \<open>
  \<open>try_enqueue_review\<close> in its two database accesses: the lock is looked up first; the job and the
  lock are then inserted in one transaction, which is rolled back when the lock was taken meanwhile.
  \<open>now1\<close> and \<open>now2\<close> are the times the two insertions read.
\<close>

definition enqueue_allowed :: "enqueue_request \<Rightarrow> session \<Rightarrow> bool" where
  "enqueue_allowed req s = (fetch_lock (req_repo req) (req_pr_number req) (working s) = None)"

definition enqueue_insert ::
  "enqueue_request \<Rightarrow> int \<Rightarrow> int \<Rightarrow> session \<Rightarrow> job option \<times> session" where
  "enqueue_insert req now1 now2 s =
     (case session_exec (insert_job REVIEW (req_installation_id req) (req_repo req) (req_pr_number req)
           (req_head_sha req) (req_trigger_kind req) (req_extra_context req) now1) s of
        (j, s1) \<Rightarrow>
          (case session_exec (acquire_lock (req_repo req) (req_pr_number req) (job_id j) now2) s1 of
             (acquired, s2) \<Rightarrow>
               if \<not> acquired then (None, session_rollback s2)
               else (Some j, session_commit s2)))"

definition try_enqueue_review ::
  "enqueue_request \<Rightarrow> int \<Rightarrow> int \<Rightarrow> session \<Rightarrow> job option \<times> session" where
  "try_enqueue_review req now1 now2 s =
     (if \<not> enqueue_allowed req s then (None, s) else enqueue_insert req now1 now2 s)"

end
