(* ===== verification/StoreLaws.thy ===== *)
theory StoreLaws
  imports Storage
begin

text \<open>
  What the storage operations promise to the layers above, as interfaces: a store that accepts each
  key once (webhook deliveries, and PR locks, which can also be released) and a store of time stamps
  that grants a slot at most once per window (failure comments). The clients' facts are proved from
  the interfaces' laws; the interpretations discharge the laws for the tables.
\<close>

section \<open>A store that accepts each key once\<close>

fun run_puts ::
  "('k \<Rightarrow> 'a \<Rightarrow> 'db \<Rightarrow> bool \<times> 'db) \<Rightarrow> ('k \<times> 'a) list \<Rightarrow> 'db \<Rightarrow> ('k \<times> bool) list \<times> 'db" where
  "run_puts put [] db = ([], db)"
| "run_puts put ((k, a) # rest) db =
     (case put k a db of (b, db1) \<Rightarrow>
        (case run_puts put rest db1 of (bs, db2) \<Rightarrow> ((k, b) # bs, db2)))"

text \<open>How often a run accepted the key \<open>k\<close>.\<close>

definition accepted :: "'k \<Rightarrow> ('k \<times> bool) list \<Rightarrow> nat" where
  "accepted k rs = length (filter (\<lambda>r. fst r = k \<and> snd r) rs)"

locale once_store =
  fixes present :: "'db \<Rightarrow> 'k \<Rightarrow> bool"
    and put :: "'k \<Rightarrow> 'a \<Rightarrow> 'db \<Rightarrow> bool \<times> 'db"
  assumes put_result: "fst (put k a db) \<longleftrightarrow> \<not> present db k"
    and put_present: "present (snd (put k a db)) k' \<longleftrightarrow> k' = k \<or> present db k'"
    and put_taken: "present db k \<Longrightarrow> snd (put k a db) = db"
begin

lemma put_again: "present db k \<Longrightarrow> put k a db = (False, db)"
  using put_result [of k a db] put_taken [of db k a] by (metis prod.collapse)

lemma run_present: "present (snd (run_puts put ps db)) k \<longleftrightarrow> present db k \<or> k \<in> set (map fst ps)"
proof (induction ps arbitrary: db)
  case (Cons p ps)
  obtain k' a where p: "p = (k', a)" by (cases p)
  show ?case
    using Cons [of "snd (put k' a db)"] put_present [of k' a db k]
    by (auto simp: p split: prod.splits)
qed simp

lemma accepted_once:
  "accepted k (fst (run_puts put ps db)) = (if \<not> present db k \<and> k \<in> set (map fst ps) then 1 else 0)"
proof (induction ps arbitrary: db)
  case (Cons p ps)
  obtain k' a where p: "p = (k', a)" by (cases p)
  show ?case
    using Cons [of "snd (put k' a db)"] put_result [of k' a db] put_present [of k' a db k]
    by (auto simp: p accepted_def split: prod.splits) force+
qed (simp add: accepted_def)

end


locale lock_store = once_store present acquire
  for present :: "'db \<Rightarrow> 'k \<Rightarrow> bool" and acquire :: "'k \<Rightarrow> 'a \<Rightarrow> 'db \<Rightarrow> bool \<times> 'db" +
  fixes release :: "'k \<Rightarrow> 'db \<Rightarrow> 'db"
  assumes release_present: "present (release k db) k' \<longleftrightarrow> k' \<noteq> k \<and> present db k'"
begin

text \<open>Of two takers of one lock the second fails, until the lock is released.\<close>

lemma second_acquire_fails: "fst (acquire k b (snd (acquire k a db))) = False"
  by (simp add: put_result put_present)

lemma acquire_after_release: "fst (acquire k b (release k db))"
  by (simp add: put_result release_present)

lemma release_keeps_others: "k' \<noteq> k \<Longrightarrow> present (release k db) k' = present db k'"
  by (simp add: release_present)

end

section \<open>A store that grants one slot per window\<close>

fun run_claims ::
  "('k \<Rightarrow> int \<Rightarrow> 'db \<Rightarrow> bool \<times> 'db) \<Rightarrow> ('k \<times> int) list \<Rightarrow> 'db \<Rightarrow> ('k \<times> int) list \<times> 'db" where
  "run_claims claim [] db = ([], db)"
| "run_claims claim ((k, now) # rest) db =
     (case claim k now db of (granted, db1) \<Rightarrow>
        (case run_claims claim rest db1 of (gs, db2) \<Rightarrow>
           (if granted then (k, now) # gs else gs, db2)))"

text \<open>The times at which a run granted the slot of \<open>k\<close>.\<close>

definition granted_times :: "'k \<Rightarrow> ('k \<times> int) list \<Rightarrow> int list" where
  "granted_times k gs = map snd (filter (\<lambda>g. fst g = k) gs)"

locale slot_store =
  fixes last_grant :: "'db \<Rightarrow> 'k \<Rightarrow> int option"
    and claim :: "'k \<Rightarrow> int \<Rightarrow> 'db \<Rightarrow> bool \<times> 'db"
    and window :: int
  assumes claim_result: "fst (claim k now db) \<longleftrightarrow> (case last_grant db k of None \<Rightarrow> True | Some t \<Rightarrow> t + window \<le> now)"
    and claim_grants: "last_grant (snd (claim k now db)) k' =
      (if k' = k \<and> fst (claim k now db) then Some now else last_grant db k')"
begin

lemma granted_after_last:
  "0 \<le> window \<Longrightarrow> last_grant db k = Some t \<Longrightarrow>
   \<forall>u \<in> set (granted_times k (fst (run_claims claim cs db))). t + window \<le> u"
proof (induction cs arbitrary: db t)
  case (Cons c cs)
  obtain k' now where c: "c = (k', now)" by (cases c)
  show ?case
  proof (cases "k' = k \<and> fst (claim k' now db)")
    case True
    then have "t + window \<le> now" "last_grant (snd (claim k' now db)) k = Some now"
      using claim_result [of k now db] claim_grants [of k now db k] Cons.prems by auto
    with Cons.IH [of "snd (claim k' now db)" now] Cons.prems(1) True
    show ?thesis by (fastforce simp: c granted_times_def split: prod.splits)
  next
    case False
    then have "last_grant (snd (claim k' now db)) k = Some t"
      using claim_grants [of k' now db k] Cons.prems by auto
    with Cons.IH [of "snd (claim k' now db)" t] Cons.prems(1) False
    show ?thesis by (auto simp: c granted_times_def split: prod.splits)
  qed
qed (simp add: granted_times_def)

lemma grants_spaced:
  assumes "0 \<le> window"
  shows "sorted_wrt (\<lambda>t u. t + window \<le> u) (granted_times k (fst (run_claims claim cs db)))"
proof (induction cs arbitrary: db)
  case (Cons c cs)
  obtain k' now where c: "c = (k', now)" by (cases c)
  show ?case
    using Cons [of "snd (claim k' now db)"] granted_after_last [OF assms, of "snd (claim k' now db)" k now cs]
      claim_grants [of k' now db k]
    by (auto simp: c granted_times_def split: prod.splits)
qed (simp add: granted_times_def)

end

section \<open>The tables provide the interfaces\<close>

lemma insert_or_ignore_result:
  "fst (insert_or_ignore key row rows) \<longleftrightarrow> key row \<notin> key ` set rows"
  "key ` set (snd (insert_or_ignore key row rows)) = insert (key row) (key ` set rows)"
  "key row \<in> key ` set rows \<Longrightarrow> snd (insert_or_ignore key row rows) = rows"
  by (auto simp: insert_or_ignore_def)

lemma fetch_lock_None: "fetch_lock repo pr db = None \<longleftrightarrow> (repo, pr) \<notin> lock_key ` set (pr_locks db)"
  by (auto simp: fetch_lock_def find_None_iff image_iff)

lemma fst_record_delivery:
  "fst (record_delivery d now db) \<longleftrightarrow> d \<notin> delivery_id ` set (deliveries db)"
  using insert_or_ignore_result(1) [of delivery_id "\<lparr>delivery_id = d, delivery_received_at = now\<rparr>" "deliveries db"]
  by (simp add: record_delivery_def case_prod_unfold)

lemma deliveries_record_delivery:
  "delivery_id ` set (deliveries (snd (record_delivery d now db))) = insert d (delivery_id ` set (deliveries db))"
  using insert_or_ignore_result(2) [of delivery_id "\<lparr>delivery_id = d, delivery_received_at = now\<rparr>" "deliveries db"]
  by (simp add: record_delivery_def case_prod_unfold)

interpretation dedup: once_store "\<lambda>db d. d \<in> delivery_id ` set (deliveries db)" record_delivery
proof unfold_locales
  fix d now db d'
  show "fst (record_delivery d now db) \<longleftrightarrow> \<not> d \<in> delivery_id ` set (deliveries db)"
    by (rule fst_record_delivery)
  show "d' \<in> delivery_id ` set (deliveries (snd (record_delivery d now db))) \<longleftrightarrow>
      d' = d \<or> d' \<in> delivery_id ` set (deliveries db)"
    by (simp only: deliveries_record_delivery insert_iff)
  show "d \<in> delivery_id ` set (deliveries db) \<Longrightarrow> snd (record_delivery d now db) = db"
    by (auto simp: record_delivery_def insert_or_ignore_def)
qed

lemma locks_acquire_lock:
  "lock_key ` set (pr_locks (snd (acquire_lock repo pr jid now db))) =
    insert (repo, pr) (lock_key ` set (pr_locks db))"
  using insert_or_ignore_result(2) [of lock_key
      "\<lparr>lock_repo = repo, lock_pr_number = pr, lock_locked_at = now, lock_job_id = jid\<rparr>" "pr_locks db"]
  by (simp add: acquire_lock_def case_prod_unfold)

abbreviation lock_held :: "database \<Rightarrow> string \<times> int \<Rightarrow> bool" where
  "lock_held db k \<equiv> k \<in> lock_key ` set (pr_locks db)"

abbreviation lock_acquire :: "string \<times> int \<Rightarrow> int \<times> int \<Rightarrow> database \<Rightarrow> bool \<times> database" where
  "lock_acquire k a db \<equiv> acquire_lock (fst k) (snd k) (fst a) (snd a) db"

abbreviation lock_release :: "string \<times> int \<Rightarrow> database \<Rightarrow> database" where
  "lock_release k db \<equiv> release_lock (fst k) (snd k) db"

interpretation prlock: lock_store lock_held lock_acquire lock_release
proof unfold_locales
  fix k k' :: "string \<times> int" and a db
  let ?row = "\<lparr>lock_repo = fst k, lock_pr_number = snd k, lock_locked_at = snd a, lock_job_id = fst a\<rparr>"
  note r = insert_or_ignore_result [of lock_key ?row "pr_locks db"]
  show "fst (lock_acquire k a db) \<longleftrightarrow> \<not> lock_held db k"
    using r(1) by (simp add: acquire_lock_def case_prod_unfold)
  show "lock_held (snd (lock_acquire k a db)) k' \<longleftrightarrow> k' = k \<or> lock_held db k'"
    unfolding locks_acquire_lock by simp
  show "lock_held db k \<Longrightarrow> snd (lock_acquire k a db) = db"
    by (auto simp: acquire_lock_def insert_or_ignore_def)
  show "lock_held (lock_release k db) k' \<longleftrightarrow> k' \<noteq> k \<and> lock_held db k'"
    by (cases k; cases k') (auto simp: release_lock_def)
qed

text \<open>The cooldown slot as one access: the session is opened, used and closed.\<close>

definition claim_slot :: "int \<Rightarrow> string \<times> int \<Rightarrow> int \<Rightarrow> database \<Rightarrow> bool \<times> database" where
  "claim_slot cooldown_seconds k now db =
     (case claim_failure_slot (fst k) (snd k) cooldown_seconds now (session_open db) of
        (granted, s) \<Rightarrow> (granted, session_close s))"

definition last_posted :: "database \<Rightarrow> string \<times> int \<Rightarrow> int option" where
  "last_posted db k = map_option cooldown_last_posted_at
     (find (\<lambda>c. cooldown_repo c = fst k \<and> cooldown_pr_number c = snd k) (failure_cooldowns db))"

lemma find_key_upsert:
  assumes "\<And>c. cooldown_key (f c) = cooldown_key c" "cooldown_last_posted_at row = now"
    "\<And>c. cooldown_last_posted_at (f c) = now"
  shows "map_option cooldown_last_posted_at
      (find (\<lambda>c. cooldown_key c = k) (insert_or_update cooldown_key row f rows)) =
    (if k = cooldown_key row then Some now
     else map_option cooldown_last_posted_at (find (\<lambda>c. cooldown_key c = k) rows))"
proof (cases "cooldown_key row \<in> set (map cooldown_key rows)")
  case True
  have "map_option cooldown_last_posted_at (find (\<lambda>c. cooldown_key c = k)
        (map (\<lambda>r. if cooldown_key r = cooldown_key row then f r else r) rs)) =
      (if k = cooldown_key row \<and> k \<in> set (map cooldown_key rs) then Some now
       else map_option cooldown_last_posted_at (find (\<lambda>c. cooldown_key c = k) rs))" for rs
    using assms by (induction rs) (auto simp: prod_eq_iff)
  from this [of rows] True show ?thesis by (auto simp: insert_or_update_def)
next
  case False
  then have "find (\<lambda>c. cooldown_key c = k) (rows @ [row]) =
      (if k = cooldown_key row then Some row else find (\<lambda>c. cooldown_key c = k) rows)"
    by (induction rows) auto
  with False assms(2) show ?thesis by (simp add: insert_or_update_def)
qed

lemma last_posted_find:
  "last_posted db k = map_option cooldown_last_posted_at (find (\<lambda>c. cooldown_key c = k) (failure_cooldowns db))"
  by (simp add: last_posted_def prod_eq_iff)

lemma claim_slot_cases:
  "claim_slot w k now db =
    (if (case last_posted db k of None \<Rightarrow> True | Some t \<Rightarrow> t + microseconds w \<le> now)
     then (True, db\<lparr>failure_cooldowns := insert_or_update cooldown_key
         \<lparr>cooldown_repo = fst k, cooldown_pr_number = snd k, cooldown_last_posted_at = now\<rparr>
         (\<lambda>c. c\<lparr>cooldown_last_posted_at := now\<rparr>) (failure_cooldowns db)\<rparr>)
     else (False, db))"
  by (auto simp: claim_slot_def claim_failure_slot_def last_posted_def Let_def session_open_def
      session_close_def session_commit_def split: option.splits)

interpretation cooldown: slot_store last_posted "claim_slot w" "microseconds w" for w
proof (unfold_locales, goal_cases)
  case (1 k now db)
  then show ?case by (simp add: claim_slot_cases)
next
  case (2 k now db k')
  have "cooldown_key c = k \<longleftrightarrow> cooldown_repo c = fst k \<and> cooldown_pr_number c = snd k" for c
    by (auto simp: prod_eq_iff)
  then show ?case
    using find_key_upsert [of "\<lambda>c. c\<lparr>cooldown_last_posted_at := now\<rparr>"
        "\<lparr>cooldown_repo = fst k, cooldown_pr_number = snd k, cooldown_last_posted_at = now\<rparr>" now k'
        "failure_cooldowns db"]
    by (auto simp: claim_slot_cases last_posted_find)
qed

end
