(* ===== verification/JobLocks.thy ===== *)
theory JobLocks
  imports StoreLaws
begin

text \<open>
  The contract between the job table and the lock table: every lock belongs to an unfinished job of
  the same PR and every unfinished job holds the lock of its PR. Each operation of the storage layer
  that the program runs in a transaction keeps it, so a PR has at most one unfinished job.
\<close>

section \<open>The invariant\<close>

definition active :: "job \<Rightarrow> bool" where
  "active j \<longleftrightarrow> job_status j \<notin> set TERMINAL_JOB_STATUSES"

lemma active_iff: "active j \<longleftrightarrow> job_status j = PENDING \<or> job_status j = RUNNING"
  by (cases "job_status j") (simp_all add: active_def TERMINAL_JOB_STATUSES_def)

text \<open>The primary keys are unique.\<close>

definition keys_ok :: "database \<Rightarrow> bool" where
  "keys_ok db \<longleftrightarrow>
     distinct (map delivery_id (deliveries db)) \<and> distinct (map job_id (jobs db)) \<and>
     distinct (map lock_key (pr_locks db)) \<and> distinct (map posted_id (reviews_posted db)) \<and>
     distinct (map cooldown_key (failure_cooldowns db))"

definition locks_ok :: "database \<Rightarrow> bool" where
  "locks_ok db \<longleftrightarrow>
     (\<forall>l \<in> set (pr_locks db). \<exists>j \<in> set (jobs db).
        job_id j = lock_job_id l \<and> job_key j = lock_key l \<and> active j) \<and>
     (\<forall>j \<in> set (jobs db). active j \<longrightarrow>
        (\<exists>l \<in> set (pr_locks db). lock_job_id l = job_id j \<and> lock_key l = job_key j))"

definition store_ok :: "database \<Rightarrow> bool" where
  "store_ok db \<longleftrightarrow> keys_ok db \<and> locks_ok db"

lemma store_ok_empty: "store_ok empty_database"
  by (simp add: store_ok_def keys_ok_def locks_ok_def empty_database_def)

lemma same_job_id: "keys_ok db \<Longrightarrow> j \<in> set (jobs db) \<Longrightarrow> k \<in> set (jobs db) \<Longrightarrow> job_id j = job_id k \<Longrightarrow> j = k"
  by (auto simp: keys_ok_def dest: distinct_map_eqD)

lemma same_lock_key:
  "keys_ok db \<Longrightarrow> l \<in> set (pr_locks db) \<Longrightarrow> m \<in> set (pr_locks db) \<Longrightarrow> lock_key l = lock_key m \<Longrightarrow> l = m"
  unfolding keys_ok_def by (metis distinct_map_eqD)

lemma one_active_job:
  assumes "store_ok db" "j \<in> set (jobs db)" "k \<in> set (jobs db)" "active j" "active k" "job_key j = job_key k"
  shows "j = k"
proof -
  have keys: "keys_ok db" and locks: "locks_ok db" using assms(1) by (simp_all add: store_ok_def)
  obtain l where l: "l \<in> set (pr_locks db)" "lock_job_id l = job_id j" "lock_key l = job_key j"
    using locks assms(2,4) by (auto simp: locks_ok_def)
  obtain m where m: "m \<in> set (pr_locks db)" "lock_job_id m = job_id k" "lock_key m = job_key k"
    using locks assms(3,5) by (auto simp: locks_ok_def)
  have "l = m" using same_lock_key [OF keys l(1) m(1)] l(3) m(3) assms(6) by simp
  then have "job_id j = job_id k" using l(2) m(2) by simp
  then show ?thesis using same_job_id [OF keys assms(2,3)] by simp
qed

lemma active_holds_lock:
  "store_ok db \<Longrightarrow> j \<in> set (jobs db) \<Longrightarrow> active j \<Longrightarrow> lock_held db (job_key j)"
  by (auto simp: store_ok_def locks_ok_def image_iff) metis

section \<open>Enqueueing\<close>

text \<open>The insertion transaction on its own session: opened, run, closed.\<close>

definition enqueue_tx :: "enqueue_request \<Rightarrow> int \<Rightarrow> int \<Rightarrow> database \<Rightarrow> job option \<times> database" where
  "enqueue_tx req now1 now2 db =
     (case enqueue_insert req now1 now2 (session_open db) of (r, s) \<Rightarrow> (r, session_close s))"

abbreviation req_key :: "enqueue_request \<Rightarrow> string \<times> int" where
  "req_key req \<equiv> (req_repo req, req_pr_number req)"

definition new_job :: "enqueue_request \<Rightarrow> int \<Rightarrow> database \<Rightarrow> job" where
  "new_job req now db =
     \<lparr>job_id = fresh_id (map job_id (jobs db)), job_type = REVIEW,
      job_installation_id = req_installation_id req, job_repo = req_repo req,
      job_pr_number = req_pr_number req, job_head_sha = req_head_sha req,
      job_trigger_kind = req_trigger_kind req, job_extra_context = req_extra_context req,
      job_status = PENDING, job_status_detail = None, job_attempts = 0,
      job_created_at = now, job_updated_at = now, job_error = None\<rparr>"

definition new_lock :: "enqueue_request \<Rightarrow> int \<Rightarrow> database \<Rightarrow> pr_lock" where
  "new_lock req now db = \<lparr>lock_repo = req_repo req, lock_pr_number = req_pr_number req,
     lock_locked_at = now, lock_job_id = fresh_id (map job_id (jobs db))\<rparr>"

lemma enqueue_insert_cases:
  "enqueue_insert req now1 now2 (session_open db) =
    (if lock_held db (req_key req) then (None, session_open db)
     else (let db' = db\<lparr>jobs := jobs db @ [new_job req now1 db], pr_locks := pr_locks db @ [new_lock req now2 db]\<rparr>
           in (Some (new_job req now1 db), session_open db')))"
  by (auto simp: enqueue_insert_def session_exec_def insert_job_def acquire_lock_def insert_or_ignore_def
      session_open_def session_commit_def session_rollback_def new_job_def new_lock_def Let_def)

lemma enqueue_tx_cases:
  "enqueue_tx req now1 now2 db =
    (if lock_held db (req_key req) then (None, db)
     else (Some (new_job req now1 db),
       db\<lparr>jobs := jobs db @ [new_job req now1 db], pr_locks := pr_locks db @ [new_lock req now2 db]\<rparr>))"
  unfolding enqueue_tx_def enqueue_insert_cases by (simp add: Let_def session_close_def session_open_def)

lemma fresh_job_id: "job_id j = fresh_id (map job_id (jobs db)) \<Longrightarrow> j \<notin> set (jobs db)"
  by (metis fresh_id_notin image_eqI list.set_map)

lemma store_ok_enqueue_tx:
  assumes ok: "store_ok db"
  shows "store_ok (snd (enqueue_tx req now1 now2 db))"
proof (cases "lock_held db (req_key req)")
  case True
  then show ?thesis using ok by (simp add: enqueue_tx_cases)
next
  case False
  have "keys_ok (snd (enqueue_tx req now1 now2 db))"
    using ok False fresh_id_notin [of "map job_id (jobs db)"]
    by (auto simp: store_ok_def keys_ok_def enqueue_tx_cases new_job_def new_lock_def)
  moreover have "locks_ok (snd (enqueue_tx req now1 now2 db))"
    using ok False
    by (auto simp: store_ok_def locks_ok_def enqueue_tx_cases new_job_def new_lock_def active_iff)
  ultimately show ?thesis by (simp add: store_ok_def)
qed

section \<open>Changing the status of a job\<close>

definition set_status ::
  "job_status \<Rightarrow> string option \<Rightarrow> string option \<Rightarrow> int \<Rightarrow> job \<Rightarrow> job" where
  "set_status st detail err now j =
     j\<lparr>job_status := st, job_status_detail := detail, job_error := err, job_updated_at := now\<rparr>"

lemma set_status_simps [simp]:
  "job_id (set_status st d e now j) = job_id j" "job_repo (set_status st d e now j) = job_repo j"
  "job_pr_number (set_status st d e now j) = job_pr_number j"
  "job_status (set_status st d e now j) = st"
  by (simp_all add: set_status_def)

lemma jobs_update_job_status:
  "jobs (update_job_status jid st d e now db) =
    map (\<lambda>j. if job_id j = jid then set_status st d e now j else j) (jobs db)"
  by (simp add: update_job_status_def set_status_def)

lemma update_job_status_others [simp]:
  "deliveries (update_job_status jid st d e now db) = deliveries db"
  "pr_locks (update_job_status jid st d e now db) = pr_locks db"
  "reviews_posted (update_job_status jid st d e now db) = reviews_posted db"
  "failure_cooldowns (update_job_status jid st d e now db) = failure_cooldowns db"
  by (simp_all add: update_job_status_def)

lemma map_job_id_update [simp]:
  "map job_id (jobs (update_job_status jid st d e now db)) = map job_id (jobs db)"
  by (simp add: jobs_update_job_status)

text \<open>Starting a pending job.\<close>

lemma store_ok_start:
  assumes ok: "store_ok db" and j: "j \<in> set (jobs db)" "active j"
  shows "store_ok (update_job_status (job_id j) RUNNING d e now db)"
proof -
  let ?db = "update_job_status (job_id j) RUNNING d e now db"
  let ?u = "\<lambda>k. if job_id k = job_id j then set_status RUNNING d e now k else k"
  have keys: "keys_ok db" and locks: "locks_ok db" using ok by (simp_all add: store_ok_def)
  have jobs': "jobs ?db = map ?u (jobs db)" by (simp add: jobs_update_job_status)
  have u: "job_id (?u k) = job_id k" "job_key (?u k) = job_key k" "active k \<Longrightarrow> active (?u k)" for k
    by (auto simp: active_iff)
  have was_active: "active k" if "k \<in> set (jobs db)" "active (?u k)" for k
    using that same_job_id [OF keys that(1) j(1)] j(2) by (auto split: if_splits)
  have "keys_ok ?db" using keys unfolding keys_ok_def by simp
  moreover have "locks_ok ?db"
    unfolding locks_ok_def
  proof (intro conjI ballI impI)
    fix l assume "l \<in> set (pr_locks ?db)"
    then obtain k where k: "k \<in> set (jobs db)" "job_id k = lock_job_id l" "job_key k = lock_key l" "active k"
      using locks by (auto simp: locks_ok_def)
    then have "?u k \<in> set (jobs ?db)" unfolding jobs' set_map by (intro imageI)
    moreover have "job_id (?u k) = lock_job_id l" using u(1) [of k] k(2) by (rule trans)
    moreover have "job_key (?u k) = lock_key l" using u(2) [of k] k(3) by (rule trans)
    ultimately show "\<exists>k \<in> set (jobs ?db). job_id k = lock_job_id l \<and> job_key k = lock_key l \<and> active k"
      using u(3) [OF k(4)] by blast
  next
    fix k' assume k': "k' \<in> set (jobs ?db)" "active k'"
    then obtain k where k: "k \<in> set (jobs db)" "k' = ?u k" unfolding jobs' by auto
    then have "active k" using was_active k'(2) by blast
    then obtain l where "l \<in> set (pr_locks db)" "lock_job_id l = job_id k" "lock_key l = job_key k"
      using locks k(1) by (auto simp: locks_ok_def)
    then show "\<exists>l \<in> set (pr_locks ?db). lock_job_id l = job_id k' \<and> lock_key l = job_key k'"
      unfolding k(2) u(1,2) by auto
  qed
  ultimately show ?thesis by (simp add: store_ok_def)
qed

text \<open>Finishing an unfinished job and releasing the lock of its PR.\<close>

lemma store_ok_finish:
  assumes ok: "store_ok db" and j: "j \<in> set (jobs db)" "active j"
    and terminal: "st \<in> set TERMINAL_JOB_STATUSES"
    and key: "repo = job_repo j" "pr = job_pr_number j"
  shows "store_ok (release_lock repo pr (update_job_status (job_id j) st d e now db))"
proof -
  let ?db = "release_lock repo pr (update_job_status (job_id j) st d e now db)"
  have locks: "pr_locks ?db = filter (\<lambda>l. lock_key l \<noteq> job_key j) (pr_locks db)"
    by (simp add: release_lock_def key)
  have jobs': "jobs ?db = map (\<lambda>k. if job_id k = job_id j then set_status st d e now k else k) (jobs db)"
    by (simp add: release_lock_def jobs_update_job_status)
  have keys: "keys_ok db" using ok by (simp add: store_ok_def)
  then have "keys_ok ?db"
    by (simp add: keys_ok_def locks jobs' comp_def if_distrib [of job_id] distinct_map_filter cong: if_cong)
      (simp add: release_lock_def)
  moreover have "\<exists>k \<in> set (jobs ?db). job_id k = lock_job_id l \<and> job_key k = lock_key l \<and> active k"
    if "l \<in> set (pr_locks ?db)" for l
  proof -
    have l: "l \<in> set (pr_locks db)" "lock_key l \<noteq> job_key j" using that by (simp_all add: locks)
    then obtain k where k: "k \<in> set (jobs db)" "job_id k = lock_job_id l" "job_key k = lock_key l" "active k"
      using ok by (auto simp: store_ok_def locks_ok_def)
    then have "job_id k \<noteq> job_id j" using same_job_id [OF keys k(1) j(1)] l(2) by auto
    then have "k \<in> set (jobs ?db)" using k(1) by (auto simp: jobs' image_iff)
    with k show ?thesis by blast
  qed
  moreover have "\<exists>l \<in> set (pr_locks ?db). lock_job_id l = job_id k \<and> lock_key l = job_key k"
    if k: "k \<in> set (jobs ?db)" "active k" for k
  proof -
    have "\<not> active (set_status st d e now i)" for i using terminal by (simp add: active_def)
    then have k': "k \<in> set (jobs db)" "job_id k \<noteq> job_id j" using k by (auto simp: jobs' split: if_splits)
    then have "job_key k \<noteq> job_key j" using one_active_job [OF ok k'(1) j(1) k(2) j(2)] by auto
    moreover obtain l where "l \<in> set (pr_locks db)" "lock_job_id l = job_id k" "lock_key l = job_key k"
      using ok k' k(2) by (auto simp: store_ok_def locks_ok_def)
    ultimately show ?thesis by (auto simp: locks)
  qed
  ultimately show ?thesis by (simp add: store_ok_def locks_ok_def)
qed

section \<open>Recovery\<close>

definition recover_job :: "int \<Rightarrow> job \<Rightarrow> job" where
  "recover_job now j =
     (if job_status j = RUNNING
      then j\<lparr>job_status := FAILED, job_status_detail := Some (status_detail_value INTERRUPTED_BY_RESTART),
             job_error := (case job_error j of None \<Rightarrow> Some INTERRUPTED_ERROR | Some e \<Rightarrow> Some e),
             job_updated_at := now\<rparr>
      else j)"

lemma recover_job_simps [simp]:
  "job_id (recover_job now j) = job_id j" "job_repo (recover_job now j) = job_repo j"
  "job_pr_number (recover_job now j) = job_pr_number j"
  "active (recover_job now j) \<longleftrightarrow> job_status j = PENDING"
  "job_status (recover_job now j) = (if job_status j = RUNNING then FAILED else job_status j)"
  by (auto simp: recover_job_def active_iff)

lemma recover_on_startup_fields:
  "jobs (snd (recover_on_startup now db)) = map (recover_job now) (jobs db)"
  "pr_locks (snd (recover_on_startup now db)) =
     filter (\<lambda>l. \<forall>j \<in> set (jobs db). job_id j = lock_job_id l \<longrightarrow> active (recover_job now j)) (pr_locks db)"
  "deliveries (snd (recover_on_startup now db)) = deliveries db"
  "reviews_posted (snd (recover_on_startup now db)) = reviews_posted db"
  "failure_cooldowns (snd (recover_on_startup now db)) = failure_cooldowns db"
  "fst (recover_on_startup now db) = length (filter (\<lambda>j. job_status j = RUNNING) (jobs db))"
proof -
  let ?db1 = "db\<lparr>jobs := map (recover_job now) (jobs db)\<rparr>"
  have step: "recover_on_startup now db =
      (length (filter (\<lambda>j. job_status j = RUNNING) (jobs db)),
       ?db1\<lparr>pr_locks := filter (\<lambda>l. lock_job_id l \<notin> set (terminal_job_ids ?db1)) (pr_locks db)\<rparr>)"
    by (simp add: recover_on_startup_def Let_def recover_job_def [abs_def])
  have "lock_job_id l \<notin> set (terminal_job_ids ?db1) \<longleftrightarrow>
      (\<forall>j \<in> set (jobs db). job_id j = lock_job_id l \<longrightarrow> active (recover_job now j))" for l :: pr_lock
    by (auto simp: terminal_job_ids_def active_def image_iff simp del: recover_job_simps(5))
  then show "pr_locks (snd (recover_on_startup now db)) =
     filter (\<lambda>l. \<forall>j \<in> set (jobs db). job_id j = lock_job_id l \<longrightarrow> active (recover_job now j)) (pr_locks db)"
    unfolding step by simp
qed (simp_all add: recover_on_startup_def Let_def recover_job_def [abs_def])

lemma store_ok_recover:
  assumes ok: "store_ok db"
  shows "store_ok (snd (recover_on_startup now db))"
proof -
  let ?db = "snd (recover_on_startup now db)"
  have keys: "keys_ok db" and locks: "locks_ok db" using ok by (simp_all add: store_ok_def)
  have "keys_ok ?db"
    using keys by (simp add: keys_ok_def recover_on_startup_fields comp_def distinct_map_filter)
  moreover have "\<exists>k \<in> set (jobs ?db). job_id k = lock_job_id l \<and> job_key k = lock_key l \<and> active k"
    if l: "l \<in> set (pr_locks ?db)" for l
  proof -
    obtain j where j: "j \<in> set (jobs db)" "job_id j = lock_job_id l" "job_key j = lock_key l"
      using locks l by (auto simp: locks_ok_def recover_on_startup_fields)
    then have "active (recover_job now j)" using l by (simp add: recover_on_startup_fields)
    then show ?thesis using j by (intro bexI [of _ "recover_job now j"]) (auto simp: recover_on_startup_fields)
  qed
  moreover have "\<exists>l \<in> set (pr_locks ?db). lock_job_id l = job_id k \<and> lock_key l = job_key k"
    if k: "k \<in> set (jobs ?db)" "active k" for k
  proof -
    obtain j where j: "j \<in> set (jobs db)" "k = recover_job now j"
      using k(1) by (auto simp: recover_on_startup_fields)
    then have pending: "job_status j = PENDING" using k(2) by simp
    then obtain l where l: "l \<in> set (pr_locks db)" "lock_job_id l = job_id j" "lock_key l = job_key j"
      using locks j(1) by (auto simp: locks_ok_def active_iff)
    have "active (recover_job now i)" if "i \<in> set (jobs db)" "job_id i = lock_job_id l" for i
      using same_job_id [OF keys that(1) j(1)] that(2) l(2) pending by simp
    then have "l \<in> set (pr_locks ?db)" using l(1) by (simp add: recover_on_startup_fields)
    then show ?thesis using l(2,3) j(2) by auto
  qed
  ultimately show ?thesis by (simp add: store_ok_def locks_ok_def)
qed

section \<open>The other tables\<close>

lemma store_ok_record_delivery:
  "store_ok db \<Longrightarrow> store_ok (snd (record_delivery d now db))"
  by (auto simp: store_ok_def keys_ok_def locks_ok_def record_delivery_def insert_or_ignore_def)

lemma store_ok_record_review_posted:
  assumes "store_ok db"
  shows "store_ok (snd (record_review_posted repo pr sha rid dur n now db))"
  using assms fresh_id_notin [of "map posted_id (reviews_posted db)"]
  by (auto simp: store_ok_def keys_ok_def locks_ok_def record_review_posted_def Let_def)

lemma distinct_insert_or_update:
  assumes "\<And>r. key (f r) = key r" "distinct (map key rows)"
  shows "distinct (map key (insert_or_update key row f rows))"
  using assms by (auto simp: insert_or_update_def comp_def if_distrib [of key] cong: if_cong)

lemma store_ok_claim_slot: "store_ok db \<Longrightarrow> store_ok (snd (claim_slot w k now db))"
  by (auto simp: store_ok_def keys_ok_def locks_ok_def claim_slot_cases intro!: distinct_insert_or_update)

section \<open>The properties of the store\<close>

text \<open>However often a delivery id arrives and whatever arrives in between, the delivery is
  accepted as new exactly once if it was not known before, and never if it was.\<close>

lemma record_delivery_once:
  "accepted d (fst (run_puts record_delivery ds db)) =
     (if d \<notin> delivery_id ` set (deliveries db) \<and> d \<in> set (map fst ds) then 1 else 0)"
  by (rule dedup.accepted_once)

text \<open>C32: the failure comments granted to a PR over any sequence of requests, in whatever order
  their clock readings come, are at least the cooldown apart.\<close>

theorem failure_slots_spaced:
  assumes "0 \<le> w"
  shows "sorted_wrt (\<lambda>t u. t + microseconds w \<le> u) (granted_times k (fst (run_claims (claim_slot w) cs db)))"
  by (rule cooldown.grants_spaced) (use assms in \<open>simp add: microseconds_def\<close>)

theorem failure_slots_spaced_witness:
  "sorted_wrt (\<lambda>t u. t + microseconds 60 \<le> u)
    (granted_times (''o/r'', 1) (fst (run_claims (claim_slot 60)
       [((''o/r'', 1), 5), ((''o/r'', 1), 60000004), ((''o/r'', 1), 60000005)] empty_database)))
   \<and> granted_times (''o/r'', 1) (fst (run_claims (claim_slot 60)
       [((''o/r'', 1), 5), ((''o/r'', 1), 60000004), ((''o/r'', 1), 60000005)] empty_database)) = [5, 60000005]"
  using failure_slots_spaced [of 60 "(''o/r'', 1)" "[((''o/r'', 1), 5), ((''o/r'', 1), 60000004), ((''o/r'', 1), 60000005)]"
      empty_database]
  by (simp add: claim_slot_def claim_failure_slot_def empty_database_def session_open_def
      session_commit_def session_close_def microseconds_def insert_or_update_def granted_times_def)

text \<open>C21: an enqueue request either finds the PR locked and leaves the database as it was, or
  inserts one pending job under a new id together with the PR's lock for that job.\<close>

theorem try_enqueue_review_all_or_nothing:
  "(case try_enqueue_review req now1 now2 (session_open db) of
      (None, s) \<Rightarrow> lock_held db (req_key req) \<and> session_close s = db
    | (Some j, s) \<Rightarrow>
        \<not> lock_held db (req_key req) \<and> job_status j = PENDING \<and> job_key j = req_key req \<and>
        job_id j \<notin> job_id ` set (jobs db) \<and>
        session_close s = db\<lparr>jobs := jobs db @ [j],
          pr_locks := pr_locks db @ [\<lparr>lock_repo = job_repo j, lock_pr_number = job_pr_number j,
            lock_locked_at = now2, lock_job_id = job_id j\<rparr>]\<rparr>)"
proof (cases "lock_held db (req_key req)")
  case True
  then show ?thesis
    by (simp add: try_enqueue_review_def enqueue_allowed_def fetch_lock_None session_open_def session_close_def)
next
  case False
  then have "try_enqueue_review req now1 now2 (session_open db) = enqueue_insert req now1 now2 (session_open db)"
    by (simp add: try_enqueue_review_def enqueue_allowed_def fetch_lock_None session_open_def)
  then have r: "try_enqueue_review req now1 now2 (session_open db) =
      (Some (new_job req now1 db), session_open (db\<lparr>jobs := jobs db @ [new_job req now1 db],
         pr_locks := pr_locks db @ [new_lock req now2 db]\<rparr>))"
    by (simp add: enqueue_insert_cases False Let_def)
  have "job_id (new_job req now1 db) \<notin> job_id ` set (jobs db)"
    using fresh_id_notin [of "map job_id (jobs db)"] by (simp add: new_job_def)
  then show ?thesis
    using False unfolding r by (simp add: session_open_def session_close_def new_lock_def) (simp add: new_job_def)
qed

text \<open>Recovery fails every running job, reports how many there were, leaves the pending jobs
  and their locks alone and removes the locks of all others; the contract between jobs and locks
  holds after it.\<close>

lemma recover_on_startup_clears_running:
  assumes "store_ok db"
  shows "(case recover_on_startup now db of (n, db') \<Rightarrow>
      n = length (filter (\<lambda>j. job_status j = RUNNING) (jobs db)) \<and>
      store_ok db' \<and>
      filter (\<lambda>j. job_status j = PENDING) (jobs db') = filter (\<lambda>j. job_status j = PENDING) (jobs db) \<and>
      (\<forall>j \<in> set (jobs db'). job_status j \<noteq> RUNNING) \<and>
      lock_job_id ` set (pr_locks db') = job_id ` {j \<in> set (jobs db). job_status j = PENDING})"
proof -
  obtain n db' where r: "recover_on_startup now db = (n, db')" by fastforce
  have ok': "store_ok db'" using store_ok_recover [OF assms, of now] r by simp
  have fields: "jobs db' = map (recover_job now) (jobs db)"
    "n = length (filter (\<lambda>j. job_status j = RUNNING) (jobs db))"
    using recover_on_startup_fields(1,6) [of now db] r by simp_all
  have "filter (\<lambda>j. job_status j = PENDING) (map (recover_job now) js) = filter (\<lambda>j. job_status j = PENDING) js" for js
    by (induction js) (auto simp: recover_job_def)
  moreover have "\<forall>j \<in> set (jobs db'). job_status j \<noteq> RUNNING" by (simp add: fields)
  moreover have "lock_job_id ` set (pr_locks db') = job_id ` {j \<in> set (jobs db'). active j}"
    using ok' by (auto simp: store_ok_def locks_ok_def image_iff) metis+
  moreover have "job_id ` {j \<in> set (jobs db'). active j} = job_id ` {j \<in> set (jobs db). job_status j = PENDING}"
  proof -
    have "{j \<in> set (jobs db'). active j} = recover_job now ` {j \<in> set (jobs db). job_status j = PENDING}"
      by (auto simp: fields)
    then show ?thesis by (simp add: image_image)
  qed
  ultimately show ?thesis by (simp add: r ok' fields)
qed

definition sample_request :: enqueue_request where
  "sample_request = \<lparr>req_installation_id = 7, req_repo = ''o/r'', req_pr_number = 1,
     req_head_sha = ''sha'', req_trigger_kind = AUTO, req_extra_context = None\<rparr>"

definition sample_running :: database where
  "sample_running = update_job_status 1 RUNNING None None 20 (snd (enqueue_tx sample_request 10 10 empty_database))"

lemma sample_running_eval:
  "jobs sample_running = [\<lparr>job_id = 1, job_type = REVIEW, job_installation_id = 7, job_repo = ''o/r'',
      job_pr_number = 1, job_head_sha = ''sha'', job_trigger_kind = AUTO, job_extra_context = None,
      job_status = RUNNING, job_status_detail = None, job_attempts = 0, job_created_at = 10,
      job_updated_at = 20, job_error = None\<rparr>]"
  "pr_locks sample_running = [\<lparr>lock_repo = ''o/r'', lock_pr_number = 1, lock_locked_at = 10, lock_job_id = 1\<rparr>]"
  by (simp_all add: sample_running_def enqueue_tx_cases sample_request_def empty_database_def new_job_def
      new_lock_def fresh_id_def update_job_status_def)

lemma store_ok_sample_running: "store_ok sample_running"
proof -
  have "store_ok (snd (enqueue_tx sample_request 10 10 empty_database))"
    by (rule store_ok_enqueue_tx [OF store_ok_empty])
  then show ?thesis unfolding sample_running_def
    using store_ok_start [of "snd (enqueue_tx sample_request 10 10 empty_database)"
        "new_job sample_request 10 empty_database" None None 20]
    by (simp add: enqueue_tx_cases empty_database_def new_job_def fresh_id_def active_iff)
qed

lemma sample_running_not_pending: "{j \<in> set (jobs sample_running). job_status j = PENDING} = {}"
  by (auto simp: sample_running_eval)

lemma recover_on_startup_clears_running_witness:
  "(case recover_on_startup 30 sample_running of (n, db') \<Rightarrow>
      n = 1 \<and> store_ok db' \<and> (\<forall>j \<in> set (jobs db'). job_status j \<noteq> RUNNING) \<and>
      lock_job_id ` set (pr_locks db') = {})"
  using recover_on_startup_clears_running [OF store_ok_sample_running, of 30]
  unfolding sample_running_not_pending by (auto simp: sample_running_eval)

end
