(* ===== verification/Config.thy ===== *)
theory Config
  imports Effects
begin

text \<open>
  The operator's configuration, \<open>config/operator.py\<close>: the sections as records with the defaults of
  their fields and the constraints written on them, and \<open>OperatorConfig.load\<close>. YAML and the pydantic
  constructors are packages: they are the fields of \<open>yaml_lib\<close> and the arguments \<open>build\<close> and
  \<open>validate\<close> of the definitions that call them.
\<close>

section \<open>YAML documents\<close>

text \<open>
  What the code asks of a parsed document \<open>'y\<close>: \<open>yaml_load\<close> is \<open>yaml.safe_load\<close>; the others are
  \<open>x is None\<close>, \<open>bool(x)\<close>, \<open>isinstance(x, dict)\<close>, \<open>type(x).__name__\<close> and the literal \<open>{}\<close>.
\<close>

record 'y yaml_lib =
  yaml_load :: "string \<Rightarrow> exc + 'y"
  yaml_is_none :: "'y \<Rightarrow> bool"
  yaml_truthy :: "'y \<Rightarrow> bool"
  yaml_is_dict :: "'y \<Rightarrow> bool"
  yaml_type_name :: "'y \<Rightarrow> string"
  yaml_empty_dict :: 'y

abbreviation YAMLError :: exc_class where
  "YAMLError \<equiv> OtherError ''YAMLError''"

abbreviation OSError :: exc_class where
  "OSError \<equiv> OtherError ''OSError''"

section \<open>The sections\<close>

record github_config =
  app_id :: int
  private_key_path :: string

record llm_config =
  llm_base_url :: string
  llm_model :: string
  llm_temperature :: rat
  llm_timeout_seconds :: int
  llm_max_tokens :: int
  llm_extra_body :: "(string \<times> json) list"

text \<open>\<open>'n\<close> is the type of the networks of \<open>ipaddress\<close>.\<close>

record 'n server_config =
  server_host :: string
  server_port :: int
  forwarded_allow_ips :: "'n list"

datatype log_level = DEBUG | INFO | WARNING | ERROR | CRITICAL

datatype log_format = JSON_FORMAT | CONSOLE_FORMAT

record logging_config =
  log_level_of :: log_level
  log_format_of :: log_format

record pipeline_config =
  max_files :: int
  max_chunks :: int
  max_chunk_chars :: int
  max_conversation_chars :: int
  max_concurrent_reviews :: int
  job_timeout_seconds :: int
  failure_comment_cooldown_seconds :: int

record defaults_config =
  defaults_enabled :: bool
  defaults_allowed_associations :: "string list"
  defaults_strictness :: strictness
  defaults_include_conversation :: bool

record 'n operator_config =
  op_github :: github_config
  op_llm :: llm_config
  op_server :: "'n server_config"
  op_db_path :: string
  op_logging :: logging_config
  op_pipeline :: pipeline_config
  op_defaults :: defaults_config
  op_webhook_secret :: string
  op_llm_api_key :: "string option"

text \<open>The values of absent fields.\<close>

definition default_server :: "'n server_config" where
  "default_server = \<lparr>server_host = ''127.0.0.1'', server_port = 8080, forwarded_allow_ips = []\<rparr>"

definition default_logging :: logging_config where
  "default_logging = \<lparr>log_level_of = INFO, log_format_of = JSON_FORMAT\<rparr>"

definition default_pipeline :: pipeline_config where
  "default_pipeline = \<lparr>max_files = 50, max_chunks = 5, max_chunk_chars = 80000,
     max_conversation_chars = 15000, max_concurrent_reviews = 1, job_timeout_seconds = 900,
     failure_comment_cooldown_seconds = 3600\<rparr>"

definition default_defaults :: defaults_config where
  "default_defaults = \<lparr>defaults_enabled = DEFAULT_ENABLED,
     defaults_allowed_associations = DEFAULT_ALLOWED_ASSOCIATIONS,
     defaults_strictness = DEFAULT_STRICTNESS,
     defaults_include_conversation = DEFAULT_INCLUDE_CONVERSATION\<rparr>"

text \<open>The constraints \<open>ge\<close> and \<open>le\<close> on the fields.\<close>

definition pipeline_valid :: "pipeline_config \<Rightarrow> bool" where
  "pipeline_valid p \<longleftrightarrow> 1 \<le> max_files p \<and> 1 \<le> max_chunks p \<and> 1 \<le> max_chunk_chars p \<and>
     0 \<le> max_conversation_chars p \<and> 1 \<le> max_concurrent_reviews p \<and> 1 \<le> job_timeout_seconds p \<and>
     0 \<le> failure_comment_cooldown_seconds p"

definition llm_valid :: "llm_config \<Rightarrow> bool" where
  "llm_valid c \<longleftrightarrow> 1 \<le> llm_timeout_seconds c \<and> 1 \<le> llm_max_tokens c"

definition server_valid :: "'n server_config \<Rightarrow> bool" where
  "server_valid c \<longleftrightarrow> 1 \<le> server_port c \<and> server_port c \<le> 65535"

lemma default_pipeline_valid: "pipeline_valid default_pipeline"
  by (simp add: pipeline_valid_def default_pipeline_def)

lemma default_server_valid: "server_valid default_server"
  by (simp add: server_valid_def default_server_def)

text \<open>
  The validator of \<open>forwarded_allow_ips\<close>. An entry is a network, a string or something else, which is
  given by its \<open>repr\<close>; \<open>ip_network\<close> is the function of \<open>ipaddress\<close> with \<open>strict=False\<close>.
\<close>

datatype 'n raw_network = Network 'n | NetworkText string | NoNetwork string

fun parse_networks :: "(string \<Rightarrow> exc + 'n) \<Rightarrow> 'n raw_network list \<Rightarrow> exc + 'n list" where
  "parse_networks ip_network [] = Inr []"
| "parse_networks ip_network (item # items) =
     (case (case item of
          Network n \<Rightarrow> Inr n
        | NetworkText s \<Rightarrow> ip_network s
        | NoNetwork r \<Rightarrow> Inl (raised ValueError (''forwarded_allow_ips entries must be CIDR strings, got '' @ r))) of
        Inl e \<Rightarrow> Inl e
      | Inr n \<Rightarrow> map_sum id ((#) n) (parse_networks ip_network items))"

text \<open>A value that is no list, given by what YAML read, is left to the validation of the field.\<close>

datatype ('n, 'y) raw_networks = NetworkList "'n raw_network list" | NoList 'y

fun validate_networks :: "(string \<Rightarrow> exc + 'n) \<Rightarrow> ('n, 'y) raw_networks \<Rightarrow> exc + ('n, 'y) raw_networks" where
  "validate_networks ip_network (NoList raw) = Inr (NoList raw)"
| "validate_networks ip_network (NetworkList raw) =
     map_sum id (\<lambda>ns. NetworkList (map Network ns)) (parse_networks ip_network raw)"

lemma parse_networks_Network [simp]: "parse_networks ip_network (map Network ns) = Inr ns"
  by (induction ns) simp_all

text \<open>What the validator returns it accepts again, unchanged; a list is returned with an entry that is a
  network for each of its entries.\<close>

lemma validate_networks_idem:
  "validate_networks ip_network raw = Inr v \<Longrightarrow> validate_networks ip_network v = Inr v"
  by (cases raw; cases "parse_networks ip_network (case raw of NetworkList l \<Rightarrow> l | NoList _ \<Rightarrow> [])") auto

lemma parse_networks_length: "parse_networks ip_network raw = Inr ns \<Longrightarrow> length ns = length raw"
proof (induction raw arbitrary: ns)
  case (Cons item items)
  then show ?case
    by (cases "parse_networks ip_network items") (auto split: sum.splits raw_network.splits)
qed simp

section \<open>Loading\<close>

definition DEFAULT_CONFIG_PATH :: string where
  "DEFAULT_CONFIG_PATH = ''/etc/vidi-pr/vidi-pr.yml''"

definition CONFIG_PATH_ENV :: string where
  "CONFIG_PATH_ENV = ''VIDI_PR_CONFIG''"

definition operator_config_path :: "(string \<Rightarrow> string option) \<Rightarrow> string option \<Rightarrow> string" where
  "operator_config_path environ yaml_path =
     (case yaml_path of Some p \<Rightarrow> p
      | None \<Rightarrow> (case environ CONFIG_PATH_ENV of Some p \<Rightarrow> p | None \<Rightarrow> DEFAULT_CONFIG_PATH))"

text \<open>
  Where pydantic-settings looks for the value of a field: the arguments of the constructor, which are
  the entries of the YAML file, the environment, a dotenv file and secret files. The method reorders
  them; the first source that has a value wins, and dotenv files are not read at all.
\<close>

datatype settings_source = InitSettings | EnvSettings | DotenvSettings | FileSecretSettings

definition settings_customise_sources ::
  "settings_source \<Rightarrow> settings_source \<Rightarrow> settings_source \<Rightarrow> settings_source \<Rightarrow> settings_source list" where
  "settings_customise_sources init_settings env_settings dotenv_settings file_secret_settings =
     [env_settings, init_settings, file_secret_settings]"

definition operator_config_sources :: "settings_source list" where
  "operator_config_sources = settings_customise_sources InitSettings EnvSettings DotenvSettings FileSecretSettings"

text \<open>\<open>build sources data\<close> is \<open>cls(**data)\<close>: the values that pydantic takes from the sources, validated.\<close>

definition load_operator_config ::
  "(string \<Rightarrow> string option) \<Rightarrow> (string \<Rightarrow> exc + string) \<Rightarrow> 'y yaml_lib \<Rightarrow>
   (settings_source list \<Rightarrow> 'y \<Rightarrow> exc + 'n operator_config) \<Rightarrow> string option \<Rightarrow> exc + 'n operator_config" where
  "load_operator_config environ read_text lib build yaml_path =
     (let path = operator_config_path environ yaml_path in
      case read_text path of
        Inl e \<Rightarrow>
          if isinstance e OSError
          then Inl (raised OperatorConfigError
            (''operator config not readable at '' @ path @ '': '' @ exc_message e))
          else Inl e
      | Inr content \<Rightarrow>
          (case yaml_load lib content of
             Inl e \<Rightarrow>
               if isinstance e YAMLError
               then Inl (raised OperatorConfigError
                 (''operator config at '' @ path @ '' is not valid YAML: '' @ exc_message e))
               else Inl e
           | Inr loaded \<Rightarrow>
               (let data = (if yaml_truthy lib loaded then loaded else yaml_empty_dict lib) in
                if \<not> yaml_is_dict lib data
                then Inl (raised OperatorConfigError
                  (''operator config at '' @ path @ '' must be a YAML mapping, not '' @ yaml_type_name lib data))
                else build operator_config_sources data)))"

end
