(* ===== verification/RepoConfig.thy ===== *)
theory RepoConfig
  imports Config
begin

text \<open>
  The per-repository configuration: the schema, the loader with its trust rule and cache
  (\<open>config/repo.py\<close>) and the check of who may trigger a review (\<open>orchestration/authz.py\<close>).
\<close>

section \<open>The schema\<close>

definition CONFIG_PATH :: string where
  "CONFIG_PATH = ''.github/vidi-pr.yml''"

text \<open>Five minutes, in microseconds.\<close>

definition CACHE_TTL :: int where
  "CACHE_TTL = 5 * 60 * 1000000"

datatype fetch_status = FOUND | NOT_MODIFIED | NOT_FOUND

record fetch_result =
  fetch_status :: fetch_status
  fetch_content :: "string option"
  fetch_etag :: "string option"

definition fetch_found :: "string \<Rightarrow> string option \<Rightarrow> fetch_result" where
  "fetch_found content etag = \<lparr>fetch_status = FOUND, fetch_content = Some content, fetch_etag = etag\<rparr>"

definition fetch_not_modified :: fetch_result where
  "fetch_not_modified = \<lparr>fetch_status = NOT_MODIFIED, fetch_content = None, fetch_etag = None\<rparr>"

definition fetch_not_found :: fetch_result where
  "fetch_not_found = \<lparr>fetch_status = NOT_FOUND, fetch_content = None, fetch_etag = None\<rparr>"

record review_config =
  project_context :: "string option"
  project_context_file :: "string option"
  language_notes :: "string \<rightharpoonup> string"
  focus :: "string list"
  ignore_globs :: "string list"
  include_conversation :: "bool option"
  review_strictness :: "strictness option"

definition default_review_config :: review_config where
  "default_review_config = \<lparr>project_context = None, project_context_file = None,
     language_notes = (\<lambda>_. None), focus = [], ignore_globs = [], include_conversation = None,
     review_strictness = None\<rparr>"

record repo_config =
  config_enabled :: bool
  allowed_users :: "string list"
  allowed_associations :: "string list"
  trusted_base_branches :: "string list"
  config_review :: review_config

definition default_repo_config :: repo_config where
  "default_repo_config = \<lparr>config_enabled = True, allowed_users = [], allowed_associations = [],
     trusted_base_branches = [], config_review = default_review_config\<rparr>"

text \<open>
  \<open>PurePosixPath\<close>: a path is absolute when it starts with a slash, and its parts are the root, if
  any, and the non-empty segments other than a single dot.
\<close>

fun split_slash :: "string \<Rightarrow> string list" where
  "split_slash [] = [[]]"
| "split_slash (c # s) =
     (if c = CHR ''/'' then [] # split_slash s
      else (case split_slash s of seg # segs \<Rightarrow> (c # seg) # segs | [] \<Rightarrow> [[c]]))"

definition posix_absolute :: "string \<Rightarrow> bool" where
  "posix_absolute v = starts_with v ''/''"

definition posix_parts :: "string \<Rightarrow> string list" where
  "posix_parts v =
     (if posix_absolute v then [''/''] else []) @
     filter (\<lambda>seg. seg \<noteq> [] \<and> seg \<noteq> ''.'') (split_slash v)"

definition validate_context_path :: "string option \<Rightarrow> exc + string option" where
  "validate_context_path value =
     (case value of
        None \<Rightarrow> Inr None
      | Some v \<Rightarrow>
          if posix_absolute v
          then Inl (raised ValueError ''project_context_file must be a relative path'')
          else if ''..'' \<in> set (posix_parts v)
          then Inl (raised ValueError (''project_context_file cannot contain '' @ [CHR 0x27] @ ''..'' @ [CHR 0x27] @ '' segments''))
          else Inr (Some v))"

text \<open>\<open>match_file\<close> is \<open>GitIgnoreSpec.from_lines(patterns).match_file(path)\<close> of pathspec.\<close>

definition is_ignored :: "(string list \<Rightarrow> string \<Rightarrow> bool) \<Rightarrow> repo_config \<Rightarrow> string \<Rightarrow> bool" where
  "is_ignored match_file cfg path =
     (if ignore_globs (config_review cfg) = [] then False
      else match_file (ignore_globs (config_review cfg)) path)"

section \<open>Authorization\<close>

definition is_authorized :: "string \<Rightarrow> string \<Rightarrow> repo_config \<Rightarrow> bool" where
  "is_authorized login author_association cfg =
     (if login \<in> set (allowed_users cfg) then True
      else py_upper author_association \<in> set (map py_upper (allowed_associations cfg)))"

section \<open>The loader\<close>

record cache_entry =
  entry_etag :: "string option"
  entry_content :: "string option"
  entry_fetched_at :: int

type_synonym repo_cache = "string \<times> string \<times> string \<rightharpoonup> cache_entry"

text \<open>
  A loader: its fetcher, the clock and the constructors of other packages; \<open>'w\<close> is the world
  outside. The world of the loader's operations is the loader's cache with the world outside.
\<close>

type_synonym 'w fetcher = "string \<Rightarrow> string \<Rightarrow> string \<Rightarrow> string option \<Rightarrow> ('w, fetch_result) io"

record ('w, 'y) loader =
  ld_fetch_text :: "'w fetcher"
  ld_utcnow :: "'w \<Rightarrow> int \<times> 'w"
  ld_yaml :: "'y yaml_lib"
  ld_validate :: "'y \<Rightarrow> exc + repo_config"
  ld_defaults :: defaults_config

definition in_outside :: "('w, 'a) io \<Rightarrow> (repo_cache \<times> 'w, 'a) io" where
  [io_defs]: "in_outside m = (\<lambda>(cache, w). case m w of (r, w') \<Rightarrow> (r, (cache, w')))"

definition cache_store ::
  "string \<times> string \<times> string \<Rightarrow> cache_entry \<Rightarrow> (repo_cache \<times> 'w, unit) io" where
  [io_defs]: "cache_store key entry = (\<lambda>(cache, w). (Inr (), (cache(key \<mapsto> entry), w)))"

definition cache_lookup ::
  "string \<times> string \<times> string \<Rightarrow> (repo_cache \<times> 'w, cache_entry option) io" where
  [io_defs]: "cache_lookup key = (\<lambda>(cache, w). (Inr (cache key), (cache, w)))"

definition cached_fetch ::
  "('w, 'y) loader \<Rightarrow> string \<Rightarrow> string \<Rightarrow> string \<Rightarrow> (repo_cache \<times> 'w, string option) io" where
  "cached_fetch ld repo ref path =
     (let key = (repo, ref, path) in
      io_bind (in_outside (io_total (ld_utcnow ld))) (\<lambda>now.
      io_bind (cache_lookup key) (\<lambda>entry.
        if (case entry of None \<Rightarrow> False | Some e \<Rightarrow> now - entry_fetched_at e < CACHE_TTL)
        then io_return (case entry of None \<Rightarrow> None | Some e \<Rightarrow> entry_content e)
        else
          io_bind (in_outside (ld_fetch_text ld repo ref path (case entry of None \<Rightarrow> None | Some e \<Rightarrow> entry_etag e)))
            (\<lambda>result.
              if fetch_status result = NOT_MODIFIED \<and> entry \<noteq> None then
                io_bind (cache_store key ((the entry)\<lparr>entry_fetched_at := now\<rparr>))
                  (\<lambda>_. io_return (entry_content (the entry)))
              else if fetch_status result = NOT_FOUND then
                io_bind (cache_store key \<lparr>entry_etag = None, entry_content = None, entry_fetched_at = now\<rparr>)
                  (\<lambda>_. io_return None)
              else
                io_bind (cache_store key \<lparr>entry_etag = fetch_etag result,
                    entry_content = fetch_content result, entry_fetched_at = now\<rparr>)
                  (\<lambda>_. io_return (fetch_content result))))))"

definition parse_repo_config :: "'y yaml_lib \<Rightarrow> ('y \<Rightarrow> exc + repo_config) \<Rightarrow> string \<Rightarrow> exc + repo_config" where
  "parse_repo_config lib validate content =
     (case yaml_load lib content of
        Inl e \<Rightarrow>
          if isinstance e YAMLError
          then Inl (raised RepoConfigError (''per-repo config is not valid YAML: '' @ exc_message e))
          else Inl e
      | Inr loaded \<Rightarrow>
          (let data = (if yaml_is_none lib loaded then yaml_empty_dict lib else loaded) in
           if \<not> yaml_is_dict lib data
           then Inl (raised RepoConfigError
             (''per-repo config must be a YAML mapping, not '' @ yaml_type_name lib data))
           else
             (case validate data of
                Inl e \<Rightarrow>
                  if isinstance e ValidationError
                  then Inl (raised RepoConfigError (''per-repo config failed validation: '' @ exc_message e))
                  else Inl e
              | Inr cfg \<Rightarrow> Inr cfg)))"

abbreviation loader_parse :: "('w, 'y) loader \<Rightarrow> string \<Rightarrow> exc + repo_config" where
  "loader_parse ld \<equiv> parse_repo_config (ld_yaml ld) (ld_validate ld)"

definition resolve_project_context ::
  "('w, 'y) loader \<Rightarrow> string \<Rightarrow> string \<Rightarrow> repo_config \<Rightarrow> (repo_cache \<times> 'w, repo_config) io" where
  "resolve_project_context ld repo ref cfg =
     (case project_context_file (config_review cfg) of
        None \<Rightarrow> io_return cfg
      | Some path \<Rightarrow>
          io_bind (in_outside (ld_fetch_text ld repo ref path None)) (\<lambda>result.
            if fetch_status result = NOT_FOUND then io_return cfg
            else if fetch_status result = NOT_MODIFIED \<or> fetch_content result = None then io_return cfg
            else io_return (cfg\<lparr>config_review :=
              (config_review cfg)\<lparr>project_context := fetch_content result\<rparr>\<rparr>)))"

definition absent_config :: "defaults_config \<Rightarrow> repo_config" where
  "absent_config d =
     \<lparr>config_enabled = defaults_enabled d, allowed_users = [],
      allowed_associations = ABSENT_CONFIG_ALLOWED_ASSOCIATIONS, trusted_base_branches = [],
      config_review = default_review_config\<lparr>
        include_conversation := Some (defaults_include_conversation d),
        review_strictness := Some (defaults_strictness d)\<rparr>\<rparr>"

definition loader_load ::
  "('w, 'y) loader \<Rightarrow> string \<Rightarrow> string \<Rightarrow> string \<Rightarrow> (repo_cache \<times> 'w, repo_config) io" where
  "loader_load ld repo base_ref default_branch =
     io_bind (cached_fetch ld repo default_branch CONFIG_PATH) (\<lambda>default_branch_text.
       case default_branch_text of
         None \<Rightarrow> io_return (absent_config (ld_defaults ld))
       | Some default_text \<Rightarrow>
           io_bind (io_result (loader_parse ld default_text)) (\<lambda>default_branch_config.
             io_bind
               (if base_ref \<noteq> default_branch \<and> base_ref \<in> set (trusted_base_branches default_branch_config)
                then io_bind (cached_fetch ld repo base_ref CONFIG_PATH) (\<lambda>base_ref_text.
                  case base_ref_text of
                    None \<Rightarrow> io_return (default_branch_config, default_branch)
                  | Some base_text \<Rightarrow>
                      io_bind (io_result (loader_parse ld base_text)) (\<lambda>cfg. io_return (cfg, base_ref)))
                else io_return (default_branch_config, default_branch))
               (\<lambda>(target_config, target_ref). resolve_project_context ld repo target_ref target_config)))"

text \<open>\<open>RepoConfigLoader(fetcher, defaults).load(...)\<close>: a new loader starts with an empty cache.\<close>

definition load_repo_config ::
  "('w, 'y) loader \<Rightarrow> string \<Rightarrow> string \<Rightarrow> string \<Rightarrow> ('w, repo_config) io" where
  "load_repo_config ld repo base_ref default_branch =
     (\<lambda>w. case loader_load ld repo base_ref default_branch ((\<lambda>_. None), w) of (r, (_, w')) \<Rightarrow> (r, w'))"

section \<open>Lemmas\<close>

lemma split_slash_not_Nil [simp]: "split_slash s \<noteq> []"
  by (induction s) (auto split: list.splits)

lemma split_slash_Cons: "c \<noteq> CHR ''/'' \<Longrightarrow> split_slash (c # s) = (c # hd (split_slash s)) # tl (split_slash s)"
  by (cases "split_slash s") simp_all

lemma split_slash_no_slash: "seg \<in> set (split_slash s) \<Longrightarrow> CHR ''/'' \<notin> set seg"
  by (induction s arbitrary: seg) (auto split: if_splits list.splits)

lemma join_split_slash: "join ''/'' (split_slash s) = s"
proof (induction s)
  case (Cons c s)
  show ?case
  proof (cases "split_slash s")
    case (Cons a list)
    then show ?thesis using Cons.IH by (cases list) auto
  qed simp
qed simp

lemma split_slash_append:
  "CHR ''/'' \<notin> set seg \<Longrightarrow> split_slash (seg @ ''/'' @ s) = seg # split_slash s"
  "CHR ''/'' \<notin> set seg \<Longrightarrow> split_slash seg = [seg]"
  by (induction seg) auto

lemma split_slash_join:
  "segs \<noteq> [] \<Longrightarrow> \<forall>seg \<in> set segs. CHR ''/'' \<notin> set seg \<Longrightarrow> split_slash (join ''/'' segs) = segs"
proof (induction segs rule: induct_list012)
  case (3 x y ys)
  then show ?case using split_slash_append(1) [of x "join ''/'' (y # ys)"] by simp
qed (simp_all add: split_slash_append)

lemma dotdot_in_parts:
  "\<not> posix_absolute v \<Longrightarrow> ''..'' \<in> set (posix_parts v) \<longleftrightarrow> ''..'' \<in> set (split_slash v)"
  by (simp add: posix_parts_def)

lemma loader_load_untrusted:
  assumes "base \<noteq> main_ref"
    and same: "\<And>r ref p e. ref \<noteq> base \<Longrightarrow> f r ref p e = ld_fetch_text ld r ref p e"
    and untrusted: "\<And>text cfg. fst (cached_fetch ld repo main_ref CONFIG_PATH cw) = Inr (Some text) \<Longrightarrow>
      loader_parse ld text = Inr cfg \<Longrightarrow> base \<notin> set (trusted_base_branches cfg)"
  shows "loader_load (ld\<lparr>ld_fetch_text := f\<rparr>) repo base main_ref cw = loader_load ld repo base main_ref cw"
proof -
  have feq: "f r main_ref = ld_fetch_text ld r main_ref" for r
    by (intro ext) (use same assms(1) in auto)
  have fetch: "cached_fetch (ld\<lparr>ld_fetch_text := f\<rparr>) repo main_ref CONFIG_PATH = cached_fetch ld repo main_ref CONFIG_PATH"
    unfolding cached_fetch_def by (simp add: feq Let_def cong: if_cong)
  have resolve: "resolve_project_context (ld\<lparr>ld_fetch_text := f\<rparr>) repo main_ref cfg = resolve_project_context ld repo main_ref cfg" for cfg
    unfolding resolve_project_context_def by (simp add: feq split: option.split)
  obtain r cw1 where run: "cached_fetch ld repo main_ref CONFIG_PATH cw = (r, cw1)" by (rule prod.exhaust)
  show ?thesis
  proof (cases "\<exists>text cfg. r = Inr (Some text) \<and> loader_parse ld text = Inr cfg")
    case True
    then obtain src cfg where t: "r = Inr (Some src)" "loader_parse ld src = Inr cfg" by blast
    then have "base \<notin> set (trusted_base_branches cfg)" using untrusted run by simp
    then show ?thesis
      by (simp add: loader_load_def fetch io_bind_def io_result_def io_return_def run t resolve)
  next
    case False
    then show ?thesis
      by (auto simp: loader_load_def fetch io_bind_def io_result_def io_return_def run
          split: sum.splits option.splits)
  qed
qed

lemma load_repo_config_not_found:
  assumes "ld_utcnow ld w = (t, w1)" "ld_fetch_text ld repo main_ref CONFIG_PATH None w1 = (Inr r, w2)"
    and "fetch_status r = NOT_FOUND"
  shows "load_repo_config ld repo base main_ref w = (Inr (absent_config (ld_defaults ld)), w2)"
  using assms by (simp add: load_repo_config_def loader_load_def cached_fetch_def io_defs Let_def)

lemma is_authorized_absent: "is_authorized login assoc (absent_config d) \<longleftrightarrow> py_upper assoc = ''OWNER''"
  by (simp add: is_authorized_def absent_config_def ABSENT_CONFIG_ALLOWED_ASSOCIATIONS_def py_upper_def py_upper_char_def)

section \<open>Properties\<close>

text \<open>C10: the trust rule. When the configuration on the default branch does not list the base branch
  of a PR as trusted, nothing the repository holds on that base branch has an influence on the
  configuration that is used, on the errors or on anything else: replacing every answer of the
  fetcher for the base branch leaves the whole run of the loader the same.\<close>

theorem load_repo_config_ignores_untrusted_base:
  assumes "base \<noteq> main_ref"
    and "\<forall>r ref p e. ref \<noteq> base \<longrightarrow> f r ref p e = ld_fetch_text ld r ref p e"
    and "\<forall>text cfg. fst (cached_fetch ld repo main_ref CONFIG_PATH ((\<lambda>_. None), w)) = Inr (Some text) \<longrightarrow>
      loader_parse ld text = Inr cfg \<longrightarrow> base \<notin> set (trusted_base_branches cfg)"
  shows "load_repo_config (ld\<lparr>ld_fetch_text := f\<rparr>) repo base main_ref w = load_repo_config ld repo base main_ref w"
  using loader_load_untrusted [OF assms(1), of f ld repo "((\<lambda>_. None), w)"] assms(2,3)
  by (simp add: load_repo_config_def)

text \<open>A repository whose default branch has the file \<open>enabled: false\<close> and whose branch \<open>feature\<close> has
  another one; a document is its text, and the validator knows these two texts.\<close>

definition sample_loader :: "(unit, string) loader" where
  "sample_loader = \<lparr>
     ld_fetch_text = (\<lambda>repo ref path etag w. (Inr (fetch_found ref None), w)),
     ld_utcnow = (\<lambda>w. (0, w)),
     ld_yaml = \<lparr>yaml_load = Inr, yaml_is_none = (\<lambda>s. s = []), yaml_truthy = (\<lambda>s. s \<noteq> []),
       yaml_is_dict = (\<lambda>s. True), yaml_type_name = (\<lambda>s. ''dict''), yaml_empty_dict = []\<rparr>,
     ld_validate = (\<lambda>s. if s = ''main'' then Inr (default_repo_config\<lparr>config_enabled := False\<rparr>)
       else Inr (default_repo_config\<lparr>allowed_users := [''mallory'']\<rparr>)),
     ld_defaults = default_defaults\<rparr>"

theorem load_repo_config_ignores_untrusted_base_witness:
  "load_repo_config (sample_loader\<lparr>ld_fetch_text := (\<lambda>repo ref path etag w.
      if ref = ''feature'' then (Inr fetch_not_found, w) else (Inr (fetch_found ref None), w))\<rparr>)
     ''o/r'' ''feature'' ''main'' () = load_repo_config sample_loader ''o/r'' ''feature'' ''main'' ()"
  by (rule load_repo_config_ignores_untrusted_base)
    (auto simp: sample_loader_def cached_fetch_def io_defs fetch_found_def parse_repo_config_def
      default_repo_config_def)

text \<open>Without a configuration file on the default branch only an owner can trigger a review by a
  comment, whoever else asks and whatever the operator's defaults are.\<close>

lemma load_repo_config_absent_owner_only:
  assumes "ld_utcnow ld w = (t, w1)" "ld_fetch_text ld repo main_ref CONFIG_PATH None w1 = (Inr r, w2)"
    and "fetch_status r = NOT_FOUND"
  shows "\<exists>cfg. load_repo_config ld repo base main_ref w = (Inr cfg, w2) \<and>
    config_enabled cfg = defaults_enabled (ld_defaults ld) \<and>
    (\<forall>login assoc. is_authorized login assoc cfg \<longleftrightarrow> py_upper assoc = ''OWNER'')"
  using load_repo_config_not_found [OF assms] by (simp add: is_authorized_absent) (simp add: absent_config_def)

lemma load_repo_config_absent_owner_only_witness:
  "\<exists>cfg. load_repo_config (sample_loader\<lparr>ld_fetch_text := (\<lambda>repo ref path etag w. (Inr fetch_not_found, w))\<rparr>)
      ''o/r'' ''main'' ''main'' () = (Inr cfg, ()) \<and>
    config_enabled cfg \<and> (\<forall>login assoc. is_authorized login assoc cfg \<longleftrightarrow> py_upper assoc = ''OWNER'')"
  using load_repo_config_absent_owner_only [of "sample_loader\<lparr>ld_fetch_text := (\<lambda>repo ref path etag w. (Inr fetch_not_found, w))\<rparr>"
      "()" 0 "()" "''o/r''" "''main''" fetch_not_found "()" "''main''"]
  by (simp add: sample_loader_def fetch_not_found_def default_defaults_def DEFAULT_ENABLED_def)

text \<open>A path of a project-context file is accepted exactly when it is relative and no way of
  writing it as segments separated by slashes has a segment \<open>..\<close>: it cannot leave the repository.\<close>

lemma validate_context_path_stays_inside:
  "validate_context_path (Some v) = Inr (Some v) \<longleftrightarrow>
    \<not> starts_with v ''/'' \<and>
    \<not> (\<exists>segs. join ''/'' segs = v \<and> list_all (\<lambda>seg. CHR ''/'' \<notin> set seg) segs \<and> ''..'' \<in> set segs)"
proof -
  have "(\<exists>segs. join ''/'' segs = v \<and> (\<forall>seg \<in> set segs. CHR ''/'' \<notin> set seg) \<and> ''..'' \<in> set segs)
      \<longleftrightarrow> ''..'' \<in> set (split_slash v)"
  proof
    assume "\<exists>segs. join ''/'' segs = v \<and> (\<forall>seg \<in> set segs. CHR ''/'' \<notin> set seg) \<and> ''..'' \<in> set segs"
    then obtain segs where "join ''/'' segs = v" "\<forall>seg \<in> set segs. CHR ''/'' \<notin> set seg" "''..'' \<in> set segs"
      by blast
    then show "''..'' \<in> set (split_slash v)" using split_slash_join [of segs] by fastforce
  next
    assume "''..'' \<in> set (split_slash v)"
    then show "\<exists>segs. join ''/'' segs = v \<and> (\<forall>seg \<in> set segs. CHR ''/'' \<notin> set seg) \<and> ''..'' \<in> set segs"
      using join_split_slash [of v] split_slash_no_slash [of _ v] by blast
  qed
  moreover have "validate_context_path (Some v) = Inr (Some v) \<longleftrightarrow>
      \<not> posix_absolute v \<and> ''..'' \<notin> set (split_slash v)"
    by (auto simp: validate_context_path_def dotdot_in_parts)
  ultimately show ?thesis by (simp add: posix_absolute_def list_all_iff)
qed

end
