(* ===== verification/ConfigCache.thy ===== *)
theory ConfigCache
  imports RepoConfig
begin

text \<open>
  The trust rules of \<open>RepoConfigLoader\<close> as its documentation states them, over the files of the
  repository, and the refinement of these rules by the loader with its cache, its entity tags and its
  time to live.
\<close>

section \<open>The rules\<close>

text \<open>A repository as the loader sees it: the content of a file under a reference and a path.\<close>

type_synonym repo_files = "string \<Rightarrow> string \<Rightarrow> string option"

definition with_context :: "(string \<Rightarrow> string option) \<Rightarrow> repo_config \<Rightarrow> repo_config" where
  "with_context files_at cfg =
     (case project_context_file (config_review cfg) of
        None \<Rightarrow> cfg
      | Some path \<Rightarrow>
          (case files_at path of
             None \<Rightarrow> cfg
           | Some t \<Rightarrow> cfg\<lparr>config_review := (config_review cfg)\<lparr>project_context := Some t\<rparr>\<rparr>))"

text \<open>Rule 1: the default branch; rule 2: a trusted base branch; rule 3: the project context, from the
  same reference; rule 4: no file, the owner-only configuration.\<close>

definition trusted_config ::
  "repo_files \<Rightarrow> (string \<Rightarrow> exc + repo_config) \<Rightarrow> defaults_config \<Rightarrow> string \<Rightarrow> string \<Rightarrow> exc + repo_config" where
  "trusted_config files parse defaults base_ref default_branch =
     (case files default_branch CONFIG_PATH of
        None \<Rightarrow> Inr (absent_config defaults)
      | Some t \<Rightarrow>
          (case parse t of
             Inl e \<Rightarrow> Inl e
           | Inr cfg \<Rightarrow>
               (case (if base_ref \<noteq> default_branch \<and> base_ref \<in> set (trusted_base_branches cfg)
                      then files base_ref CONFIG_PATH else None) of
                  None \<Rightarrow> Inr (with_context (files default_branch) cfg)
                | Some t' \<Rightarrow> map_sum id (with_context (files base_ref)) (parse t'))))"

section \<open>An honest server\<close>

text \<open>
  What GitHub documents of its contents endpoint, for a repository that does not change meanwhile: a
  file is found with its content and its entity tag, an absent one is not found, and \<open>not modified\<close> is
  answered only to a request that carries the current entity tag of an existing file.
\<close>

definition honest_answer :: "string option \<Rightarrow> string option \<Rightarrow> string option \<Rightarrow> fetch_result \<Rightarrow> bool" where
  "honest_answer file tag etag r =
     (case file of
        None \<Rightarrow> r = fetch_not_found
      | Some t \<Rightarrow> r = fetch_found t tag \<or> etag \<noteq> None \<and> etag = tag \<and> r = fetch_not_modified)"

definition serves :: "('w, 'y) loader \<Rightarrow> string \<Rightarrow> repo_files \<Rightarrow> (string \<Rightarrow> string \<Rightarrow> string option) \<Rightarrow> bool" where
  "serves ld repo files tags \<longleftrightarrow> (\<forall>ref path etag w. \<exists>r w'.
     ld_fetch_text ld repo ref path etag w = (Inr r, w') \<and> honest_answer (files ref path) (tags ref path) etag r)"

text \<open>A cache filled by such answers: every entry of the repository holds what the file holds, and an
  entry for an absent file has no entity tag.\<close>

definition cache_ok :: "string \<Rightarrow> repo_files \<Rightarrow> repo_cache \<Rightarrow> bool" where
  "cache_ok repo files cache \<longleftrightarrow> (\<forall>ref path e. cache (repo, ref, path) = Some e \<longrightarrow>
     entry_content e = files ref path \<and> (files ref path = None \<longrightarrow> entry_etag e = None))"

lemma cache_ok_empty: "cache_ok repo files (\<lambda>_. None)"
  by (simp add: cache_ok_def)

lemma cache_ok_store:
  "cache_ok repo files cache \<Longrightarrow> entry_content e = files ref path \<Longrightarrow> (files ref path = None \<Longrightarrow> entry_etag e = None) \<Longrightarrow>
   cache_ok repo files (cache((repo, ref, path) \<mapsto> e))"
  by (auto simp: cache_ok_def)

text \<open>A fetch through the cache reads the file, whether the entry is fresh, revalidated or replaced.\<close>

lemma honest_not_modified:
  "honest_answer file tag etag r \<Longrightarrow> fetch_status r = NOT_MODIFIED \<Longrightarrow> file \<noteq> None \<and> etag \<noteq> None"
  by (auto simp: honest_answer_def fetch_found_def fetch_not_found_def split: option.splits)

lemma honest_content:
  assumes "honest_answer file tag etag r" "fetch_status r \<noteq> NOT_MODIFIED"
  shows "fetch_content r = file" and "fetch_status r = NOT_FOUND \<longleftrightarrow> file = None"
  using assms by (auto simp: honest_answer_def fetch_found_def fetch_not_found_def fetch_not_modified_def split: option.splits)

lemma cached_fetch_reads:
  assumes "serves ld repo files tags" "cache_ok repo files cache"
  shows "\<exists>cache' w'. cached_fetch ld repo ref path (cache, w) = (Inr (files ref path), (cache', w')) \<and>
    cache_ok repo files cache'"
proof -
  obtain now w1 where now: "ld_utcnow ld w = (now, w1)" by (rule prod.exhaust)
  let ?key = "(repo, ref, path)"
  let ?etag = "case cache ?key of None \<Rightarrow> None | Some e \<Rightarrow> entry_etag e"
  obtain r w2 where fetch: "ld_fetch_text ld repo ref path ?etag w1 = (Inr r, w2)"
    and honest: "honest_answer (files ref path) (tags ref path) ?etag r"
    using assms(1) unfolding serves_def by blast
  have entry: "entry_content e = files ref path" if "cache ?key = Some e" for e
    using assms(2) that by (simp add: cache_ok_def)
  consider (fresh) e where "cache ?key = Some e" "now - entry_fetched_at e < CACHE_TTL"
    | (revalidated) e where "cache ?key = Some e" "\<not> now - entry_fetched_at e < CACHE_TTL" "fetch_status r = NOT_MODIFIED"
    | (replaced) "\<forall>e. cache ?key = Some e \<longrightarrow> \<not> now - entry_fetched_at e < CACHE_TTL" "fetch_status r \<noteq> NOT_MODIFIED"
    using honest_not_modified [OF honest] by (cases "cache ?key") auto
  then show ?thesis
  proof cases
    case fresh
    then show ?thesis using entry assms(2) by (simp add: cached_fetch_def io_defs now Let_def)
  next
    case revalidated
    have "files ref path \<noteq> None" using honest_not_modified [OF honest] revalidated(3) by blast
    then have "cache_ok repo files (cache(?key \<mapsto> e\<lparr>entry_fetched_at := now\<rparr>))"
      using entry [OF revalidated(1)] by (intro cache_ok_store [OF assms(2)]) simp_all
    then show ?thesis
      using revalidated fetch entry [OF revalidated(1)] by (simp add: cached_fetch_def io_defs now Let_def)
  next
    case replaced
    show ?thesis
    proof (cases "files ref path")
      case None
      have "cache_ok repo files (cache(?key \<mapsto> \<lparr>entry_etag = None, entry_content = None, entry_fetched_at = now\<rparr>))"
        using None by (intro cache_ok_store [OF assms(2)]) simp_all
      then show ?thesis
        using replaced fetch honest_content [OF honest replaced(2)] None
        by (cases "cache ?key") (simp_all add: cached_fetch_def io_defs now Let_def)
    next
      case (Some t)
      have "cache_ok repo files (cache(?key \<mapsto> \<lparr>entry_etag = fetch_etag r, entry_content = fetch_content r, entry_fetched_at = now\<rparr>))"
        using honest_content(1) [OF honest replaced(2)] Some by (intro cache_ok_store [OF assms(2)]) simp_all
      then show ?thesis
        using replaced fetch honest_content [OF honest replaced(2)] Some
        by (cases "cache ?key") (simp_all add: cached_fetch_def io_defs now Let_def)
    qed
  qed
qed

lemma resolve_reads:
  assumes "serves ld repo files tags"
  shows "\<exists>w'. resolve_project_context ld repo ref cfg (cache, w) = (Inr (with_context (files ref) cfg), (cache, w'))"
proof (cases "project_context_file (config_review cfg)")
  case None
  then show ?thesis by (simp add: resolve_project_context_def with_context_def io_defs)
next
  case (Some path)
  obtain r w' where fetch: "ld_fetch_text ld repo ref path None w = (Inr r, w')"
    and honest: "honest_answer (files ref path) (tags ref path) None r"
    using assms unfolding serves_def by blast
  have status: "fetch_status r \<noteq> NOT_MODIFIED" using honest_not_modified [OF honest] by blast
  show ?thesis
    using Some fetch status honest_content [OF honest status]
    by (cases "files ref path") (simp_all add: resolve_project_context_def with_context_def io_defs)
qed

lemma io_bind_step: "m w = (Inr a, w') \<Longrightarrow> io_bind m f w = f a w'"
  by (simp add: io_bind_def)

text \<open>The choice of a trusted base branch, as \<open>load\<close> makes it, and the project context that goes with it.\<close>

lemma trusted_base_reads:
  assumes "serves ld repo files tags" "cache_ok repo files cache"
  shows "\<exists>cache' w'. io_bind
      (io_bind (cached_fetch ld repo base_ref CONFIG_PATH) (\<lambda>base_ref_text. case base_ref_text of
          None \<Rightarrow> io_return (cfg, default_branch)
        | Some base_text \<Rightarrow> io_bind (io_result (loader_parse ld base_text)) (\<lambda>cfg. io_return (cfg, base_ref))))
      (\<lambda>(target_config, target_ref). resolve_project_context ld repo target_ref target_config) (cache, w) =
    (case files base_ref CONFIG_PATH of
       None \<Rightarrow> Inr (with_context (files default_branch) cfg)
     | Some t \<Rightarrow> map_sum id (with_context (files base_ref)) (loader_parse ld t), (cache', w')) \<and>
    cache_ok repo files cache'"
proof -
  obtain c1 w1 where f: "cached_fetch ld repo base_ref CONFIG_PATH (cache, w) =
      (Inr (files base_ref CONFIG_PATH), (c1, w1))" and ok: "cache_ok repo files c1"
    using cached_fetch_reads [OF assms] by blast
  show ?thesis
  proof (cases "files base_ref CONFIG_PATH")
    case None
    then show ?thesis using f ok resolve_reads [OF assms(1), of default_branch cfg c1 w1] by (auto simp: io_defs)
  next
    case (Some t)
    show ?thesis
    proof (cases "loader_parse ld t")
      case (Inl e)
      then show ?thesis using f ok Some by (auto simp: io_defs)
    next
      case (Inr cfg')
      then show ?thesis using f ok Some resolve_reads [OF assms(1), of base_ref cfg' c1 w1] by (auto simp: io_defs)
    qed
  qed
qed

section \<open>Properties\<close>

text \<open>C11: the loader implements the trust rules it documents. Against an honest server and with any
  cache of its answers, the empty one of a new loader included, it returns the configuration the rules
  choose from the files of the repository, or the error of the file they choose; the cache stays one
  of the server's answers, so entity tags, revalidation and the time to live do not show.\<close>

theorem loader_load_refines_trust_rules:
  assumes "serves ld repo files tags" "cache_ok repo files cache"
  shows "\<exists>cache' w'. loader_load ld repo base_ref default_branch (cache, w) =
      (trusted_config files (loader_parse ld) (ld_defaults ld) base_ref default_branch, (cache', w')) \<and>
    cache_ok repo files cache'"
proof -
  obtain c1 w1 where f1: "cached_fetch ld repo default_branch CONFIG_PATH (cache, w) =
      (Inr (files default_branch CONFIG_PATH), (c1, w1))" and ok1: "cache_ok repo files c1"
    using cached_fetch_reads [OF assms] by blast
  show ?thesis
  proof (cases "files default_branch CONFIG_PATH")
    case None
    then show ?thesis using f1 ok1 by (simp add: loader_load_def trusted_config_def io_defs)
  next
    case (Some t)
    show ?thesis
    proof (cases "loader_parse ld t")
      case (Inl e)
      then show ?thesis using f1 ok1 Some by (simp add: loader_load_def trusted_config_def io_defs)
    next
      case (Inr cfg)
      note run = f1 Some Inr
      show ?thesis
      proof (cases "base_ref \<noteq> default_branch \<and> base_ref \<in> set (trusted_base_branches cfg)")
        case False
        then show ?thesis
          using run ok1 resolve_reads [OF assms(1), of default_branch cfg c1 w1]
          by (auto simp: loader_load_def trusted_config_def io_defs)
      next
        case True
        have fetched: "cached_fetch ld repo default_branch CONFIG_PATH (cache, w) = (Inr (Some t), (c1, w1))"
          using f1 Some by simp
        show ?thesis
          using True Some Inr trusted_base_reads [OF assms(1) ok1, of base_ref cfg default_branch w1]
          by (simp add: loader_load_def trusted_config_def io_bind_step [where m = "cached_fetch ld repo default_branch CONFIG_PATH", OF fetched] io_bind_result)
      qed
    qed
  qed
qed

text \<open>The sample repository: every file contains the name of its reference, and there are no tags.\<close>

theorem loader_load_refines_trust_rules_witness:
  "\<exists>cache' w'. loader_load sample_loader ''o/r'' ''feature'' ''main'' ((\<lambda>_. None), ()) =
      (Inr (default_repo_config\<lparr>config_enabled := False\<rparr>), (cache', w'))"
proof -
  have "serves sample_loader ''o/r'' (\<lambda>ref path. Some ref) (\<lambda>ref path. None)"
    by (simp add: serves_def honest_answer_def sample_loader_def)
  from loader_load_refines_trust_rules [OF this cache_ok_empty, of "''feature''" "''main''" "()"] show ?thesis
    by (auto simp: trusted_config_def parse_repo_config_def sample_loader_def with_context_def default_repo_config_def
        default_review_config_def)
qed

end
