(* ===== verification/GitHubClient.thy ===== *)
theory GitHubClient
  imports RepoConfig
begin

text \<open>
  The GitHub client, \<open>transport/github_client.py\<close>. The package githubkit is the record \<open>gh_api\<close> of
  the endpoints the client calls, each on a \<open>GitHub\<close> object; what an endpoint answers or raises, and
  what it does to the world, is left open. The state of the client is its cache of such objects,
  one for each installation, which the retry after a rejected token renews.
\<close>

section \<open>githubkit\<close>

text \<open>
  A \<open>GitHub\<close> object: one made for an installation with its \<open>AppInstallationAuthStrategy\<close>, told apart from
  the others by a serial number, or the one of the token mode; with the timeout of its requests.
\<close>

record app_strategy =
  strategy_app_id :: string
  strategy_private_key :: string
  strategy_installation_id :: int

datatype gh_handle = InstallationGitHub nat app_strategy rat | TokenGitHub "string option" rat

record gh_pull =
  pull_number :: int
  pull_title :: string
  pull_body :: "string option"
  pull_head_sha :: string
  pull_base_ref :: string
  pull_user_login :: "string option"
  pull_draft :: "bool option"

record gh_file =
  entry_filename :: string
  entry_status :: string
  entry_additions :: int
  entry_deletions :: int
  entry_patch :: "string option"

record gh_comment =
  gh_comment_user :: "(string \<times> string) option"
  gh_comment_body :: "string option"
  gh_comment_created_at :: py_datetime

datatype gh_content = DirectoryContent | OtherContent | FileContent string string

record gh_content_response =
  response_status_code :: int
  response_etag :: "string option"
  response_data :: gh_content

record 'w gh_api =
  api_get_pull :: "gh_handle \<Rightarrow> string \<Rightarrow> string \<Rightarrow> int \<Rightarrow> ('w, gh_pull) io"
  api_list_files :: "gh_handle \<Rightarrow> string \<Rightarrow> string \<Rightarrow> int \<Rightarrow> int \<Rightarrow> ('w, gh_file list) io"
  api_list_comments :: "gh_handle \<Rightarrow> string \<Rightarrow> string \<Rightarrow> int \<Rightarrow> int \<Rightarrow> ('w, gh_comment list) io"
  api_get_repo :: "gh_handle \<Rightarrow> string \<Rightarrow> string \<Rightarrow> ('w, repo_info) io"
  api_create_review :: "gh_handle \<Rightarrow> string \<Rightarrow> string \<Rightarrow> int \<Rightarrow> string \<Rightarrow> string \<Rightarrow> ('w, int) io"
  api_create_comment :: "gh_handle \<Rightarrow> string \<Rightarrow> string \<Rightarrow> int \<Rightarrow> string \<Rightarrow> ('w, int) io"
  api_create_reaction :: "gh_handle \<Rightarrow> string \<Rightarrow> string \<Rightarrow> int \<Rightarrow> string \<Rightarrow> ('w, unit) io"
  api_get_content :: "gh_handle \<Rightarrow> string \<Rightarrow> string \<Rightarrow> string \<Rightarrow> string \<Rightarrow> string option \<Rightarrow> ('w, gh_content_response) io"
  api_decode :: "string \<Rightarrow> exc + string"   \<comment> \<open>base64 to bytes, the bytes as UTF-8\<close>

section \<open>Helpers\<close>

definition PER_PAGE :: int where
  "PER_PAGE = 100"

text \<open>\<open>except RequestFailed\<close>: the status and the text of the response.\<close>

fun request_failed :: "exc_class \<Rightarrow> (int \<times> string) option" where
  "request_failed (RequestFailed s t) = Some (s, t)"
| "request_failed (RateLimitExceeded s t) = Some (s, t)"
| "request_failed _ = None"

definition is_request_failed :: "exc \<Rightarrow> bool" where
  "is_request_failed e = (request_failed (exc_class e) \<noteq> None)"

definition response_status :: "exc \<Rightarrow> int" where
  "response_status e = (case request_failed (exc_class e) of Some (s, t) \<Rightarrow> s | None \<Rightarrow> 0)"

definition response_text :: "exc \<Rightarrow> string" where
  "response_text e = (case request_failed (exc_class e) of Some (s, t) \<Rightarrow> t | None \<Rightarrow> [])"

definition is_rate_limit :: "exc \<Rightarrow> bool" where
  "is_rate_limit e = (case exc_class e of RateLimitExceeded s t \<Rightarrow> True | _ \<Rightarrow> False)"

text \<open>\<open>repr\<close> of a string without quotes and control characters.\<close>

definition quoted :: "string \<Rightarrow> string" where
  "quoted s = CHR 0x27 # s @ [CHR 0x27]"

definition split_repo :: "string \<Rightarrow> exc + string \<times> string" where
  "split_repo repo =
     (case py_partition (CHR ''/'') repo of (owner, _, name) \<Rightarrow>
        if owner = [] \<or> name = []
        then Inl (raised ValueError (''repo must be in '' @ quoted ''owner/name'' @ '' form, got '' @ quoted repo))
        else Inr (owner, name))"

definition map_file_status :: "string \<Rightarrow> file_status" where
  "map_file_status s =
     (case map_of [(''added'', ADDED), (''modified'', MODIFIED), (''removed'', REMOVED),
         (''renamed'', RENAMED), (''copied'', MODIFIED), (''changed'', MODIFIED),
         (''unchanged'', MODIFIED)] s of
        Some st \<Rightarrow> st | None \<Rightarrow> MODIFIED)"

definition error_message :: "exc \<Rightarrow> string" where
  "error_message e = str_int (response_status e) @ '': '' @ response_text e"

definition map_error :: "exc \<Rightarrow> exc" where
  "map_error e =
     (let status = response_status e; msg = error_message e in
      if is_rate_limit e then raised GitHubTransientError (''rate limited: '' @ msg)
      else if status = 404 then raised GitHubNotFound msg
      else if 500 \<le> status \<and> status < 600 then raised GitHubTransientError msg
      else raised GitHubPermanentError msg)"

section \<open>The client\<close>

record 'w gh_client =
  cl_app_id :: int
  cl_private_key :: string
  cl_timeout :: rat
  cl_token :: "string option"
  cl_token_mode :: bool
  cl_api :: "'w gh_api"

text \<open>The default of the argument \<open>timeout\<close>, which no caller gives.\<close>

definition DEFAULT_TIMEOUT :: rat where
  "DEFAULT_TIMEOUT = 30"

definition new_gh_client :: "'w gh_api \<Rightarrow> int \<Rightarrow> string \<Rightarrow> rat \<Rightarrow> 'w gh_client" where
  "new_gh_client api app key timeout =
     \<lparr>cl_app_id = app, cl_private_key = key, cl_timeout = timeout, cl_token = None,
      cl_token_mode = False, cl_api = api\<rparr>"

definition from_token :: "'w gh_api \<Rightarrow> string option \<Rightarrow> rat \<Rightarrow> 'w gh_client" where
  "from_token api token timeout =
     (new_gh_client api 0 [] timeout)\<lparr>cl_token := token, cl_token_mode := True\<rparr>"

definition installation_github :: "'w gh_client \<Rightarrow> nat \<Rightarrow> int \<Rightarrow> gh_handle" where
  "installation_github cl serial installation_id = InstallationGitHub serial
     \<lparr>strategy_app_id = str_int (cl_app_id cl), strategy_private_key = cl_private_key cl,
      strategy_installation_id = installation_id\<rparr> (cl_timeout cl)"

lemma installation_github_eq: "installation_github cl n i = installation_github cl m j \<longleftrightarrow> n = m \<and> i = j"
  by (simp add: installation_github_def)

record client_state =
  installations :: "int \<rightharpoonup> gh_handle"
  token_github :: "gh_handle option"
  next_serial :: nat

definition new_client_state :: client_state where
  "new_client_state = \<lparr>installations = (\<lambda>_. None), token_github = None, next_serial = 0\<rparr>"

type_synonym ('w, 'a) client_io = "(client_state \<times> 'w, 'a) io"

definition api_call :: "('w, 'a) io \<Rightarrow> ('w, 'a) client_io" where
  [io_defs]: "api_call m = (\<lambda>(cs, w). case m w of (r, w') \<Rightarrow> (r, (cs, w')))"

definition token_client :: "'w gh_client \<Rightarrow> client_state \<Rightarrow> gh_handle \<times> client_state" where
  "token_client cl cs =
     (case token_github cs of
        Some h \<Rightarrow> (h, cs)
      | None \<Rightarrow>
          (let h = TokenGitHub (case cl_token cl of None \<Rightarrow> None | Some t \<Rightarrow> if t = [] then None else Some t) (cl_timeout cl)
           in (h, cs\<lparr>token_github := Some h\<rparr>)))"

definition gh :: "'w gh_client \<Rightarrow> int \<Rightarrow> client_state \<Rightarrow> gh_handle \<times> client_state" where
  "gh cl installation_id cs =
     (if cl_token_mode cl then token_client cl cs
      else
        (case installations cs installation_id of
           Some h \<Rightarrow> (h, cs)
         | None \<Rightarrow>
             (let h = installation_github cl (next_serial cs) installation_id
              in (h, cs\<lparr>installations := (installations cs)(installation_id \<mapsto> h),
                        next_serial := Suc (next_serial cs)\<rparr>))))"

definition gh_io :: "'w gh_client \<Rightarrow> int \<Rightarrow> ('w, gh_handle) client_io" where
  "gh_io cl installation_id = (\<lambda>(cs, w). case gh cl installation_id cs of (h, cs') \<Rightarrow> (Inr h, (cs', w)))"

definition drop_cached :: "int \<Rightarrow> ('w, unit) client_io" where
  "drop_cached installation_id =
     (\<lambda>(cs, w). (Inr (), (cs\<lparr>installations := (installations cs)(installation_id := None)\<rparr>, w)))"

definition aclose :: "client_state \<Rightarrow> client_state" where
  "aclose cs = cs\<lparr>installations := (\<lambda>_. None), token_github := None\<rparr>"

definition with_auth_retry :: "'w gh_client \<Rightarrow> int \<Rightarrow> (gh_handle \<Rightarrow> ('w, 'a) io) \<Rightarrow> ('w, 'a) client_io" where
  "with_auth_retry cl installation_id op =
     io_try (io_bind (gh_io cl installation_id) (\<lambda>h. api_call (op h))) (\<lambda>e.
       if \<not> is_request_failed e then io_raise e
       else if response_status e = 401 then
         io_bind (drop_cached installation_id) (\<lambda>_.
           io_try (io_bind (gh_io cl installation_id) (\<lambda>h. api_call (op h))) (\<lambda>second.
             if \<not> is_request_failed second then io_raise second
             else if response_status second = 401
             then io_raise (raised GitHubAuthError (error_message second))
             else io_raise (map_error second)))
       else io_raise (map_error e))"

section \<open>The operations\<close>

definition get_pr :: "'w gh_client \<Rightarrow> int \<Rightarrow> string \<Rightarrow> int \<Rightarrow> ('w, pr_info) client_io" where
  "get_pr cl installation_id repo pr_number =
     io_bind (io_result (split_repo repo)) (\<lambda>(owner, name).
     io_bind (with_auth_retry cl installation_id (\<lambda>h. api_get_pull (cl_api cl) h owner name pr_number)) (\<lambda>pr.
       io_return \<lparr>info_number = pull_number pr, info_title = pull_title pr, info_body = pull_body pr,
         info_head_sha = pull_head_sha pr, info_base_ref = pull_base_ref pr,
         info_author_login = (case pull_user_login pr of Some l \<Rightarrow> l | None \<Rightarrow> []),
         info_draft = (case pull_draft pr of Some b \<Rightarrow> b | None \<Rightarrow> False)\<rparr>))"

definition map_failures :: "('w, 'a) client_io \<Rightarrow> ('w, 'a) client_io" where
  "map_failures m = io_try m (\<lambda>e. if is_request_failed e then io_raise (map_error e) else io_raise e)"

definition get_pr_files :: "'w gh_client \<Rightarrow> int \<Rightarrow> string \<Rightarrow> int \<Rightarrow> ('w, changed_file list) client_io" where
  "get_pr_files cl installation_id repo pr_number =
     io_bind (io_result (split_repo repo)) (\<lambda>(owner, name).
     io_bind (gh_io cl installation_id) (\<lambda>h.
       map_failures (io_bind (api_call (api_list_files (cl_api cl) h owner name pr_number PER_PAGE)) (\<lambda>entries.
         io_return (map (\<lambda>e. \<lparr>filename = entry_filename e, file_status = map_file_status (entry_status e),
           additions = entry_additions e, deletions = entry_deletions e, patch = entry_patch e\<rparr>) entries)))))"

definition get_pr_comments :: "'w gh_client \<Rightarrow> int \<Rightarrow> string \<Rightarrow> int \<Rightarrow> ('w, conversation_comment list) client_io" where
  "get_pr_comments cl installation_id repo pr_number =
     io_bind (io_result (split_repo repo)) (\<lambda>(owner, name).
     io_bind (gh_io cl installation_id) (\<lambda>h.
       map_failures (io_bind (api_call (api_list_comments (cl_api cl) h owner name pr_number PER_PAGE)) (\<lambda>entries.
         io_return (map (\<lambda>c. \<lparr>
           comment_author_login = (case gh_comment_user c of Some (l, k) \<Rightarrow> l | None \<Rightarrow> []),
           comment_is_bot = (case gh_comment_user c of Some (l, k) \<Rightarrow> k = ''Bot'' | None \<Rightarrow> False),
           comment_body = (case gh_comment_body c of Some b \<Rightarrow> b | None \<Rightarrow> []),
           comment_created_at = gh_comment_created_at c\<rparr>) entries)))))"

definition get_repo :: "'w gh_client \<Rightarrow> int \<Rightarrow> string \<Rightarrow> ('w, repo_info) client_io" where
  "get_repo cl installation_id repo =
     io_bind (io_result (split_repo repo)) (\<lambda>(owner, name).
     io_bind (with_auth_retry cl installation_id (\<lambda>h. api_get_repo (cl_api cl) h owner name)) (\<lambda>d.
       io_return \<lparr>repo_full_name = repo_full_name d, repo_default_branch = repo_default_branch d,
         repo_private = repo_private d\<rparr>))"

definition create_review :: "'w gh_client \<Rightarrow> int \<Rightarrow> string \<Rightarrow> int \<Rightarrow> string \<Rightarrow> ('w, int) client_io" where
  "create_review cl installation_id repo pr_number body =
     io_bind (io_result (split_repo repo)) (\<lambda>(owner, name).
     with_auth_retry cl installation_id (\<lambda>h. api_create_review (cl_api cl) h owner name pr_number body ''COMMENT''))"

definition create_comment :: "'w gh_client \<Rightarrow> int \<Rightarrow> string \<Rightarrow> int \<Rightarrow> string \<Rightarrow> ('w, int) client_io" where
  "create_comment cl installation_id repo issue_number body =
     io_bind (io_result (split_repo repo)) (\<lambda>(owner, name).
     with_auth_retry cl installation_id (\<lambda>h. api_create_comment (cl_api cl) h owner name issue_number body))"

definition react_to_comment :: "'w gh_client \<Rightarrow> int \<Rightarrow> string \<Rightarrow> int \<Rightarrow> string \<Rightarrow> ('w, unit) client_io" where
  "react_to_comment cl installation_id repo comment_id reaction =
     io_bind (io_result (split_repo repo)) (\<lambda>(owner, name).
     with_auth_retry cl installation_id (\<lambda>h. api_create_reaction (cl_api cl) h owner name comment_id reaction))"

definition path_at :: "string \<Rightarrow> string \<Rightarrow> string \<Rightarrow> string" where
  "path_at path repo ref = ''path '' @ quoted path @ '' on '' @ repo @ ''@'' @ ref"

definition fetch_text :: "'w gh_client \<Rightarrow> int \<Rightarrow> (client_state \<times> 'w) fetcher" where
  "fetch_text cl installation_id repo ref path etag =
     io_bind (io_result (split_repo repo)) (\<lambda>(owner, name).
     io_bind
       (io_try
         (io_bind (with_auth_retry cl installation_id (\<lambda>h. api_get_content (cl_api cl) h owner name path ref etag))
           (\<lambda>response. io_return (Some response)))
         (\<lambda>e. if isinstance e GitHubNotFound then io_return None else io_raise e))
       (\<lambda>found. case found of
          None \<Rightarrow> io_return fetch_not_found
        | Some response \<Rightarrow>
            if response_status_code response = 304 then io_return fetch_not_modified
            else
              (case response_data response of
                 DirectoryContent \<Rightarrow>
                   io_raise (raised GitHubError (path_at path repo ref @ '' is a directory, not a file''))
               | OtherContent \<Rightarrow>
                   io_raise (raised GitHubError (path_at path repo ref @ '' is not a regular file''))
               | FileContent encoding content \<Rightarrow>
                   if encoding \<noteq> ''base64''
                   then io_raise (raised GitHubError (''unexpected content encoding: '' @ encoding))
                   else io_bind (io_result (api_decode (cl_api cl) content)) (\<lambda>decoded.
                     io_return (fetch_found decoded (response_etag response))))))"

section \<open>The client as the other components see it\<close>

record 'v github =
  g_get_pr :: "int \<Rightarrow> string \<Rightarrow> int \<Rightarrow> ('v, pr_info) io"
  g_get_pr_files :: "int \<Rightarrow> string \<Rightarrow> int \<Rightarrow> ('v, changed_file list) io"
  g_get_pr_comments :: "int \<Rightarrow> string \<Rightarrow> int \<Rightarrow> ('v, conversation_comment list) io"
  g_get_repo :: "int \<Rightarrow> string \<Rightarrow> ('v, repo_info) io"
  g_create_review :: "int \<Rightarrow> string \<Rightarrow> int \<Rightarrow> string \<Rightarrow> ('v, int) io"
  g_create_comment :: "int \<Rightarrow> string \<Rightarrow> int \<Rightarrow> string \<Rightarrow> ('v, int) io"
  g_react_to_comment :: "int \<Rightarrow> string \<Rightarrow> int \<Rightarrow> string \<Rightarrow> ('v, unit) io"
  g_for_installation :: "int \<Rightarrow> 'v fetcher"

definition github_of :: "'w gh_client \<Rightarrow> (client_state \<times> 'w) github" where
  "github_of cl = \<lparr>g_get_pr = get_pr cl, g_get_pr_files = get_pr_files cl,
     g_get_pr_comments = get_pr_comments cl, g_get_repo = get_repo cl,
     g_create_review = create_review cl, g_create_comment = create_comment cl,
     g_react_to_comment = react_to_comment cl, g_for_installation = fetch_text cl\<rparr>"

section \<open>The cache of the client\<close>

text \<open>Every cached object was made for its installation, with a serial number already given out.\<close>

definition client_ok :: "'w gh_client \<Rightarrow> client_state \<Rightarrow> bool" where
  "client_ok cl cs \<longleftrightarrow>
     (\<forall>i h. installations cs i = Some h \<longrightarrow> (\<exists>n < next_serial cs. h = installation_github cl n i))"

lemma client_ok_new: "client_ok cl new_client_state"
  by (simp add: client_ok_def new_client_state_def)

lemma client_ok_gh: "client_ok cl cs \<Longrightarrow> client_ok cl (snd (gh cl i cs))"
  by (auto simp: client_ok_def gh_def token_client_def Let_def less_Suc_eq split: option.splits if_splits)

interpretation client_frame: io_frame "\<lambda>(cs, w) (cs', w'). client_ok cl cs \<longrightarrow> client_ok cl cs'" for cl :: "'w gh_client"
  by unfold_locales auto

lemma keeps_gh_io: "io_keeps (\<lambda>(cs, w) (cs', w'). client_ok cl cs \<longrightarrow> client_ok cl cs') (gh_io cl i)"
  using client_ok_gh [of cl _ i] by (force simp: io_keeps_def gh_io_def split: prod.splits)

lemma keeps_drop_cached: "io_keeps (\<lambda>(cs, w) (cs', w'). client_ok cl cs \<longrightarrow> client_ok cl cs') (drop_cached i)"
  by (auto simp: io_keeps_def drop_cached_def client_ok_def)

lemma keeps_api_call: "io_keeps (\<lambda>(cs, w) (cs', w'). client_ok cl cs \<longrightarrow> client_ok cl cs') (api_call m)"
  by (auto simp: io_keeps_def api_call_def split: prod.splits)

lemmas client_keeps = client_frame.keeps_bind client_frame.keeps_try client_frame.keeps_return
  client_frame.keeps_raise client_frame.keeps_result keeps_gh_io keeps_drop_cached keeps_api_call

lemma keeps_with_auth_retry:
  "io_keeps (\<lambda>(cs, w) (cs', w'). client_ok cl cs \<longrightarrow> client_ok cl cs') (with_auth_retry cl i op)"
  unfolding with_auth_retry_def by (auto intro!: client_keeps)

lemma gh_cached: "\<not> cl_token_mode cl \<Longrightarrow> installations (snd (gh cl i cs)) i = Some (fst (gh cl i cs))"
  by (auto simp: gh_def Let_def split: option.splits)

lemma gh_fresh:
  "\<not> cl_token_mode cl \<Longrightarrow> installations cs i = None \<Longrightarrow>
   gh cl i cs = (installation_github cl (next_serial cs) i,
     cs\<lparr>installations := (installations cs)(i \<mapsto> installation_github cl (next_serial cs) i),
        next_serial := Suc (next_serial cs)\<rparr>)"
  by (simp add: gh_def Let_def)

section \<open>Errors\<close>

text \<open>The table of the client's errors, by the kind of a failed request: a rate limit, a missing page, a
  failure of the server, anything else. What is no failed request (a refused connection, a timeout, an
  answer that cannot be read) is not in the table.\<close>

definition github_error :: "exc \<Rightarrow> exc" where
  "github_error e =
     (case exc_class e of
        RateLimitExceeded status t \<Rightarrow> raised GitHubTransientError (''rate limited: '' @ str_int status @ '': '' @ t)
      | RequestFailed status t \<Rightarrow>
          raised (if status = 404 then GitHubNotFound
            else if status \<in> {500..599} then GitHubTransientError
            else GitHubPermanentError) (str_int status @ '': '' @ t)
      | _ \<Rightarrow> e)"

definition rejected :: "exc \<Rightarrow> bool" where
  "rejected e =
     (case exc_class e of
        RequestFailed status t \<Rightarrow> status = 401
      | RateLimitExceeded status t \<Rightarrow> status = 401
      | _ \<Rightarrow> False)"

text \<open>A call that is made again after a 401: a second 401 is an error of the authentication.\<close>

definition retried_error :: "exc \<Rightarrow> exc" where
  "retried_error e = (if rejected e then raised GitHubAuthError (error_message e) else github_error e)"

text \<open>The answer that counts: the first, or after a 401 that of the new object.\<close>

definition first_answer :: "'w gh_client \<Rightarrow> int \<Rightarrow> (gh_handle \<Rightarrow> ('w, 'a) io) \<Rightarrow> client_state \<times> 'w \<Rightarrow> exc + 'a" where
  "first_answer cl i call = (\<lambda>(cs, w). fst (call (fst (gh cl i cs)) w))"

definition last_answer :: "'w gh_client \<Rightarrow> int \<Rightarrow> (gh_handle \<Rightarrow> ('w, 'a) io) \<Rightarrow> client_state \<times> 'w \<Rightarrow> exc + 'a" where
  "last_answer cl i call =
     (\<lambda>(cs, w). case gh cl i cs of (h, cs1) \<Rightarrow>
        (case call h w of
           (Inr a, w1) \<Rightarrow> Inr a
         | (Inl e, w1) \<Rightarrow>
             if rejected e then first_answer cl i call (cs1\<lparr>installations := (installations cs1)(i := None)\<rparr>, w1)
             else Inl e))"

lemma rejected_iff: "rejected e \<longleftrightarrow> is_request_failed e \<and> response_status e = 401"
  by (cases "exc_class e") (auto simp: rejected_def is_request_failed_def response_status_def)

lemma github_error_failed: "is_request_failed e \<Longrightarrow> map_error e = github_error e"
  by (cases "exc_class e") (auto simp: map_error_def github_error_def is_request_failed_def response_status_def
      response_text_def error_message_def is_rate_limit_def Let_def)

lemma github_error_other: "\<not> is_request_failed e \<Longrightarrow> github_error e = e"
  by (cases "exc_class e") (auto simp: github_error_def is_request_failed_def)

lemma with_auth_retry_answer:
  "fst (with_auth_retry cl i call cw) = map_sum retried_error id (last_answer cl i call cw)"
proof -
  obtain cs w where cw: "cw = (cs, w)" by (rule prod.exhaust)
  obtain h cs1 where first: "gh cl i cs = (h, cs1)" by (rule prod.exhaust)
  obtain r w1 where call1: "call h w = (r, w1)" by (rule prod.exhaust)
  show ?thesis
  proof (cases r)
    case (Inr a)
    then show ?thesis by (simp add: cw with_auth_retry_def last_answer_def io_defs gh_io_def first call1)
  next
    case e: (Inl e)
    show ?thesis
    proof (cases "rejected e")
      case True
      let ?cs = "cs1\<lparr>installations := (installations cs1)(i := None)\<rparr>"
      obtain h2 cs2 where second: "gh cl i ?cs = (h2, cs2)" by (rule prod.exhaust)
      obtain r2 w2 where call2: "call h2 w1 = (r2, w2)" by (rule prod.exhaust)
      have e401: "is_request_failed e" "response_status e = 401" using True by (simp_all add: rejected_iff)
      have err: "retried_error e2 =
          (if \<not> is_request_failed e2 then e2
           else if response_status e2 = 401 then raised GitHubAuthError (error_message e2) else map_error e2)" for e2
        by (simp add: retried_error_def rejected_iff github_error_failed github_error_other)
      have run: "fst (with_auth_retry cl i call cw) = map_sum retried_error id r2"
        by (cases r2) (simp_all add: cw with_auth_retry_def io_defs gh_io_def drop_cached_def first call1 e e401
            second call2 err)
      show ?thesis unfolding run using True by (simp add: cw last_answer_def first_answer_def first call1 e second call2)
    next
      case False
      then show ?thesis
        by (auto simp: cw with_auth_retry_def last_answer_def io_defs gh_io_def first call1 e rejected_iff retried_error_def
            github_error_failed github_error_other)
    qed
  qed
qed

text \<open>The outcome of a call without its value.\<close>

abbreviation outcome :: "exc + 'a \<Rightarrow> exc + unit" where
  "outcome \<equiv> map_sum id (\<lambda>_. ())"

abbreviation reported :: "(exc \<Rightarrow> exc) \<Rightarrow> exc + 'a \<Rightarrow> exc + unit" where
  "reported err \<equiv> map_sum err (\<lambda>_. ())"

lemma outcome_return: "outcome (fst (io_bind m (\<lambda>a. io_return (f a)) w)) = outcome (fst (m w))"
  by (cases "m w"; cases "fst (m w)") (auto simp: io_defs)

lemma outcome_auth: "outcome (fst (with_auth_retry cl i call cw)) = reported retried_error (last_answer cl i call cw)"
  unfolding with_auth_retry_answer by (cases "last_answer cl i call cw") simp_all

lemma outcome_listing:
  "outcome (fst (io_bind (gh_io cl i) (\<lambda>h. map_failures (io_bind (api_call (call h)) (\<lambda>a. io_return (f a)))) cw)) =
   reported github_error (first_answer cl i call cw)"
proof -
  obtain cs w where cw: "cw = (cs, w)" by (rule prod.exhaust)
  obtain h cs1 where g: "gh cl i cs = (h, cs1)" by (rule prod.exhaust)
  obtain r w1 where "call h w = (r, w1)" by (rule prod.exhaust)
  then show ?thesis
    by (cases r) (auto simp: cw first_answer_def map_failures_def io_defs gh_io_def g github_error_failed github_error_other)
qed

lemma fetch_text_answer:
  assumes "split_repo repo = Inr (owner, name)"
  shows "case last_answer cl i (\<lambda>h. api_get_content (cl_api cl) h owner name path ref etag) cw of
       Inl e \<Rightarrow> fst (fetch_text cl i repo ref path etag cw) =
         (if isinstance (retried_error e) GitHubNotFound then Inr fetch_not_found else Inl (retried_error e))
     | Inr response \<Rightarrow> (case fst (fetch_text cl i repo ref path etag cw) of
         Inl e \<Rightarrow> exc_class e = GitHubError \<or> (\<exists>content. api_decode (cl_api cl) content = Inl e)
       | Inr _ \<Rightarrow> True)"
proof -
  let ?call = "\<lambda>h. api_get_content (cl_api cl) h owner name path ref etag"
  obtain r cw' where run: "with_auth_retry cl i ?call cw = (r, cw')" by (rule prod.exhaust)
  have r: "r = map_sum retried_error id (last_answer cl i ?call cw)" using with_auth_retry_answer [of cl i ?call cw] run by simp
  show ?thesis
  proof (cases "last_answer cl i ?call cw")
    case (Inl e)
    then show ?thesis using r run by (auto simp: fetch_text_def assms io_defs)
  next
    case (Inr response)
    then show ?thesis using r run
      by (auto simp: fetch_text_def assms io_defs split: gh_content.splits sum.splits)
  qed
qed

section \<open>Properties\<close>

text \<open>C28: a rejected installation token is renewed: after a 401 the call is made once more, on a new
  \<open>GitHub\<close> object that replaces the cached one; the second answer is final, and a second 401 is an
  authentication error.\<close>

theorem with_auth_retry_renews_token:
  assumes "\<not> cl_token_mode cl" "client_ok cl cs"
    and "gh cl i cs = (h, cs1)" "op h w = (Inl e, w1)" "is_request_failed e" "response_status e = 401"
  shows "\<exists>h2 cs2. h2 \<noteq> h \<and> installations cs2 i = Some h2 \<and> client_ok cl cs2 \<and>
    with_auth_retry cl i op (cs, w) =
      (case op h2 w1 of
         (Inr a, w2) \<Rightarrow> (Inr a, (cs2, w2))
       | (Inl e2, w2) \<Rightarrow>
           (Inl (if \<not> is_request_failed e2 then e2
                 else if response_status e2 = 401 then raised GitHubAuthError (error_message e2)
                 else map_error e2), (cs2, w2)))"
proof -
  have ok1: "client_ok cl cs1" using client_ok_gh [OF assms(2), of i] assms(3) by simp
  have "installations cs1 i = Some h" using gh_cached [OF assms(1), of i cs] assms(3) by simp
  then obtain n where h: "h = installation_github cl n i" "n < next_serial cs1"
    using ok1 by (auto simp: client_ok_def)
  define csd where "csd = cs1\<lparr>installations := (installations cs1)(i := None)\<rparr>"
  define h2 where "h2 = installation_github cl (next_serial cs1) i"
  define cs2 where "cs2 = csd\<lparr>installations := (installations csd)(i \<mapsto> h2), next_serial := Suc (next_serial csd)\<rparr>"
  have gh2: "gh cl i csd = (h2, cs2)"
    using gh_fresh [OF assms(1), of csd i] by (simp add: csd_def h2_def cs2_def)
  have "client_ok cl csd" using ok1 by (auto simp: csd_def client_ok_def)
  then have "client_ok cl cs2" using client_ok_gh [of cl csd i] gh2 by simp
  moreover have "with_auth_retry cl i op (cs, w) =
      (case op h2 w1 of
         (Inr a, w2) \<Rightarrow> (Inr a, (cs2, w2))
       | (Inl e2, w2) \<Rightarrow>
           (Inl (if \<not> is_request_failed e2 then e2
                 else if response_status e2 = 401 then raised GitHubAuthError (error_message e2)
                 else map_error e2), (cs2, w2)))"
    using assms(3-6) gh2
    by (simp add: with_auth_retry_def gh_io_def drop_cached_def io_defs csd_def [symmetric]
        split: prod.splits sum.splits)
  moreover have "h2 \<noteq> h" "installations cs2 i = Some h2" using h by (simp_all add: h2_def cs2_def installation_github_eq)
  ultimately show ?thesis by blast
qed

text \<open>An endpoint that rejects the first object it sees.\<close>

definition sample_api :: "gh_handle list gh_api" where
  "sample_api = \<lparr>
     api_get_pull = (\<lambda>h owner name n seen. (Inl (raised (RequestFailed 404 ''gone'') []), seen)),
     api_list_files = (\<lambda>h owner name n per seen. (Inr [], seen)),
     api_list_comments = (\<lambda>h owner name n per seen. (Inr [], seen)),
     api_get_repo = (\<lambda>h owner name seen. (Inl (raised (RequestFailed 500 ''down'') []), seen)),
     api_create_review = (\<lambda>h owner name n body event seen. (Inr 1, seen)),
     api_create_comment = (\<lambda>h owner name n body seen.
       if seen = [] then (Inl (raised (RequestFailed 401 ''expired'') []), [h]) else (Inr 5, h # seen)),
     api_create_reaction = (\<lambda>h owner name n reaction seen. (Inr (), seen)),
     api_get_content = (\<lambda>h owner name path ref etag seen. (Inl (raised (RequestFailed 404 ''none'') []), seen)),
     api_decode = (\<lambda>s. Inr s)\<rparr>"

definition sample_client :: "gh_handle list gh_client" where
  "sample_client = new_gh_client sample_api 12 ''key'' DEFAULT_TIMEOUT"

theorem with_auth_retry_renews_token_witness:
  "\<exists>h2 cs2. h2 \<noteq> installation_github sample_client 0 7 \<and> installations cs2 7 = Some h2 \<and>
    with_auth_retry sample_client 7 (\<lambda>h. api_create_comment sample_api h ''o'' ''r'' 1 ''hi'') (new_client_state, []) =
      (Inr 5, (cs2, [h2, installation_github sample_client 0 7]))"
  using with_auth_retry_renews_token [of sample_client new_client_state 7 "installation_github sample_client 0 7"
      "snd (gh sample_client 7 new_client_state)" "\<lambda>h. api_create_comment sample_api h ''o'' ''r'' 1 ''hi''" "[]"
      "raised (RequestFailed 401 ''expired'') []" "[installation_github sample_client 0 7]"]
  by (simp add: client_ok_new) (auto simp: sample_client_def new_gh_client_def sample_api_def gh_def new_client_state_def Let_def
      is_request_failed_def response_status_def)

text \<open>C36: what the operations of the client raise, exactly. An operation on a well-formed repository name
  raises when the answer of the endpoint that counts is an exception, and then it raises the client's error
  for it: transient for a rate limit or a status 5xx, not found for a 404, permanent for another status,
  and, except when listing, an authentication error after a second 401. An exception that is no failed
  request, such as a network error or a timeout of the HTTP library, comes through unchanged. A file that is
  not found is an answer, not an error; otherwise reading a file adds only errors of its own.\<close>

theorem client_errors_exact:
  assumes "split_repo repo = Inr (owner, name)"
  shows "outcome (fst (get_pr cl i repo n cw)) = reported retried_error (last_answer cl i (\<lambda>h. api_get_pull (cl_api cl) h owner name n) cw) \<and>
    outcome (fst (get_repo cl i repo cw)) = reported retried_error (last_answer cl i (\<lambda>h. api_get_repo (cl_api cl) h owner name) cw) \<and>
    outcome (fst (create_review cl i repo n body cw)) =
      reported retried_error (last_answer cl i (\<lambda>h. api_create_review (cl_api cl) h owner name n body ''COMMENT'') cw) \<and>
    outcome (fst (create_comment cl i repo n body cw)) =
      reported retried_error (last_answer cl i (\<lambda>h. api_create_comment (cl_api cl) h owner name n body) cw) \<and>
    outcome (fst (react_to_comment cl i repo n reaction cw)) =
      reported retried_error (last_answer cl i (\<lambda>h. api_create_reaction (cl_api cl) h owner name n reaction) cw) \<and>
    outcome (fst (get_pr_files cl i repo n cw)) =
      reported github_error (first_answer cl i (\<lambda>h. api_list_files (cl_api cl) h owner name n PER_PAGE) cw) \<and>
    outcome (fst (get_pr_comments cl i repo n cw)) =
      reported github_error (first_answer cl i (\<lambda>h. api_list_comments (cl_api cl) h owner name n PER_PAGE) cw) \<and>
    (case last_answer cl i (\<lambda>h. api_get_content (cl_api cl) h owner name path ref etag) cw of
       Inl e \<Rightarrow> fst (fetch_text cl i repo ref path etag cw) =
         (if isinstance (retried_error e) GitHubNotFound then Inr fetch_not_found else Inl (retried_error e))
     | Inr response \<Rightarrow> (case fst (fetch_text cl i repo ref path etag cw) of
         Inl e \<Rightarrow> exc_class e = GitHubError \<or> (\<exists>content. api_decode (cl_api cl) content = Inl e)
       | Inr _ \<Rightarrow> True))"
proof (intro conjI)
  note repo = assms io_bind_result
  show "outcome (fst (get_pr cl i repo n cw)) = reported retried_error (last_answer cl i (\<lambda>h. api_get_pull (cl_api cl) h owner name n) cw)"
    "outcome (fst (get_repo cl i repo cw)) = reported retried_error (last_answer cl i (\<lambda>h. api_get_repo (cl_api cl) h owner name) cw)"
    by (simp_all add: get_pr_def get_repo_def repo outcome_return outcome_auth)
  show "outcome (fst (create_review cl i repo n body cw)) =
      reported retried_error (last_answer cl i (\<lambda>h. api_create_review (cl_api cl) h owner name n body ''COMMENT'') cw)"
    "outcome (fst (create_comment cl i repo n body cw)) =
      reported retried_error (last_answer cl i (\<lambda>h. api_create_comment (cl_api cl) h owner name n body) cw)"
    "outcome (fst (react_to_comment cl i repo n reaction cw)) =
      reported retried_error (last_answer cl i (\<lambda>h. api_create_reaction (cl_api cl) h owner name n reaction) cw)"
    by (simp_all add: create_review_def create_comment_def react_to_comment_def repo outcome_auth)
  show "outcome (fst (get_pr_files cl i repo n cw)) =
      reported github_error (first_answer cl i (\<lambda>h. api_list_files (cl_api cl) h owner name n PER_PAGE) cw)"
    "outcome (fst (get_pr_comments cl i repo n cw)) =
      reported github_error (first_answer cl i (\<lambda>h. api_list_comments (cl_api cl) h owner name n PER_PAGE) cw)"
    by (simp_all add: get_pr_files_def get_pr_comments_def repo outcome_listing)
qed (rule fetch_text_answer [OF assms])

theorem client_errors_exact_witness:
  "fst (get_repo sample_client 7 ''o/r'' (new_client_state, [])) = Inl (raised GitHubTransientError ''500: down'') \<and>
   fst (fetch_text sample_client 7 ''o/r'' ''main'' ''f'' None (new_client_state, [])) = Inr fetch_not_found"
proof -
  have repo: "split_repo ''o/r'' = Inr (''o'', ''r'')" by code_simp
  have status: "str_int 500 = ''500''" by code_simp
  have repo_answer: "last_answer sample_client 7 (\<lambda>h. api_get_repo (cl_api sample_client) h ''o'' ''r'') (new_client_state, []) =
      Inl (raised (RequestFailed 500 ''down'') [])"
    "last_answer sample_client 7 (\<lambda>h. api_get_content (cl_api sample_client) h ''o'' ''r'' ''f'' ''main'' None) (new_client_state, []) =
      Inl (raised (RequestFailed 404 ''none'') [])"
    by (simp_all add: last_answer_def sample_client_def new_gh_client_def sample_api_def rejected_def split: prod.split)
  note errors = client_errors_exact [OF repo, where cl = sample_client and i = 7 and cw = "(new_client_state, [])" and path = "''f''" and ref = "''main''" and etag = None]
  have "outcome (fst (get_repo sample_client 7 ''o/r'' (new_client_state, []))) = Inl (raised GitHubTransientError ''500: down'')"
    using errors [THEN conjunct2, THEN conjunct1] unfolding repo_answer by (simp add: retried_error_def rejected_def github_error_def status)
  then have "fst (get_repo sample_client 7 ''o/r'' (new_client_state, [])) = Inl (raised GitHubTransientError ''500: down'')"
    by (cases "fst (get_repo sample_client 7 ''o/r'' (new_client_state, []))") simp_all
  moreover have "fst (fetch_text sample_client 7 ''o/r'' ''main'' ''f'' None (new_client_state, [])) = Inr fetch_not_found"
    using errors unfolding repo_answer by (simp add: retried_error_def rejected_def github_error_def isinstance_def is_subclass.simps)
  ultimately show ?thesis by blast
qed

text \<open>How a failed request is classified: transient exactly for a rate limit or a status 5xx,
  not found exactly for a 404 that is no rate limit, permanent otherwise.\<close>

lemma map_error_classes:
  "(isinstance (map_error e) GitHubTransientError \<longleftrightarrow>
      is_rate_limit e \<or> 500 \<le> response_status e \<and> response_status e < 600) \<and>
   (isinstance (map_error e) GitHubNotFound \<longleftrightarrow> \<not> is_rate_limit e \<and> response_status e = 404) \<and>
   (isinstance (map_error e) GitHubPermanentError \<longleftrightarrow>
      \<not> is_rate_limit e \<and> response_status e \<noteq> 404 \<and> \<not> (500 \<le> response_status e \<and> response_status e < 600)) \<and>
   isinstance (map_error e) GitHubError"
  by (auto simp: map_error_def Let_def isinstance_def is_subclass.simps)

end
