(* ===== verification/Retry.thy ===== *)
theory Retry
  imports Effects
begin

text \<open>
  Retrying with tenacity, as \<open>llm/client.py\<close> and \<open>pipeline/reviewer.py\<close> use it. The loop
  \<open>async for attempt in AsyncRetrying(...): with attempt: return await f()\<close> is a parameter
  \<open>retrying\<close> of the model, given the waiting strategy, the number of attempts, the exceptions that are
  retried and the call; its result is None when the loop ends without returning. \<open>retry_contract\<close> states what the
  package documents: with \<open>stop_after_attempt\<close>, \<open>retry_if_exception_type\<close> and \<open>reraise\<close>, the call is
  repeated after a sleep as long as it raises a retried exception and attempts are left, and the last
  outcome is the outcome of the loop.
\<close>

section \<open>Sequences of attempts\<close>

text \<open>\<open>wait=wait_exponential_jitter(initial=...)\<close>. Times are in seconds.\<close>

datatype retry_wait = ExponentialJitter rat

text \<open>
  The sleep after the attempt number \<open>k\<close>, counted from 0, as the package documents it: at least no time
  at all and at most \<open>initial * 2 ^ k\<close> with a jitter of at most a second; its upper limit for the
  whole only makes the sleep shorter.
\<close>

fun wait_within :: "retry_wait \<Rightarrow> nat \<Rightarrow> rat \<Rightarrow> bool" where
  "wait_within (ExponentialJitter initial) k d \<longleftrightarrow> 0 \<le> d \<and> d \<le> max 0 (initial * 2 ^ k + 1)"

text \<open>
  \<open>attempts slept m w fs out\<close>: the call \<open>m\<close>, started in the world \<open>w\<close>, failed with the exceptions of
  \<open>fs\<close>, one after the other, each followed by a sleep of the time noted with it, and then ended with
  the outcome \<open>out\<close>; \<open>slept d w w'\<close> says what sleeping for the time \<open>d\<close> may do to the world.
\<close>

inductive attempts ::
  "(rat \<Rightarrow> 'w \<Rightarrow> 'w \<Rightarrow> bool) \<Rightarrow> ('w, 'a) io \<Rightarrow> 'w \<Rightarrow> (exc \<times> rat) list \<Rightarrow> (exc + 'a) \<times> 'w \<Rightarrow> bool"
  for slept :: "rat \<Rightarrow> 'w \<Rightarrow> 'w \<Rightarrow> bool" and m :: "('w, 'a) io" where
  last_attempt: "m w = out \<Longrightarrow> attempts slept m w [] out"
| next_attempt: "m w = (Inl e, w1) \<Longrightarrow> slept d w1 w2 \<Longrightarrow> attempts slept m w2 fs out \<Longrightarrow>
    attempts slept m w ((e, d) # fs) out"

inductive_cases attempts_NilE: "attempts slept m w [] out"
inductive_cases attempts_ConsE: "attempts slept m w (f # fs) out"
inductive_simps attempts_Nil_simp [simp]: "attempts slept m w [] out"
inductive_simps attempts_Cons_simp: "attempts slept m w (f # fs) out"

lemma attempts_final:
  "attempts slept m w fs out \<Longrightarrow> \<exists>w1. m w1 = out"
  by (induction rule: attempts.induct) auto

lemma attempts_first:
  "attempts slept m w fs (r, w') \<Longrightarrow> m w = (x, w1) \<Longrightarrow>
   (fs = [] \<and> r = x \<and> w' = w1) \<or> (\<exists>e. x = Inl e \<and> fs \<noteq> [] \<and> fst (hd fs) = e)"
  by (cases fs) (auto elim: attempts_ConsE)

type_synonym ('w, 'a) retrying =
  "retry_wait \<Rightarrow> nat \<Rightarrow> (exc \<Rightarrow> bool) \<Rightarrow> ('w, 'a) io \<Rightarrow> ('w, 'a option) io"

text \<open>One run of the loop with at most \<open>n\<close> attempts, each sleep as the strategy has it.\<close>

definition retried ::
  "(rat \<Rightarrow> 'w \<Rightarrow> 'w \<Rightarrow> bool) \<Rightarrow> retry_wait \<Rightarrow> nat \<Rightarrow> (exc \<Rightarrow> bool) \<Rightarrow> ('w, 'a) io \<Rightarrow> 'w \<Rightarrow> (exc \<times> rat) list \<Rightarrow>
   exc + 'a \<Rightarrow> 'w \<Rightarrow> bool" where
  "retried slept wait n p m w fs r w' \<longleftrightarrow> attempts slept m w fs (r, w') \<and> length fs < n \<and>
     (\<forall>f \<in> set fs. p (fst f)) \<and> (\<forall>k < length fs. wait_within wait k (snd (fs ! k))) \<and>
     (\<forall>e. r = Inl e \<longrightarrow> p e \<longrightarrow> Suc (length fs) = n)"

definition retry_contract :: "(rat \<Rightarrow> 'w \<Rightarrow> 'w \<Rightarrow> bool) \<Rightarrow> ('w, 'a) retrying \<Rightarrow> bool" where
  "retry_contract slept retrying \<longleftrightarrow>
     (\<forall>wait n p m w. 1 \<le> n \<longrightarrow>
        (\<exists>fs r w'. retried slept wait n p m w fs r w' \<and> retrying wait n p m w = (map_sum id Some r, w')))"

lemma retry_contractE:
  assumes "retry_contract slept retrying" "1 \<le> n"
  obtains fs r w' where "retried slept wait n p m w fs r w'" "retrying wait n p m w = (map_sum id Some r, w')"
  using assms unfolding retry_contract_def by blast

text \<open>An exception that is not retried ends the loop at the first attempt, and so does a result.\<close>

lemma retry_at_once:
  assumes "retry_contract slept retrying" "1 \<le> n" "m w = (x, w1)" "\<And>e. x = Inl e \<Longrightarrow> \<not> p e"
  shows "retrying wait n p m w = (map_sum id Some x, w1)"
proof -
  obtain fs r w' where run: "attempts slept m w fs (r, w')" "retrying wait n p m w = (map_sum id Some r, w')"
    "\<forall>f \<in> set fs. p (fst f)"
    using retry_contractE [OF assms(1,2), of wait p m w thesis] unfolding retried_def by blast
  then show ?thesis using attempts_first [OF run(1) assms(3)] assms(4) by (cases fs) auto
qed

text \<open>A call that always raises a retried exception is made \<open>n\<close> times, and the last exception is raised.\<close>

lemma retry_exhausted:
  assumes "retry_contract slept retrying" "1 \<le> n" "\<And>v. \<exists>e v'. m v = (Inl e, v') \<and> p e"
  shows "\<exists>fs e w'. retrying wait n p m w = (Inl e, w') \<and> p e \<and> retried slept wait n p m w fs (Inl e) w' \<and>
    Suc (length fs) = n"
proof -
  obtain fs r w' where run: "retried slept wait n p m w fs r w'" "retrying wait n p m w = (map_sum id Some r, w')"
    by (rule retry_contractE [OF assms(1,2)])
  then have "attempts slept m w fs (r, w')" by (simp add: retried_def)
  from attempts_final [OF this] obtain v where "m v = (r, w')" by blast
  then obtain e where e: "r = Inl e" "p e" using assms(3) [of v] by auto
  moreover have "Suc (length fs) = n" using run(1) e unfolding retried_def by blast
  ultimately show ?thesis using run by auto
qed

section \<open>How long a loop sleeps\<close>

definition total_wait :: "(exc \<times> rat) list \<Rightarrow> rat" where
  "total_wait fs = sum_list (map snd fs)"

lemma total_wait_simps [simp]: "total_wait [] = 0" "total_wait (fs @ [f]) = total_wait fs + snd f"
  by (simp_all add: total_wait_def)

lemma total_wait_bound:
  assumes "0 \<le> initial" "\<forall>k < length fs. wait_within (ExponentialJitter initial) k (snd (fs ! k))"
  shows "0 \<le> total_wait fs \<and> total_wait fs \<le> initial * (2 ^ length fs - 1) + of_nat (length fs)"
  using assms(2)
proof (induction fs rule: rev_induct)
  case (snoc f fs)
  have "wait_within (ExponentialJitter initial) (length fs) (snd f)"
    using snoc.prems [rule_format, of "length fs"] by simp
  moreover have "0 \<le> initial * 2 ^ length fs + 1" using assms(1) by simp
  ultimately have "0 \<le> snd f" "snd f \<le> initial * 2 ^ length fs + 1" by simp_all
  moreover have "\<forall>k < length fs. wait_within (ExponentialJitter initial) k (snd (fs ! k))"
  proof (intro allI impI)
    fix k assume k: "k < length fs"
    then show "wait_within (ExponentialJitter initial) k (snd (fs ! k))"
      using snoc.prems [rule_format, of k] by (simp add: nth_append)
  qed
  ultimately show ?case using snoc.IH by (simp add: algebra_simps)
qed simp

lemma retried_wait:
  assumes "retried slept (ExponentialJitter initial) n p m w fs r w'" "0 \<le> initial"
  shows "0 \<le> total_wait fs \<and> total_wait fs \<le> initial * (2 ^ length fs - 1) + of_nat (length fs)"
  using total_wait_bound [OF assms(2)] assms(1) unfolding retried_def by blast

section \<open>A loop that meets the contract\<close>

text \<open>Without sleeping; it shows that the contract can be met, and the witnesses run it.\<close>

fun retry_loop :: "('w, 'a) retrying" where
  "retry_loop wait 0 p m = io_return None"
| "retry_loop wait (Suc n) p m =
     (\<lambda>w. case m w of
        (Inr a, w') \<Rightarrow> (Inr (Some a), w')
      | (Inl e, w') \<Rightarrow> if p e \<and> n \<noteq> 0 then retry_loop wait n p m w' else (Inl e, w'))"

definition no_sleep :: "rat \<Rightarrow> 'w \<Rightarrow> 'w \<Rightarrow> bool" where
  "no_sleep d w w' \<longleftrightarrow> d = 0 \<and> w' = w"

lemma retry_loop_attempts:
  "1 \<le> n \<Longrightarrow> \<exists>fs r w'. attempts no_sleep m w fs (r, w') \<and> retry_loop wait n p m w = (map_sum id Some r, w') \<and>
     length fs < n \<and> (\<forall>f \<in> set fs. p (fst f) \<and> snd f = 0) \<and> (\<forall>e. r = Inl e \<longrightarrow> p e \<longrightarrow> Suc (length fs) = n)"
proof (induction n arbitrary: w)
  case (Suc n)
  obtain r v where run: "m w = (r, v)" by (rule prod.exhaust)
  show ?case
  proof (cases "\<exists>e. r = Inl e \<and> p e \<and> n \<noteq> 0")
    case True
    then obtain e where e: "r = Inl e" "p e" "n \<noteq> 0" by blast
    then have n: "1 \<le> n" by simp
    from Suc.IH [OF n, of v] obtain fs r' w' where ih: "attempts no_sleep m v fs (r', w')"
      "retry_loop wait n p m v = (map_sum id Some r', w')" "length fs < n" "\<forall>f \<in> set fs. p (fst f) \<and> snd f = 0"
      "\<forall>e. r' = Inl e \<longrightarrow> p e \<longrightarrow> Suc (length fs) = n"
      by (elim exE conjE) (rule that, assumption+)
    have "attempts no_sleep m w ((e, 0) # fs) (r', w')"
      by (rule next_attempt [OF _ _ ih(1)]) (simp_all add: run e(1) no_sleep_def)
    moreover have "retry_loop wait (Suc n) p m w = (map_sum id Some r', w')"
      using ih(2) e(2,3) by (simp add: run e(1))
    ultimately show ?thesis
      using ih(3-5) e(2) by (intro exI [of _ "(e, 0) # fs"] exI [of _ r'] exI [of _ w']) (simp add: id_def)
  next
    case False
    then show ?thesis
      by (intro exI [of _ "[]"] exI [of _ r] exI [of _ v]) (cases r; auto simp: run)
  qed
qed simp

lemma wait_within_0: "wait_within wait k 0"
  by (cases wait) simp

lemma retry_loop_contract: "retry_contract (no_sleep :: rat \<Rightarrow> 'w \<Rightarrow> 'w \<Rightarrow> bool) (retry_loop :: ('w, 'a) retrying)"
  unfolding retry_contract_def
proof (intro allI impI)
  fix wait n p and m :: "('w, 'a) io" and w
  assume "1 \<le> (n :: nat)"
  then obtain fs r w' where run: "attempts no_sleep m w fs (r, w')"
    "retry_loop wait n p m w = (map_sum id Some r, w')" "length fs < n" "\<forall>f \<in> set fs. p (fst f) \<and> snd f = 0"
    "\<forall>e. r = Inl e \<longrightarrow> p e \<longrightarrow> Suc (length fs) = n"
    using retry_loop_attempts [where m = m and w = w and wait = wait and p = p] by blast
  moreover have "wait_within wait k (snd (fs ! k))" if "k < length fs" for k
    using run(4) that wait_within_0 by (metis nth_mem)
  ultimately show "\<exists>fs r w'. retried no_sleep wait n p m w fs r w' \<and> retry_loop wait n p m w = (map_sum id Some r, w')"
    unfolding retried_def by blast
qed

end
