(* ===== verification/LLMClient.thy ===== *)
theory LLMClient
  imports Retry
begin

text \<open>
  The client of the model's endpoint, \<open>llm/client.py\<close> and \<open>llm/types.py\<close>. The HTTP library, the
  validation of the usage block and \<open>str()\<close> of a value that is not a string are parameters.
\<close>

section \<open>Dictionaries\<close>

text \<open>A dict in insertion order: \<open>d[k] = v\<close>, \<open>d.update(e)\<close> and \<open>d.get(k)\<close>.\<close>

fun dict_set :: "string \<Rightarrow> json \<Rightarrow> (string \<times> json) list \<Rightarrow> (string \<times> json) list" where
  "dict_set k v [] = [(k, v)]"
| "dict_set k v ((k', v') # d) = (if k' = k then (k, v) # d else (k', v') # dict_set k v d)"

definition dict_update :: "(string \<times> json) list \<Rightarrow> (string \<times> json) list \<Rightarrow> (string \<times> json) list" where
  "dict_update d e = fold (\<lambda>(k, v). dict_set k v) e d"

lemma map_of_dict_set [simp]: "map_of (dict_set k v d) = (map_of d)(k \<mapsto> v)"
  by (induction k v d rule: dict_set.induct) auto

lemma map_of_dict_update: "map_of (dict_update d e) = map_of d ++ map_of (rev e)"
proof (induction e arbitrary: d)
  case (Cons p e)
  then show ?case by (cases p) (auto simp: dict_update_def map_add_def fun_eq_iff split: option.splits)
qed (simp add: dict_update_def)

section \<open>The request\<close>

record chat_request =
  request_model :: string
  request_messages :: "message list"
  request_temperature :: "rat option"
  request_max_tokens :: "int option"
  request_response_format :: "(string \<times> json) list option"

definition message_json :: "message \<Rightarrow> json" where
  "message_json m = JObj [(''role'', JStr (role_value (msg_role m))), (''content'', JStr (msg_content m))]"

definition to_json_payload :: "chat_request \<Rightarrow> (string \<times> json) list" where
  "to_json_payload r =
     [(''model'', JStr (request_model r)), (''messages'', JArr (map message_json (request_messages r)))] @
     (case request_temperature r of None \<Rightarrow> [] | Some t \<Rightarrow> [(''temperature'', JFloat t)]) @
     (case request_max_tokens r of None \<Rightarrow> [] | Some n \<Rightarrow> [(''max_tokens'', JInt n)]) @
     (case request_response_format r of None \<Rightarrow> [] | Some f \<Rightarrow> [(''response_format'', JObj f)])"

section \<open>The reply\<close>

abbreviation KeyError :: exc_class where "KeyError \<equiv> OtherError ''KeyError''"
abbreviation TypeError :: exc_class where "TypeError \<equiv> OtherError ''TypeError''"

text \<open>\<open>x.get(k)\<close>: None for an absent key, an \<open>AttributeError\<close> on anything that is no dict.\<close>

fun json_get :: "json \<Rightarrow> string \<Rightarrow> exc + json" where
  "json_get (JObj kvs) k = Inr (case map_of kvs k of Some v \<Rightarrow> v | None \<Rightarrow> JNull)"
| "json_get _ k = Inl (raised AttributeError ''object has no attribute get'')"

text \<open>\<open>x or y\<close>, and \<open>x[0]\<close> of a value that is true.\<close>

definition json_or :: "json \<Rightarrow> json \<Rightarrow> json" where
  "json_or x y = (if json_truthy x then x else y)"

fun json_first :: "json \<Rightarrow> exc + json" where
  "json_first (JArr (x # xs)) = Inr x"
| "json_first (JStr (c # s)) = Inr (JStr [c])"
| "json_first (JObj kvs) = Inl (raised KeyError ''0'')"
| "json_first _ = Inl (raised TypeError ''object is not subscriptable'')"

text \<open>\<open>str(x)\<close>; \<open>show_json\<close> is its value for what is no string.\<close>

fun json_str :: "(json \<Rightarrow> string) \<Rightarrow> json \<Rightarrow> string" where
  "json_str show_json (JStr s) = s"
| "json_str show_json x = show_json x"

text \<open>
  httpx: what an \<open>AsyncClient\<close> is built with; its \<open>post\<close> and its \<open>get\<close> with a timeout of its own, each
  answering with status, text and the outcome of \<open>response.json()\<close>; and its \<open>aclose\<close>.
\<close>

record http_session =
  session_timeout :: rat
  session_headers :: "(string \<times> string) list"

record 'w http =
  http_post :: "http_session \<Rightarrow> string \<Rightarrow> json \<Rightarrow> ('w, int \<times> string \<times> (exc + json)) io"
  http_get :: "http_session \<Rightarrow> string \<Rightarrow> rat \<Rightarrow> ('w, int \<times> string \<times> (exc + json)) io"
  http_aclose :: "http_session \<Rightarrow> ('w, unit) io"
  http_show_json :: "json \<Rightarrow> string"
  http_validate_usage :: "json \<Rightarrow> exc + token_usage"

definition except_bind :: "exc + 'a \<Rightarrow> ('a \<Rightarrow> exc + 'b) \<Rightarrow> exc + 'b" where
  "except_bind r f = (case r of Inl e \<Rightarrow> Inl e | Inr a \<Rightarrow> f a)"

lemma except_bind_simps [simp]: "except_bind (Inl e) f = Inl e" "except_bind (Inr a) f = f a"
  by (simp_all add: except_bind_def)

definition parse_response :: "'w http \<Rightarrow> json \<Rightarrow> exc + chat_response" where
  "parse_response lib payload =
     except_bind (json_get payload ''choices'') (\<lambda>got.
       (let choices = json_or got (JArr []) in
        if \<not> json_truthy choices then Inl (raised LLMError ''LLM response contained no choices'')
        else
          except_bind (json_first choices) (\<lambda>choice.
          except_bind (json_get choice ''message'') (\<lambda>got_message.
            (let msg = json_or got_message (JObj []) in
             except_bind (json_get msg ''content'') (\<lambda>content.
               if content = JNull then Inl (raised LLMError ''LLM response had no message content'')
               else
                 except_bind (json_get msg ''reasoning_content'') (\<lambda>reasoning.
                 except_bind (json_get choice ''finish_reason'') (\<lambda>finish_reason.
                 except_bind (json_get payload ''usage'') (\<lambda>got_usage.
                 except_bind (json_get payload ''model'') (\<lambda>model.
                 except_bind (http_validate_usage lib (json_or got_usage (JObj []))) (\<lambda>usage.
                   Inr \<lparr>resp_content = json_str (http_show_json lib) content,
                     resp_model =
                       (case payload of JObj kvs \<Rightarrow> (if map_of kvs ''model'' = None then [] else json_str (http_show_json lib) model)
                        | _ \<Rightarrow> []),
                     resp_usage = usage,
                     resp_reasoning_content = json_str (http_show_json lib) (json_or reasoning (JStr [])),
                     resp_finish_reason = (if finish_reason = JNull then None
                       else Some (json_str (http_show_json lib) finish_reason))\<rparr>)))))))))))"

section \<open>The client\<close>

record 'w llm_client =
  client_base_url :: string
  client_model :: string
  client_max_attempts :: nat
  client_retry_initial_delay :: rat
  client_extra_body :: "(string \<times> json) list"
  client_session :: http_session
  client_http :: "'w http"
  client_retrying :: "('w, chat_response) retrying"

text \<open>\<open>base_url.rstrip("/")\<close>\<close>

definition rstrip_slash :: "string \<Rightarrow> string" where
  "rstrip_slash s = rev (dropWhile (\<lambda>c. c = CHR ''/'') (rev s))"

definition client_headers :: "string option \<Rightarrow> (string \<times> string) list" where
  "client_headers api_key =
     (''Content-Type'', ''application/json'') #
     (case api_key of None \<Rightarrow> [] | Some k \<Rightarrow> [(''Authorization'', ''Bearer '' @ k)])"

definition new_llm_client ::
  "string \<Rightarrow> string \<Rightarrow> string option \<Rightarrow> rat \<Rightarrow> nat \<Rightarrow> rat \<Rightarrow> (string \<times> json) list \<Rightarrow> 'w http \<Rightarrow>
   ('w, chat_response) retrying \<Rightarrow> 'w llm_client" where
  "new_llm_client base_url model api_key timeout max_attempts retry_initial_delay extra_body lib retrying =
     \<lparr>client_base_url = rstrip_slash base_url, client_model = model, client_max_attempts = max_attempts,
      client_retry_initial_delay = retry_initial_delay, client_extra_body = extra_body,
      client_session = \<lparr>session_timeout = timeout, session_headers = client_headers api_key\<rparr>,
      client_http = lib, client_retrying = retrying\<rparr>"

text \<open>The defaults of the arguments that no caller gives.\<close>

definition DEFAULT_MAX_ATTEMPTS :: nat where
  "DEFAULT_MAX_ATTEMPTS = 3"

definition DEFAULT_RETRY_INITIAL_DELAY :: rat where
  "DEFAULT_RETRY_INITIAL_DELAY = 1"

text \<open>\<open>aclose\<close>, which leaving the client as a context manager calls as well.\<close>

definition llm_aclose :: "'w llm_client \<Rightarrow> ('w, unit) io" where
  "llm_aclose cl = http_aclose (client_http cl) (client_session cl)"

definition in_llm_client :: "'w llm_client \<Rightarrow> ('w llm_client \<Rightarrow> ('w, 'a) io) \<Rightarrow> ('w, 'a) io" where
  "in_llm_client cl body = io_finally (body cl) (llm_aclose cl)"

definition status_error :: "string \<Rightarrow> int \<Rightarrow> string \<Rightarrow> exc option" where
  "status_error what status body =
     (if 500 \<le> status \<and> status < 600
      then Some (raised LLMTransientError (what @ '' returned '' @ str_int status @ '': '' @ body))
      else if 400 \<le> status \<and> status < 500
      then Some (raised LLMPermanentError (what @ '' returned '' @ str_int status @ '': '' @ body))
      else None)"

text \<open>The two \<open>except\<close> clauses around the HTTP call.\<close>

definition http_errors :: "string \<Rightarrow> ('w, 'a) io \<Rightarrow> ('w, 'a) io" where
  "http_errors what m =
     io_try m (\<lambda>e.
       if isinstance e HttpTimeoutException
       then io_raise (raised LLMTransientError (what @ '' timed out: '' @ exc_message e))
       else if isinstance e HttpRequestError
       then io_raise (raised LLMTransientError (what @ '' failed: '' @ exc_message e))
       else io_raise e)"

text \<open>\<open>response.json()\<close> with its \<open>except ValueError\<close>.\<close>

definition decode_json :: "string \<Rightarrow> exc + json \<Rightarrow> exc + json" where
  "decode_json what r =
     (case r of
        Inl e \<Rightarrow> if isinstance e ValueError
          then Inl (raised LLMError (what @ '' response was not valid JSON: '' @ exc_message e)) else Inl e
      | Inr j \<Rightarrow> Inr j)"

definition request_payload :: "'w llm_client \<Rightarrow> chat_request \<Rightarrow> (string \<times> json) list" where
  "request_payload cl request = dict_update (client_extra_body cl) (to_json_payload request)"

definition llm_execute :: "'w llm_client \<Rightarrow> chat_request \<Rightarrow> ('w, chat_response) io" where
  "llm_execute cl request =
     (let url = client_base_url cl @ ''/chat/completions'';
          payload = request_payload cl request
      in io_bind (http_errors ''LLM request'' (http_post (client_http cl) (client_session cl) url (JObj payload)))
           (\<lambda>(status, body, doc).
             case status_error ''LLM endpoint'' status body of
               Some e \<Rightarrow> io_raise e
             | None \<Rightarrow> io_result (except_bind (decode_json ''LLM'' doc) (parse_response (client_http cl)))))"

definition chat ::
  "'w llm_client \<Rightarrow> message list \<Rightarrow> rat option \<Rightarrow> int option \<Rightarrow> (string \<times> json) list option \<Rightarrow>
   ('w, chat_response) io" where
  "chat cl messages temperature max_tokens response_format =
     (let request = \<lparr>request_model = client_model cl, request_messages = messages,
           request_temperature = temperature, request_max_tokens = max_tokens,
           request_response_format = response_format\<rparr>
      in io_bind (client_retrying cl (ExponentialJitter (client_retry_initial_delay cl)) (client_max_attempts cl)
             (\<lambda>e. isinstance e LLMTransientError) (llm_execute cl request))
           (\<lambda>result. case result of
              Some response \<Rightarrow> io_return response
            | None \<Rightarrow> io_raise (raised LLMError ''tenacity retry loop exited without result'')))"

fun model_id :: "(json \<Rightarrow> string) \<Rightarrow> json \<Rightarrow> string list" where
  "model_id show_json (JObj kvs) =
     (case map_of kvs ''id'' of Some v \<Rightarrow> [json_str show_json v] | None \<Rightarrow> [])"
| "model_id show_json _ = []"

text \<open>\<open>for entry in data\<close> over a value that is true.\<close>

fun json_iter :: "json \<Rightarrow> exc + json list" where
  "json_iter (JArr xs) = Inr xs"
| "json_iter (JObj kvs) = Inr (map (\<lambda>(k, v). JStr k) kvs)"
| "json_iter (JStr s) = Inr (map (\<lambda>c. JStr [c]) s)"
| "json_iter _ = Inl (raised TypeError ''object is not iterable'')"

definition list_models :: "'w llm_client \<Rightarrow> ('w, string list) io" where
  "list_models cl =
     io_bind (http_errors ''LLM /models request'' (http_get (client_http cl) (client_session cl) (client_base_url cl @ ''/models'') 10))
       (\<lambda>(status, body, doc).
         case status_error ''LLM /models'' status body of
           Some e \<Rightarrow> io_raise e
         | None \<Rightarrow> io_result
             (except_bind (decode_json ''LLM /models'' doc) (\<lambda>payload.
              except_bind (json_get payload ''data'') (\<lambda>data.
              except_bind (json_iter (json_or data (JArr []))) (\<lambda>entries.
                Inr (concat (map (model_id (http_show_json (client_http cl))) entries)))))))"

section \<open>Properties\<close>

lemma isinstance_llm [simp]:
  "isinstance (raised LLMTransientError m) LLMTransientError"
  "\<not> isinstance (raised LLMPermanentError m) LLMTransientError"
  "\<not> isinstance (raised LLMError m) LLMTransientError"
  by (simp_all add: isinstance_def is_subclass.simps)

lemma to_json_payload_keys: "distinct (map fst (to_json_payload r))"
  by (auto simp: to_json_payload_def split: option.splits)

lemma to_json_payload_rev: "map_of (rev (to_json_payload r)) = map_of (to_json_payload r)"
  using to_json_payload_keys [of r] by (subst map_of_inject_set) (simp_all add: rev_map flip: rev_map)

text \<open>The configured extra body cannot replace what the client itself sends: a field the request
  sets has the request's value, and every other field has the value of the extra body.\<close>

lemma request_payload_overrides_extra_body:
  "map_of (request_payload cl r) k =
     (if k = ''model'' then Some (JStr (request_model r))
      else if k = ''messages'' then Some (JArr (map message_json (request_messages r)))
      else if k = ''temperature'' \<and> request_temperature r \<noteq> None then Some (JFloat (the (request_temperature r)))
      else if k = ''max_tokens'' \<and> request_max_tokens r \<noteq> None then Some (JInt (the (request_max_tokens r)))
      else if k = ''response_format'' \<and> request_response_format r \<noteq> None
      then Some (JObj (the (request_response_format r)))
      else map_of (client_extra_body cl) k)"
proof -
  have "map_of (request_payload cl r) k =
      (case map_of (to_json_payload r) k of Some v \<Rightarrow> Some v | None \<Rightarrow> map_of (client_extra_body cl) k)"
    by (simp add: request_payload_def map_of_dict_update to_json_payload_rev map_add_def
        split: option.split)
  then show ?thesis by (auto simp: to_json_payload_def split: option.splits)
qed

lemma llm_execute_status:
  assumes "http_post (client_http cl) (client_session cl) (client_base_url cl @ ''/chat/completions'') (JObj (request_payload cl r)) w =
      (Inr (status, body, doc), w1)"
    and "status_error ''LLM endpoint'' status body = Some e"
  shows "llm_execute cl r w = (Inl e, w1)"
  using assms by (simp add: llm_execute_def http_errors_def io_defs)

lemma chat_outcome:
  assumes "client_retrying cl (ExponentialJitter (client_retry_initial_delay cl)) (client_max_attempts cl) (\<lambda>e. isinstance e LLMTransientError)
      (llm_execute cl \<lparr>request_model = client_model cl, request_messages = messages,
         request_temperature = t, request_max_tokens = n, request_response_format = rf\<rparr>) w =
    (map_sum id Some r, w1)"
  shows "chat cl messages t n rf w = (r, w1)"
  using assms by (cases r) (simp_all add: chat_def io_bind_def io_return_def)

abbreviation chat_request_of ::
  "'w llm_client \<Rightarrow> message list \<Rightarrow> rat option \<Rightarrow> int option \<Rightarrow> (string \<times> json) list option \<Rightarrow> chat_request" where
  "chat_request_of cl messages t n rf \<equiv>
     \<lparr>request_model = client_model cl, request_messages = messages, request_temperature = t,
      request_max_tokens = n, request_response_format = rf\<rparr>"

abbreviation chat_post ::
  "'w llm_client \<Rightarrow> message list \<Rightarrow> rat option \<Rightarrow> int option \<Rightarrow> (string \<times> json) list option \<Rightarrow>
   ('w, int \<times> string \<times> (exc + json)) io" where
  "chat_post cl messages t n rf \<equiv> http_post (client_http cl) (client_session cl) (client_base_url cl @ ''/chat/completions'')
     (JObj (request_payload cl (chat_request_of cl messages t n rf)))"

text \<open>An answer 4xx is final: the request is posted once, is not retried and fails as a permanent
  error.\<close>

lemma chat_client_error_not_retried:
  assumes "retry_contract slept (client_retrying cl)" "1 \<le> client_max_attempts cl"
    and "chat_post cl messages t n rf w = (Inr (status, body, doc), w1)" "400 \<le> status" "status < 500"
  shows "chat cl messages t n rf w =
    (Inl (raised LLMPermanentError (''LLM endpoint returned '' @ str_int status @ '': '' @ body)), w1)"
proof -
  let ?e = "raised LLMPermanentError (''LLM endpoint returned '' @ str_int status @ '': '' @ body)"
  have "status_error ''LLM endpoint'' status body = Some ?e" using assms(4,5) by (simp add: status_error_def)
  from llm_execute_status [OF assms(3) this]
  have run: "llm_execute cl (chat_request_of cl messages t n rf) w = (Inl ?e, w1)" .
  have "client_retrying cl (ExponentialJitter (client_retry_initial_delay cl)) (client_max_attempts cl) (\<lambda>e. isinstance e LLMTransientError)
      (llm_execute cl (chat_request_of cl messages t n rf)) w = (map_sum id Some (Inl ?e), w1)"
    by (rule retry_at_once [OF assms(1,2)]) (rule run, auto)
  then show ?thesis by (rule chat_outcome)
qed

text \<open>C29: against an endpoint that keeps answering 5xx the request is posted exactly as often as
  attempts are allowed, and the last transient error is raised; with \<open>d\<close> the initial delay and \<open>n\<close> the
  number of attempts, the sleeps in between take at most \<open>d (2 ^ (n - 1) - 1) + (n - 1)\<close> seconds.\<close>

theorem chat_gives_up_after_max_attempts:
  assumes "retry_contract slept (client_retrying cl)" "1 \<le> client_max_attempts cl" "0 \<le> client_retry_initial_delay cl"
    and down: "\<forall>w. \<exists>status body doc w1. chat_post cl messages t n rf w = (Inr (status, body, doc), w1) \<and>
      500 \<le> status \<and> status < 600"
  shows "\<exists>fs e w1. chat cl messages t n rf w = (Inl e, w1) \<and> isinstance e LLMTransientError \<and>
    attempts slept (llm_execute cl (chat_request_of cl messages t n rf)) w fs (Inl e, w1) \<and>
    Suc (length fs) = client_max_attempts cl \<and>
    total_wait fs \<le> client_retry_initial_delay cl * (2 ^ (client_max_attempts cl - 1) - 1) + of_nat (client_max_attempts cl - 1)"
proof -
  let ?m = "llm_execute cl (chat_request_of cl messages t n rf)"
  let ?p = "\<lambda>e. isinstance e LLMTransientError" and ?wait = "ExponentialJitter (client_retry_initial_delay cl)"
  have "\<exists>e w1. ?m v = (Inl e, w1) \<and> ?p e" for v
  proof -
    obtain status body doc w1 where r: "chat_post cl messages t n rf v = (Inr (status, body, doc), w1)"
      "500 \<le> status" "status < 600" using down by blast
    then have "status_error ''LLM endpoint'' status body =
        Some (raised LLMTransientError (''LLM endpoint returned '' @ str_int status @ '': '' @ body))"
      by (simp add: status_error_def)
    from llm_execute_status [OF r(1) this] show ?thesis by simp
  qed
  from retry_exhausted [where wait = ?wait and p = ?p and w = w and m = ?m, OF assms(1,2) this] obtain fs e w1 where
    run: "client_retrying cl ?wait (client_max_attempts cl) ?p ?m w = (Inl e, w1)" "?p e"
      "retried slept ?wait (client_max_attempts cl) ?p ?m w fs (Inl e) w1" "Suc (length fs) = client_max_attempts cl"
    by blast
  have "chat cl messages t n rf w = (Inl e, w1)" by (rule chat_outcome) (simp add: run(1))
  moreover have "length fs = client_max_attempts cl - 1" using run(4) by simp
  ultimately show ?thesis
    using run(2-4) retried_wait [OF run(3) assms(3)] unfolding retried_def by (intro exI [of _ fs]) auto
qed

text \<open>An endpoint that answers with a fixed status and counts the posts.\<close>

definition sample_llm :: "int \<Rightarrow> nat llm_client" where
  "sample_llm status = new_llm_client ''http://llm/v1/'' ''m'' None 600 DEFAULT_MAX_ATTEMPTS DEFAULT_RETRY_INITIAL_DELAY []
     \<lparr>http_post = (\<lambda>session url doc posts. (Inr (status, ''no'', Inr JNull), Suc posts)),
      http_get = (\<lambda>session url timeout posts. (Inr (status, ''no'', Inr JNull), posts)),
      http_aclose = (\<lambda>session. io_return ()),
      http_show_json = (\<lambda>_. []),
      http_validate_usage = (\<lambda>_. Inr \<lparr>usage_prompt_tokens = 0, usage_completion_tokens = 0, usage_total_tokens = 0\<rparr>)\<rparr>
     retry_loop"

lemma sample_llm_simps [simp]:
  "client_retrying (sample_llm st) = retry_loop" "client_max_attempts (sample_llm st) = 3"
  "client_retry_initial_delay (sample_llm st) = 1"
  "http_post (client_http (sample_llm st)) session url doc posts = (Inr (st, ''no'', Inr JNull), Suc posts)"
  by (simp_all add: sample_llm_def new_llm_client_def DEFAULT_MAX_ATTEMPTS_def DEFAULT_RETRY_INITIAL_DELAY_def)

lemma str_nat_404: "str_nat 404 = ''404''"
  by code_simp

lemma chat_client_error_not_retried_witness:
  "chat (sample_llm 404) [] None None None 0 = (Inl (raised LLMPermanentError ''LLM endpoint returned 404: no''), 1)"
  using chat_client_error_not_retried [of no_sleep "sample_llm 404" "[]" None None None 0 404 "''no''" "Inr JNull" 1]
  by (simp add: retry_loop_contract str_int_def str_nat_404)

theorem chat_gives_up_after_max_attempts_witness:
  "\<exists>fs e w1. chat (sample_llm 503) [] None None None 0 = (Inl e, w1) \<and> isinstance e LLMTransientError \<and>
    Suc (length fs) = 3 \<and> total_wait fs \<le> 5"
  using chat_gives_up_after_max_attempts [of no_sleep "sample_llm 503" "[]" None None None 0]
  by (auto simp: retry_loop_contract)

end
