(* ===== verification/Composer.thy ===== *)
theory Composer
  imports Templates RepoConfig
begin

text \<open>
  The prompts: \<open>prompts/languages/__init__.py\<close>, \<open>prompts/strictness/__init__.py\<close> and
  \<open>prompts/composer.py\<close>. The packaged Markdown files are the argument \<open>files\<close>: one map from file
  names to contents for each of the three packages.
\<close>

record prompt_files =
  prompt_templates :: resources
  prompt_languages :: resources
  prompt_strictness :: resources

section \<open>Languages\<close>

definition EXTENSION_TO_LANGUAGES :: "(string \<times> language list) list" where
  "EXTENSION_TO_LANGUAGES =
    [(''.py'', [PYTHON]), (''.pyi'', [PYTHON]), (''.js'', [JAVASCRIPT]), (''.mjs'', [JAVASCRIPT]),
     (''.cjs'', [JAVASCRIPT]), (''.jsx'', [JAVASCRIPT]), (''.ts'', [TYPESCRIPT]), (''.tsx'', [TYPESCRIPT]),
     (''.php'', [PHP]), (''.module'', [DRUPAL, PHP]), (''.install'', [DRUPAL, PHP]),
     (''.inc'', [DRUPAL, PHP]), (''.theme'', [DRUPAL, PHP]), (''.profile'', [DRUPAL, PHP]),
     (''.kt'', [KOTLIN]), (''.kts'', [KOTLIN]), (''.c'', [C]), (''.h'', [C]), (''.cpp'', [CPP]),
     (''.cc'', [CPP]), (''.cxx'', [CPP]), (''.hpp'', [CPP]), (''.hxx'', [CPP]), (''.sh'', [BASH]),
     (''.bash'', [BASH]), (''.yml'', [YAML]), (''.yaml'', [YAML]), (''.sql'', [SQL])]"

definition extension_key :: "string \<Rightarrow> string" where
  "extension_key name =
     (case py_rpartition (CHR ''.'') name of (before, sep, tail) \<Rightarrow>
        if sep \<noteq> [] \<and> before \<noteq> [] then ''.'' @ py_lower tail else [])"

definition file_languages :: "changed_file \<Rightarrow> language list" where
  "file_languages f =
     (case map_of EXTENSION_TO_LANGUAGES (extension_key (filename f)) of
        Some ls \<Rightarrow> if ls \<noteq> [] then ls else [GENERIC] | None \<Rightarrow> [GENERIC])"

definition detect_languages :: "changed_file list \<Rightarrow> language set" where
  "detect_languages files = set (concat (map file_languages files))"

definition load_language_note :: "prompt_files \<Rightarrow> language \<Rightarrow> string" where
  "load_language_note files l =
     (case prompt_languages files (language_value l @ ''.md'') of None \<Rightarrow> [] | Some s \<Rightarrow> strip s)"

section \<open>Strictness\<close>

definition load_strictness_block :: "prompt_files \<Rightarrow> strictness \<Rightarrow> exc + string" where
  "load_strictness_block files level =
     (case prompt_strictness files (strictness_value level @ ''.md'') of
        None \<Rightarrow> Inl (raised TemplateError (''strictness block not found: '' @ strictness_value level @ ''.md''))
      | Some s \<Rightarrow> Inr (strip s))"

section \<open>Times\<close>

text \<open>A number padded with zeros to a width.\<close>

definition zero_pad :: "nat \<Rightarrow> nat \<Rightarrow> string" where
  "zero_pad width n = (let s = str_nat n in replicate (width - length s) CHR ''0'' @ s)"

definition isoformat :: "py_datetime \<Rightarrow> string" where
  "isoformat d =
     zero_pad 4 (dt_year d) @ ''-'' @ zero_pad 2 (dt_month d) @ ''-'' @ zero_pad 2 (dt_day d) @ ''T'' @
     zero_pad 2 (dt_hour d) @ '':'' @ zero_pad 2 (dt_minute d) @ '':'' @ zero_pad 2 (dt_second d) @
     (if dt_microsecond d = 0 then [] else ''.'' @ zero_pad 6 (dt_microsecond d)) @
     (case dt_offset d of None \<Rightarrow> []
      | Some m \<Rightarrow> (if m < 0 then ''-'' else ''+'') @
          zero_pad 2 (nat (\<bar>m\<bar> div 60)) @ '':'' @ zero_pad 2 (nat (\<bar>m\<bar> mod 60)))"

section \<open>The blocks of the prompt\<close>

definition no_language_notes :: string where
  "no_language_notes = ''<language_notes>'' @ nl @ ''(no language-specific notes for this chunk)'' @ nl @ ''</language_notes>''"

definition language_section :: "prompt_files \<Rightarrow> (string \<rightharpoonup> string) \<Rightarrow> language \<Rightarrow> string option" where
  "language_section files overrides l =
     (let built_in = load_language_note files l;
          override = strip (case overrides (language_value l) of None \<Rightarrow> [] | Some s \<Rightarrow> s)
      in if built_in = [] \<and> override = [] then None
         else Some (''### '' @ language_value l @ nl @ nl @ built_in @
           (if override = [] then []
            else (if built_in = [] then [] else nl @ nl) @ ''_Repo override:_'' @ nl @ nl @ override)))"

definition render_language_notes :: "prompt_files \<Rightarrow> language set \<Rightarrow> (string \<rightharpoonup> string) \<Rightarrow> string" where
  "render_language_notes files languages overrides =
     (if languages = {} then no_language_notes
      else
        (let sections = List.map_filter (language_section files overrides) (sorted_list_of_set languages) in
         if sections = [] then no_language_notes
         else ''<language_notes>'' @ nl @ join (nl @ nl) sections @ nl @ ''</language_notes>''))"

definition render_project_context :: "string option \<Rightarrow> string" where
  "render_project_context context_text =
     (case context_text of None \<Rightarrow> []
      | Some s \<Rightarrow> if s = [] then [] else ''<project_context>'' @ nl @ strip s @ nl @ ''</project_context>'')"

definition render_conversation :: "conversation_comment list \<Rightarrow> string" where
  "render_conversation comments =
     join nl ([''<pr_conversation>''] @
       concat (map (\<lambda>c. [''['' @ isoformat (comment_created_at c) @ ''] '' @ comment_author_login c @ '':'',
         comment_body c, []]) comments) @
       [''</pr_conversation>''])"

definition render_extra_context :: "string option \<Rightarrow> string" where
  "render_extra_context extra =
     (case extra of None \<Rightarrow> []
      | Some s \<Rightarrow> if s = [] then [] else ''<extra_context>'' @ nl @ strip s @ nl @ ''</extra_context>'')"

definition render_pr_metadata :: "pr_info \<Rightarrow> string" where
  "render_pr_metadata pr =
     (let body = (case info_body pr of None \<Rightarrow> [] | Some b \<Rightarrow> strip b) in
      ''<pr_metadata>'' @ nl @
      ''number: '' @ str_int (info_number pr) @ nl @
      ''title: '' @ info_title pr @ nl @
      ''author: '' @ info_author_login pr @ nl @
      ''head_sha: '' @ info_head_sha pr @ nl @
      ''base_ref: '' @ info_base_ref pr @ nl @
      ''body:'' @ nl @ body @ nl @
      ''</pr_metadata>'')"

definition render_files_summary :: "changed_file list \<Rightarrow> string" where
  "render_files_summary files =
     join nl (map (\<lambda>f. ''- `'' @ filename f @ ''` ('' @ file_status_value (file_status f) @ '', +'' @
       str_int (additions f) @ '' -'' @ str_int (deletions f) @ '')'') files)"

definition render_diff :: "changed_file list \<Rightarrow> string" where
  "render_diff files =
     join nl ([''<diff>''] @
       concat (map (\<lambda>f. [''### '' @ filename f @ nl] @
         (case patch f of Some p \<Rightarrow> [''```diff'', p, ''```''] | None \<Rightarrow> [''_(no patch: binary or oversized)_'']) @
         [[]]) files) @
       [''</diff>''])"

section \<open>The prompts\<close>

text \<open>\<open>x or Strictness.NORMAL\<close>: every member of the enumeration is a non-empty string.\<close>

definition render_system :: "prompt_files \<Rightarrow> repo_config \<Rightarrow> exc + string" where
  "render_system files cfg =
     (let strictness = (case review_strictness (config_review cfg) of Some s \<Rightarrow> s | None \<Rightarrow> NORMAL) in
      case load_template (prompt_templates files) ''system'' of
        Inl e \<Rightarrow> Inl e
      | Inr template \<Rightarrow>
          (case load_strictness_block files strictness of
             Inl e \<Rightarrow> Inl e
           | Inr block \<Rightarrow> render_template template [''strictness_block'' \<mapsto> block]))"

definition user_variables ::
  "prompt_files \<Rightarrow> repo_config \<Rightarrow> pr_info \<Rightarrow> conversation_comment list \<Rightarrow> chunk \<Rightarrow> string option \<Rightarrow>
   (string \<rightharpoonup> string)" where
  "user_variables files cfg pr conversation chunk extra_context =
     (let review = config_review cfg;
          include = (case include_conversation review of Some b \<Rightarrow> b | None \<Rightarrow> True);
          part_header =
            (if 1 < chunk_total chunk
             then ''Reviewing part '' @ str_nat (chunk_index chunk) @ '' of '' @ str_nat (chunk_total chunk) @
               '' of this pull request.'' @ nl @ nl
             else [])
      in [''part_header'' \<mapsto> part_header,
          ''project_context_block'' \<mapsto> render_project_context (project_context review),
          ''language_notes_block'' \<mapsto>
            render_language_notes files (detect_languages (chunk_files chunk)) (language_notes review),
          ''focus'' \<mapsto> (if focus review = [] then ''(none specified)'' else join '', '' (focus review)),
          ''pr_metadata'' \<mapsto> render_pr_metadata pr,
          ''pr_conversation_block'' \<mapsto>
            (if include \<and> conversation \<noteq> [] then render_conversation conversation else []),
          ''extra_context_block'' \<mapsto> render_extra_context extra_context,
          ''files_summary'' \<mapsto> render_files_summary (chunk_files chunk),
          ''diff'' \<mapsto> render_diff (chunk_files chunk)])"

definition render_user ::
  "prompt_files \<Rightarrow> repo_config \<Rightarrow> pr_info \<Rightarrow> conversation_comment list \<Rightarrow> chunk \<Rightarrow> string option \<Rightarrow>
   exc + string" where
  "render_user files cfg pr conversation chunk extra_context =
     (case load_template (prompt_templates files) ''review_user'' of
        Inl e \<Rightarrow> Inl e
      | Inr template \<Rightarrow>
          render_template template (user_variables files cfg pr conversation chunk extra_context))"

definition prompt_messages :: "string \<Rightarrow> string \<Rightarrow> message list" where
  "prompt_messages system user =
     [\<lparr>msg_role = SYSTEM, msg_content = system\<rparr>, \<lparr>msg_role = USER, msg_content = user\<rparr>]"

definition compose_review_prompt ::
  "prompt_files \<Rightarrow> repo_config \<Rightarrow> pr_info \<Rightarrow> conversation_comment list \<Rightarrow> chunk \<Rightarrow> string option \<Rightarrow>
   exc + message list" where
  "compose_review_prompt files cfg pr conversation chunk extra_context =
     (case render_system files cfg of
        Inl e \<Rightarrow> Inl e
      | Inr system \<Rightarrow>
          (case render_user files cfg pr conversation chunk extra_context of
             Inl e \<Rightarrow> Inl e
           | Inr user \<Rightarrow> Inr (prompt_messages system user)))"

definition chunk_outputs_text :: "string list \<Rightarrow> string" where
  "chunk_outputs_text outputs =
     join (nl @ nl) (map (\<lambda>(i, output). ''### Chunk '' @ str_nat (i + 1) @ '' output'' @ nl @ nl @ output)
       (enumerate 0 outputs))"

definition compose_synthesis_prompt :: "prompt_files \<Rightarrow> repo_config \<Rightarrow> string list \<Rightarrow> exc + message list" where
  "compose_synthesis_prompt files cfg outputs =
     (case render_system files cfg of
        Inl e \<Rightarrow> Inl e
      | Inr system \<Rightarrow>
          (case load_template (prompt_templates files) ''synthesis'' of
             Inl e \<Rightarrow> Inl e
           | Inr template \<Rightarrow>
               (case render_template template [''chunk_outputs'' \<mapsto> chunk_outputs_text outputs] of
                  Inl e \<Rightarrow> Inl e
                | Inr user \<Rightarrow> Inr (prompt_messages system user))))"

section \<open>Filling the packaged templates\<close>

definition segment_value :: "(string \<rightharpoonup> string) \<Rightarrow> segment \<Rightarrow> string" where
  "segment_value vs seg = (case seg of Text s \<Rightarrow> s | Var n \<Rightarrow> the (vs n))"

lemma fill_segments_total:
  "\<forall>n. Var n \<in> set segs \<longrightarrow> vs n \<noteq> None \<Longrightarrow> fill_segments vs segs = Inr (concat (map (segment_value vs) segs))"
  by (induction vs segs rule: fill_segments.induct) (auto simp: segment_value_def)

lemma render_template_total:
  assumes "list_all segment_ok segs" "\<forall>n. Var n \<in> set segs \<longrightarrow> vs n \<noteq> None"
  shows "render_template (template_source segs) vs = Inr (concat (map (segment_value vs) segs))"
  using replace_segments [OF assms(1), of 0 "[]" vs] fill_segments_total [OF assms(2)]
  by (simp add: render_template_def)

text \<open>The file \<open>prompts/review_user.md\<close>.\<close>

definition review_user_segments :: "segment list" where
  "review_user_segments =
    [Var ''part_header'', Var ''project_context_block'', Text (nl @ nl), Var ''language_notes_block'',
     Text (nl @ nl @ ''Focus areas for this review: ''), Var ''focus'', Text (''.'' @ nl @ nl),
     Var ''pr_metadata'', Text (nl @ nl), Var ''pr_conversation_block'', Text (nl @ nl),
     Var ''extra_context_block'', Text (nl @ nl @ ''Changed files in this part:'' @ nl @ nl),
     Var ''files_summary'', Text (nl @ nl), Var ''diff'', Text nl]"

lemma review_user_segments_ok: "list_all segment_ok review_user_segments"
  by (simp add: review_user_segments_def py_word_def)

lemma user_variables_defined:
  "Var n \<in> set review_user_segments \<Longrightarrow> user_variables files cfg pr conversation chunk extra n \<noteq> None"
  by (auto simp: review_user_segments_def user_variables_def Let_def)

section \<open>Rendering with the packaged templates\<close>

lemma render_user_packaged:
  assumes "prompt_templates files ''review_user.md'' = Some (template_source review_user_segments)"
  shows "render_user files cfg pr conversation chunk extra =
    Inr (concat (map (segment_value (user_variables files cfg pr conversation chunk extra)) review_user_segments))"
proof -
  have "load_template (prompt_templates files) ''review_user'' = Inr (template_source review_user_segments)"
    using assms by (simp add: load_template_def ends_with_def)
  moreover have "\<forall>n. Var n \<in> set review_user_segments \<longrightarrow> user_variables files cfg pr conversation chunk extra n \<noteq> None"
    using user_variables_defined by blast
  ultimately show ?thesis
    unfolding render_user_def by (simp add: render_template_total [OF review_user_segments_ok])
qed

lemma join_member: "x \<in> set xs \<Longrightarrow> \<exists>a b. join sep xs = a @ x @ b"
proof (induction sep xs rule: join.induct)
  case (3 sep y z zs)
  show ?case
  proof (cases "x = y")
    case True
    then show ?thesis by (intro exI [of _ "[]"] exI [of _ "sep @ join sep (z # zs)"]) simp
  next
    case False
    then obtain a b where "join sep (z # zs) = a @ x @ b" using 3 by auto
    then show ?thesis by (intro exI [of _ "y @ sep @ a"] exI [of _ b]) simp
  qed
next
  case (2 sep y)
  then show ?case by (intro exI [of _ "[]"]) simp
qed simp

lemma concat_member: "x \<in> set xs \<Longrightarrow> \<exists>a b. concat xs = a @ x @ b"
  by (metis concat.simps(2) concat_append split_list)

lemma prompt_shows_patch:
  assumes "prompt_templates files ''review_user.md'' = Some (template_source review_user_segments)"
    and "compose_review_prompt files cfg pr conversation chunk extra = Inr messages"
    and "f \<in> set (chunk_files chunk)" "patch f = Some p"
  shows "\<exists>system a b. messages = prompt_messages system (a @ p @ b)"
proof -
  let ?vs = "user_variables files cfg pr conversation chunk extra"
  have "p \<in> set ([''<diff>''] @ concat (map (\<lambda>f. [''### '' @ filename f @ nl] @
         (case patch f of Some p \<Rightarrow> [''```diff'', p, ''```''] | None \<Rightarrow> [''_(no patch: binary or oversized)_'']) @
         [[]]) (chunk_files chunk)) @ [''</diff>''])"
    using assms(3,4) by (auto intro!: bexI [of _ f])
  then obtain a b where ab: "render_diff (chunk_files chunk) = a @ p @ b"
    unfolding render_diff_def using join_member by blast
  have "segment_value ?vs (Var ''diff'') = render_diff (chunk_files chunk)"
    by (simp add: segment_value_def user_variables_def Let_def)
  moreover have "segment_value ?vs (Var ''diff'') \<in> set (map (segment_value ?vs) review_user_segments)"
    by (simp add: review_user_segments_def)
  ultimately obtain c d where "concat (map (segment_value ?vs) review_user_segments) = c @ (a @ p @ b) @ d"
    using concat_member ab by metis
  then have "concat (map (segment_value ?vs) review_user_segments) = (c @ a) @ p @ (b @ d)" by simp
  then obtain system where "messages = prompt_messages system ((c @ a) @ p @ (b @ d))"
    using assms(2) render_user_packaged [OF assms(1), of cfg pr conversation chunk extra]
    unfolding compose_review_prompt_def by (auto split: sum.splits)
  then show ?thesis by blast
qed

lemma render_system_packaged:
  assumes "prompt_templates files ''system.md'' = Some (template_source segs)" "list_all segment_ok segs"
    and "\<forall>n. Var n \<in> set segs \<longrightarrow> n = ''strictness_block''"
    and "prompt_strictness files (strictness_value (case review_strictness (config_review cfg) of Some s \<Rightarrow> s | None \<Rightarrow> NORMAL) @ ''.md'') = Some block"
  shows "render_system files cfg = Inr (concat (map (segment_value [''strictness_block'' \<mapsto> strip block]) segs))"
proof -
  have "load_template (prompt_templates files) ''system'' = Inr (template_source segs)"
    using assms(1) by (simp add: load_template_def ends_with_def)
  moreover have "\<forall>n. Var n \<in> set segs \<longrightarrow> [''strictness_block'' \<mapsto> strip block] n \<noteq> None"
    using assms(3) by simp
  ultimately show ?thesis
    using assms(4) by (simp add: render_system_def Let_def load_strictness_block_def
        render_template_total [OF assms(2)])
qed

section \<open>Properties\<close>

text \<open>C35: with the packaged templates composing a review prompt never fails. The user message is the
  template with each block put in its place once: text of the PR, of comments and of the diff that
  looks like a template variable stays as it is.\<close>

theorem compose_review_prompt_total:
  assumes "prompt_templates files ''review_user.md'' = Some (template_source review_user_segments)"
    and "prompt_templates files ''system.md'' = Some (template_source segs)" "list_all segment_ok segs"
    and "\<forall>n. Var n \<in> set segs \<longrightarrow> n = ''strictness_block''"
    and "prompt_strictness files (strictness_value (case review_strictness (config_review cfg) of Some s \<Rightarrow> s | None \<Rightarrow> NORMAL) @ ''.md'') = Some block"
  shows "compose_review_prompt files cfg pr conversation chunk extra = Inr (prompt_messages
    (concat (map (segment_value [''strictness_block'' \<mapsto> strip block]) segs))
    (concat (map (segment_value (user_variables files cfg pr conversation chunk extra)) review_user_segments)))"
  using render_user_packaged [OF assms(1)] render_system_packaged [OF assms(2-5)]
  by (simp add: compose_review_prompt_def)

definition sample_files :: prompt_files where
  "sample_files = \<lparr>
     prompt_templates = [''review_user.md'' \<mapsto> template_source review_user_segments,
       ''system.md'' \<mapsto> template_source [Text ''Be '', Var ''strictness_block'', Text ''.'']],
     prompt_languages = (\<lambda>_. None),
     prompt_strictness = [''normal.md'' \<mapsto> ''calm'']\<rparr>"

definition sample_pr :: pr_info where
  "sample_pr = \<lparr>info_number = 1, info_title = ''{{diff}}'', info_body = None, info_head_sha = ''sha'',
     info_base_ref = ''main'', info_author_login = ''ann'', info_draft = False\<rparr>"

definition sample_chunk :: chunk where
  "sample_chunk = \<lparr>chunk_index = 1, chunk_total = 1, chunk_files =
     [\<lparr>filename = ''a.py'', file_status = ADDED, additions = 1, deletions = 0, patch = Some ''+x''\<rparr>]\<rparr>"

theorem compose_review_prompt_total_witness:
  "\<exists>user. compose_review_prompt sample_files default_repo_config sample_pr [] sample_chunk None =
     Inr (prompt_messages ''Be calm.'' user)"
  using compose_review_prompt_total [of sample_files "[Text ''Be '', Var ''strictness_block'', Text ''.'']"
      default_repo_config "''calm''" sample_pr "[]" sample_chunk None]
  by (auto simp add: sample_files_def default_repo_config_def default_review_config_def py_word_def segment_value_def
      strip_def lstrip_def rstrip_def py_space_def)

text \<open>When the repository excludes the conversation, no comment reaches the model: the prompt is the
  same whatever was written on the PR.\<close>

lemma compose_review_prompt_excludes_conversation:
  assumes "include_conversation (config_review cfg) = Some False"
  shows "compose_review_prompt files cfg pr conversation chunk extra = compose_review_prompt files cfg pr other chunk extra"
proof -
  have "user_variables files cfg pr conversation chunk extra = user_variables files cfg pr other chunk extra"
    using assms by (simp add: user_variables_def Let_def)
  then show ?thesis unfolding compose_review_prompt_def render_user_def by (simp only:)
qed


end
