(* ===== verification/Reviewer.thy ===== *)
theory Reviewer
  imports Chunking Parsing Triggers Footer Composer GitHubClient LLMClient JobLocks
begin

text \<open>
  The review pipeline: \<open>pipeline/fetcher.py\<close> and \<open>pipeline/reviewer.py\<close>. The operations run in a
  world \<open>'v\<close>, which holds the state of the GitHub client, the endpoint of the model and the clock.
\<close>

section \<open>pipeline/fetcher.py\<close>

definition keep_comment :: "string \<Rightarrow> conversation_comment \<Rightarrow> bool" where
  "keep_comment bot_login c \<longleftrightarrow>
     comment_author_login c \<noteq> bot_login \<and> rx_search TRIGGER_PATTERN (comment_body c) = None"

definition fetch_pr_content ::
  "'v github \<Rightarrow> int \<Rightarrow> string \<Rightarrow> int \<Rightarrow> bool \<Rightarrow> string \<Rightarrow> ('v, pr_content) io" where
  "fetch_pr_content client installation_id repo pr_number include_conv bot_login =
     io_bind (g_get_pr client installation_id repo pr_number) (\<lambda>pr.
     io_bind (g_get_pr_files client installation_id repo pr_number) (\<lambda>files.
       if \<not> include_conv
       then io_return \<lparr>content_pr = pr, content_files = files, content_conversation = []\<rparr>
       else io_bind (g_get_pr_comments client installation_id repo pr_number) (\<lambda>all_comments.
         io_return \<lparr>content_pr = pr, content_files = files,
           content_conversation = filter (keep_comment bot_login) all_comments\<rparr>)))"

section \<open>Results\<close>

record review_result =
  result_status :: job_status
  result_status_detail :: "job_status_detail option"
  result_review_id :: "int option"
  result_duration_seconds :: rat
  result_chunk_count :: nat
  result_prompt_tokens :: int
  result_completion_tokens :: int
  result_error :: "string option"
  result_failure_message :: "string option"

text \<open>\<open>ReviewResult(status=..., status_detail=..., duration_seconds=...)\<close>.\<close>

definition plain_result :: "job_status \<Rightarrow> job_status_detail option \<Rightarrow> rat \<Rightarrow> review_result" where
  "plain_result st detail duration =
     \<lparr>result_status = st, result_status_detail = detail, result_review_id = None,
      result_duration_seconds = duration, result_chunk_count = 0, result_prompt_tokens = 0,
      result_completion_tokens = 0, result_error = None, result_failure_message = None\<rparr>"

record prompt_dump =
  dump_label :: string
  dump_messages :: "message list"

record rendered_review =
  early_result :: "review_result option"
  rendered_body :: "string option"
  rendered_status_detail :: "job_status_detail option"
  rendered_duration_seconds :: rat
  rendered_chunk_count :: nat
  rendered_prompt_tokens :: int
  rendered_completion_tokens :: int
  rendered_prompts :: "prompt_dump list"

definition early_review :: "review_result \<Rightarrow> rendered_review" where
  "early_review r = \<lparr>early_result = Some r, rendered_body = None, rendered_status_detail = None,
     rendered_duration_seconds = 0, rendered_chunk_count = 0, rendered_prompt_tokens = 0,
     rendered_completion_tokens = 0, rendered_prompts = []\<rparr>"

record chunks_result =
  cr_outputs :: "parsed_review list"
  cr_prompt_tokens :: int
  cr_completion_tokens :: int
  cr_reasoning_chars :: nat
  cr_last_finish_reason :: "string option"
  cr_prompts :: "prompt_dump list"

record synthesis_result =
  sr_review :: parsed_review
  sr_prompt_tokens :: int
  sr_completion_tokens :: int
  sr_reasoning_chars :: nat
  sr_last_finish_reason :: "string option"
  sr_prompt :: "prompt_dump option"

section \<open>The review body\<close>

definition MAX_REVIEW_BODY :: nat where
  "MAX_REVIEW_BODY = 65536"

definition TRUNCATION_NOTE :: string where
  "TRUNCATION_NOTE = nl @ nl @ ''_(review truncated to fit GitHub'' @ [CHR 0x27] @ ''s body length limit)_''"

definition filter_files ::
  "(string list \<Rightarrow> string \<Rightarrow> bool) \<Rightarrow> repo_config \<Rightarrow> changed_file list \<Rightarrow> changed_file list" where
  "filter_files match_file cfg files =
     filter (\<lambda>f. patch f \<noteq> None \<and> \<not> is_ignored match_file cfg (filename f)) files"

definition parse_failure_diagnostic :: "nat \<Rightarrow> nat \<Rightarrow> string option \<Rightarrow> string" where
  "parse_failure_diagnostic answer_chars reasoning_chars finish_reason =
     (let parts = [''answer: '' @ str_nat answer_chars @ '' chars'',
            ''reasoning: '' @ str_nat reasoning_chars @ '' chars''] @
          (case finish_reason of None \<Rightarrow> [] | Some r \<Rightarrow> [''finish_reason: '' @ r]) @
          (if finish_reason = Some ''length''
           then [''the model hit `llm.max_tokens` mid-output; raise it, or disable reasoning via `llm.extra_body`'']
           else [])
      in ''> _('' @ join ''; '' parts @ '')_'')"

definition truncate_body :: "string \<Rightarrow> string" where
  "truncate_body body =
     (if length body \<le> MAX_REVIEW_BODY then body
      else take (MAX_REVIEW_BODY - length TRUNCATION_NOTE) body @ TRUNCATION_NOTE)"

definition review_sections :: "parsed_review \<Rightarrow> string list" where
  "review_sections parsed =
     map (\<lambda>(heading, content). heading @ nl @ nl @ content)
       (filter (\<lambda>(heading, content). content \<noteq> [])
         [(''## Summary'', rev_summary parsed), (''## Findings'', rev_findings parsed),
          (''## Suggestions'', rev_suggestions parsed), (''## Positives'', rev_positives parsed)])"

definition skipped_text :: "string list \<Rightarrow> string" where
  "skipped_text names =
     (if names = [] then []
      else nl @ nl @ ''## Not reviewed due to size'' @ nl @ nl @
        join nl (map (\<lambda>name. ''- `'' @ name @ ''`'') names))"

definition full_review_body ::
  "parsed_review \<Rightarrow> string \<Rightarrow> rat \<Rightarrow> int \<Rightarrow> int \<Rightarrow> string list \<Rightarrow> nat \<Rightarrow> string option \<Rightarrow> string" where
  "full_review_body parsed model duration prompt_tokens completion_tokens names reasoning_chars finish_reason =
     (let review_text =
        (if rev_parse_failed parsed
         then ''> _Could not parse model output into the standard four sections._'' @ nl @
           parse_failure_diagnostic (length (rev_raw parsed)) reasoning_chars finish_reason @ nl @ nl @
           join nl (map (\<lambda>line. ''> '' @ line) (splitlines (rev_raw parsed)))
         else join (nl @ nl) (review_sections parsed));
        footer = render_footer model duration prompt_tokens completion_tokens
      in (review_text @ skipped_text names) @ nl @ nl @ footer)"

definition render_review_body ::
  "parsed_review \<Rightarrow> string \<Rightarrow> rat \<Rightarrow> int \<Rightarrow> int \<Rightarrow> string list \<Rightarrow> nat \<Rightarrow> string option \<Rightarrow> string" where
  "render_review_body parsed model duration prompt_tokens completion_tokens names reasoning_chars finish_reason =
     truncate_body (full_review_body parsed model duration prompt_tokens completion_tokens names
       reasoning_chars finish_reason)"

section \<open>The reviewer\<close>

record ('v, 'y) reviewer =
  rv_github :: "'v github"
  rv_chat :: "message list \<Rightarrow> rat option \<Rightarrow> int option \<Rightarrow> ('v, chat_response) io"
  rv_files :: prompt_files
  rv_match_file :: "string list \<Rightarrow> string \<Rightarrow> bool"
  rv_perf_counter :: "'v \<Rightarrow> rat \<times> 'v"
  rv_utcnow :: "'v \<Rightarrow> int \<times> 'v"
  rv_yaml :: "'y yaml_lib"
  rv_validate :: "'y \<Rightarrow> exc + repo_config"
  rv_retrying :: "('v, int) retrying"
  rv_defaults :: defaults_config
  rv_pipeline :: pipeline_config
  rv_llm :: llm_config
  rv_bot_login :: string

definition post_with_retry :: "('v, 'y) reviewer \<Rightarrow> int \<Rightarrow> string \<Rightarrow> int \<Rightarrow> string \<Rightarrow> ('v, int) io" where
  "post_with_retry rv installation_id repo pr_number body =
     io_bind (rv_retrying rv (ExponentialJitter 1) 3 (\<lambda>e. isinstance e GitHubTransientError)
         (g_create_review (rv_github rv) installation_id repo pr_number body))
       (\<lambda>result. case result of
          Some review_id \<Rightarrow> io_return review_id
        | None \<Rightarrow> io_raise (raised GitHubError ''post-review retry loop exited without result''))"

definition failure_from :: "('v, 'y) reviewer \<Rightarrow> exc \<Rightarrow> rat \<Rightarrow> job_status_detail \<Rightarrow> ('v, review_result) io" where
  "failure_from rv e started kind =
     io_bind (io_total (rv_perf_counter rv)) (\<lambda>now.
       (let msg = exc_message e in
        io_return ((plain_result FAILED (Some kind) (now - started))\<lparr>result_error := Some msg,
          result_failure_message := Some (''vidi-pr could not complete the review: '' @
            status_detail_value kind @ '' ('' @ take 200 msg @ '')'')\<rparr>)))"

definition reviewer_loader :: "('v, 'y) reviewer \<Rightarrow> int \<Rightarrow> ('v, 'y) loader" where
  "reviewer_loader rv installation_id =
     \<lparr>ld_fetch_text = g_for_installation (rv_github rv) installation_id, ld_utcnow = rv_utcnow rv,
      ld_yaml = rv_yaml rv, ld_validate = rv_validate rv, ld_defaults = rv_defaults rv\<rparr>"

definition review_repo_config :: "('v, 'y) reviewer \<Rightarrow> job \<Rightarrow> pr_info \<Rightarrow> ('v, repo_config) io" where
  "review_repo_config rv j pr =
     io_bind (g_get_repo (rv_github rv) (job_installation_id j) (job_repo j)) (\<lambda>repo_data.
       load_repo_config (reviewer_loader rv (job_installation_id j)) (job_repo j) (info_base_ref pr)
         (repo_default_branch repo_data))"

definition chunks_init :: chunks_result where
  "chunks_init = \<lparr>cr_outputs = [], cr_prompt_tokens = 0, cr_completion_tokens = 0,
     cr_reasoning_chars = 0, cr_last_finish_reason = None, cr_prompts = []\<rparr>"

definition chunk_label :: "nat \<Rightarrow> nat \<Rightarrow> string" where
  "chunk_label index n = (if 1 < n then ''chunk '' @ str_nat (index + 1) @ ''/'' @ str_nat n else ''review'')"

abbreviation reviewer_chat :: "('v, 'y) reviewer \<Rightarrow> message list \<Rightarrow> ('v, chat_response) io" where
  "reviewer_chat rv messages \<equiv>
     rv_chat rv messages (Some (llm_temperature (rv_llm rv))) (Some (llm_max_tokens (rv_llm rv)))"

text \<open>One turn of the loop over the chunks; \<open>n\<close> is the number of chunks.\<close>

definition review_chunk ::
  "('v, 'y) reviewer \<Rightarrow> job \<Rightarrow> pr_content \<Rightarrow> repo_config \<Rightarrow> nat \<Rightarrow> nat \<Rightarrow> chunk \<Rightarrow> chunks_result \<Rightarrow>
   ('v, chunks_result) io" where
  "review_chunk rv j content cfg n index c acc =
     io_bind (io_result (compose_review_prompt (rv_files rv) cfg (content_pr content)
         (content_conversation content) c (job_extra_context j))) (\<lambda>messages.
     io_bind (reviewer_chat rv messages) (\<lambda>response.
       io_return \<lparr>cr_outputs = cr_outputs acc @ [parse_review_output (resp_content response)],
         cr_prompt_tokens = cr_prompt_tokens acc + usage_prompt_tokens (resp_usage response),
         cr_completion_tokens = cr_completion_tokens acc + usage_completion_tokens (resp_usage response),
         cr_reasoning_chars = cr_reasoning_chars acc + length (resp_reasoning_content response),
         cr_last_finish_reason = resp_finish_reason response,
         cr_prompts = cr_prompts acc @ [\<lparr>dump_label = chunk_label index n, dump_messages = messages\<rparr>]\<rparr>))"

fun run_chunks_from ::
  "('v, 'y) reviewer \<Rightarrow> job \<Rightarrow> pr_content \<Rightarrow> repo_config \<Rightarrow> nat \<Rightarrow> nat \<Rightarrow> chunk list \<Rightarrow> chunks_result \<Rightarrow>
   ('v, chunks_result) io" where
  "run_chunks_from rv j content cfg n index [] acc = io_return acc"
| "run_chunks_from rv j content cfg n index (c # cs) acc =
     io_bind (review_chunk rv j content cfg n index c acc)
       (run_chunks_from rv j content cfg n (index + 1) cs)"

definition run_chunks ::
  "('v, 'y) reviewer \<Rightarrow> job \<Rightarrow> pr_content \<Rightarrow> repo_config \<Rightarrow> chunk list \<Rightarrow> ('v, chunks_result) io" where
  "run_chunks rv j content cfg cs = run_chunks_from rv j content cfg (length cs) 0 cs chunks_init"

definition maybe_synthesize ::
  "('v, 'y) reviewer \<Rightarrow> repo_config \<Rightarrow> parsed_review list \<Rightarrow> ('v, synthesis_result) io" where
  "maybe_synthesize rv cfg outputs =
     (if length outputs = 1
      then io_return \<lparr>sr_review = hd outputs, sr_prompt_tokens = 0, sr_completion_tokens = 0,
        sr_reasoning_chars = 0, sr_last_finish_reason = None, sr_prompt = None\<rparr>
      else
        io_bind (io_result (compose_synthesis_prompt (rv_files rv) cfg (map rev_raw outputs))) (\<lambda>messages.
        io_bind (reviewer_chat rv messages) (\<lambda>response.
          io_return \<lparr>sr_review = parse_review_output (resp_content response),
            sr_prompt_tokens = usage_prompt_tokens (resp_usage response),
            sr_completion_tokens = usage_completion_tokens (resp_usage response),
            sr_reasoning_chars = length (resp_reasoning_content response),
            sr_last_finish_reason = resp_finish_reason response,
            sr_prompt = Some \<lparr>dump_label = ''synthesis'', dump_messages = messages\<rparr>\<rparr>)))"

text \<open>\<open>a or b\<close> for optional strings.\<close>

definition str_or :: "string option \<Rightarrow> string option \<Rightarrow> string option" where
  "str_or a b = (if a = None \<or> a = Some [] then b else a)"

text \<open>The end of \<open>prepare\<close>: from the packed chunks to the rendered review.\<close>

definition finish_review ::
  "('v, 'y) reviewer \<Rightarrow> rat \<Rightarrow> packing_result \<Rightarrow> chunks_result \<Rightarrow> synthesis_result \<Rightarrow> ('v, rendered_review) io" where
  "finish_review rv started packing cr sr =
     (let prompt_tokens = cr_prompt_tokens cr + sr_prompt_tokens sr;
          completion_tokens = cr_completion_tokens cr + sr_completion_tokens sr;
          reasoning_chars = cr_reasoning_chars cr + sr_reasoning_chars sr;
          finish_reason = str_or (sr_last_finish_reason sr) (cr_last_finish_reason cr)
      in io_bind (io_total (rv_perf_counter rv)) (\<lambda>now.
        (let duration = now - started;
             body = render_review_body (sr_review sr) (llm_model (rv_llm rv)) duration prompt_tokens
               completion_tokens (packed_skipped packing) reasoning_chars finish_reason
         in io_return \<lparr>early_result = None, rendered_body = Some body,
              rendered_status_detail = (if rev_parse_failed (sr_review sr) then Some PARSE_FAILED else None),
              rendered_duration_seconds = duration, rendered_chunk_count = length (packed_chunks packing),
              rendered_prompt_tokens = prompt_tokens, rendered_completion_tokens = completion_tokens,
              rendered_prompts = cr_prompts cr @
                (case sr_prompt sr of None \<Rightarrow> [] | Some d \<Rightarrow> [d])\<rparr>)))"

definition review_chunks ::
  "('v, 'y) reviewer \<Rightarrow> job \<Rightarrow> rat \<Rightarrow> pr_content \<Rightarrow> repo_config \<Rightarrow> packing_result \<Rightarrow> ('v, rendered_review) io" where
  "review_chunks rv j started content cfg packing =
     io_bind
       (io_try
         (io_bind (run_chunks rv j content cfg (packed_chunks packing)) (\<lambda>cr.
          io_bind (maybe_synthesize rv cfg (cr_outputs cr)) (\<lambda>sr. io_return (Inr (cr, sr)))))
         (\<lambda>e. if isinstance e LLMError \<or> isinstance e GitHubError
              then io_bind (failure_from rv e started LLM_FAILURE) (\<lambda>r. io_return (Inl r))
              else io_raise e))
       (\<lambda>outcome. case outcome of
          Inl r \<Rightarrow> io_return (early_review r)
        | Inr (cr, sr) \<Rightarrow> finish_review rv started packing cr sr)"

definition early_done :: "('v, 'y) reviewer \<Rightarrow> rat \<Rightarrow> job_status_detail \<Rightarrow> ('v, rendered_review) io" where
  "early_done rv started detail =
     io_bind (io_total (rv_perf_counter rv)) (\<lambda>now.
       io_return (early_review (plain_result DONE (Some detail) (now - started))))"

definition review_content ::
  "('v, 'y) reviewer \<Rightarrow> job \<Rightarrow> rat \<Rightarrow> pr_content \<Rightarrow> repo_config \<Rightarrow> ('v, rendered_review) io" where
  "review_content rv j started content cfg =
     (let eligible_files = filter_files (rv_match_file rv) cfg (content_files content) in
      if eligible_files = [] then early_done rv started NO_REVIEWABLE_FILES
      else
        (let packing = pack_chunks eligible_files (nat (max_files (rv_pipeline rv)))
              (nat (max_chunks (rv_pipeline rv))) (nat (max_chunk_chars (rv_pipeline rv))) in
         if packed_chunks packing = [] then early_done rv started NO_REVIEWABLE_FILES
         else review_chunks rv j started content cfg packing))"

definition prepare :: "('v, 'y) reviewer \<Rightarrow> job \<Rightarrow> bool \<Rightarrow> ('v, rendered_review) io" where
  "prepare rv j skip_draft_check =
     io_bind (io_total (rv_perf_counter rv)) (\<lambda>started.
     io_bind (g_get_pr (rv_github rv) (job_installation_id j) (job_repo j) (job_pr_number j)) (\<lambda>pr_now.
       if info_draft pr_now \<and> \<not> skip_draft_check then early_done rv started DRAFTED_AFTER_EVENT
       else
         io_bind (review_repo_config rv j pr_now) (\<lambda>cfg.
         (let include_conv = (case include_conversation (config_review cfg) of Some b \<Rightarrow> b
            | None \<Rightarrow> defaults_include_conversation (rv_defaults rv)) in
          io_bind (fetch_pr_content (rv_github rv) (job_installation_id j) (job_repo j) (job_pr_number j)
              include_conv (rv_bot_login rv)) (\<lambda>content.
            review_content rv j started content cfg)))))"

definition posted_result :: "rendered_review \<Rightarrow> job_status \<Rightarrow> job_status_detail option \<Rightarrow> review_result" where
  "posted_result rendered st detail =
     (plain_result st detail (rendered_duration_seconds rendered))\<lparr>
       result_chunk_count := rendered_chunk_count rendered,
       result_prompt_tokens := rendered_prompt_tokens rendered,
       result_completion_tokens := rendered_completion_tokens rendered\<rparr>"

definition run_review :: "('v, 'y) reviewer \<Rightarrow> job \<Rightarrow> ('v, review_result) io" where
  "run_review rv j =
     io_bind (prepare rv j False) (\<lambda>rendered.
       case early_result rendered of
         Some r \<Rightarrow> io_return r
       | None \<Rightarrow>
           (case rendered_body rendered of
              None \<Rightarrow> io_raise (raised (OtherError ''AssertionError'') [])
            | Some body \<Rightarrow>
                io_try
                  (io_bind (post_with_retry rv (job_installation_id j) (job_repo j) (job_pr_number j) body)
                    (\<lambda>review_id. io_return ((posted_result rendered DONE (rendered_status_detail rendered))
                       \<lparr>result_review_id := Some review_id\<rparr>)))
                  (\<lambda>e.
                    if isinstance e GitHubPermanentError
                    then io_return ((posted_result rendered DONE (Some PR_CLOSED))\<lparr>result_error := Some (exc_message e)\<rparr>)
                    else if isinstance e GitHubError
                    then io_return ((posted_result rendered FAILED (Some GITHUB_FAILURE))\<lparr>result_error := Some (exc_message e)\<rparr>)
                    else io_raise e)))"

section \<open>What the parts return\<close>

lemma length_truncate_body: "length (truncate_body s) \<le> MAX_REVIEW_BODY"
  by (simp add: truncate_body_def MAX_REVIEW_BODY_def TRUNCATION_NOTE_def)

text \<open>
  A result as the worker relies on it: the job ends, a review id comes only with success, and a
  message for the PR only with a failure of the model.
\<close>

definition result_ok :: "review_result \<Rightarrow> bool" where
  "result_ok r \<longleftrightarrow>
     result_status r \<in> set TERMINAL_JOB_STATUSES \<and>
     (result_review_id r \<noteq> None \<longrightarrow> result_status r = DONE) \<and>
     (result_failure_message r \<noteq> None \<longleftrightarrow> result_status r = FAILED \<and> result_status_detail r = Some LLM_FAILURE)"

definition rendered_ok :: "rendered_review \<Rightarrow> bool" where
  "rendered_ok r \<longleftrightarrow>
     (case early_result r of
        Some res \<Rightarrow> result_ok res \<and> result_review_id res = None
      | None \<Rightarrow> \<exists>body. rendered_body r = Some body \<and> length body \<le> MAX_REVIEW_BODY)"

lemma yields_early_done: "io_yields rendered_ok (early_done rv started detail)"
  unfolding early_done_def
  by (intro yields_bind_any) (simp add: rendered_ok_def early_review_def result_ok_def plain_result_def TERMINAL_JOB_STATUSES_def)

lemma yields_failure_from:
  "io_yields (\<lambda>r. result_ok r \<and> result_review_id r = None) (failure_from rv e started LLM_FAILURE)"
  unfolding failure_from_def Let_def
  by (intro yields_bind_any) (simp add: result_ok_def plain_result_def TERMINAL_JOB_STATUSES_def)

lemma yields_finish_review: "io_yields rendered_ok (finish_review rv started packing cr sr)"
  unfolding finish_review_def Let_def
  by (intro yields_bind_any) (simp add: rendered_ok_def render_review_body_def length_truncate_body)

lemma yields_review_chunks: "io_yields rendered_ok (review_chunks rv j started content cfg packing)"
proof -
  let ?Q = "\<lambda>outcome. case outcome of Inl r \<Rightarrow> result_ok r \<and> result_review_id r = None | Inr (x :: chunks_result \<times> synthesis_result) \<Rightarrow> True"
  show ?thesis
    unfolding review_chunks_def
  proof (rule yields_bind [where Q = ?Q])
    show "io_yields ?Q (io_try
         (io_bind (run_chunks rv j content cfg (packed_chunks packing)) (\<lambda>cr.
          io_bind (maybe_synthesize rv cfg (cr_outputs cr)) (\<lambda>sr. io_return (Inr (cr, sr)))))
         (\<lambda>e. if isinstance e LLMError \<or> isinstance e GitHubError
              then io_bind (failure_from rv e started LLM_FAILURE) (\<lambda>r. io_return (Inl r))
              else io_raise e))"
      by (rule yields_try)
        (auto intro!: yields_bind_any yields_bind [OF yields_failure_from])
    show "io_yields rendered_ok (case outcome of Inl r \<Rightarrow> io_return (early_review r)
        | Inr (cr, sr) \<Rightarrow> finish_review rv started packing cr sr)" if "?Q outcome" for outcome
      using that yields_finish_review
      by (auto simp: rendered_ok_def early_review_def split: sum.splits prod.splits)
  qed
qed

lemma yields_review_content: "io_yields rendered_ok (review_content rv j started content cfg)"
  unfolding review_content_def Let_def
  using yields_early_done yields_review_chunks by auto

lemma yields_prepare: "io_yields rendered_ok (prepare rv j skip)"
  unfolding prepare_def Let_def
  by (intro yields_bind_any) (auto intro: yields_early_done intro!: yields_bind_any yields_review_content)

lemma yields_run_review: "io_yields result_ok (run_review rv j)"
  unfolding run_review_def
proof (rule yields_bind [OF yields_prepare])
  fix rendered assume "rendered_ok rendered"
  then show "io_yields result_ok
       (case early_result rendered of
         Some r \<Rightarrow> io_return r
       | None \<Rightarrow>
           (case rendered_body rendered of
              None \<Rightarrow> io_raise (raised (OtherError ''AssertionError'') [])
            | Some body \<Rightarrow>
                io_try
                  (io_bind (post_with_retry rv (job_installation_id j) (job_repo j) (job_pr_number j) body)
                    (\<lambda>review_id. io_return ((posted_result rendered DONE (rendered_status_detail rendered))
                       \<lparr>result_review_id := Some review_id\<rparr>)))
                  (\<lambda>e.
                    if isinstance e GitHubPermanentError
                    then io_return ((posted_result rendered DONE (Some PR_CLOSED))\<lparr>result_error := Some (exc_message e)\<rparr>)
                    else if isinstance e GitHubError
                    then io_return ((posted_result rendered FAILED (Some GITHUB_FAILURE))\<lparr>result_error := Some (exc_message e)\<rparr>)
                    else io_raise e)))"
    by (auto simp: rendered_ok_def result_ok_def posted_result_def plain_result_def TERMINAL_JOB_STATUSES_def
        intro!: yields_try yields_bind_any split: option.splits)
qed

section \<open>What the model is shown\<close>

lemma run_chunks_from_prompts:
  "io_yields (\<lambda>cr. \<exists>new. cr_prompts cr = cr_prompts acc @ new \<and>
      list_all2 (\<lambda>c d. compose_review_prompt (rv_files rv) cfg (content_pr content) (content_conversation content) c
        (job_extra_context j) = Inr (dump_messages d)) cs new \<and>
      length (cr_outputs cr) = length (cr_outputs acc) + length cs)
    (run_chunks_from rv j content cfg n index cs acc)"
proof (induction cs arbitrary: index acc)
  case (Cons c cs)
  let ?prompt = "\<lambda>c. compose_review_prompt (rv_files rv) cfg (content_pr content) (content_conversation content) c (job_extra_context j)"
  have "io_yields (\<lambda>acc'. \<exists>d. cr_prompts acc' = cr_prompts acc @ [d] \<and> ?prompt c = Inr (dump_messages d) \<and>
      length (cr_outputs acc') = Suc (length (cr_outputs acc))) (review_chunk rv j content cfg n index c acc)"
    unfolding review_chunk_def
    by (rule yields_bind [where Q = "\<lambda>ms. ?prompt c = Inr ms"])
      (auto simp: yields_result intro!: yields_bind_any)
  then show ?case
    unfolding run_chunks_from.simps
  proof (rule yields_bind)
    fix acc' :: chunks_result assume "\<exists>d. cr_prompts acc' = cr_prompts acc @ [d] \<and> ?prompt c = Inr (dump_messages d) \<and>
      length (cr_outputs acc') = Suc (length (cr_outputs acc))"
    then obtain d where d: "cr_prompts acc' = cr_prompts acc @ [d]" "?prompt c = Inr (dump_messages d)"
      "length (cr_outputs acc') = Suc (length (cr_outputs acc))" by blast
    show "io_yields (\<lambda>cr. \<exists>new. cr_prompts cr = cr_prompts acc @ new \<and>
        list_all2 (\<lambda>c d. ?prompt c = Inr (dump_messages d)) (c # cs) new \<and>
        length (cr_outputs cr) = length (cr_outputs acc) + length (c # cs))
      (run_chunks_from rv j content cfg n (index + 1) cs acc')"
      by (rule yields_mono [OF Cons.IH [of acc' "index + 1"]]) (use d in \<open>force simp: list_all2_Cons1\<close>)
  qed
qed simp

lemma list_all2_member: "list_all2 P xs ys \<Longrightarrow> x \<in> set xs \<Longrightarrow> \<exists>y \<in> set ys. P x y"
  by (induction rule: list_all2_induct) auto

lemma skipped_text_member:
  assumes "name \<in> set names"
  shows "\<exists>a b. skipped_text names = a @ (''- `'' @ name @ ''`'') @ b"
proof -
  obtain a b where "join nl (map (\<lambda>name. ''- `'' @ name @ ''`'') names) = a @ (''- `'' @ name @ ''`'') @ b"
    using join_member [of "''- `'' @ name @ ''`''" "map (\<lambda>name. ''- `'' @ name @ ''`'') names" nl] assms by auto
  then have "skipped_text names = (nl @ nl @ ''## Not reviewed due to size'' @ nl @ nl @ a) @ (''- `'' @ name @ ''`'') @ b"
    using assms by (auto simp: skipped_text_def)
  then show ?thesis by blast
qed

lemma full_review_body_skipped:
  assumes "name \<in> set names"
  shows "\<exists>a b. full_review_body parsed model d n m names k fr = a @ ''- `'' @ name @ ''`'' @ b"
proof -
  obtain a b where ab: "skipped_text names = a @ (''- `'' @ name @ ''`'') @ b"
    using skipped_text_member [OF assms] by blast
  obtain t footer where "full_review_body parsed model d n m names k fr = (t @ skipped_text names) @ nl @ nl @ footer"
    unfolding full_review_body_def Let_def by blast
  then have "full_review_body parsed model d n m names k fr =
      (t @ a) @ ''- `'' @ name @ ''`'' @ (b @ nl @ nl @ footer)" using ab by simp
  then show ?thesis by blast
qed

lemma finish_review_returns:
  assumes "finish_review rv started packing cr sr w = (Inr r, w')"
  shows "\<exists>duration n m k fr. rendered_body r = Some (truncate_body (full_review_body (sr_review sr)
      (llm_model (rv_llm rv)) duration n m (packed_skipped packing) k fr)) \<and>
    set (cr_prompts cr) \<subseteq> set (rendered_prompts r) \<and> early_result r = None"
proof -
  from assms obtain now v where "io_return \<lparr>early_result = None,
      rendered_body = Some (truncate_body (full_review_body (sr_review sr) (llm_model (rv_llm rv)) (now - started)
        (cr_prompt_tokens cr + sr_prompt_tokens sr) (cr_completion_tokens cr + sr_completion_tokens sr)
        (packed_skipped packing) (cr_reasoning_chars cr + sr_reasoning_chars sr)
        (str_or (sr_last_finish_reason sr) (cr_last_finish_reason cr)))),
      rendered_status_detail = (if rev_parse_failed (sr_review sr) then Some PARSE_FAILED else None),
      rendered_duration_seconds = now - started, rendered_chunk_count = length (packed_chunks packing),
      rendered_prompt_tokens = cr_prompt_tokens cr + sr_prompt_tokens sr,
      rendered_completion_tokens = cr_completion_tokens cr + sr_completion_tokens sr,
      rendered_prompts = cr_prompts cr @ (case sr_prompt sr of None \<Rightarrow> [] | Some d \<Rightarrow> [d])\<rparr> v = (Inr r, w')"
    unfolding finish_review_def Let_def io_bind_returns render_review_body_def by blast
  then show ?thesis unfolding io_return_def by (simp, elim conjE, hypsubst) (simp, blast)
qed

lemma review_chunks_returns:
  assumes "review_chunks rv j started content cfg packing w = (Inr r, w')" "rendered_body r = Some body"
  obtains cr sr v0 v v' where "run_chunks rv j content cfg (packed_chunks packing) v0 = (Inr cr, v)"
    "finish_review rv started packing cr sr v' = (Inr r, w')"
proof -
  from assms(1) obtain outcome u where
    try_run: "io_try
         (io_bind (run_chunks rv j content cfg (packed_chunks packing)) (\<lambda>cr.
          io_bind (maybe_synthesize rv cfg (cr_outputs cr)) (\<lambda>sr. io_return (Inr (cr, sr)))))
         (\<lambda>e. if isinstance e LLMError \<or> isinstance e GitHubError
              then io_bind (failure_from rv e started LLM_FAILURE) (\<lambda>r. io_return (Inl r))
              else io_raise e) w = (Inr outcome, u)"
    and rest: "(case outcome of Inl r \<Rightarrow> io_return (early_review r)
        | Inr (cr, sr) \<Rightarrow> finish_review rv started packing cr sr) u = (Inr r, w')"
    unfolding review_chunks_def io_bind_returns by blast
  show thesis
  proof (cases outcome)
    case (Inl res)
    then show thesis using rest assms(2) by (auto simp: io_return_def early_review_def)
  next
    case (Inr x)
    then obtain cr sr where x: "x = (cr, sr)" by (cases x)
    obtain v0 v where run: "run_chunks rv j content cfg (packed_chunks packing) v0 = (Inr cr, v)"
      using try_run unfolding io_try_returns io_bind_returns Inr x
      by (auto simp: io_return_def io_raise_def io_bind_returns split: if_splits)
    from rest have "finish_review rv started packing cr sr u = (Inr r, w')" by (simp add: Inr x)
    with run show thesis by (rule that)
  qed
qed

section \<open>Properties\<close>

lemma truncate_body_keeps:
  assumes "body = truncate_body (a @ mid @ b)"
  shows "body = a @ mid @ b \<or> length body = MAX_REVIEW_BODY \<and> (\<exists>c. body = c @ TRUNCATION_NOTE)"
proof (cases "length (a @ mid @ b) \<le> MAX_REVIEW_BODY")
  case True
  then show ?thesis using assms by (simp add: truncate_body_def)
next
  case False
  then have body: "body = take (MAX_REVIEW_BODY - length TRUNCATION_NOTE) (a @ mid @ b) @ TRUNCATION_NOTE"
    using assms by (simp only: truncate_body_def if_False)
  have "length TRUNCATION_NOTE \<le> MAX_REVIEW_BODY" by (simp add: MAX_REVIEW_BODY_def TRUNCATION_NOTE_def)
  then have "length body = MAX_REVIEW_BODY"
    using False unfolding body length_append [of "take _ _"] length_take by linarith
  then show ?thesis using body by blast
qed

text \<open>The list of the files that were not reviewed stands behind the text of the review; of a text at the
  limit nothing of the list is left.\<close>

lemma cut_body_drops_skipped:
  assumes "\<not> rev_parse_failed parsed" "MAX_REVIEW_BODY \<le> length (join (nl @ nl) (review_sections parsed))"
  shows "render_review_body parsed model d n m names k fr = render_review_body parsed model d n m [] k fr"
proof -
  have "truncate_body (t @ a) = truncate_body (t @ b)" if "MAX_REVIEW_BODY \<le> length t" "a \<noteq> []" "b \<noteq> []" for t a b
    using that by (cases a; cases b) (auto simp: truncate_body_def)
  from this [OF assms(2)] show ?thesis using assms(1) by (simp add: render_review_body_def full_review_body_def Let_def)
qed

text \<open>A file that was packed is in a prompt; a file that was skipped is in the body that is rendered.\<close>

lemma packed_file_prompted:
  assumes "run_chunks rv j content cfg (packed_chunks packing) v0 = (Inr cr, v)"
    and "prompt_templates (rv_files rv) ''review_user.md'' = Some (template_source review_user_segments)"
    and "c \<in> set (packed_chunks packing)" "f \<in> set (chunk_files c)" "patch f = Some p"
  shows "\<exists>d \<in> set (cr_prompts cr). \<exists>system a b. dump_messages d = prompt_messages system (a @ p @ b)"
proof -
  from io_yieldsD [OF run_chunks_from_prompts assms(1) [unfolded run_chunks_def]]
  have "list_all2 (\<lambda>c d. compose_review_prompt (rv_files rv) cfg (content_pr content) (content_conversation content) c
      (job_extra_context j) = Inr (dump_messages d)) (packed_chunks packing) (cr_prompts cr)"
    by (auto simp: chunks_init_def)
  from list_all2_member [OF this assms(3)] obtain d where d: "d \<in> set (cr_prompts cr)"
    "compose_review_prompt (rv_files rv) cfg (content_pr content) (content_conversation content) c
      (job_extra_context j) = Inr (dump_messages d)"
    by (elim bexE) (rule that)
  from prompt_shows_patch [OF assms(2) d(2) assms(4,5)] d(1) show ?thesis by (intro bexI [of _ d])
qed

lemma skipped_file_named:
  assumes "name \<in> set names" "body = truncate_body (full_review_body parsed model d n m names k fr)"
  shows "(\<exists>a b. body = a @ ''- `'' @ name @ ''`'' @ b) \<or>
    length body = MAX_REVIEW_BODY \<and> (\<exists>c. body = c @ TRUNCATION_NOTE)"
proof -
  from full_review_body_skipped [OF assms(1)] obtain a b where
    "full_review_body parsed model d n m names k fr = a @ ''- `'' @ name @ ''`'' @ b" by blast
  then have "body = truncate_body (a @ (''- `'' @ name @ ''`'') @ b)" unfolding assms(2) by simp
  from truncate_body_keeps [OF this] show ?thesis unfolding append_assoc by blast
qed

text \<open>C14: every file under review is accounted for. When a review body is produced, the patch of each
  eligible file was sent to the model unchanged, or packing skipped the file and the body was rendered with
  the list of the skipped files. Then the body names the file as not reviewed, unless it was cut at the
  limit of GitHub: it has exactly the length of the limit and ends with the note that says so, and the
  list, which stands at the end, may be lost.\<close>

theorem review_content_covers_files:
  assumes "review_content rv j started content cfg w = (Inr r, w')" "rendered_body r = Some body"
    and "prompt_templates (rv_files rv) ''review_user.md'' = Some (template_source review_user_segments)"
    and "f \<in> set (filter_files (rv_match_file rv) cfg (content_files content))" "patch f = Some p"
  shows "(\<exists>d \<in> set (rendered_prompts r). \<exists>system a b. dump_messages d = prompt_messages system (a @ p @ b)) \<or>
    (\<exists>names. names = packed_skipped (pack_chunks (filter_files (rv_match_file rv) cfg (content_files content))
        (nat (max_files (rv_pipeline rv))) (nat (max_chunks (rv_pipeline rv))) (nat (max_chunk_chars (rv_pipeline rv)))) \<and>
      filename f \<in> set names \<and>
      (\<exists>parsed duration n m k fr. body = render_review_body parsed (llm_model (rv_llm rv)) duration n m names k fr) \<and>
      ((\<exists>a b. body = a @ ''- `'' @ filename f @ ''`'' @ b) \<or>
       length body = MAX_REVIEW_BODY \<and> (\<exists>a. body = a @ TRUNCATION_NOTE)))"
proof -
  define packing where "packing = pack_chunks (filter_files (rv_match_file rv) cfg (content_files content))
    (nat (max_files (rv_pipeline rv))) (nat (max_chunks (rv_pipeline rv))) (nat (max_chunk_chars (rv_pipeline rv)))"
  have "review_chunks rv j started content cfg packing w = (Inr r, w')"
    using assms(1,2,4) unfolding review_content_def Let_def packing_def [symmetric] early_done_def
    by (auto simp: io_bind_returns io_return_def early_review_def split: if_splits)
  from review_chunks_returns [OF this assms(2)] obtain cr sr v0 v v' where
    run: "run_chunks rv j content cfg (packed_chunks packing) v0 = (Inr cr, v)"
    and fin: "finish_review rv started packing cr sr v' = (Inr r, w')" .
  from finish_review_returns [OF fin] obtain duration n m k fr where
    body: "body = truncate_body (full_review_body (sr_review sr) (llm_model (rv_llm rv)) duration n m (packed_skipped packing) k fr)"
    and prompts: "set (cr_prompts cr) \<subseteq> set (rendered_prompts r)" using assms(2) by auto
  consider c where "c \<in> set (packed_chunks packing)" "f \<in> set (chunk_files c)"
    | "filename f \<in> set (packed_skipped packing)"
    using pack_chunks_accounts [OF assms(4)] unfolding packing_def by blast
  then show ?thesis
  proof cases
    case 1
    from bexE [OF packed_file_prompted [OF run assms(3) 1 assms(5)]] obtain d where d: "d \<in> set (cr_prompts cr)"
      "\<exists>system a b. dump_messages d = prompt_messages system (a @ p @ b)" by this
    from d(1) prompts have "d \<in> set (rendered_prompts r)" by (rule subsetD [rotated])
    with d(2) show ?thesis by (intro disjI1 bexI [of _ d])
  next
    case 2
    from skipped_file_named [OF 2 body]
    have "(\<exists>a b. body = a @ ''- `'' @ filename f @ ''`'' @ b) \<or>
        length body = MAX_REVIEW_BODY \<and> (\<exists>c. body = c @ TRUNCATION_NOTE)" .
    moreover have "\<exists>parsed duration n m k fr. body =
        render_review_body parsed (llm_model (rv_llm rv)) duration n m (packed_skipped packing) k fr"
      using body unfolding render_review_body_def by blast
    ultimately show ?thesis using 2 unfolding packing_def by blast
  qed
qed

text \<open>A repository with one changed file, a model that always answers the same, and a clock at rest.\<close>

definition sample_reviewer :: "(unit, string) reviewer" where
  "sample_reviewer = \<lparr>
     rv_github = \<lparr>
       g_get_pr = (\<lambda>i repo n w. (Inr (sample_pr\<lparr>info_draft := True\<rparr>), w)),
       g_get_pr_files = (\<lambda>i repo n w. (Inr (chunk_files sample_chunk), w)),
       g_get_pr_comments = (\<lambda>i repo n w. (Inr [], w)),
       g_get_repo = (\<lambda>i repo w. (Inr \<lparr>repo_full_name = repo, repo_default_branch = ''main'', repo_private = False\<rparr>, w)),
       g_create_review = (\<lambda>i repo n body w. (Inl (raised GitHubPermanentError ''422: closed''), w)),
       g_create_comment = (\<lambda>i repo n body w. (Inr 1, w)),
       g_react_to_comment = (\<lambda>i repo n reaction w. (Inr (), w)),
       g_for_installation = (\<lambda>i repo ref path etag w. (Inr fetch_not_found, w))\<rparr>,
     rv_chat = (\<lambda>messages t n w. (Inr \<lparr>resp_content = ''fine'', resp_model = ''m'',
       resp_usage = \<lparr>usage_prompt_tokens = 1, usage_completion_tokens = 1, usage_total_tokens = 2\<rparr>,
       resp_reasoning_content = [], resp_finish_reason = None\<rparr>, w)),
     rv_files = sample_files,
     rv_match_file = (\<lambda>globs path. False),
     rv_perf_counter = (\<lambda>w. (0, w)),
     rv_utcnow = (\<lambda>w. (0, w)),
     rv_yaml = ld_yaml sample_loader,
     rv_validate = ld_validate sample_loader,
     rv_retrying = retry_loop,
     rv_defaults = default_defaults,
     rv_pipeline = default_pipeline,
     rv_llm = \<lparr>llm_base_url = ''http://llm'', llm_model = ''m'', llm_temperature = 1 / 5,
       llm_timeout_seconds = 600, llm_max_tokens = 4096, llm_extra_body = []\<rparr>,
     rv_bot_login = ''vidi-pr[bot]''\<rparr>"

lemma sample_reviewer_simps [simp]:
  "rv_files sample_reviewer = sample_files"
  "rv_perf_counter sample_reviewer w = (0, w)"
  "rv_chat sample_reviewer messages t n w = (Inr \<lparr>resp_content = ''fine'', resp_model = ''m'',
       resp_usage = \<lparr>usage_prompt_tokens = 1, usage_completion_tokens = 1, usage_total_tokens = 2\<rparr>,
       resp_reasoning_content = [], resp_finish_reason = None\<rparr>, w)"
  by (simp_all add: sample_reviewer_def)

definition sample_content :: pr_content where
  "sample_content = \<lparr>content_pr = sample_pr, content_files = chunk_files sample_chunk, content_conversation = []\<rparr>"

lemma sample_content_files:
  "filter_files (rv_match_file sample_reviewer) default_repo_config (content_files sample_content) =
    chunk_files sample_chunk"
  by (simp add: filter_files_def is_ignored_def default_repo_config_def default_review_config_def
      sample_content_def sample_chunk_def)

lemma sample_packing: "pack_chunks (chunk_files sample_chunk) 50 5 80000 =
  \<lparr>packed_chunks = [sample_chunk], packed_skipped = []\<rparr>"
  by (simp add: pack_chunks_def sample_chunk_def sort_by_size_def place_file_def packing_init_def
      number_chunks_def file_size_def)

lemma sample_prompt:
  "\<exists>messages. compose_review_prompt sample_files default_repo_config sample_pr [] sample_chunk None = Inr messages"
  using render_user_packaged [of sample_files default_repo_config sample_pr "[]" sample_chunk None]
    render_system_packaged [of sample_files "[Text ''Be '', Var ''strictness_block'', Text ''.'']" default_repo_config "''calm''"]
  by (simp add: compose_review_prompt_def sample_files_def default_repo_config_def default_review_config_def py_word_def)

lemma sample_reviewer_same:
  "sample_reviewer = sample_reviewer\<lparr>rv_github := rv_github sample_reviewer, rv_validate := rv_validate sample_reviewer\<rparr>"
  by simp

lemma sample_review_content:
  assumes "job_extra_context j = None" and rv: "rv = sample_reviewer\<lparr>rv_github := g, rv_validate := v\<rparr>"
  shows "\<exists>r body. review_content rv j t sample_content default_repo_config () = (Inr r, ()) \<and>
    early_result r = None \<and> rendered_body r = Some body"
proof -
  obtain messages where m: "compose_review_prompt sample_files default_repo_config sample_pr [] sample_chunk None = Inr messages"
    using sample_prompt by blast
  have packing: "pack_chunks (chunk_files sample_chunk) (nat (max_files (rv_pipeline rv)))
      (nat (max_chunks (rv_pipeline rv))) (nat (max_chunk_chars (rv_pipeline rv))) =
      \<lparr>packed_chunks = [sample_chunk], packed_skipped = []\<rparr>"
    using sample_packing by (simp add: rv sample_reviewer_def default_pipeline_def)
  have files: "filter_files (rv_match_file rv) default_repo_config (content_files sample_content) = chunk_files sample_chunk"
    using sample_content_files by (simp add: rv)
  have content: "content_pr sample_content = sample_pr" "content_conversation sample_content = []"
    by (simp_all add: sample_content_def)
  have chunks: "review_content rv j t sample_content default_repo_config =
      review_chunks rv j t sample_content default_repo_config \<lparr>packed_chunks = [sample_chunk], packed_skipped = []\<rparr>"
    unfolding review_content_def files Let_def packing by (simp add: sample_chunk_def)
  show ?thesis
    unfolding chunks review_chunks_def
    by (simp add: run_chunks_def review_chunk_def maybe_synthesize_def finish_review_def
        io_defs chunks_init_def Let_def content m rv assms(1))
qed

theorem review_content_covers_files_witness:
  "\<exists>r body. review_content sample_reviewer (hd (jobs sample_running)) 0 sample_content default_repo_config () = (Inr r, ()) \<and>
    rendered_body r = Some body \<and> patch (hd (chunk_files sample_chunk)) = Some ''+x'' \<and>
    (\<exists>d \<in> set (rendered_prompts r). \<exists>system a b. dump_messages d = prompt_messages system (a @ ''+x'' @ b))"
proof -
  obtain r body where r: "review_content sample_reviewer (hd (jobs sample_running)) 0 sample_content default_repo_config () = (Inr r, ())"
    "rendered_body r = Some body"
    using sample_review_content [of "hd (jobs sample_running)", OF _ sample_reviewer_same, of 0] by (auto simp: sample_running_eval)
  have eligible: "hd (chunk_files sample_chunk) \<in> set (filter_files (rv_match_file sample_reviewer) default_repo_config (content_files sample_content))"
    unfolding sample_content_files by (simp add: sample_chunk_def)
  have pipeline: "rv_pipeline sample_reviewer = default_pipeline" by (simp add: sample_reviewer_def)
  have "packed_skipped (pack_chunks (filter_files (rv_match_file sample_reviewer) default_repo_config (content_files sample_content))
      (nat (max_files (rv_pipeline sample_reviewer))) (nat (max_chunks (rv_pipeline sample_reviewer)))
      (nat (max_chunk_chars (rv_pipeline sample_reviewer)))) = []"
    unfolding sample_content_files pipeline using sample_packing by (simp add: default_pipeline_def)
  moreover have "prompt_templates (rv_files sample_reviewer) ''review_user.md'' = Some (template_source review_user_segments)"
    "patch (hd (chunk_files sample_chunk)) = Some ''+x''"
    by (simp_all add: sample_reviewer_def sample_files_def sample_chunk_def)
  ultimately show ?thesis using review_content_covers_files [OF r _ eligible, of "''+x''"] r by auto
qed

text \<open>C25: what a review run ends in: a terminal status, a review id only for a finished review, a
  failure message exactly for a failure of the model; and a prepared review either ends early with
  such a result or has a body within GitHub's limit.\<close>

theorem run_review_outcome:
  "(case fst (run_review rv j w) of Inr r \<Rightarrow> result_ok r | Inl e \<Rightarrow> True) \<and>
   (case fst (prepare rv j skip w) of Inr r \<Rightarrow> rendered_ok r | Inl e \<Rightarrow> True)"
proof -
  have yields: "case fst (m w) of Inr a \<Rightarrow> P a | Inl e \<Rightarrow> True" if "io_yields P m" for P and m :: "('a, 'x) io"
    using io_yieldsD [OF that, of w] by (cases "m w") (auto split: sum.splits)
  show ?thesis using yields [OF yields_run_review] yields [OF yields_prepare] by blast
qed

text \<open>A PR that is a draft by the time its job runs is left alone: the PR is looked up, and nothing
  else is fetched, sent to the model or posted.\<close>

lemma run_review_skips_draft:
  assumes "rv_perf_counter rv w = (t0, w1)"
    and "g_get_pr (rv_github rv) (job_installation_id j) (job_repo j) (job_pr_number j) w1 = (Inr pr, w2)"
    and "info_draft pr" "rv_perf_counter rv w2 = (t1, w3)"
  shows "run_review rv j w = (Inr (plain_result DONE (Some DRAFTED_AFTER_EVENT) (t1 - t0)), w3)"
  using assms by (simp add: run_review_def prepare_def early_done_def early_review_def io_defs)

lemma permanent_not_transient: "isinstance e GitHubPermanentError \<Longrightarrow> \<not> isinstance e GitHubTransientError"
  unfolding isinstance_def by (cases "exc_class e") (simp_all add: is_subclass.simps)


text \<open>C26: when GitHub rejects the review for good, it is posted once and not again, and the job ends as
  done, the PR being taken as closed.\<close>

theorem run_review_rejected_once:
  assumes "retry_contract slept (rv_retrying rv)"
    and "prepare rv j False w = (Inr rendered, w1)" "early_result rendered = None" "rendered_body rendered = Some body"
    and "g_create_review (rv_github rv) (job_installation_id j) (job_repo j) (job_pr_number j) body w1 = (Inl e, w2)"
    and "isinstance e GitHubPermanentError"
  shows "run_review rv j w =
    (Inr ((posted_result rendered DONE (Some PR_CLOSED))\<lparr>result_error := Some (exc_message e)\<rparr>), w2)"
proof -
  have "rv_retrying rv (ExponentialJitter 1) 3 (\<lambda>e. isinstance e GitHubTransientError)
      (g_create_review (rv_github rv) (job_installation_id j) (job_repo j) (job_pr_number j) body) w1 =
      (map_sum id Some (Inl e), w2)"
    by (rule retry_at_once [OF assms(1)]) (simp, rule assms(5), use permanent_not_transient [OF assms(6)] in simp)
  then have "post_with_retry rv (job_installation_id j) (job_repo j) (job_pr_number j) body w1 = (Inl e, w2)"
    by (simp add: post_with_retry_def io_bind_def)
  then show ?thesis using assms(2-4,6) by (simp add: run_review_def io_defs)
qed


text \<open>The sample reviewer on a PR that is no draft, in a repository with a configuration file.\<close>

definition reviewer_posting :: "(int \<Rightarrow> string \<Rightarrow> int \<Rightarrow> string \<Rightarrow> (unit, int) io) \<Rightarrow> (unit, string) reviewer" where
  "reviewer_posting c = sample_reviewer\<lparr>
     rv_github := (rv_github sample_reviewer)\<lparr>g_get_pr := (\<lambda>i repo n w. (Inr sample_pr, w)),
       g_for_installation := (\<lambda>i repo ref path etag w. (Inr (fetch_found ''x'' None), w)), g_create_review := c\<rparr>,
     rv_validate := (\<lambda>_. Inr default_repo_config)\<rparr>"

lemma reviewer_posting_config:
  "review_repo_config (reviewer_posting c) j sample_pr () = (Inr default_repo_config, ())"
  by (simp add: review_repo_config_def reviewer_posting_def sample_reviewer_def reviewer_loader_def load_repo_config_def
      loader_load_def cached_fetch_def fetch_found_def parse_repo_config_def resolve_project_context_def sample_loader_def
      default_repo_config_def default_review_config_def sample_pr_def io_defs Let_def)

lemma reviewer_posting_content:
  "fetch_pr_content (rv_github (reviewer_posting c)) i repo n b login () = (Inr sample_content, ())"
  by (simp add: fetch_pr_content_def reviewer_posting_def sample_reviewer_def sample_content_def io_defs)

lemma reviewer_posting_prepare:
  assumes "job_extra_context j = None"
  shows "\<exists>r body. prepare (reviewer_posting c) j False () = (Inr r, ()) \<and> early_result r = None \<and> rendered_body r = Some body"
proof -
  have "g_get_pr (rv_github (reviewer_posting c)) = (\<lambda>i repo n w. (Inr sample_pr, w))"
    "rv_perf_counter (reviewer_posting c) = (\<lambda>w. (0, w))"
    by (simp_all add: reviewer_posting_def sample_reviewer_def)
  moreover have not_draft: "\<not> info_draft sample_pr" by (simp add: sample_pr_def)
  ultimately have "prepare (reviewer_posting c) j False () = review_content (reviewer_posting c) j 0 sample_content default_repo_config ()"
    using reviewer_posting_config [where j = j] reviewer_posting_content not_draft
    by (simp add: prepare_def io_defs Let_def)
  then show ?thesis using sample_review_content [OF assms reviewer_posting_def, where t = 0] by (simp only:)
qed

abbreviation review_refused :: "int \<Rightarrow> string \<Rightarrow> int \<Rightarrow> string \<Rightarrow> (unit, int) io" where
  "review_refused \<equiv> (\<lambda>i repo n body w. (Inl (raised GitHubPermanentError ''422: closed''), w))"

abbreviation open_reviewer :: "(unit, string) reviewer" where
  "open_reviewer \<equiv> reviewer_posting review_refused"

theorem run_review_rejected_once_witness:
  "\<exists>r. prepare open_reviewer (hd (jobs sample_running)) False () = (Inr r, ()) \<and>
    run_review open_reviewer (hd (jobs sample_running)) () =
      (Inr ((posted_result r DONE (Some PR_CLOSED))\<lparr>result_error := Some ''422: closed''\<rparr>), ())"
proof -
  obtain r body where r: "prepare open_reviewer (hd (jobs sample_running)) False () = (Inr r, ())"
    "early_result r = None" "rendered_body r = Some body"
    using reviewer_posting_prepare [of "hd (jobs sample_running)" review_refused] by (auto simp: sample_running_eval)
  have contract: "retry_contract no_sleep (rv_retrying open_reviewer)"
    by (simp add: reviewer_posting_def sample_reviewer_def retry_loop_contract)
  have post: "g_create_review (rv_github open_reviewer) i repo n b () = (Inl (raised GitHubPermanentError ''422: closed''), ())" for i repo n b
    by (simp add: reviewer_posting_def sample_reviewer_def)
  have "isinstance (raised GitHubPermanentError ''422: closed'') GitHubPermanentError"
    by (simp add: isinstance_def)
  from run_review_rejected_once [OF contract r post this] r(1) show ?thesis by simp
qed



text \<open>Neither the bot's own comments nor any comment that triggers a review becomes part of the
  conversation the model is shown.\<close>

lemma fetch_pr_content_conversation:
  "case fst (fetch_pr_content client i repo n include_conv bot_login w) of
     Inr c \<Rightarrow> list_all (\<lambda>x. comment_author_login x \<noteq> bot_login \<and> parse_trigger (Some (comment_body x)) = None)
       (content_conversation c)
   | Inl e \<Rightarrow> True"
proof -
  have no_trigger: "parse_trigger (Some t) = None" if "rx_search TRIGGER_PATTERN t = None" for t
  proof -
    have "rx_search TRIGGER t = None" using that TRIGGER_search [of t] TRIGGER_PATTERN_search [of t] by blast
    then show ?thesis by (simp add: parse_trigger_def)
  qed
  have "io_yields (\<lambda>c. list_all (\<lambda>x. comment_author_login x \<noteq> bot_login \<and> parse_trigger (Some (comment_body x)) = None)
      (content_conversation c)) (fetch_pr_content client i repo n include_conv bot_login)"
    unfolding fetch_pr_content_def
    by (intro yields_bind_any) (auto simp: list_all_iff keep_comment_def no_trigger intro!: yields_bind_any)
  from io_yieldsD [OF this, of w] show ?thesis
    by (cases "fetch_pr_content client i repo n include_conv bot_login w") (auto split: sum.splits)
qed

end
