(* ===== verification/Worker.thy ===== *)
theory Worker
  imports Reviewer
begin

text \<open>
  The worker and the failure comments: \<open>pipeline/failure.py\<close> and \<open>pipeline/worker.py\<close>. The world is
  the database together with the world outside it. While a review runs, webhooks are handled and
  change the database too; so the review is a call on the whole world here, and \<open>interference\<close> says
  what the others may do to the database meanwhile.
\<close>

section \<open>The world\<close>

record 'v world =
  world_db :: database
  world_out :: 'v

definition in_db :: "(database \<Rightarrow> 'a \<times> database) \<Rightarrow> ('v world, 'a) io" where
  [io_defs]: "in_db f = (\<lambda>w. case f (world_db w) of (a, d) \<Rightarrow> (Inr a, w\<lparr>world_db := d\<rparr>))"

definition in_out :: "('v, 'a) io \<Rightarrow> ('v world, 'a) io" where
  [io_defs]: "in_out m = (\<lambda>w. case m (world_out w) of (r, v) \<Rightarrow> (r, w\<lparr>world_out := v\<rparr>))"

section \<open>pipeline/failure.py\<close>

definition maybe_post_failure_comment ::
  "'v github \<Rightarrow> ('v \<Rightarrow> int \<times> 'v) \<Rightarrow> int \<Rightarrow> string \<Rightarrow> int \<Rightarrow> string \<Rightarrow> int \<Rightarrow> ('v world, bool) io" where
  "maybe_post_failure_comment client utcnow installation_id repo pr_number msg cooldown_seconds =
     io_bind (in_out (io_total utcnow)) (\<lambda>now.
     io_bind (in_db (claim_slot cooldown_seconds (repo, pr_number) now)) (\<lambda>allowed.
       if \<not> allowed then io_return False
       else io_try
         (io_bind (in_out (g_create_comment client installation_id repo pr_number msg)) (\<lambda>_. io_return True))
         (\<lambda>e. io_return False)))"

section \<open>pipeline/worker.py\<close>

record 'v worker =
  wk_github :: "'v github"
  wk_review :: "job \<Rightarrow> ('v world, review_result) io"
  wk_expires :: "job \<Rightarrow> 'v world \<Rightarrow> 'v world option"
  wk_utcnow :: "'v \<Rightarrow> int \<times> 'v"
  wk_pipeline :: pipeline_config

definition next_pending :: "database \<Rightarrow> job option" where
  "next_pending d =
     (case sort_key (\<lambda>j. (job_created_at j, job_id j)) (filter (\<lambda>j. job_status j = PENDING) (jobs d)) of
        [] \<Rightarrow> None | j # rest \<Rightarrow> Some j)"

text \<open>The transaction of \<open>_claim_one\<close>; the row is read again after the commit. The clock is read between
  the query and the update, when a job is pending.\<close>

definition claim_tx :: "int \<Rightarrow> database \<Rightarrow> job option \<times> database" where
  "claim_tx now d =
     (case next_pending d of
        None \<Rightarrow> (None, d)
      | Some j \<Rightarrow> (let d' = update_job_status (job_id j) RUNNING None None now d in (fetch_job (job_id j) d', d')))"

definition claim_one :: "'v worker \<Rightarrow> ('v world, job option) io" where
  "claim_one wk =
     io_bind (in_db (\<lambda>d. (next_pending d, d))) (\<lambda>pending. case pending of
       None \<Rightarrow> io_return None
     | Some _ \<Rightarrow> io_bind (in_out (io_total (wk_utcnow wk))) (\<lambda>now. in_db (claim_tx now)))"

text \<open>
  \<open>asyncio.wait_for(call, timeout)\<close>: \<open>expires w\<close> is None when the call ends in time, and otherwise the
  world in which it was cancelled.
\<close>

definition wait_for :: "('w \<Rightarrow> 'w option) \<Rightarrow> ('w, 'a) io \<Rightarrow> ('w, 'a) io" where
  "wait_for expires m =
     (\<lambda>w. case expires w of None \<Rightarrow> m w | Some w' \<Rightarrow> (Inl (raised TimeoutError []), w'))"

text \<open>\<open>int(x)\<close> of a float.\<close>

definition py_int :: "rat \<Rightarrow> int" where
  "py_int x = (if x < 0 then ceiling x else floor x)"

definition persist_tx :: "job \<Rightarrow> review_result \<Rightarrow> int \<Rightarrow> int \<Rightarrow> database \<Rightarrow> database" where
  "persist_tx j r now1 now2 d =
     (let d1 = update_job_status (job_id j) (result_status r) (detail_text (result_status_detail r)) (result_error r) now1 d;
          d2 = (case result_review_id r of None \<Rightarrow> d1
            | Some rid \<Rightarrow> snd (record_review_posted (job_repo j) (job_pr_number j) (job_head_sha j) rid
                (py_int (result_duration_seconds r * 1000)) (int (result_chunk_count r)) now2 d1))
      in release_lock (job_repo j) (job_pr_number j) d2)"

definition notify_failure :: "'v worker \<Rightarrow> job \<Rightarrow> string \<Rightarrow> ('v world, unit) io" where
  "notify_failure wk j msg =
     io_bind (maybe_post_failure_comment (wk_github wk) (wk_utcnow wk) (job_installation_id j) (job_repo j)
         (job_pr_number j) msg (failure_comment_cooldown_seconds (wk_pipeline wk)))
       (\<lambda>_. io_return ())"

text \<open>\<open>record_review_posted\<close> reads the clock again; without a review it is not called.\<close>

definition posting_time :: "'v worker \<Rightarrow> review_result \<Rightarrow> int \<Rightarrow> ('v world, int) io" where
  "posting_time wk r now =
     (case result_review_id r of None \<Rightarrow> io_return now | Some _ \<Rightarrow> in_out (io_total (wk_utcnow wk)))"

lemma posting_time_runs:
  obtains now2 v where "posting_time wk r now1 w = (Inr now2, w\<lparr>world_out := v\<rparr>)"
proof (cases "result_review_id r")
  case None
  then have "posting_time wk r now1 w = (Inr now1, w\<lparr>world_out := world_out w\<rparr>)" by (simp add: posting_time_def io_return_def)
  then show ?thesis by (rule that)
next
  case (Some rid)
  obtain now2 v where "wk_utcnow wk (world_out w) = (now2, v)" by (rule prod.exhaust)
  then have "posting_time wk r now1 w = (Inr now2, w\<lparr>world_out := v\<rparr>)" by (simp add: posting_time_def Some io_defs)
  then show ?thesis by (rule that)
qed

definition persist :: "'v worker \<Rightarrow> job \<Rightarrow> review_result \<Rightarrow> ('v world, unit) io" where
  "persist wk j r =
     io_bind (in_out (io_total (wk_utcnow wk))) (\<lambda>now1.
     io_bind (posting_time wk r now1) (\<lambda>now2.
     io_bind (in_db (\<lambda>d. ((), persist_tx j r now1 now2 d))) (\<lambda>_.
       case (result_status r, result_failure_message r) of
         (FAILED, Some msg) \<Rightarrow> notify_failure wk j msg
       | _ \<Rightarrow> io_return ())))"

definition finalize_failure_tx :: "job \<Rightarrow> job_status_detail \<Rightarrow> string \<Rightarrow> int \<Rightarrow> database \<Rightarrow> database" where
  "finalize_failure_tx j detail err now d =
     release_lock (job_repo j) (job_pr_number j)
       (update_job_status (job_id j) FAILED (Some (status_detail_value detail)) (Some err) now d)"

definition finalize_failure ::
  "'v worker \<Rightarrow> job \<Rightarrow> job_status_detail \<Rightarrow> string \<Rightarrow> string \<Rightarrow> ('v world, unit) io" where
  "finalize_failure wk j detail err failure_message =
     io_bind (in_out (io_total (wk_utcnow wk))) (\<lambda>now.
     io_bind (in_db (\<lambda>d. ((), finalize_failure_tx j detail err now d))) (\<lambda>_.
       notify_failure wk j failure_message))"

definition reviewed :: "'v worker \<Rightarrow> job \<Rightarrow> ('v world, review_result) io" where
  "reviewed wk j = wait_for (wk_expires wk j) (wk_review wk j)"

definition process :: "'v worker \<Rightarrow> job \<Rightarrow> ('v world, unit) io" where
  "process wk j =
     (\<lambda>w. case reviewed wk j w of
        (Inr result, w1) \<Rightarrow> persist wk j result w1
      | (Inl e, w1) \<Rightarrow>
          if isinstance e TimeoutError
          then finalize_failure wk j TIMEOUT ''job timed out''
            ''vidi-pr could not complete the review: job timed out'' w1
          else finalize_failure wk j LLM_FAILURE (exc_message e)
            (''vidi-pr could not complete the review: '' @ exc_message e) w1)"

definition process_one :: "'v worker \<Rightarrow> ('v world, bool) io" where
  "process_one wk =
     io_bind (claim_one wk) (\<lambda>claimed. case claimed of
       None \<Rightarrow> io_return False
     | Some j \<Rightarrow> io_bind (process wk j) (\<lambda>_. io_return True))"

text \<open>
  \<open>run_forever\<close> for \<open>n\<close> turns of its loop. \<open>stopped\<close> is \<open>self._stop.is_set()\<close>, read before each turn; a
  turn without a job waits for \<open>stop\<close> or the poll interval, which is \<open>idle\<close>.
\<close>

fun run_turns :: "nat \<Rightarrow> 'v worker \<Rightarrow> ('v world \<Rightarrow> bool) \<Rightarrow> ('v world, unit) io \<Rightarrow> ('v world, unit) io" where
  "run_turns 0 wk stopped idle = io_return ()"
| "run_turns (Suc n) wk stopped idle =
     (\<lambda>w. if stopped w then (Inr (), w)
       else io_bind (claim_one wk) (\<lambda>claimed. case claimed of
           None \<Rightarrow> io_bind idle (\<lambda>_. run_turns n wk stopped idle)
         | Some j \<Rightarrow> io_bind (process wk j) (\<lambda>_. run_turns n wk stopped idle)) w)"

section \<open>Interference\<close>

text \<open>What the webhook handler does to the database.\<close>

inductive webhook_step :: "database \<Rightarrow> database \<Rightarrow> bool" where
  delivery_step: "webhook_step d (snd (record_delivery delivery now d))"
| enqueue_step: "webhook_step d (snd (enqueue_tx req now1 now2 d))"

inductive_cases webhook_stepE: "webhook_step d d'"

definition interference :: "'v world \<Rightarrow> 'v world \<Rightarrow> bool" where
  "interference w w' = webhook_step\<^sup>*\<^sup>* (world_db w) (world_db w')"

interpretation interference_frame: io_frame "interference :: 'v world \<Rightarrow> 'v world \<Rightarrow> bool"
  by unfold_locales (auto simp: interference_def)

lemma interference_in_out: "io_keeps interference (in_out m)"
  by (auto simp: io_keeps_def in_out_def interference_def split: prod.splits)

lemma webhook_step_keeps:
  assumes "webhook_step d d'" "store_ok d"
  shows "store_ok d'" and "set (jobs d) \<subseteq> set (jobs d')"
  using assms store_ok_record_delivery store_ok_enqueue_tx
  by (auto elim!: webhook_stepE simp: record_delivery_def insert_or_ignore_def enqueue_tx_cases)

lemma webhook_steps_keep:
  "webhook_step\<^sup>*\<^sup>* d d' \<Longrightarrow> store_ok d \<Longrightarrow> store_ok d' \<and> set (jobs d) \<subseteq> set (jobs d')"
  by (induction rule: rtranclp_induct) (auto dest: webhook_step_keeps)

section \<open>The transactions of the worker keep the store\<close>

lemma next_pending_Some:
  assumes "next_pending d = Some j"
  shows "j \<in> set (jobs d)" "job_status j = PENDING"
    and "\<forall>k \<in> set (jobs d). job_status k = PENDING \<longrightarrow> (job_created_at j, job_id j) \<le> (job_created_at k, job_id k)"
proof -
  let ?key = "\<lambda>j. (job_created_at j, job_id j)"
  obtain rest where sorted: "sort_key ?key (filter (\<lambda>j. job_status j = PENDING) (jobs d)) = j # rest"
    using assms by (auto simp: next_pending_def split: list.splits)
  have mem: "set (j # rest) = {k \<in> set (jobs d). job_status k = PENDING}"
    using arg_cong [OF sorted, of set] by simp
  then show "j \<in> set (jobs d)" "job_status j = PENDING" by auto
  have "sorted (map ?key (j # rest))" unfolding sorted [symmetric] by (rule sorted_sort_key)
  then have "\<forall>k \<in> set (j # rest). ?key j \<le> ?key k" by simp
  then show "\<forall>k \<in> set (jobs d). job_status k = PENDING \<longrightarrow> ?key j \<le> ?key k" unfolding mem by simp
qed

lemma next_pending_None: "next_pending d = None \<longleftrightarrow> (\<forall>j \<in> set (jobs d). job_status j \<noteq> PENDING)"
proof -
  have "sort_key f xs = [] \<longleftrightarrow> xs = []" for f :: "job \<Rightarrow> int \<times> int" and xs
    by (metis set_empty set_sort)
  note empty = this
  show ?thesis
  proof (cases "next_pending d")
    case None
    then have "filter (\<lambda>j. job_status j = PENDING) (jobs d) = []"
      unfolding next_pending_def using empty by (auto split: list.splits)
    with None show ?thesis by (simp add: filter_empty_conv)
  next
    case (Some j)
    with next_pending_Some(1,2) [OF Some] show ?thesis by auto
  qed
qed

lemma fetch_updated:
  assumes "j \<in> set (jobs d)" "keys_ok d"
  shows "fetch_job (job_id j) (update_job_status (job_id j) st detail err now d) = Some (set_status st detail err now j)"
proof -
  have "find (\<lambda>k. job_id k = job_id j) (map (\<lambda>k. if job_id k = job_id j then set_status st detail err now k else k) js) =
      Some (set_status st detail err now j)" if "j \<in> set js" "distinct (map job_id js)" for js
    using that by (induction js) (auto simp: image_iff)
  with assms show ?thesis by (simp add: fetch_job_def jobs_update_job_status keys_ok_def)
qed

lemma claim_tx_cases:
  assumes "keys_ok d"
  shows "(claim_tx now d = (None, d) \<and> next_pending d = None) \<or>
    (\<exists>j. next_pending d = Some j \<and>
       claim_tx now d = (Some (set_status RUNNING None None now j), update_job_status (job_id j) RUNNING None None now d))"
proof (cases "next_pending d")
  case (Some j)
  then show ?thesis using next_pending_Some(1) [OF Some] assms by (simp add: claim_tx_def fetch_updated)
qed (simp add: claim_tx_def)

lemma store_ok_claim_tx: "store_ok d \<Longrightarrow> store_ok (snd (claim_tx now d))"
proof -
  assume ok: "store_ok d"
  then have "keys_ok d" by (simp add: store_ok_def)
  from claim_tx_cases [OF this, of now] show ?thesis
    using ok next_pending_Some(1,2) store_ok_start [OF ok] by (auto simp: active_iff)
qed

lemma release_record: "release_lock repo pr (snd (record_review_posted r n sha rid dur c now d)) =
    snd (record_review_posted r n sha rid dur c now (release_lock repo pr d))"
  by (simp add: release_lock_def record_review_posted_def Let_def)

lemma record_review_others [simp]:
  "jobs (snd (record_review_posted r n sha rid dur c now d)) = jobs d"
  "pr_locks (snd (record_review_posted r n sha rid dur c now d)) = pr_locks d"
  by (simp_all add: record_review_posted_def Let_def)

lemma release_lock_simps [simp]:
  "jobs (release_lock repo pr d) = jobs d" "\<not> lock_held (release_lock repo pr d) (repo, pr)"
  by (auto simp: release_lock_def)

text \<open>Both ways a job is finished: its row gets the final status and its lock is gone.\<close>

definition finished :: "job \<Rightarrow> job_status \<Rightarrow> string option \<Rightarrow> string option \<Rightarrow> database \<Rightarrow> bool" where
  "finished j st detail err d \<longleftrightarrow>
     store_ok d \<and> \<not> lock_held d (job_key j) \<and>
     (\<exists>row \<in> set (jobs d). job_id row = job_id j \<and> job_key row = job_key j \<and> job_status row = st \<and>
        job_status_detail row = detail \<and> job_error row = err)"

lemma finished_persist_tx:
  assumes "store_ok d" "row \<in> set (jobs d)" "active row" "job_id row = job_id j" "job_key row = job_key j"
    and "result_status r \<in> set TERMINAL_JOB_STATUSES"
  shows "finished j (result_status r) (detail_text (result_status_detail r)) (result_error r) (persist_tx j r now1 now2 d)"
proof -
  let ?d1 = "update_job_status (job_id j) (result_status r) (detail_text (result_status_detail r)) (result_error r) now1 d"
  let ?d2 = "release_lock (job_repo j) (job_pr_number j) ?d1"
  have "store_ok ?d2"
    using store_ok_finish [OF assms(1-3,6), of "job_repo j" "job_pr_number j"] assms(4,5) by simp
  then have "store_ok (persist_tx j r now1 now2 d)"
    by (auto simp: persist_tx_def Let_def release_record store_ok_record_review_posted split: option.splits)
  moreover have "jobs (persist_tx j r now1 now2 d) = jobs ?d1"
    by (simp add: persist_tx_def Let_def split: option.splits)
  moreover have "set_status (result_status r) (detail_text (result_status_detail r)) (result_error r) now1 row \<in> set (jobs ?d1)"
    using assms(2,4) by (force simp: jobs_update_job_status)
  moreover have "\<not> lock_held (persist_tx j r now1 now2 d) (job_key j)" by (simp add: persist_tx_def Let_def)
  ultimately show ?thesis
    using assms(4,5) unfolding finished_def
    by (intro conjI bexI [of _ "set_status (result_status r) (detail_text (result_status_detail r)) (result_error r) now1 row"])
      (simp_all add: set_status_def)
qed

lemma finished_finalize_failure_tx:
  assumes "store_ok d" "row \<in> set (jobs d)" "active row" "job_id row = job_id j" "job_key row = job_key j"
  shows "finished j FAILED (Some (status_detail_value detail)) (Some err) (finalize_failure_tx j detail err now d)"
proof -
  let ?d1 = "update_job_status (job_id j) FAILED (Some (status_detail_value detail)) (Some err) now d"
  have "store_ok (finalize_failure_tx j detail err now d)"
    using store_ok_finish [OF assms(1-3), of FAILED "job_repo j" "job_pr_number j"] assms(4,5)
    by (simp add: finalize_failure_tx_def TERMINAL_JOB_STATUSES_def)
  moreover have "set_status FAILED (Some (status_detail_value detail)) (Some err) now row \<in> set (jobs ?d1)"
    using assms(2,4) by (force simp: jobs_update_job_status)
  moreover have "\<not> lock_held (finalize_failure_tx j detail err now d) (job_key j)"
    by (simp add: finalize_failure_tx_def)
  ultimately show ?thesis
    using assms(4,5) unfolding finished_def
    by (intro conjI bexI [of _ "set_status FAILED (Some (status_detail_value detail)) (Some err) now row"])
      (simp_all add: set_status_def finalize_failure_tx_def)
qed

text \<open>A comment changes the cooldown table only.\<close>

lemma claim_slot_others [simp]:
  "jobs (snd (claim_slot w k now d)) = jobs d" "pr_locks (snd (claim_slot w k now d)) = pr_locks d"
  by (simp_all add: claim_slot_cases)

lemma finished_claim_slot: "finished j st detail err d \<Longrightarrow> finished j st detail err (snd (claim_slot w k now d))"
  by (auto simp: finished_def store_ok_claim_slot)

lemma notify_failure_finishes:
  "finished j st detail err (world_db w) \<Longrightarrow>
   \<exists>w'. notify_failure wk j msg w = (Inr (), w') \<and> finished j st detail err (world_db w')"
  using finished_claim_slot [of j st detail err "world_db w"]
  by (auto simp: notify_failure_def maybe_post_failure_comment_def io_defs split: prod.splits sum.splits)
    (metis snd_conv)+

lemma claim_one_none: "next_pending (world_db w) = None \<Longrightarrow> claim_one wk w = (Inr None, w)"
  by (simp add: claim_one_def io_defs)

lemma claim_one_some:
  "next_pending (world_db w) = Some row \<Longrightarrow> wk_utcnow wk (world_out w) = (now, v) \<Longrightarrow>
   claim_one wk w = in_db (claim_tx now) (w\<lparr>world_out := v\<rparr>)"
  by (simp add: claim_one_def io_bind_def in_db_def in_out_def io_total_def)

section \<open>Properties\<close>

text \<open>How the outcome of a review is recorded.\<close>

fun recorded :: "exc + review_result \<Rightarrow> job_status \<times> string option \<times> string option" where
  "recorded (Inr r) = (result_status r, detail_text (result_status_detail r), result_error r)"
| "recorded (Inl e) =
     (FAILED, Some (status_detail_value (if isinstance e TimeoutError then TIMEOUT else LLM_FAILURE)),
      Some (if isinstance e TimeoutError then ''job timed out'' else exc_message e))"

lemma process_finishes_lemma:
  assumes "store_ok (world_db w)" "row \<in> set (jobs (world_db w))" "active row"
    and "job_id row = job_id j" "job_key row = job_key j"
    and "io_keeps interference (reviewed wk j)" "io_yields result_ok (reviewed wk j)"
  shows "\<exists>w'. process wk j w = (Inr (), w') \<and>
    (case recorded (fst (reviewed wk j w)) of (st, detail, err) \<Rightarrow> finished j st detail err (world_db w'))"
proof -
  obtain out w1 where run: "reviewed wk j w = (out, w1)" by (rule prod.exhaust)
  have "webhook_step\<^sup>*\<^sup>* (world_db w) (world_db w1)"
    using assms(6) run unfolding io_keeps_def interference_def by (metis snd_conv)
  then have ok: "store_ok (world_db w1)" and row: "row \<in> set (jobs (world_db w1))"
    using webhook_steps_keep assms(1,2) by blast+
  show ?thesis
  proof (cases out)
    case (Inl e)
    let ?detail = "if isinstance e TimeoutError then TIMEOUT else LLM_FAILURE"
    let ?err = "if isinstance e TimeoutError then ''job timed out'' else exc_message e"
    obtain now v where now: "wk_utcnow wk (world_out w1) = (now, v)" by (rule prod.exhaust)
    have "finished j FAILED (Some (status_detail_value ?detail)) (Some ?err) (finalize_failure_tx j ?detail ?err now (world_db w1))"
      by (rule finished_finalize_failure_tx [OF ok row assms(3-5)])
    then show ?thesis
      using notify_failure_finishes [of j FAILED "Some (status_detail_value ?detail)" "Some ?err"
          "w1\<lparr>world_out := v, world_db := finalize_failure_tx j ?detail ?err now (world_db w1)\<rparr>" wk]
      by (auto simp: process_def run Inl finalize_failure_def io_defs now)
  next
    case (Inr r)
    have "result_ok r" using io_yieldsD [OF assms(7) run [unfolded Inr]] .
    then have terminal: "result_status r \<in> set TERMINAL_JOB_STATUSES" by (simp add: result_ok_def)
    obtain now1 v1 where now1: "wk_utcnow wk (world_out w1) = (now1, v1)" by (rule prod.exhaust)
    obtain now2 v2 where now2: "posting_time wk r now1 (w1\<lparr>world_out := v1\<rparr>) = (Inr now2, w1\<lparr>world_out := v1, world_out := v2\<rparr>)"
      by (rule posting_time_runs)
    let ?w = "w1\<lparr>world_out := v2, world_db := persist_tx j r now1 now2 (world_db w1)\<rparr>"
    have fin: "finished j (result_status r) (detail_text (result_status_detail r)) (result_error r) (world_db ?w)"
      using finished_persist_tx [OF ok row assms(3-5) terminal] by simp
    then show ?thesis
      using notify_failure_finishes [OF fin, of wk]
      by (auto simp: process_def run Inr persist_def io_defs now1 now2 split: job_status.splits option.splits)
  qed
qed

text \<open>C5: a claimed job always ends. Whatever the review returns or raises, whether it times out, and
  whatever webhooks do to the database meanwhile: processing the job returns, its row has a final
  status that records the outcome, its PR lock is released and the store is consistent. In
  particular a failing failure comment does not disturb it.\<close>

theorem process_finishes_job:
  assumes "store_ok (world_db w)" "j \<in> set (jobs (world_db w))" "job_status j = RUNNING"
    and "io_keeps interference (reviewed wk j)" "io_yields result_ok (reviewed wk j)"
  shows "\<exists>w'. process wk j w = (Inr (), w') \<and>
    (case recorded (fst (reviewed wk j w)) of (st, detail, err) \<Rightarrow>
      st \<in> set TERMINAL_JOB_STATUSES \<and> finished j st detail err (world_db w'))"
proof -
  have "fst (recorded (fst (reviewed wk j w))) \<in> set TERMINAL_JOB_STATUSES"
    using io_yieldsD [OF assms(5), of w]
    by (cases "reviewed wk j w", cases "fst (reviewed wk j w)") (auto simp: result_ok_def TERMINAL_JOB_STATUSES_def)
  then show ?thesis
    using process_finishes_lemma [OF assms(1,2) _ refl refl assms(4,5)] assms(3) by (auto simp: active_iff split: prod.splits)
qed

text \<open>A worker whose reviews run the whole pipeline. \<open>late v\<close> is None when the review is in time, and
  otherwise the world outside in which it was cut off.\<close>

definition review_worker :: "('v, 'y) reviewer \<Rightarrow> ('v \<Rightarrow> 'v option) \<Rightarrow> 'v worker" where
  "review_worker rv late = \<lparr>wk_github = rv_github rv, wk_review = (\<lambda>j. in_out (run_review rv j)),
     wk_expires = (\<lambda>j w. map_option (\<lambda>v. w\<lparr>world_out := v\<rparr>) (late (world_out w))), wk_utcnow = rv_utcnow rv,
     wk_pipeline = rv_pipeline rv\<rparr>"

lemma reviewed_review_worker:
  "io_keeps interference (reviewed (review_worker rv late) j)"
  "io_yields result_ok (reviewed (review_worker rv late) j)"
proof -
  have "interference w (snd (in_out (run_review rv j) w))" for w
    using interference_in_out [of "run_review rv j"] by (simp add: io_keeps_def)
  then show "io_keeps interference (reviewed (review_worker rv late) j)"
    by (auto simp: io_keeps_def reviewed_def wait_for_def review_worker_def interference_def split: option.split)
  have "io_yields result_ok (in_out (run_review rv j))"
    using yields_run_review [of rv j] unfolding io_yields_def in_out_def by (auto split: prod.splits)
  then show "io_yields result_ok (reviewed (review_worker rv late) j)"
    unfolding io_yields_def reviewed_def wait_for_def review_worker_def by (auto split: option.splits)
qed

theorem process_finishes_job_witness:
  "\<exists>w'. process (review_worker sample_reviewer (\<lambda>_. None)) (hd (jobs sample_running)) \<lparr>world_db = sample_running, world_out = ()\<rparr> = (Inr (), w') \<and>
    (case recorded (fst (reviewed (review_worker sample_reviewer (\<lambda>_. None)) (hd (jobs sample_running)) \<lparr>world_db = sample_running, world_out = ()\<rparr>)) of
       (st, detail, err) \<Rightarrow> st \<in> set TERMINAL_JOB_STATUSES \<and> finished (hd (jobs sample_running)) st detail err (world_db w'))"
  by (rule process_finishes_job) (simp_all add: reviewed_review_worker store_ok_sample_running sample_running_eval)

text \<open>C22: jobs are claimed in the order of their creation: the claimed job is a pending one with the
  least creation time and id, it alone changes and is marked running; without a pending job nothing
  changes.\<close>

theorem claim_tx_fifo:
  assumes "store_ok d"
  shows "case claim_tx now d of
      (None, d') \<Rightarrow> d' = d \<and> (\<forall>k \<in> set (jobs d). job_status k \<noteq> PENDING)
    | (Some j, d') \<Rightarrow> store_ok d' \<and> (\<exists>row \<in> set (jobs d). job_status row = PENDING \<and>
        j = set_status RUNNING None None now row \<and>
        (\<forall>k \<in> set (jobs d). job_status k = PENDING \<longrightarrow> (job_created_at row, job_id row) \<le> (job_created_at k, job_id k)) \<and>
        d' = d\<lparr>jobs := map (\<lambda>k. if k = row then j else k) (jobs d)\<rparr>)"
proof -
  have keys: "keys_ok d" using assms by (simp add: store_ok_def)
  from claim_tx_cases [OF keys, of now] show ?thesis
  proof (elim disjE conjE exE)
    assume "claim_tx now d = (None, d)" "next_pending d = None"
    then show ?thesis by (simp add: next_pending_None)
  next
    fix row assume r: "next_pending d = Some row"
      "claim_tx now d = (Some (set_status RUNNING None None now row), update_job_status (job_id row) RUNNING None None now d)"
    note row = next_pending_Some [OF r(1)]
    have "map (\<lambda>k. if job_id k = job_id row then set_status RUNNING None None now k else k) (jobs d) =
        map (\<lambda>k. if k = row then set_status RUNNING None None now row else k) (jobs d)"
      using same_job_id [OF keys _ row(1)] by (intro map_cong) auto
    moreover have "update_job_status (job_id row) RUNNING None None now d =
        d\<lparr>jobs := map (\<lambda>k. if job_id k = job_id row then set_status RUNNING None None now k else k) (jobs d)\<rparr>"
      by (simp add: update_job_status_def set_status_def)
    ultimately have "update_job_status (job_id row) RUNNING None None now d =
        d\<lparr>jobs := map (\<lambda>k. if k = row then set_status RUNNING None None now row else k) (jobs d)\<rparr>"
      by (simp only:)
    moreover have "store_ok (update_job_status (job_id row) RUNNING None None now d)"
      using store_ok_claim_tx [OF assms, of now] r(2) by simp
    ultimately show ?thesis using r(2) row by auto
  qed
qed

theorem claim_tx_fifo_witness:
  "case claim_tx 20 (snd (enqueue_tx sample_request 10 10 empty_database)) of
     (None, d') \<Rightarrow> False
   | (Some j, d') \<Rightarrow> store_ok d' \<and> job_id j = 1 \<and> job_status j = RUNNING"
  using claim_tx_fifo [of "snd (enqueue_tx sample_request 10 10 empty_database)" 20,
      OF store_ok_enqueue_tx [OF store_ok_empty]]
  by (auto simp: enqueue_tx_cases empty_database_def new_job_def fresh_id_def sample_request_def
      split: prod.splits option.splits)

text \<open>A failed job without a message for the PR is finished silently: the run of the worker does
  not depend on the GitHub client at all. Since the reviewer attaches a message only to a failure of
  the model, a review that GitHub refused to take ends without a comment on the PR.\<close>

lemma persist_without_message_is_silent:
  assumes "result_failure_message r = None"
  shows "persist (wk\<lparr>wk_github := client\<rparr>) j r = persist wk j r"
proof -
  have "posting_time (wk\<lparr>wk_github := client\<rparr>) r = posting_time wk r" by (simp add: posting_time_def fun_eq_iff split: option.split)
  then show ?thesis unfolding persist_def assms by (auto split: job_status.splits intro!: arg_cong [where f = "io_bind _"])
qed

end
