(* ===== verification/Faults.thy ===== *)
theory Faults
  imports Worker
begin

text \<open>
  The worker on a database that fails. \<open>Worker\<close> takes every statement to succeed; here a transaction of
  \<open>pipeline/worker.py\<close> and \<open>pipeline/failure.py\<close> may raise (the file is locked, the disk is full). The
  session is then left without a commit, so that the tables stay as they were. Without faults these
  definitions are those of \<open>Worker\<close> (\<open>no_fault_eq\<close>); with faults they show what the code does about an
  exception of the database, which is nothing: no handler catches it, and the loop ends.
\<close>

section \<open>The worker with faults\<close>

text \<open>What the next transaction raises, if anything, and the world outside after it.\<close>

type_synonym 'v fault = "'v \<Rightarrow> exc option \<times> 'v"

definition no_fault :: "'v fault" where
  "no_fault v = (None, v)"

definition in_tx :: "'v fault \<Rightarrow> (database \<Rightarrow> 'a \<times> database) \<Rightarrow> ('v world, 'a) io" where
  "in_tx fault f =
     (\<lambda>w. case fault (world_out w) of
        (Some e, v) \<Rightarrow> (Inl e, w\<lparr>world_out := v\<rparr>)
      | (None, v) \<Rightarrow> in_db f (w\<lparr>world_out := v\<rparr>))"

text \<open>\<open>session.refresh\<close> reads the row after the commit: when it raises, the job is claimed already.\<close>

definition claim_one_on :: "'v fault \<Rightarrow> 'v worker \<Rightarrow> ('v world, job option) io" where
  "claim_one_on fault wk =
     io_bind (in_tx fault (\<lambda>d. (next_pending d, d))) (\<lambda>pending. case pending of
       None \<Rightarrow> io_return None
     | Some _ \<Rightarrow>
         io_bind (in_out (io_total (wk_utcnow wk))) (\<lambda>now.
         io_bind (in_tx fault (claim_tx now)) (\<lambda>claimed. case claimed of
           None \<Rightarrow> io_return None
         | Some j \<Rightarrow> io_bind (in_tx fault (Pair ())) (\<lambda>_. io_return (Some j)))))"

definition maybe_post_failure_comment_on ::
  "'v fault \<Rightarrow> 'v github \<Rightarrow> ('v \<Rightarrow> int \<times> 'v) \<Rightarrow> int \<Rightarrow> string \<Rightarrow> int \<Rightarrow> string \<Rightarrow> int \<Rightarrow> ('v world, bool) io" where
  "maybe_post_failure_comment_on fault client utcnow installation_id repo pr_number msg cooldown_seconds =
     io_bind (in_out (io_total utcnow)) (\<lambda>now.
     io_bind (in_tx fault (claim_slot cooldown_seconds (repo, pr_number) now)) (\<lambda>allowed.
       if \<not> allowed then io_return False
       else io_try
         (io_bind (in_out (g_create_comment client installation_id repo pr_number msg)) (\<lambda>_. io_return True))
         (\<lambda>e. io_return False)))"

definition notify_failure_on :: "'v fault \<Rightarrow> 'v worker \<Rightarrow> job \<Rightarrow> string \<Rightarrow> ('v world, unit) io" where
  "notify_failure_on fault wk j msg =
     io_bind (maybe_post_failure_comment_on fault (wk_github wk) (wk_utcnow wk) (job_installation_id j) (job_repo j)
         (job_pr_number j) msg (failure_comment_cooldown_seconds (wk_pipeline wk)))
       (\<lambda>_. io_return ())"

definition persist_on :: "'v fault \<Rightarrow> 'v worker \<Rightarrow> job \<Rightarrow> review_result \<Rightarrow> ('v world, unit) io" where
  "persist_on fault wk j r =
     io_bind (in_out (io_total (wk_utcnow wk))) (\<lambda>now1.
     io_bind (posting_time wk r now1) (\<lambda>now2.
     io_bind (in_tx fault (\<lambda>d. ((), persist_tx j r now1 now2 d))) (\<lambda>_.
       case (result_status r, result_failure_message r) of
         (FAILED, Some msg) \<Rightarrow> notify_failure_on fault wk j msg
       | _ \<Rightarrow> io_return ())))"

definition finalize_failure_on ::
  "'v fault \<Rightarrow> 'v worker \<Rightarrow> job \<Rightarrow> job_status_detail \<Rightarrow> string \<Rightarrow> string \<Rightarrow> ('v world, unit) io" where
  "finalize_failure_on fault wk j detail err failure_message =
     io_bind (in_out (io_total (wk_utcnow wk))) (\<lambda>now.
     io_bind (in_tx fault (\<lambda>d. ((), finalize_failure_tx j detail err now d))) (\<lambda>_.
       notify_failure_on fault wk j failure_message))"

text \<open>\<open>_persist\<close> is called after the \<open>try\<close>, \<open>_finalize_failure\<close> in its handlers: neither is guarded.\<close>

definition process_on :: "'v fault \<Rightarrow> 'v worker \<Rightarrow> job \<Rightarrow> ('v world, unit) io" where
  "process_on fault wk j =
     (\<lambda>w. case reviewed wk j w of
        (Inr result, w1) \<Rightarrow> persist_on fault wk j result w1
      | (Inl e, w1) \<Rightarrow>
          if isinstance e TimeoutError
          then finalize_failure_on fault wk j TIMEOUT ''job timed out''
            ''vidi-pr could not complete the review: job timed out'' w1
          else finalize_failure_on fault wk j LLM_FAILURE (exc_message e)
            (''vidi-pr could not complete the review: '' @ exc_message e) w1)"

fun run_turns_on ::
  "'v fault \<Rightarrow> nat \<Rightarrow> 'v worker \<Rightarrow> ('v world \<Rightarrow> bool) \<Rightarrow> ('v world, unit) io \<Rightarrow> ('v world, unit) io" where
  "run_turns_on fault 0 wk stopped idle = io_return ()"
| "run_turns_on fault (Suc n) wk stopped idle =
     (\<lambda>w. if stopped w then (Inr (), w)
       else io_bind (claim_one_on fault wk) (\<lambda>claimed. case claimed of
           None \<Rightarrow> io_bind idle (\<lambda>_. run_turns_on fault n wk stopped idle)
         | Some j \<Rightarrow> io_bind (process_on fault wk j) (\<lambda>_. run_turns_on fault n wk stopped idle)) w)"

section \<open>Without faults\<close>

lemma in_tx_no_fault [simp]: "in_tx no_fault f = in_db f"
  by (simp add: in_tx_def no_fault_def)

lemma in_db_nothing [simp]: "in_db (Pair ()) = io_return ()"
  by (simp add: io_defs)

lemma return_cases [simp]: "(\<lambda>x. case x of None \<Rightarrow> io_return None | Some j \<Rightarrow> io_return (Some j)) = io_return"
  by (auto simp: fun_eq_iff split: option.split)

lemma no_fault_claim: "claim_one_on no_fault wk = claim_one wk"
  by (simp add: claim_one_on_def claim_one_def cong: option.case_cong)

lemma no_fault_notify: "notify_failure_on no_fault = notify_failure"
  by (intro ext) (simp add: notify_failure_on_def notify_failure_def maybe_post_failure_comment_on_def
      maybe_post_failure_comment_def)

lemma no_fault_process: "process_on no_fault wk = process wk"
proof -
  have "persist_on no_fault wk = persist wk" "finalize_failure_on no_fault wk = finalize_failure wk"
    by (intro ext; simp add: persist_on_def persist_def finalize_failure_on_def finalize_failure_def no_fault_notify
        cong: job_status.case_cong option.case_cong)+
  then show ?thesis unfolding process_on_def process_def
    by (simp cong: sum.case_cong prod.case_cong if_cong)
qed

lemma no_fault_eq: "run_turns_on no_fault n wk stopped idle = run_turns n wk stopped idle"
  by (induction n) (simp_all add: no_fault_claim no_fault_process cong: if_cong)

section \<open>What a fault leaves behind\<close>

text \<open>The rows of the other jobs.\<close>

definition others_kept :: "job \<Rightarrow> database \<Rightarrow> database \<Rightarrow> bool" where
  "others_kept j d d' \<longleftrightarrow> {k \<in> set (jobs d). job_id k \<noteq> job_id j} \<subseteq> set (jobs d')"

lemma others_kept_jobs [simp]: "jobs d' = jobs d \<Longrightarrow> others_kept j d d'"
  by (auto simp: others_kept_def)

lemma others_kept_trans: "others_kept j d d' \<Longrightarrow> others_kept j d' d'' \<Longrightarrow> others_kept j d d''"
  unfolding others_kept_def by blast

lemma others_kept_update: "jobs d' = jobs (update_job_status (job_id j) st detail err now d) \<Longrightarrow> others_kept j d d'"
  by (force simp: others_kept_def jobs_update_job_status)

lemma others_kept_txs [simp]:
  "others_kept j d (persist_tx j r now1 now2 d)" "others_kept j d (finalize_failure_tx j detail err now d)"
  by (auto simp: persist_tx_def finalize_failure_tx_def Let_def split: option.split intro!: others_kept_update)

text \<open>A call that keeps a finished job finished, whatever it raises.\<close>

definition after_finish :: "job \<Rightarrow> ('v world, 'a) io \<Rightarrow> bool" where
  "after_finish j m \<longleftrightarrow> (\<forall>st detail err w. finished j st detail err (world_db w) \<longrightarrow>
     finished j st detail err (world_db (snd (m w))) \<and> others_kept j (world_db w) (world_db (snd (m w))))"

lemma after_finish_return [simp]: "after_finish j (io_return a)"
  by (simp add: after_finish_def io_return_def)

lemma after_finish_notify [simp]: "after_finish j (notify_failure_on fault wk j' msg)"
  unfolding after_finish_def
proof (intro allI impI)
  fix st detail err and w :: "'a world"
  assume fin: "finished j st detail err (world_db w)"
  have "world_db (snd (notify_failure_on fault wk j' msg w)) = world_db w \<or>
      (\<exists>c k now. world_db (snd (notify_failure_on fault wk j' msg w)) = snd (claim_slot c k now (world_db w)))"
    by (auto simp: notify_failure_on_def maybe_post_failure_comment_on_def in_tx_def io_defs
        split: prod.splits sum.splits option.splits) (metis snd_conv)+
  then show "finished j st detail err (world_db (snd (notify_failure_on fault wk j' msg w))) \<and>
      others_kept j (world_db w) (world_db (snd (notify_failure_on fault wk j' msg w)))"
    using fin by (auto simp: finished_claim_slot)
qed

text \<open>The transaction that finishes a job: either it is committed, or it raises and changes nothing.\<close>

lemma finishing_tx:
  assumes "finished j st detail err (tx (world_db w))" "others_kept j (world_db w) (tx (world_db w))" "after_finish j m"
    and run: "io_bind (in_tx fault (\<lambda>d. ((), tx d))) (\<lambda>_. m) w = (r, w')"
  shows "others_kept j (world_db w) (world_db w') \<and>
    (finished j st detail err (world_db w') \<or> (\<exists>e. r = Inl e) \<and> world_db w' = world_db w)"
proof -
  obtain f v where fault: "fault (world_out w) = (f, v)" by (rule prod.exhaust)
  show ?thesis
  proof (cases f)
    case None
    then have "m (w\<lparr>world_out := v, world_db := tx (world_db w)\<rparr>) = (r, w')"
      using run fault by (simp add: io_bind_def in_tx_def in_db_def)
    then have "w' = snd (m (w\<lparr>world_out := v, world_db := tx (world_db w)\<rparr>))" by simp
    moreover have "finished j st detail err (world_db (w\<lparr>world_out := v, world_db := tx (world_db w)\<rparr>))" using assms(1) by simp
    ultimately have "finished j st detail err (world_db w') \<and> others_kept j (tx (world_db w)) (world_db w')"
      using assms(3) unfolding after_finish_def by fastforce
    then show ?thesis using others_kept_trans [OF assms(2)] by blast
  qed (use run fault in \<open>auto simp: io_bind_def in_tx_def\<close>)
qed

lemma bind_clock: "io_bind (in_out (io_total clock)) m w = (case clock (world_out w) of (t, v) \<Rightarrow> m t (w\<lparr>world_out := v\<rparr>))"
  by (simp add: io_defs split: prod.split)

lemma process_on_lemma:
  assumes "store_ok (world_db w)" "j \<in> set (jobs (world_db w))" "active j" "result_ok r"
  shows "persist_on fault wk j r w = (out, w') \<Longrightarrow> others_kept j (world_db w) (world_db w') \<and>
      (finished j (result_status r) (detail_text (result_status_detail r)) (result_error r) (world_db w') \<or>
       (\<exists>e. out = Inl e) \<and> world_db w' = world_db w)"
    and "finalize_failure_on fault wk j detail err msg w = (out, w') \<Longrightarrow> others_kept j (world_db w) (world_db w') \<and>
      (finished j FAILED (Some (status_detail_value detail)) (Some err) (world_db w') \<or> (\<exists>e. out = Inl e) \<and> world_db w' = world_db w)"
proof -
  note row = assms(1-3) refl refl
  obtain now1 v1 where now1: "wk_utcnow wk (world_out w) = (now1, v1)" by (rule prod.exhaust)
  obtain now2 v2 where now2: "posting_time wk r now1 (w\<lparr>world_out := v1\<rparr>) = (Inr now2, w\<lparr>world_out := v1, world_out := v2\<rparr>)"
    by (rule posting_time_runs)
  {
    assume run: "persist_on fault wk j r w = (out, w')"
    let ?m = "case (result_status r, result_failure_message r) of
        (FAILED, Some msg) \<Rightarrow> notify_failure_on fault wk j msg | _ \<Rightarrow> io_return ()"
    have m: "after_finish j ?m" by (auto split: job_status.split option.split)
    have tx: "io_bind (in_tx fault (\<lambda>d. ((), persist_tx j r now1 now2 d))) (\<lambda>_. ?m) (w\<lparr>world_out := v2\<rparr>) = (out, w')"
      using run by (simp add: persist_on_def bind_clock now1 io_bind_def [of "posting_time wk r now1"] now2)
    have "finished j (result_status r) (detail_text (result_status_detail r)) (result_error r) (persist_tx j r now1 now2 (world_db w))"
      by (rule finished_persist_tx [OF row]) (use assms(4) in \<open>simp add: result_ok_def\<close>)
    then show "others_kept j (world_db w) (world_db w') \<and>
        (finished j (result_status r) (detail_text (result_status_detail r)) (result_error r) (world_db w') \<or>
         (\<exists>e. out = Inl e) \<and> world_db w' = world_db w)"
      using finishing_tx [where w = "w\<lparr>world_out := v2\<rparr>" and tx = "persist_tx j r now1 now2", OF _ _ m tx] by simp
  next
    assume run: "finalize_failure_on fault wk j detail err msg w = (out, w')"
    have tx: "io_bind (in_tx fault (\<lambda>d. ((), finalize_failure_tx j detail err now1 d))) (\<lambda>_. notify_failure_on fault wk j msg)
        (w\<lparr>world_out := v1\<rparr>) = (out, w')"
      using run by (simp add: finalize_failure_on_def bind_clock now1)
    have "finished j FAILED (Some (status_detail_value detail)) (Some err) (finalize_failure_tx j detail err now1 (world_db w))"
      by (rule finished_finalize_failure_tx [OF row])
    then show "others_kept j (world_db w) (world_db w') \<and>
        (finished j FAILED (Some (status_detail_value detail)) (Some err) (world_db w') \<or> (\<exists>e. out = Inl e) \<and> world_db w' = world_db w)"
      using finishing_tx [where w = "w\<lparr>world_out := v1\<rparr>" and tx = "finalize_failure_tx j detail err now1", OF _ _ after_finish_notify tx] by simp
  }
qed

lemma claimed_on:
  assumes "store_ok (world_db w)" "claim_one_on fault wk w = (Inr (Some j), w1)"
  shows "store_ok (world_db w1)" "j \<in> set (jobs (world_db w1))" "job_status j = RUNNING"
    "others_kept j (world_db w) (world_db w1)"
proof -
  obtain now where tx: "claim_tx now (world_db w) = (Some j, world_db w1)"
    using assms(2) by (auto simp: claim_one_on_def bind_clock in_tx_def io_defs split: prod.splits option.splits)
  have "keys_ok (world_db w)" using assms(1) by (simp add: store_ok_def)
  from claim_tx_cases [OF this, of now] tx obtain row where row: "next_pending (world_db w) = Some row"
    "j = set_status RUNNING None None now row" "world_db w1 = update_job_status (job_id row) RUNNING None None now (world_db w)"
    by auto
  show "store_ok (world_db w1)" using store_ok_claim_tx [OF assms(1), of now] tx by simp
  show "j \<in> set (jobs (world_db w1))"
    using next_pending_Some(1) [OF row(1)] row(2,3) by (force simp: jobs_update_job_status)
  show "job_status j = RUNNING" using row(2) by (simp add: set_status_def)
  have "job_id row = job_id j" using row(2) by (simp add: set_status_def)
  then show "others_kept j (world_db w) (world_db w1)"
    unfolding row(3) by (intro others_kept_update [of _ _ RUNNING None None now]) simp
qed

lemma process_on_all_or_nothing_lemma:
  assumes "store_ok (world_db w)" "j \<in> set (jobs (world_db w))" "job_status j = RUNNING"
    and "io_keeps interference (reviewed wk j)" "io_yields result_ok (reviewed wk j)"
    and run: "process_on fault wk j w = (out, w')"
  shows "others_kept j (world_db w) (world_db w') \<and> store_ok (world_db w') \<and>
    (case recorded (fst (reviewed wk j w)) of (st, detail, err) \<Rightarrow>
      finished j st detail err (world_db w') \<or>
      (\<exists>e. out = Inl e) \<and> j \<in> set (jobs (world_db w')) \<and> lock_held (world_db w') (job_key j))"
proof -
  obtain res w1 where rev: "reviewed wk j w = (res, w1)" by (rule prod.exhaust)
  have "webhook_step\<^sup>*\<^sup>* (world_db w) (world_db w1)"
    using assms(4) rev unfolding io_keeps_def interference_def by (metis snd_conv)
  then have ok: "store_ok (world_db w1)" and kept: "set (jobs (world_db w)) \<subseteq> set (jobs (world_db w1))"
    using webhook_steps_keep assms(1) by blast+
  have row: "j \<in> set (jobs (world_db w1))" "active j" using kept assms(2,3) by (auto simp: active_iff)
  note step = process_on_lemma [OF ok row]
  have "others_kept j (world_db w1) (world_db w') \<and>
      (case recorded res of (st, detail, err) \<Rightarrow>
        finished j st detail err (world_db w') \<or> (\<exists>e. out = Inl e) \<and> world_db w' = world_db w1)"
  proof (cases res)
    case (Inl e)
    have any: "result_ok (plain_result DONE None 0)" by (simp add: result_ok_def plain_result_def TERMINAL_JOB_STATUSES_def)
    show ?thesis
    proof (cases "isinstance e TimeoutError")
      case True
      then show ?thesis using run rev Inl step(2) [OF any, where detail = TIMEOUT] by (simp add: process_on_def)
    next
      case False
      then show ?thesis using run rev Inl step(2) [OF any, where detail = LLM_FAILURE] by (simp add: process_on_def)
    qed
  next
    case (Inr r)
    then have "result_ok r" using io_yieldsD [OF assms(5)] rev by blast
    from step(1) [OF this] show ?thesis using run rev Inr by (auto simp: process_on_def)
  qed
  moreover have "others_kept j (world_db w) (world_db w1)" using kept by (auto simp: others_kept_def)
  ultimately show ?thesis
    using rev ok row active_holds_lock [OF ok row] by (auto simp: finished_def dest: others_kept_trans split: prod.splits)
qed

text \<open>Two queued jobs, a worker whose reviews raise, and a database that is locked when the first outcome
  is to be recorded.\<close>

definition two_pending :: database where
  "two_pending = snd (enqueue_tx (sample_request\<lparr>req_pr_number := 2\<rparr>) 11 11 (snd (enqueue_tx sample_request 10 10 empty_database)))"

definition fourth_fault :: "nat fault" where
  "fourth_fault n = (if n = 3 then Some (raised (OtherError ''OperationalError'') ''database is locked'') else None, Suc n)"

definition raising_github :: "nat github" where
  "raising_github = (let no = io_raise (raised GitHubError []) in
     \<lparr>g_get_pr = \<lambda>_ _ _. io_raise (raised GitHubError []), g_get_pr_files = \<lambda>_ _ _. io_raise (raised GitHubError []),
      g_get_pr_comments = \<lambda>_ _ _. io_raise (raised GitHubError []), g_get_repo = \<lambda>_ _. io_raise (raised GitHubError []),
      g_create_review = \<lambda>_ _ _ _. no, g_create_comment = \<lambda>_ _ _ _. no,
      g_react_to_comment = \<lambda>_ _ _ _. io_raise (raised GitHubError []),
      g_for_installation = \<lambda>_ _ _ _ _. io_raise (raised GitHubError [])\<rparr>)"

definition raising_worker :: "nat worker" where
  "raising_worker = \<lparr>wk_github = raising_github, wk_review = \<lambda>_. io_raise (raised TemplateError ''no template''),
     wk_expires = \<lambda>_ _. None, wk_utcnow = Pair 20, wk_pipeline = default_pipeline\<rparr>"

lemma store_ok_two_pending: "store_ok two_pending"
  unfolding two_pending_def by (intro store_ok_enqueue_tx store_ok_empty)

lemma two_pending_jobs:
  "jobs two_pending = [new_job sample_request 10 empty_database, (new_job sample_request 11 empty_database)\<lparr>job_id := 2, job_pr_number := 2\<rparr>]"
  by (simp add: two_pending_def enqueue_tx_cases sample_request_def empty_database_def new_job_def new_lock_def fresh_id_def)

lemma sample_new_job [simp]:
  "job_id (new_job sample_request t empty_database) = 1" "job_status (new_job sample_request t empty_database) = PENDING"
  "job_created_at (new_job sample_request t empty_database) = t"
  by (simp_all add: new_job_def sample_request_def empty_database_def fresh_id_def)

lemma two_pending_next: "next_pending two_pending = Some (new_job sample_request 10 empty_database)"
  by (simp add: next_pending_def two_pending_jobs)

lemma two_pending_claim:
  "claim_tx 20 two_pending = (Some (set_status RUNNING None None 20 (new_job sample_request 10 empty_database)),
     update_job_status 1 RUNNING None None 20 two_pending)"
proof -
  have "keys_ok two_pending" using store_ok_two_pending by (simp add: store_ok_def)
  then show ?thesis using claim_tx_cases [of two_pending 20] by (auto simp: two_pending_next)
qed

lemma raising_review: "reviewed raising_worker j w = (Inl (raised TemplateError ''no template''), w)"
  by (simp add: reviewed_def wait_for_def raising_worker_def io_raise_def)

section \<open>Properties\<close>

text \<open>C6: a job is finished or left as it was claimed, however the database fails. When processing returns,
  the outcome of the review is recorded and the lock of the PR is released; when it raises, either that is
  so as well, or the row is the claimed one and its lock is held. The store stays consistent and the other
  jobs stay as they were.\<close>

theorem process_on_all_or_nothing:
  assumes "store_ok (world_db w)" "j \<in> set (jobs (world_db w))" "job_status j = RUNNING"
    and "io_keeps interference (reviewed wk j)" "io_yields result_ok (reviewed wk j)"
    and run: "process_on fault wk j w = (out, w')"
  shows "others_kept j (world_db w) (world_db w') \<and> store_ok (world_db w') \<and>
    (case recorded (fst (reviewed wk j w)) of (st, detail, err) \<Rightarrow>
      finished j st detail err (world_db w') \<or>
      (\<exists>e. out = Inl e) \<and> j \<in> set (jobs (world_db w')) \<and> lock_held (world_db w') (job_key j))"
  by (rule process_on_all_or_nothing_lemma [OF assms])

theorem process_on_all_or_nothing_witness:
  "\<exists>out w'. process_on (Pair (Some (raised (OtherError ''OperationalError'') []))) raising_worker (hd (jobs sample_running))
      \<lparr>world_db = sample_running, world_out = 0\<rparr> = (out, w') \<and> store_ok (world_db w') \<and>
    (finished (hd (jobs sample_running)) FAILED (Some ''llm_failure'') (Some ''no template'') (world_db w') \<or>
     (\<exists>e. out = Inl e) \<and> lock_held (world_db w') (job_key (hd (jobs sample_running))))"
proof -
  let ?w = "\<lparr>world_db = sample_running, world_out = 0\<rparr> :: nat world"
  let ?f = "Pair (Some (raised (OtherError ''OperationalError'') [])) :: nat fault"
  obtain out w' where run: "process_on ?f raising_worker (hd (jobs sample_running)) ?w = (out, w')" by (rule prod.exhaust)
  from process_on_all_or_nothing [OF _ _ _ _ _ run] have "store_ok (world_db w') \<and>
    (finished (hd (jobs sample_running)) FAILED (Some ''llm_failure'') (Some ''no template'') (world_db w') \<or>
     (\<exists>e. out = Inl e) \<and> lock_held (world_db w') (job_key (hd (jobs sample_running))))"
    by (simp add: store_ok_sample_running sample_running_eval raising_review io_keeps_def io_yields_def interference_def
        isinstance_def is_subclass.simps) blast
  with run show ?thesis by blast
qed

text \<open>C7: an exception of the database ends the worker. When a job is claimed and its processing raises, the
  loop is over at once, for any number of turns it could still make: the other queued jobs stay queued with
  their locks held, and no one takes them.\<close>

theorem worker_ends_at_database_error:
  assumes "store_ok (world_db w)" "\<not> stopped w" "claim_one_on fault wk w = (Inr (Some j), w1)"
    and "io_keeps interference (reviewed wk j)" "io_yields result_ok (reviewed wk j)"
    and "process_on fault wk j w1 = (Inl e, w2)"
  shows "run_turns_on fault (Suc n) wk stopped idle w = (Inl e, w2) \<and> store_ok (world_db w2) \<and>
    (\<forall>k \<in> set (jobs (world_db w)). job_status k = PENDING \<and> job_id k \<noteq> job_id j \<longrightarrow>
      k \<in> set (jobs (world_db w2)) \<and> lock_held (world_db w2) (job_key k))"
proof -
  note claimed = claimed_on [OF assms(1,3)]
  from process_on_all_or_nothing_lemma [OF claimed(1-3) assms(4-6)]
  have ok: "store_ok (world_db w2)" and kept: "others_kept j (world_db w) (world_db w2)"
    using others_kept_trans [OF claimed(4)] by blast+
  have "k \<in> set (jobs (world_db w2)) \<and> lock_held (world_db w2) (job_key k)"
    if k: "k \<in> set (jobs (world_db w))" "job_status k = PENDING \<and> job_id k \<noteq> job_id j" for k
  proof -
    have "k \<in> set (jobs (world_db w2))" using kept k by (auto simp: others_kept_def)
    then show ?thesis using active_holds_lock [OF ok] k(2) by (simp add: active_iff)
  qed
  then show ?thesis using assms(2,3,6) ok by (simp add: io_bind_def)
qed

theorem worker_ends_at_database_error_witness:
  "\<exists>w2. \<forall>n. run_turns_on fourth_fault (Suc n) raising_worker (\<lambda>_. False) (io_return ())
      \<lparr>world_db = two_pending, world_out = 0\<rparr> = (Inl (raised (OtherError ''OperationalError'') ''database is locked''), w2) \<and>
    lock_held (world_db w2) (''o/r'', 2)"
proof -
  let ?w = "\<lparr>world_db = two_pending, world_out = 0\<rparr> :: nat world"
  let ?j = "set_status RUNNING None None 20 (new_job sample_request 10 empty_database)"
  let ?w1 = "\<lparr>world_db = update_job_status 1 RUNNING None None 20 two_pending, world_out = 3\<rparr> :: nat world"
  let ?k = "(new_job sample_request 11 empty_database)\<lparr>job_id := 2, job_pr_number := 2\<rparr>"
  have clock: "wk_utcnow raising_worker = Pair 20" by (simp add: raising_worker_def)
  have claim: "claim_one_on fourth_fault raising_worker ?w = (Inr (Some ?j), ?w1)"
    by (simp add: claim_one_on_def in_out_def io_total_def clock io_bind_def in_tx_def in_db_def io_return_def
        fourth_fault_def two_pending_claim two_pending_next)
  have proc: "process_on fourth_fault raising_worker ?j ?w1 =
      (Inl (raised (OtherError ''OperationalError'') ''database is locked''), ?w1\<lparr>world_out := 4\<rparr>)"
    by (simp add: process_on_def raising_review finalize_failure_on_def bind_clock clock isinstance_def is_subclass.simps)
      (simp add: io_defs in_tx_def fourth_fault_def)
  have rev: "io_keeps interference (reviewed raising_worker ?j)" "io_yields result_ok (reviewed raising_worker ?j)"
    by (simp_all add: raising_review io_keeps_def io_yields_def interference_def)
  have ok: "store_ok (world_db ?w)" by (simp add: store_ok_two_pending)
  have k: "?k \<in> set (jobs (world_db ?w))" "job_status ?k = PENDING \<and> job_id ?k \<noteq> job_id ?j"
    by (simp_all add: two_pending_jobs set_status_def)
  have key: "job_key ?k = (''o/r'', 2)" by (simp add: new_job_def sample_request_def)
  have "run_turns_on fourth_fault (Suc n) raising_worker (\<lambda>_. False) (io_return ()) ?w =
      (Inl (raised (OtherError ''OperationalError'') ''database is locked''), ?w1\<lparr>world_out := 4\<rparr>) \<and>
      lock_held (world_db (?w1\<lparr>world_out := 4\<rparr>)) (''o/r'', 2)" for n
  proof -
    have "\<not> False" by simp
    note ends = worker_ends_at_database_error [where n = n and idle = "io_return ()" and stopped = "\<lambda>_. False", OF ok this claim rev proc]
    note kept = ends [THEN conjunct2, THEN conjunct2, THEN bspec, OF k(1), THEN mp, OF k(2), THEN conjunct2, unfolded key]
    show ?thesis by (rule conjI [OF ends [THEN conjunct1] kept])
  qed
  then show ?thesis by (intro exI [of _ "?w1\<lparr>world_out := 4\<rparr>"] allI)
qed

end
