(* ===== verification/Handlers.thy ===== *)
theory Handlers
  imports Worker
begin

text \<open>
  The webhook side: \<open>orchestration/handlers.py\<close>, \<open>transport/webhook.py\<close> and the endpoint of
  \<open>transport/server.py\<close>. An event is the record of the attributes the handlers read.
\<close>

section \<open>Events\<close>

record pull_request_event =
  pe_action :: "string option"
  pe_draft :: bool
  pe_repo :: string
  pe_installation_id :: int
  pe_number :: int
  pe_head_sha :: string

record issue_comment_event =
  ce_action :: "string option"
  ce_on_pull_request :: bool
  ce_sender_login :: string
  ce_body :: "string option"
  ce_repo :: string
  ce_default_branch :: string
  ce_installation_id :: int
  ce_comment_id :: int
  ce_issue_number :: int
  ce_author_association :: "string option"

section \<open>orchestration/handlers.py\<close>

definition DEFAULT_BOT_LOGIN :: string where
  "DEFAULT_BOT_LOGIN = ''vidi-pr[bot]''"

definition AUTO_TRIGGER_ACTIONS :: "string list" where
  "AUTO_TRIGGER_ACTIONS = [''opened'', ''ready_for_review'']"

record ('v, 'y) handler =
  h_client :: "'v github"
  h_utcnow :: "'v \<Rightarrow> int \<times> 'v"
  h_yaml :: "'y yaml_lib"
  h_validate :: "'y \<Rightarrow> exc + repo_config"
  h_defaults :: defaults_config
  h_bot_login :: string

text \<open>The session of a handler: the lock is looked up, then the job and the lock are inserted.\<close>

definition handler_enqueue :: "('v, 'y) handler \<Rightarrow> enqueue_request \<Rightarrow> ('v world, job option) io" where
  "handler_enqueue h req =
     io_bind (in_db (\<lambda>d. (enqueue_allowed req (session_open d), d))) (\<lambda>allowed.
       if \<not> allowed then io_return None
       else
         io_bind (in_out (io_total (h_utcnow h))) (\<lambda>now1.
         io_bind (in_out (io_total (h_utcnow h))) (\<lambda>now2.
           in_db (enqueue_tx req now1 now2))))"

definition on_pull_request :: "('v, 'y) handler \<Rightarrow> pull_request_event \<Rightarrow> ('v world, unit) io" where
  "on_pull_request h e =
     (if \<not> (\<exists>a \<in> set AUTO_TRIGGER_ACTIONS. pe_action e = Some a) then io_return ()
      else if pe_draft e then io_return ()
      else
        io_bind (handler_enqueue h
            \<lparr>req_installation_id = pe_installation_id e, req_repo = pe_repo e, req_pr_number = pe_number e,
             req_head_sha = pe_head_sha e, req_trigger_kind = AUTO, req_extra_context = None\<rparr>)
          (\<lambda>_. io_return ()))"

definition handler_loader :: "('v, 'y) handler \<Rightarrow> int \<Rightarrow> ('v, 'y) loader" where
  "handler_loader h installation_id =
     \<lparr>ld_fetch_text = g_for_installation (h_client h) installation_id, ld_utcnow = h_utcnow h,
      ld_yaml = h_yaml h, ld_validate = h_validate h, ld_defaults = h_defaults h\<rparr>"

definition comment_request :: "issue_comment_event \<Rightarrow> pr_info \<Rightarrow> parsed_trigger \<Rightarrow> enqueue_request" where
  "comment_request e pr parsed =
     \<lparr>req_installation_id = ce_installation_id e, req_repo = ce_repo e, req_pr_number = ce_issue_number e,
      req_head_sha = info_head_sha pr, req_trigger_kind = COMMENT,
      req_extra_context = trigger_extra_context parsed\<rparr>"

definition on_issue_comment :: "('v, 'y) handler \<Rightarrow> issue_comment_event \<Rightarrow> ('v world, unit) io" where
  "on_issue_comment h e =
     (if ce_action e \<noteq> Some ''created'' then io_return ()
      else if \<not> ce_on_pull_request e then io_return ()
      else if ce_sender_login e = h_bot_login h then io_return ()
      else
        (case parse_trigger (ce_body e) of
           None \<Rightarrow> io_return ()
         | Some parsed \<Rightarrow>
             io_bind (in_out (g_get_pr (h_client h) (ce_installation_id e) (ce_repo e) (ce_issue_number e))) (\<lambda>pr.
             io_bind (in_out (load_repo_config (handler_loader h (ce_installation_id e)) (ce_repo e)
                 (info_base_ref pr) (ce_default_branch e))) (\<lambda>cfg.
               if \<not> config_enabled cfg then io_return ()
               else if \<not> is_authorized (ce_sender_login e)
                   (case ce_author_association e of Some a \<Rightarrow> a | None \<Rightarrow> []) cfg
               then in_out (g_react_to_comment (h_client h) (ce_installation_id e) (ce_repo e) (ce_comment_id e) ''-1'')
               else
                 io_bind (in_out (g_react_to_comment (h_client h) (ce_installation_id e) (ce_repo e)
                     (ce_comment_id e) ''eyes'')) (\<lambda>_.
                 io_bind (handler_enqueue h (comment_request e pr parsed)) (\<lambda>_. io_return ()))))))"

section \<open>transport/webhook.py\<close>

definition MAX_BODY_BYTES :: nat where
  "MAX_BODY_BYTES = 25 * 1024 * 1024"

datatype webhook_event = PullRequestEvent pull_request_event | IssueCommentEvent issue_comment_event | OtherEvent

text \<open>githubkit: \<open>verify(secret, body, signature)\<close> and \<open>parse(event_type, body)\<close>.\<close>

record webhook_lib =
  verify_signature :: "string \<Rightarrow> string \<Rightarrow> string \<Rightarrow> bool"
  parse_webhook :: "string \<Rightarrow> string \<Rightarrow> exc + webhook_event"

definition no_attribute :: "('w, 'a) io" where
  "no_attribute = io_raise (raised AttributeError [])"

definition dispatch :: "('v, 'y) handler \<Rightarrow> string \<Rightarrow> webhook_event \<Rightarrow> ('v world, unit) io" where
  "dispatch h event_type event =
     (if event_type = ''pull_request''
      then (case event of PullRequestEvent e \<Rightarrow> on_pull_request h e | _ \<Rightarrow> no_attribute)
      else if event_type = ''issue_comment''
      then (case event of IssueCommentEvent e \<Rightarrow> on_issue_comment h e | _ \<Rightarrow> no_attribute)
      else io_return ())"

definition process_webhook ::
  "webhook_lib \<Rightarrow> ('v, 'y) handler \<Rightarrow> string \<Rightarrow> string \<Rightarrow> string option \<Rightarrow> string option \<Rightarrow> string option \<Rightarrow>
   ('v world, bool) io" where
  "process_webhook lib h secret body event_type delivery signature =
     (case signature of
        None \<Rightarrow> io_raise (raised WebhookAuthError ''X-Hub-Signature-256 missing'')
      | Some sig \<Rightarrow>
     (case event_type of
        None \<Rightarrow> io_raise (raised WebhookBadRequest ''X-GitHub-Event missing'')
      | Some etype \<Rightarrow>
     (case delivery of
        None \<Rightarrow> io_raise (raised WebhookBadRequest ''X-GitHub-Delivery missing'')
      | Some did \<Rightarrow>
          if \<not> verify_signature lib secret body sig
          then io_raise (raised WebhookAuthError ''invalid signature'')
          else
            io_bind (in_out (io_total (h_utcnow h))) (\<lambda>now.
            io_bind (in_db (record_delivery did now)) (\<lambda>is_new.
              if \<not> is_new then io_return False
              else
                io_bind
                  (io_try (io_result (parse_webhook lib etype body))
                    (\<lambda>e. io_raise (raised WebhookBadRequest
                      (''could not parse '' @ etype @ '': '' @ exc_message e))))
                  (\<lambda>event. io_bind (dispatch h etype event) (\<lambda>_. io_return True)))))))"

section \<open>transport/server.py\<close>

text \<open>\<open>int(s)\<close>: white space around, a sign, decimal digits with single underscores between them.\<close>

fun digits_with_underscores :: "bool \<Rightarrow> string \<Rightarrow> string option" where
  "digits_with_underscores after_digit [] = (if after_digit then Some [] else None)"
| "digits_with_underscores after_digit (c # s) =
     (if py_digit c then map_option ((#) c) (digits_with_underscores True s)
      else if c = CHR ''_'' \<and> after_digit then digits_with_underscores False s
      else None)"

definition parse_int :: "string \<Rightarrow> int option" where
  "parse_int s =
     (case strip s of
        [] \<Rightarrow> None
      | c # t \<Rightarrow>
          if c = CHR ''-'' then map_option (\<lambda>d. - int_of_digits d) (digits_with_underscores False t)
          else if c = CHR ''+'' then map_option int_of_digits (digits_with_underscores False t)
          else map_option int_of_digits (digits_with_underscores False (c # t)))"

record webhook_request =
  header_content_length :: "string option"
  header_event :: "string option"
  header_delivery :: "string option"
  header_signature :: "string option"
  request_body :: string

text \<open>
  The endpoint's status code. An exception that is neither an authentication error nor a bad request
  leaves the endpoint; the framework answers it with 500.
\<close>

definition webhook_endpoint ::
  "webhook_lib \<Rightarrow> ('v, 'y) handler \<Rightarrow> string \<Rightarrow> webhook_request \<Rightarrow> ('v world, int) io" where
  "webhook_endpoint lib h secret r =
     (let declared = map_option parse_int (header_content_length r) in
      if declared = Some None then io_return 400
      else if (case declared of Some (Some n) \<Rightarrow> int MAX_BODY_BYTES < n | _ \<Rightarrow> False) then io_return 413
      else if MAX_BODY_BYTES < length (request_body r) then io_return 413
      else
        io_try
          (io_bind (process_webhook lib h secret (request_body r) (header_event r) (header_delivery r)
              (header_signature r)) (\<lambda>is_new. io_return (if is_new then 200 else 202)))
          (\<lambda>e.
            if isinstance e WebhookAuthError then io_return 401
            else if isinstance e WebhookBadRequest then io_return 400
            else io_raise e))"

section \<open>What the handlers do to the database\<close>

lemma interference_step: "webhook_step (world_db w) (world_db w') \<Longrightarrow> interference w w'"
  by (auto simp: interference_def)

lemma interference_delivery: "io_keeps interference (in_db (record_delivery did now))"
  using delivery_step [of _ did now]
  by (auto simp: io_keeps_def in_db_def split: prod.splits intro!: interference_step) (metis snd_conv)

lemma interference_enqueue: "io_keeps interference (in_db (enqueue_tx req now1 now2))"
  using enqueue_step [of _ req now1 now2]
  by (auto simp: io_keeps_def in_db_def split: prod.splits intro!: interference_step) (metis snd_conv)

lemma interference_read: "io_keeps interference (in_db (\<lambda>d. (f d, d)))"
  by (auto simp: io_keeps_def in_db_def interference_def)

lemmas interference_rules = interference_frame.keeps_bind interference_frame.keeps_try
  interference_frame.keeps_return interference_frame.keeps_raise interference_frame.keeps_result
  interference_in_out interference_delivery interference_enqueue interference_read

lemma interference_handler_enqueue: "io_keeps interference (handler_enqueue h req)"
  unfolding handler_enqueue_def by (auto intro!: interference_rules)

lemma interference_dispatch: "io_keeps interference (dispatch h etype event)"
  unfolding dispatch_def on_pull_request_def on_issue_comment_def no_attribute_def
  by (auto intro!: interference_rules interference_handler_enqueue split: webhook_event.split option.split)

lemma interference_process_webhook:
  "io_keeps interference (process_webhook lib h secret body etype did sig)"
  unfolding process_webhook_def
  by (auto intro!: interference_rules interference_dispatch split: option.split)

text \<open>The deliveries are touched by the webhook processing alone, before it dispatches.\<close>

interpretation delivery_frame: io_frame
  "\<lambda>w w' :: 'v world. deliveries (world_db w') = deliveries (world_db w)"
  by unfold_locales auto

abbreviation keeps_deliveries :: "('v world, 'a) io \<Rightarrow> bool" where
  "keeps_deliveries \<equiv> io_keeps (\<lambda>w w'. deliveries (world_db w') = deliveries (world_db w))"

lemma keeps_deliveries_in_out: "keeps_deliveries (in_out m)"
  by (auto simp: io_keeps_def in_out_def split: prod.splits)

lemma keeps_deliveries_enqueue: "keeps_deliveries (in_db (enqueue_tx req now1 now2))"
  by (auto simp: io_keeps_def in_db_def enqueue_tx_cases split: prod.splits if_splits)

lemma keeps_deliveries_read: "keeps_deliveries (in_db (\<lambda>d. (f d, d)))"
  by (auto simp: io_keeps_def in_db_def)

lemmas deliveries_rules = delivery_frame.keeps_bind delivery_frame.keeps_return
  delivery_frame.keeps_raise keeps_deliveries_in_out keeps_deliveries_enqueue keeps_deliveries_read

lemma keeps_deliveries_handler_enqueue: "keeps_deliveries (handler_enqueue h req)"
  unfolding handler_enqueue_def by (auto intro!: deliveries_rules)

lemma keeps_deliveries_dispatch: "keeps_deliveries (dispatch h etype event)"
  unfolding dispatch_def on_pull_request_def on_issue_comment_def no_attribute_def
  by (auto intro!: deliveries_rules keeps_deliveries_handler_enqueue
      split: webhook_event.split option.split)

lemma handler_enqueue_db:
  "\<exists>now1 now2. world_db (snd (handler_enqueue h req w)) = snd (enqueue_tx req now1 now2 (world_db w)) \<and>
     (\<exists>r. fst (handler_enqueue h req w) = Inr r)"
proof (cases "lock_held (world_db w) (req_key req)")
  case True
  then have "enqueue_allowed req (session_open (world_db w)) = False"
    by (simp add: enqueue_allowed_def session_open_def fetch_lock_None)
  with True show ?thesis by (simp add: handler_enqueue_def io_defs enqueue_tx_cases)
next
  case False
  then have "enqueue_allowed req (session_open (world_db w)) = True"
    by (simp add: enqueue_allowed_def session_open_def fetch_lock_None)
  then show ?thesis by (auto simp: handler_enqueue_def io_defs split: prod.splits) (metis snd_conv)
qed

section \<open>A handler for the witnesses\<close>

definition sample_handler :: "(unit, string) handler" where
  "sample_handler = \<lparr>h_client = rv_github sample_reviewer, h_utcnow = (\<lambda>w. (10, w)),
     h_yaml = ld_yaml sample_loader, h_validate = ld_validate sample_loader,
     h_defaults = default_defaults, h_bot_login = DEFAULT_BOT_LOGIN\<rparr>"

definition sample_comment :: issue_comment_event where
  "sample_comment = \<lparr>ce_action = Some ''created'', ce_on_pull_request = True, ce_sender_login = ''ann'',
     ce_body = Some ''@vidi-pr review'', ce_repo = ''o/r'', ce_default_branch = ''main'',
     ce_installation_id = 7, ce_comment_id = 3, ce_issue_number = 1, ce_author_association = Some ''OWNER''\<rparr>"

definition sample_lib :: webhook_lib where
  "sample_lib = \<lparr>verify_signature = (\<lambda>secret body sig. sig = secret @ body),
     parse_webhook = (\<lambda>etype body. if etype = ''issue_comment'' then Inr (IssueCommentEvent sample_comment) else Inr OtherEvent)\<rparr>"

definition sample_world :: "unit world" where
  "sample_world = \<lparr>world_db = empty_database, world_out = ()\<rparr>"

definition sample_ping :: webhook_request where
  "sample_ping = \<lparr>header_content_length = None, header_event = Some ''ping'', header_delivery = Some ''d1'',
     header_signature = Some ''s3cret{}'', request_body = ''{}''\<rparr>"

lemma sample_trigger: "\<exists>parsed. parse_trigger (Some ''@vidi-pr review'') = Some parsed"
proof -
  have "has_command ''@vidi-pr review''"
    unfolding has_command_def
    by (rule exI [of _ "[]"], rule exI [of _ "''@vidi-pr''"], rule exI [of _ "'' ''"], rule exI [of _ "''review''"],
        rule exI [of _ "[]"]) (simp add: ends_line_def py_lower_def py_lower_char_def py_space_def)
  then obtain hit where "rx_search TRIGGER ''@vidi-pr review'' = Some hit" using TRIGGER_search by blast
  then show ?thesis by (cases hit) (simp add: parse_trigger_def Let_def)
qed

lemma sample_record: "record_delivery ''d1'' 10 empty_database =
    (True, empty_database\<lparr>deliveries := [\<lparr>delivery_id = ''d1'', delivery_received_at = 10\<rparr>]\<rparr>)"
  by (simp add: record_delivery_def insert_or_ignore_def empty_database_def)

lemma sample_comment_config:
  "load_repo_config (handler_loader sample_handler 7) ''o/r'' ''main'' ''main'' () =
    (Inr (absent_config default_defaults), ())"
  using load_repo_config_not_found [of "handler_loader sample_handler 7" "()" 10 "()" "''o/r''" "''main''"
      fetch_not_found "()" "''main''"]
  by (simp add: handler_loader_def sample_handler_def sample_reviewer_def fetch_not_found_def)

lemma sample_handler_simps:
  "g_get_pr (h_client sample_handler) i repo n w = (Inr (sample_pr\<lparr>info_draft := True\<rparr>), w)"
  "g_react_to_comment (h_client sample_handler) i repo n kind w = (Inr (), w)"
  "h_utcnow sample_handler w = (10, w)" "h_bot_login sample_handler = ''vidi-pr[bot]''"
  by (simp_all add: sample_handler_def sample_reviewer_def DEFAULT_BOT_LOGIN_def)

lemma sample_comment_allowed:
  "config_enabled (absent_config default_defaults)" "is_authorized ''ann'' ''OWNER'' (absent_config default_defaults)"
  "info_base_ref (sample_pr\<lparr>info_draft := True\<rparr>) = ''main''"
  by (simp_all add: absent_config_def default_defaults_def DEFAULT_ENABLED_def is_authorized_def
      ABSENT_CONFIG_ALLOWED_ASSOCIATIONS_def py_upper_def py_upper_char_def sample_pr_def)

lemma sample_comment_run:
  "\<exists>parsed. world_db (snd (on_issue_comment sample_handler sample_comment sample_world)) =
     snd (enqueue_tx (comment_request sample_comment (sample_pr\<lparr>info_draft := True\<rparr>) parsed) 10 10 empty_database)"
proof -
  obtain parsed where parsed: "parse_trigger (Some ''@vidi-pr review'') = Some parsed" using sample_trigger by blast
  note cfg = sample_comment_config and client = sample_handler_simps and auth = sample_comment_allowed
  have event: "ce_action sample_comment = Some ''created''" "ce_on_pull_request sample_comment"
    "ce_sender_login sample_comment = ''ann''" "ce_body sample_comment = Some ''@vidi-pr review''"
    "ce_installation_id sample_comment = 7" "ce_repo sample_comment = ''o/r''"
    "ce_default_branch sample_comment = ''main''" "ce_author_association sample_comment = Some ''OWNER''"
    by (simp_all add: sample_comment_def)
  have allowed: "enqueue_allowed req (session_open empty_database)" for req
    by (simp add: enqueue_allowed_def session_open_def fetch_lock_def empty_database_def)
  have "world_db (snd (on_issue_comment sample_handler sample_comment sample_world)) =
      snd (enqueue_tx (comment_request sample_comment (sample_pr\<lparr>info_draft := True\<rparr>) parsed) 10 10 empty_database)"
    by (simp add: on_issue_comment_def event client auth parsed cfg allowed sample_world_def io_defs
        handler_enqueue_def split: prod.splits)
  then show ?thesis by blast
qed

section \<open>Properties\<close>

text \<open>C9: a comment leads to a job only when it may. If handling a comment changes the database, the
  comment was created on a pull request by someone other than the bot, carries a review command, and
  the configuration that was loaded for the PR's base branch allows reviews and authorizes the
  sender; the change is the insertion of the job asked for.\<close>

theorem on_issue_comment_only_authorized:
  assumes "world_db (snd (on_issue_comment h e w)) \<noteq> world_db w"
  shows "ce_action e = Some ''created'' \<and> ce_on_pull_request e \<and> ce_sender_login e \<noteq> h_bot_login h \<and>
    (\<exists>parsed pr v1 cfg v2 now1 now2. parse_trigger (ce_body e) = Some parsed \<and>
      g_get_pr (h_client h) (ce_installation_id e) (ce_repo e) (ce_issue_number e) (world_out w) = (Inr pr, v1) \<and>
      load_repo_config (handler_loader h (ce_installation_id e)) (ce_repo e) (info_base_ref pr)
        (ce_default_branch e) v1 = (Inr cfg, v2) \<and>
      config_enabled cfg \<and>
      is_authorized (ce_sender_login e) (case ce_author_association e of Some a \<Rightarrow> a | None \<Rightarrow> []) cfg \<and>
      world_db (snd (on_issue_comment h e w)) =
        snd (enqueue_tx (comment_request e pr parsed) now1 now2 (world_db w)))"
proof -
  have guards: "ce_action e = Some ''created''" "ce_on_pull_request e" "ce_sender_login e \<noteq> h_bot_login h"
    "parse_trigger (ce_body e) \<noteq> None"
    using assms by (auto simp: on_issue_comment_def io_return_def split: if_splits option.splits)
  then obtain parsed where parsed: "parse_trigger (ce_body e) = Some parsed" by blast
  obtain r1 v1 where pr: "g_get_pr (h_client h) (ce_installation_id e) (ce_repo e) (ce_issue_number e) (world_out w) = (r1, v1)"
    by (rule prod.exhaust)
  show ?thesis
  proof (cases r1)
    case (Inl err)
    then show ?thesis using assms guards parsed pr by (simp add: on_issue_comment_def io_defs)
  next
    case (Inr pr0)
    obtain r2 v2 where cfg: "load_repo_config (handler_loader h (ce_installation_id e)) (ce_repo e) (info_base_ref pr0)
        (ce_default_branch e) v1 = (r2, v2)" by (rule prod.exhaust)
    show ?thesis
    proof (cases r2)
      case (Inl err)
      then show ?thesis using assms guards parsed pr Inr cfg by (simp add: on_issue_comment_def io_defs)
    next
      case (Inr cfg0)
      note run = guards parsed pr \<open>r1 = Inr pr0\<close> cfg Inr
      let ?auth = "is_authorized (ce_sender_login e) (case ce_author_association e of Some a \<Rightarrow> a | None \<Rightarrow> []) cfg0"
      have ok: "config_enabled cfg0" "?auth"
        using assms run by (auto simp: on_issue_comment_def io_defs split: prod.splits if_splits)
      obtain r3 v3 where eyes: "g_react_to_comment (h_client h) (ce_installation_id e) (ce_repo e)
          (ce_comment_id e) ''eyes'' v2 = (r3, v3)" by (rule prod.exhaust)
      then obtain u where "r3 = Inr u" using assms run ok by (cases r3) (auto simp: on_issue_comment_def io_defs)
      then have "world_db (snd (on_issue_comment h e w)) =
          world_db (snd (handler_enqueue h (comment_request e pr0 parsed) (w\<lparr>world_out := v3\<rparr>)))"
        using run ok eyes by (simp add: on_issue_comment_def io_bind_def in_out_def io_return_def split: prod.splits sum.splits)
      moreover obtain now1 now2 where "world_db (snd (handler_enqueue h (comment_request e pr0 parsed) (w\<lparr>world_out := v3\<rparr>))) =
          snd (enqueue_tx (comment_request e pr0 parsed) now1 now2 (world_db w))"
        using handler_enqueue_db [of h "comment_request e pr0 parsed" "w\<lparr>world_out := v3\<rparr>"] by auto
      ultimately show ?thesis using run ok by (intro conjI exI) simp_all
    qed
  qed
qed

theorem on_issue_comment_only_authorized_witness:
  "ce_action sample_comment = Some ''created'' \<and>
   (\<exists>parsed pr v1 cfg v2 now1 now2. parse_trigger (ce_body sample_comment) = Some parsed \<and>
      g_get_pr (h_client sample_handler) 7 ''o/r'' 1 () = (Inr pr, v1) \<and>
      load_repo_config (handler_loader sample_handler 7) ''o/r'' (info_base_ref pr) ''main'' v1 = (Inr cfg, v2) \<and>
      config_enabled cfg \<and> is_authorized ''ann'' ''OWNER'' cfg \<and>
      world_db (snd (on_issue_comment sample_handler sample_comment sample_world)) =
        snd (enqueue_tx (comment_request sample_comment pr parsed) now1 now2 empty_database))"
proof -
  have "world_db (snd (on_issue_comment sample_handler sample_comment sample_world)) \<noteq> world_db sample_world"
    using sample_comment_run by (auto simp: sample_world_def enqueue_tx_cases empty_database_def)
  from on_issue_comment_only_authorized [OF this] show ?thesis
    by (simp add: sample_comment_def sample_world_def)
qed


text \<open>C24: the automatic trigger enqueues exactly for a PR that is opened or marked ready, is no draft
  and is not locked; it never asks GitHub and never reads the repository's configuration, so a
  repository that disables reviews is reviewed all the same.\<close>

theorem on_pull_request_ignores_config:
  "on_pull_request (h\<lparr>h_client := c, h_validate := v\<rparr>) e = on_pull_request h e \<and>
   (\<exists>w' now1 now2. on_pull_request h e w = (Inr (), w') \<and>
     world_db w' =
       (if (pe_action e = Some ''opened'' \<or> pe_action e = Some ''ready_for_review'') \<and> \<not> pe_draft e
        then snd (enqueue_tx \<lparr>req_installation_id = pe_installation_id e, req_repo = pe_repo e,
            req_pr_number = pe_number e, req_head_sha = pe_head_sha e, req_trigger_kind = AUTO,
            req_extra_context = None\<rparr> now1 now2 (world_db w))
        else world_db w))"
proof -
  let ?req = "\<lparr>req_installation_id = pe_installation_id e, req_repo = pe_repo e,
            req_pr_number = pe_number e, req_head_sha = pe_head_sha e, req_trigger_kind = AUTO,
            req_extra_context = None\<rparr>"
  have "handler_enqueue (h\<lparr>h_client := c, h_validate := v\<rparr>) ?req = handler_enqueue h ?req"
    by (simp add: handler_enqueue_def cong: if_cong)
  then have "on_pull_request (h\<lparr>h_client := c, h_validate := v\<rparr>) e = on_pull_request h e"
    by (simp add: on_pull_request_def)
  moreover have "\<exists>w' now1 now2. on_pull_request h e w = (Inr (), w') \<and> world_db w' =
       (if (pe_action e = Some ''opened'' \<or> pe_action e = Some ''ready_for_review'') \<and> \<not> pe_draft e
        then snd (enqueue_tx ?req now1 now2 (world_db w)) else world_db w)"
  proof -
    obtain r w1 where run: "handler_enqueue h ?req w = (r, w1)" by (rule prod.exhaust)
    obtain now1 now2 where "world_db w1 = snd (enqueue_tx ?req now1 now2 (world_db w))" "\<exists>j. r = Inr j"
      using handler_enqueue_db [of h ?req w] run by auto
    with run show ?thesis
      by (intro exI [of _ "snd (on_pull_request h e w)"] exI [of _ now1] exI [of _ now2])
        (auto simp: on_pull_request_def AUTO_TRIGGER_ACTIONS_def io_bind_def io_return_def)
  qed
  ultimately show ?thesis by blast
qed

text \<open>The database changes made while a webhook is handled are a sequence of recorded deliveries
  and enqueue transactions, so they keep the store consistent and every job in place.\<close>

lemma process_webhook_keeps_store:
  assumes "store_ok (world_db w)"
  shows "store_ok (world_db (snd (process_webhook lib h secret body etype did sig w))) \<and>
    set (jobs (world_db w)) \<subseteq> set (jobs (world_db (snd (process_webhook lib h secret body etype did sig w))))"
  using webhook_steps_keep [of "world_db w", OF _ assms]
    interference_process_webhook [of lib h secret body etype did sig]
  by (simp add: io_keeps_def interference_def)

lemma process_webhook_keeps_store_witness:
  "store_ok (world_db (snd (process_webhook sample_lib sample_handler ''s3cret'' ''{}'' (Some ''issue_comment'') (Some ''d1'')
     (Some ''s3cret{}'') \<lparr>world_db = sample_running, world_out = ()\<rparr>)))"
  using process_webhook_keeps_store [of "\<lparr>world_db = sample_running, world_out = ()\<rparr>" sample_lib sample_handler]
  by (simp add: store_ok_sample_running)


text \<open>C12: nothing happens for a request whose signature is not verified, or that is too large: a
  request that has any effect carried a valid signature of its body.\<close>

theorem webhook_effect_needs_signature:
  assumes "snd (webhook_endpoint lib h secret r w) \<noteq> w"
  shows "length (request_body r) \<le> MAX_BODY_BYTES \<and> (\<exists>sig. header_signature r = Some sig \<and>
    verify_signature lib secret (request_body r) sig)"
proof (rule ccontr)
  assume "\<not> ?thesis"
  then have "MAX_BODY_BYTES < length (request_body r) \<or>
      (\<exists>e. process_webhook lib h secret (request_body r) (header_event r) (header_delivery r) (header_signature r) w = (Inl e, w))"
    by (auto simp: process_webhook_def io_raise_def split: option.split)
  then have "snd (webhook_endpoint lib h secret r w) = w"
    by (auto simp: webhook_endpoint_def Let_def io_return_def io_try_def io_bind_def io_raise_def)
  with assms show False by simp
qed

lemma sample_ping_run: "webhook_endpoint sample_lib sample_handler ''s3cret'' sample_ping sample_world =
    (Inr 200, sample_world\<lparr>world_db := empty_database\<lparr>deliveries := [\<lparr>delivery_id = ''d1'', delivery_received_at = 10\<rparr>]\<rparr>\<rparr>)"
  by (simp add: webhook_endpoint_def process_webhook_def dispatch_def sample_ping_def sample_lib_def sample_handler_def
      io_defs sample_world_def sample_record MAX_BODY_BYTES_def)

theorem webhook_effect_needs_signature_witness:
  "snd (webhook_endpoint sample_lib sample_handler ''s3cret'' sample_ping sample_world) \<noteq> sample_world \<and>
   (\<exists>sig. header_signature sample_ping = Some sig \<and> verify_signature sample_lib ''s3cret'' (request_body sample_ping) sig)"
proof -
  have effect: "snd (webhook_endpoint sample_lib sample_handler ''s3cret'' sample_ping sample_world) \<noteq> sample_world"
    unfolding sample_ping_run by (simp add: sample_world_def empty_database_def)
  from webhook_effect_needs_signature [OF this] effect show ?thesis by blast
qed

section \<open>Recorded deliveries\<close>

text \<open>A delivery that was recorded is dropped.\<close>

lemma recorded_is_dropped:
  assumes "did \<in> delivery_id ` set (deliveries (world_db w))" "verify_signature lib secret body sig"
  shows "process_webhook lib h secret body (Some etype) (Some did) (Some sig) w =
    (Inr False, w\<lparr>world_out := snd (h_utcnow h (world_out w))\<rparr>)"
  using assms dedup.put_again [of did "world_db w"]
  by (simp add: process_webhook_def io_defs split: prod.splits)

text \<open>Processing records the delivery, whether it returns or raises.\<close>

lemma processing_records:
  assumes "verify_signature lib secret body sig"
    and run: "process_webhook lib h secret body (Some etype) (Some did) (Some sig) w = (result, w1)"
  shows "did \<in> delivery_id ` set (deliveries (world_db w1))"
proof (cases "did \<in> delivery_id ` set (deliveries (world_db w))")
  case True
  have "w1 = w\<lparr>world_out := snd (h_utcnow h (world_out w))\<rparr>"
    using recorded_is_dropped [OF True assms(1), of h etype] run by simp
  with True show ?thesis by simp
next
  case False
  obtain now v where now: "h_utcnow h (world_out w) = (now, v)" by (rule prod.exhaust)
  let ?w = "w\<lparr>world_out := v, world_db := snd (record_delivery did now (world_db w))\<rparr>"
  have new: "record_delivery did now (world_db w) = (True, snd (record_delivery did now (world_db w)))"
    using dedup.put_result [of did now "world_db w"] False by (metis prod.collapse)
  have "deliveries (world_db w1) = deliveries (world_db ?w)"
  proof (cases "parse_webhook lib etype body")
    case (Inl err)
    then show ?thesis using assms new by (auto simp: process_webhook_def io_defs now split: prod.splits)
  next
    case (Inr event)
    then have "w1 = snd (dispatch h etype event ?w)"
      using assms new by (auto simp: process_webhook_def io_defs now split: prod.splits sum.splits)
    then show ?thesis using keeps_deliveries_dispatch [of h etype event] by (simp add: io_keeps_def)
  qed
  then show ?thesis using deliveries_record_delivery [of did now "world_db w"] by simp
qed

end
