(* ===== verification/Service.thy ===== *)
theory Service
  imports Handlers
begin

text \<open>
  The running service of \<open>__main__._serve\<close>: the webhook handlers and the worker as tasks of one event
  loop over one database. A step is one database access of one of them; between two accesses of a
  task the others may run, so the steps of different tasks interleave freely. A restart drops what
  the tasks hold in memory and keeps the database; \<open>_serve\<close> starts the tasks on the database as it
  finds it.
\<close>

section \<open>Steps\<close>

record service =
  sv_db :: database
  sv_running :: "job option"                  \<comment> \<open>the job the worker has claimed\<close>
  sv_checked :: "enqueue_request list"        \<comment> \<open>handlers that found no lock and have not yet inserted\<close>

inductive live_step :: "service \<Rightarrow> service \<Rightarrow> bool" where
  delivery: "live_step s (s\<lparr>sv_db := snd (record_delivery did now (sv_db s))\<rparr>)"
| lookup: "enqueue_allowed req (session_open (sv_db s)) \<Longrightarrow> live_step s (s\<lparr>sv_checked := req # sv_checked s\<rparr>)"
| enqueue: "req \<in> set (sv_checked s) \<Longrightarrow>
    live_step s (s\<lparr>sv_db := snd (enqueue_tx req now1 now2 (sv_db s)), sv_checked := remove1 req (sv_checked s)\<rparr>)"
| claim: "sv_running s = None \<Longrightarrow> claim_tx now (sv_db s) = (Some j, d) \<Longrightarrow>
    live_step s (s\<lparr>sv_db := d, sv_running := Some j\<rparr>)"
| persisted: "sv_running s = Some j \<Longrightarrow> result_ok r \<Longrightarrow>
    live_step s (s\<lparr>sv_db := persist_tx j r now1 now2 (sv_db s), sv_running := None\<rparr>)"
| failed: "sv_running s = Some j \<Longrightarrow>
    live_step s (s\<lparr>sv_db := finalize_failure_tx j detail err now (sv_db s), sv_running := None\<rparr>)"
| comment: "live_step s (s\<lparr>sv_db := snd (claim_slot w k now (sv_db s))\<rparr>)"

inductive service_step :: "service \<Rightarrow> service \<Rightarrow> bool" where
  live: "live_step s s' \<Longrightarrow> service_step s s'"
| restart: "service_step s (s\<lparr>sv_running := None, sv_checked := []\<rparr>)"

inductive_cases live_stepE: "live_step s s'"
inductive_cases service_stepE: "service_step s s'"

definition service_start :: "database \<Rightarrow> service" where
  "service_start d = \<lparr>sv_db = d, sv_running = None, sv_checked = []\<rparr>"

section \<open>Systems with an invariant\<close>

locale step_system =
  fixes step :: "'s \<Rightarrow> 's \<Rightarrow> bool" and Inv :: "'s \<Rightarrow> bool"
  assumes step_keeps: "step s s' \<Longrightarrow> Inv s \<Longrightarrow> Inv s'"
begin

lemma steps_keep: "step\<^sup>*\<^sup>* s s' \<Longrightarrow> Inv s \<Longrightarrow> Inv s'"
  by (induction rule: rtranclp_induct) (auto intro: step_keeps)

end

section \<open>The invariant of the service\<close>

definition service_ok :: "service \<Rightarrow> bool" where
  "service_ok s \<longleftrightarrow> store_ok (sv_db s) \<and>
     (\<forall>j. sv_running s = Some j \<longrightarrow> j \<in> set (jobs (sv_db s)) \<and> job_status j = RUNNING)"

lemma service_ok_start: "store_ok d \<Longrightarrow> service_ok (service_start d)"
  by (simp add: service_ok_def service_start_def)

lemma claimed_row:
  assumes "store_ok d" "claim_tx now d = (Some j, d')"
  shows "store_ok d'" "j \<in> set (jobs d')" "job_status j = RUNNING"
    and "\<exists>row \<in> set (jobs d). job_status row = PENDING \<and> job_id row = job_id j \<and> job_key row = job_key j \<and>
      set (jobs d') = insert j (set (jobs d) - {row})"
proof -
  have keys: "keys_ok d" using assms(1) by (simp add: store_ok_def)
  show "store_ok d'" using store_ok_claim_tx [OF assms(1), of now] assms(2) by simp
  from claim_tx_cases [OF keys, of now] assms(2) obtain row where r: "next_pending d = Some row"
    "j = set_status RUNNING None None now row" "d' = update_job_status (job_id row) RUNNING None None now d" by auto
  note row = next_pending_Some(1,2) [OF r(1)]
  have jobs': "jobs d' = map (\<lambda>k. if job_id k = job_id row then j else k) (jobs d)"
    using same_job_id [OF keys _ row(1)] by (auto simp: r(2,3) jobs_update_job_status)
  then show "j \<in> set (jobs d')" using row(1) by force
  show "job_status j = RUNNING" by (simp add: r(2))
  have "set (jobs d') = insert j (set (jobs d) - {row})"
    unfolding jobs' using same_job_id [OF keys _ row(1)] row(1) by (auto simp: image_iff)
  with row show "\<exists>row \<in> set (jobs d). job_status row = PENDING \<and> job_id row = job_id j \<and> job_key row = job_key j \<and>
      set (jobs d') = insert j (set (jobs d) - {row})"
    by (intro bexI [of _ row]) (simp_all add: r(2))
qed

lemma finish_rows:
  assumes "keys_ok d" "j \<in> set (jobs d)" "jobs d' = map (\<lambda>k. if job_id k = job_id j then f k else k) (jobs d)"
  shows "set (jobs d') = insert (f j) (set (jobs d) - {j})"
proof -
  have "k = j \<longleftrightarrow> job_id k = job_id j" if "k \<in> set (jobs d)" for k
    using same_job_id [OF assms(1) that assms(2)] by auto
  then have "jobs d' = map (\<lambda>k. if k = j then f j else k) (jobs d)"
    unfolding assms(3) by (intro map_cong) auto
  then show ?thesis using assms(2) by auto
qed

lemma jobs_persist_tx:
  "jobs (persist_tx j r now1 now2 d) = map (\<lambda>k. if job_id k = job_id j
     then set_status (result_status r) (detail_text (result_status_detail r)) (result_error r) now1 k else k) (jobs d)"
  by (simp add: persist_tx_def Let_def jobs_update_job_status split: option.split)

lemma jobs_finalize_failure_tx:
  "jobs (finalize_failure_tx j detail err now d) = map (\<lambda>k. if job_id k = job_id j
     then set_status FAILED (Some (status_detail_value detail)) (Some err) now k else k) (jobs d)"
  by (simp add: finalize_failure_tx_def jobs_update_job_status)

lemma result_ok_terminal: "result_ok r \<Longrightarrow> result_status r \<in> set TERMINAL_JOB_STATUSES"
  by (simp add: result_ok_def)

lemma service_ok_live_step: "live_step s s' \<Longrightarrow> service_ok s \<Longrightarrow> service_ok s'"
proof (induction rule: live_step.induct)
  case (delivery s did now)
  then show ?case
    by (auto simp: service_ok_def store_ok_record_delivery) (auto simp: record_delivery_def insert_or_ignore_def)
next
  case (enqueue req s now1 now2)
  then show ?case
    by (auto simp: service_ok_def store_ok_enqueue_tx) (auto simp: enqueue_tx_cases)
next
  case (claim s now j d)
  then show ?case using claimed_row(1-3) [of "sv_db s" now j d] by (simp add: service_ok_def)
next
  case (persisted s j r now1 now2)
  then show ?case
    using finished_persist_tx [of "sv_db s" j j r now1 now2]
    by (simp add: service_ok_def finished_def active_iff result_ok_terminal)
next
  case (failed s j detail err now)
  then show ?case
    using finished_finalize_failure_tx [of "sv_db s" j j detail err now]
    by (simp add: service_ok_def finished_def active_iff)
qed (simp_all add: service_ok_def store_ok_claim_slot)

lemma service_ok_service_step: "service_step s s' \<Longrightarrow> service_ok s \<Longrightarrow> service_ok s'"
  by (erule service_stepE) (blast intro: service_ok_live_step, simp add: service_ok_def)

interpretation service_inv: step_system service_step service_ok
  by unfold_locales (rule service_ok_service_step)

section \<open>Single flight\<close>

text \<open>As long as the service is not restarted, the running jobs are the one the worker holds.\<close>

definition running_jobs :: "service \<Rightarrow> job set" where
  "running_jobs s = {j \<in> set (jobs (sv_db s)). job_status j = RUNNING}"

definition single_flight :: "service \<Rightarrow> bool" where
  "single_flight s \<longleftrightarrow> service_ok s \<and> running_jobs s = set_option (sv_running s)"

lemma single_flight_live_step: "live_step s s' \<Longrightarrow> single_flight s \<Longrightarrow> single_flight s'"
proof -
  assume step: "live_step s s'" and sf: "single_flight s"
  have ok: "service_ok s" "service_ok s'" using service_ok_live_step [OF step] sf by (simp_all add: single_flight_def)
  have keys: "keys_ok (sv_db s)" using ok(1) by (simp add: service_ok_def store_ok_def)
  from step have "running_jobs s' = set_option (sv_running s')"
  proof cases
    case (delivery did now)
    then show ?thesis using sf by (auto simp: single_flight_def running_jobs_def record_delivery_def insert_or_ignore_def)
  next
    case (enqueue req now1 now2)
    then show ?thesis using sf by (auto simp: single_flight_def running_jobs_def enqueue_tx_cases new_job_def)
  next
    case (claim now j d)
    have "store_ok (sv_db s)" using ok(1) by (simp add: service_ok_def)
    from claimed_row(3,4) [OF this claim(3)] show ?thesis
      using sf claim(1,2) by (auto simp: single_flight_def running_jobs_def)
  next
    case (persisted j r now1 now2)
    have "j \<in> set (jobs (sv_db s))" using ok(1) persisted(2) by (simp add: service_ok_def)
    from finish_rows [OF keys this jobs_persist_tx [of j r now1 now2 "sv_db s"]] show ?thesis
      using sf persisted result_ok_terminal [of r]
      by (auto simp: single_flight_def running_jobs_def TERMINAL_JOB_STATUSES_def)
  next
    case (failed j detail err now)
    have "j \<in> set (jobs (sv_db s))" using ok(1) failed(2) by (simp add: service_ok_def)
    from finish_rows [OF keys this jobs_finalize_failure_tx [of j detail err now "sv_db s"]] show ?thesis
      using sf failed by (auto simp: single_flight_def running_jobs_def)
  qed (use sf in \<open>auto simp: single_flight_def running_jobs_def\<close>)
  with ok(2) show ?thesis by (simp add: single_flight_def)
qed

interpretation flight: step_system live_step single_flight
  by unfold_locales (rule single_flight_live_step)

section \<open>Orphans\<close>

text \<open>A running job that no worker holds.\<close>

definition orphan :: "job \<Rightarrow> service \<Rightarrow> bool" where
  "orphan j s \<longleftrightarrow> service_ok s \<and> j \<in> set (jobs (sv_db s)) \<and> job_status j = RUNNING \<and>
     (\<forall>k. sv_running s = Some k \<longrightarrow> job_id k \<noteq> job_id j)"

lemma orphan_live_step: "live_step s s' \<Longrightarrow> orphan j s \<Longrightarrow> orphan j s'"
proof -
  assume step: "live_step s s'" and or: "orphan j s"
  have ok: "service_ok s" "service_ok s'" using service_ok_live_step [OF step] or by (simp_all add: orphan_def)
  then have keys: "keys_ok (sv_db s)" by (simp add: service_ok_def store_ok_def)
  have j: "j \<in> set (jobs (sv_db s))" "job_status j = RUNNING" using or by (simp_all add: orphan_def)
  from step have "j \<in> set (jobs (sv_db s')) \<and> (\<forall>k. sv_running s' = Some k \<longrightarrow> job_id k \<noteq> job_id j)"
  proof cases
    case (delivery did now)
    then show ?thesis using or by (auto simp: orphan_def record_delivery_def insert_or_ignore_def)
  next
    case (enqueue req now1 now2)
    then show ?thesis using or by (auto simp: orphan_def enqueue_tx_cases)
  next
    case (claim now k d)
    have "store_ok (sv_db s)" using ok(1) by (simp add: service_ok_def)
    from claimed_row(4) [OF this claim(3)] obtain row where row: "row \<in> set (jobs (sv_db s))" "job_status row = PENDING"
      "job_id row = job_id k" "set (jobs d) = insert k (set (jobs (sv_db s)) - {row})" by blast
    have "row \<noteq> j" using row(2) j(2) by auto
    then have "job_id k \<noteq> job_id j" using same_job_id [OF keys row(1) j(1)] row(3) by auto
    then show ?thesis using row(4) j(1) \<open>row \<noteq> j\<close> claim(1) by simp
  next
    case (persisted k r now1 now2)
    then have "job_id k \<noteq> job_id j" using or by (simp add: orphan_def)
    then show ?thesis using persisted(1) j(1) by (force simp: jobs_persist_tx)
  next
    case (failed k detail err now)
    then have "job_id k \<noteq> job_id j" using or by (simp add: orphan_def)
    then show ?thesis using failed(1) j(1) by (force simp: jobs_finalize_failure_tx)
  qed (use or in \<open>auto simp: orphan_def\<close>)
  with ok(2) j(2) show ?thesis by (simp add: orphan_def)
qed

lemma orphan_service_step: "service_step s s' \<Longrightarrow> orphan j s \<Longrightarrow> orphan j s'"
  by (erule service_stepE) (blast intro: orphan_live_step, simp add: orphan_def service_ok_def)

interpretation orphans: step_system service_step "orphan j" for j
  by unfold_locales (rule orphan_service_step)

section \<open>Deliveries\<close>

text \<open>No step forgets a delivery.\<close>

definition delivered :: "string \<Rightarrow> service \<Rightarrow> bool" where
  "delivered did s \<longleftrightarrow> did \<in> delivery_id ` set (deliveries (sv_db s))"

lemma deliveries_kept [simp]:
  "deliveries (snd (enqueue_tx req now1 now2 d)) = deliveries d"
  "deliveries (snd (claim_tx now d)) = deliveries d"
  "deliveries (persist_tx j r now1 now2 d) = deliveries d"
  "deliveries (finalize_failure_tx j detail err now d) = deliveries d"
  "deliveries (snd (claim_slot w k now d)) = deliveries d"
  by (simp_all add: enqueue_tx_cases claim_tx_def persist_tx_def finalize_failure_tx_def claim_slot_cases release_lock_def
      record_review_posted_def Let_def split: option.split)

lemma delivered_service_step: "service_step s s' \<Longrightarrow> delivered did s \<Longrightarrow> delivered did s'"
proof (erule service_stepE)
  assume "live_step s s'" "delivered did s"
  then show "delivered did s'"
  proof (induction rule: live_step.induct)
    case (delivery s d now)
    then show ?case by (simp add: delivered_def deliveries_record_delivery)
  next
    case (claim s now j d)
    then show ?case using deliveries_kept(2) [of now "sv_db s"] by (simp add: delivered_def)
  qed (simp_all add: delivered_def)
qed (simp add: delivered_def)

interpretation deliveries_inv: step_system service_step "delivered did" for did
  by unfold_locales (rule delivered_service_step)

section \<open>A run for the witnesses\<close>

definition sample_enqueued :: database where
  "sample_enqueued = snd (enqueue_tx sample_request 10 10 empty_database)"

definition sample_service :: service where
  "sample_service = \<lparr>sv_db = sample_running, sv_running = Some (hd (jobs sample_running)), sv_checked = []\<rparr>"

lemma sample_claim: "claim_tx 20 sample_enqueued = (Some (hd (jobs sample_running)), sample_running)"
proof -
  have enq: "jobs sample_enqueued = [new_job sample_request 10 empty_database]"
    by (simp add: sample_enqueued_def enqueue_tx_cases empty_database_def)
  then have "next_pending sample_enqueued = Some (new_job sample_request 10 empty_database)"
    by (simp add: next_pending_def new_job_def)
  moreover have "job_id (new_job sample_request 10 empty_database) = 1"
    by (simp add: new_job_def empty_database_def fresh_id_def)
  moreover have "update_job_status 1 RUNNING None None 20 sample_enqueued = sample_running"
    by (simp add: sample_running_def sample_enqueued_def)
  ultimately show ?thesis by (simp add: claim_tx_def Let_def fetch_job_def sample_running_eval)
qed

lemma sample_run: "live_step\<^sup>*\<^sup>* (service_start empty_database) sample_service"
proof -
  let ?s1 = "(service_start empty_database)\<lparr>sv_checked := sample_request # sv_checked (service_start empty_database)\<rparr>"
  have "enqueue_allowed sample_request (session_open (sv_db (service_start empty_database)))"
    by (simp add: enqueue_allowed_def session_open_def fetch_lock_def empty_database_def service_start_def)
  from live_step.lookup [OF this] have 1: "live_step (service_start empty_database) ?s1" .
  have "sample_request \<in> set (sv_checked ?s1)" by simp
  from live_step.enqueue [OF this, of 10 10] have 2: "live_step ?s1 (service_start sample_enqueued)"
    by (simp add: service_start_def sample_enqueued_def)
  have "sv_running (service_start sample_enqueued) = None" by (simp add: service_start_def)
  from live_step.claim [OF this, of 20 "hd (jobs sample_running)" sample_running] have
    3: "live_step (service_start sample_enqueued) sample_service"
    by (simp add: sample_claim service_start_def sample_service_def)
  show ?thesis using 1 2 3 by (meson r_into_rtranclp rtranclp_trans)
qed

lemma sample_run_service: "service_step\<^sup>*\<^sup>* (service_start empty_database) sample_service"
  using sample_run by (rule rtranclp_mono [THEN predicate2D, rotated]) (auto intro: service_step.live)

section \<open>Properties\<close>

text \<open>C1: whatever the interleaving of webhook deliveries, comments, the worker and restarts, a PR never
  has two unfinished jobs, and the locks are exactly the PRs of the unfinished jobs.\<close>

theorem service_one_unfinished_job_per_pr:
  assumes "service_step\<^sup>*\<^sup>* (service_start empty_database) s"
  shows "(\<forall>j \<in> set (jobs (sv_db s)). \<forall>k \<in> set (jobs (sv_db s)).
      active j \<and> active k \<and> job_key j = job_key k \<longrightarrow> j = k) \<and>
    lock_key ` set (pr_locks (sv_db s)) = job_key ` {j \<in> set (jobs (sv_db s)). active j} \<and>
    distinct (map lock_key (pr_locks (sv_db s)))"
proof -
  have "service_ok s"
    by (rule service_inv.steps_keep [OF assms service_ok_start [OF store_ok_empty]])
  then have ok: "store_ok (sv_db s)" by (simp add: service_ok_def)
  have "lock_key ` set (pr_locks (sv_db s)) = job_key ` {j \<in> set (jobs (sv_db s)). active j}"
  proof (intro equalityI subsetI)
    fix key assume "key \<in> lock_key ` set (pr_locks (sv_db s))"
    then obtain l where "l \<in> set (pr_locks (sv_db s))" "key = lock_key l" by blast
    then show "key \<in> job_key ` {j \<in> set (jobs (sv_db s)). active j}"
      using ok by (force simp: store_ok_def locks_ok_def)
  next
    fix key assume "key \<in> job_key ` {j \<in> set (jobs (sv_db s)). active j}"
    then show "key \<in> lock_key ` set (pr_locks (sv_db s))" using active_holds_lock [OF ok] by auto
  qed
  moreover have "\<forall>j \<in> set (jobs (sv_db s)). \<forall>k \<in> set (jobs (sv_db s)).
      active j \<and> active k \<and> job_key j = job_key k \<longrightarrow> j = k"
    using one_active_job [OF ok] by blast
  moreover have "distinct (map lock_key (pr_locks (sv_db s)))" using ok by (simp add: store_ok_def keys_ok_def)
  ultimately show ?thesis by blast
qed

theorem service_one_unfinished_job_per_pr_witness:
  "lock_key ` set (pr_locks (sv_db sample_service)) = job_key ` {j \<in> set (jobs (sv_db sample_service)). active j} \<and>
   pr_locks (sv_db sample_service) \<noteq> []"
  using service_one_unfinished_job_per_pr [OF sample_run_service] by (simp add: sample_service_def sample_running_eval)

text \<open>C17: jobs are processed one at a time: until a restart the jobs marked running are exactly the one
  the worker holds.\<close>

theorem service_single_flight:
  assumes "live_step\<^sup>*\<^sup>* (service_start empty_database) s"
  shows "{j \<in> set (jobs (sv_db s)). job_status j = RUNNING} = set_option (sv_running s)"
proof -
  have "single_flight (service_start empty_database)"
    by (simp add: single_flight_def service_ok_start store_ok_empty running_jobs_def)
      (simp add: service_start_def empty_database_def)
  then have "single_flight s" by (rule flight.steps_keep [OF assms])
  then show ?thesis by (simp add: single_flight_def running_jobs_def)
qed

theorem service_single_flight_witness:
  "{j \<in> set (jobs (sv_db sample_service)). job_status j = RUNNING} = {hd (jobs sample_running)}"
  using service_single_flight [OF sample_run] by (simp add: sample_service_def)

text \<open>C16: a job that is running when the service is restarted blocks its PR for good. No later step of
  the service, further restarts included, changes the job or takes it up again, and every request for
  its PR is refused: the recovery that would fail the job exists, but the service never runs it.\<close>

theorem restart_blocks_pr_forever:
  assumes "service_ok s" "sv_running s = Some j"
    and "service_step\<^sup>*\<^sup>* (s\<lparr>sv_running := None, sv_checked := []\<rparr>) s'" "req_key req = job_key j"
  shows "j \<in> set (jobs (sv_db s')) \<and> job_status j = RUNNING \<and>
    enqueue_tx req now1 now2 (sv_db s') = (None, sv_db s') \<and>
    \<not> enqueue_allowed req (session_open (sv_db s'))"
proof -
  have "orphan j (s\<lparr>sv_running := None, sv_checked := []\<rparr>)"
    using assms(1,2) by (simp add: orphan_def service_ok_def)
  from orphans.steps_keep [OF assms(3) this] have j: "j \<in> set (jobs (sv_db s'))" "job_status j = RUNNING"
    and ok: "store_ok (sv_db s')" by (simp_all add: orphan_def service_ok_def)
  have "lock_held (sv_db s') (req_key req)"
    using active_holds_lock [OF ok j(1)] j(2) assms(4) by (simp add: active_iff)
  then show ?thesis using j by (simp add: enqueue_tx_cases enqueue_allowed_def session_open_def fetch_lock_None)
qed

theorem restart_blocks_pr_forever_witness:
  "enqueue_tx sample_request 50 50 sample_running = (None, sample_running)"
  using restart_blocks_pr_forever [of sample_service "hd (jobs sample_running)"
      "sample_service\<lparr>sv_running := None, sv_checked := []\<rparr>" sample_request 50 50]
    service_inv.steps_keep [OF sample_run_service service_ok_start [OF store_ok_empty]]
  by (simp add: sample_service_def sample_request_def sample_running_eval)

text \<open>C23: a delivery is acted upon at most once, even when it failed. Once a signed delivery has been
  processed, whether that returned or raised, and whatever deliveries, handlers, comments, turns of the
  worker and restarts come in between: processing a signed delivery with the same id only reads the clock
  and reports a duplicate. It is never dispatched again.\<close>

theorem redelivery_is_dropped:
  assumes "verify_signature lib secret body sig"
    and "process_webhook lib h secret body (Some etype) (Some did) (Some sig) w = (result, w1)"
    and "service_step\<^sup>*\<^sup>* s s'" "sv_db s = world_db w1" "world_db w2 = sv_db s'"
    and "verify_signature lib2 secret2 body2 sig2"
  shows "process_webhook lib2 h2 secret2 body2 (Some etype2) (Some did) (Some sig2) w2 =
    (Inr False, w2\<lparr>world_out := snd (h_utcnow h2 (world_out w2))\<rparr>)"
proof -
  have "delivered did s" using processing_records [OF assms(1,2)] assms(4) by (simp add: delivered_def)
  from deliveries_inv.steps_keep [OF assms(3) this]
  have "did \<in> delivery_id ` set (deliveries (world_db w2))" using assms(5) by (simp add: delivered_def)
  from recorded_is_dropped [OF this assms(6)] show ?thesis .
qed

text \<open>A delivery whose payload cannot be parsed; another delivery; then the first one again, with a payload
  that can be parsed.\<close>

definition broken_lib :: webhook_lib where
  "broken_lib = sample_lib\<lparr>parse_webhook := (\<lambda>etype body. Inl (raised ValueError ''bad''))\<rparr>"

theorem redelivery_is_dropped_witness:
  "\<exists>d1 d2. process_webhook broken_lib sample_handler ''s3cret'' ''{}'' (Some ''issue_comment'') (Some ''d1'') (Some ''s3cret{}'') sample_world =
      (Inl (raised WebhookBadRequest ''could not parse issue_comment: bad''), \<lparr>world_db = d1, world_out = ()\<rparr>) \<and>
    d2 = snd (record_delivery ''d2'' 20 d1) \<and>
    process_webhook sample_lib sample_handler ''s3cret'' ''{}'' (Some ''issue_comment'') (Some ''d1'') (Some ''s3cret{}'')
      \<lparr>world_db = d2, world_out = ()\<rparr> = (Inr False, \<lparr>world_db = d2, world_out = ()\<rparr>)"
proof -
  let ?d1 = "empty_database\<lparr>deliveries := [\<lparr>delivery_id = ''d1'', delivery_received_at = 10\<rparr>]\<rparr>"
  let ?d2 = "snd (record_delivery ''d2'' 20 ?d1)"
  have lib: "verify_signature broken_lib ''s3cret'' ''{}'' ''s3cret{}''" "verify_signature sample_lib ''s3cret'' ''{}'' ''s3cret{}''"
    by (simp_all add: broken_lib_def sample_lib_def)
  have first: "process_webhook broken_lib sample_handler ''s3cret'' ''{}'' (Some ''issue_comment'') (Some ''d1'') (Some ''s3cret{}'') sample_world =
      (Inl (raised WebhookBadRequest ''could not parse issue_comment: bad''), \<lparr>world_db = ?d1, world_out = ()\<rparr>)"
    by (simp add: process_webhook_def lib io_defs sample_world_def sample_handler_simps sample_record) (simp add: broken_lib_def)
  have "service_step (service_start ?d1) (service_start ?d2)"
    using service_step.live [OF live_step.delivery [of "service_start ?d1" "''d2''" 20]] by (simp add: service_start_def)
  then have "service_step\<^sup>*\<^sup>* (service_start ?d1) (service_start ?d2)" by blast
  from redelivery_is_dropped [OF lib(1) first this _ _ lib(2), of "\<lparr>world_db = ?d2, world_out = ()\<rparr>" sample_handler "''issue_comment''"]
  have "process_webhook sample_lib sample_handler ''s3cret'' ''{}'' (Some ''issue_comment'') (Some ''d1'') (Some ''s3cret{}'')
      \<lparr>world_db = ?d2, world_out = ()\<rparr> = (Inr False, \<lparr>world_db = ?d2, world_out = ()\<rparr>)"
    by (simp add: service_start_def)
  with first show ?thesis by (intro exI [of _ ?d1] exI [of _ ?d2]) simp
qed

end
