(* ===== verification/Lifecycle.thy ===== *)
theory Lifecycle
  imports Service
begin

text \<open>
  What the service promises for a PR, without tables, sessions and webhooks: a PR is free, has a
  review queued, or has a review in progress. The running service of \<open>Service.thy\<close> refines this
  three-state machine by the function \<open>pr_phase\<close>; and a worker that is left alone drains its queue.
\<close>

section \<open>The abstract machine\<close>

datatype phase = Free | Queued | Busy

inductive lifecycle_step :: "(string \<times> int \<Rightarrow> phase) \<Rightarrow> (string \<times> int \<Rightarrow> phase) \<Rightarrow> bool" where
  request: "p k = Free \<Longrightarrow> lifecycle_step p (p(k := Queued))"
| start: "p k = Queued \<Longrightarrow> lifecycle_step p (p(k := Busy))"
| finish: "p k = Busy \<Longrightarrow> lifecycle_step p (p(k := Free))"

inductive_cases lifecycle_stepE: "lifecycle_step p q"

section \<open>The abstraction\<close>

fun status_phase :: "job_status \<Rightarrow> phase" where
  "status_phase PENDING = Queued"
| "status_phase RUNNING = Busy"
| "status_phase _ = Free"

definition pr_phase :: "database \<Rightarrow> string \<times> int \<Rightarrow> phase" where
  "pr_phase d k =
     (case find (\<lambda>j. job_key j = k \<and> active j) (jobs d) of
        None \<Rightarrow> Free | Some j \<Rightarrow> status_phase (job_status j))"

lemma status_phase_Free: "status_phase (job_status j) = Free \<longleftrightarrow> \<not> active j"
  by (cases "job_status j") (simp_all add: active_iff)

lemma pr_phase_Free: "pr_phase d k = Free \<longleftrightarrow> (\<forall>j \<in> set (jobs d). job_key j = k \<longrightarrow> \<not> active j)"
proof (cases "find (\<lambda>j. job_key j = k \<and> active j) (jobs d)")
  case None
  then have "pr_phase d k = Free" by (simp add: pr_phase_def)
  moreover have "\<forall>j \<in> set (jobs d). job_key j = k \<longrightarrow> \<not> active j" using None by (auto simp: find_None_iff)
  ultimately show ?thesis by blast
next
  case (Some j)
  then show ?thesis using find_Some_mem [OF Some] by (auto simp: pr_phase_def status_phase_Free)
qed

lemma pr_phase_active:
  assumes "store_ok d" "j \<in> set (jobs d)" "active j"
  shows "pr_phase d (job_key j) = status_phase (job_status j)"
proof (cases "find (\<lambda>i. job_key i = job_key j \<and> active i) (jobs d)")
  case None
  then show ?thesis using assms(2,3) by (auto simp: find_None_iff)
next
  case (Some i)
  then have "i = j" using find_Some_mem [OF Some] one_active_job [OF assms(1) _ assms(2) _ assms(3)] by blast
  with Some show ?thesis by (simp add: pr_phase_def)
qed

text \<open>A database whose jobs are the same has the same phases; one in which an unfinished job changed
  differs at the PR of the job.\<close>

lemma pr_phase_eqI:
  assumes "store_ok d" "store_ok d'"
    and "\<And>j. active j \<Longrightarrow> job_key j = k \<Longrightarrow> j \<in> set (jobs d') \<longleftrightarrow> j \<in> set (jobs d)"
  shows "pr_phase d' k = pr_phase d k"
proof (cases "\<exists>j \<in> set (jobs d). active j \<and> job_key j = k")
  case True
  then obtain j where "j \<in> set (jobs d)" "active j" "job_key j = k" by blast
  then show ?thesis using assms pr_phase_active [of _ j] by metis
next
  case False
  then have "pr_phase d k = Free" "pr_phase d' k = Free" using assms(3) by (auto simp: pr_phase_Free)
  then show ?thesis by simp
qed

lemma pr_phase_replace:
  assumes "store_ok d" "store_ok d'" "j \<in> set (jobs d)" "active j" "job_key j' = job_key j"
    and "set (jobs d') = insert j' (set (jobs d) - {j})"
  shows "pr_phase d' = (pr_phase d)(job_key j := status_phase (job_status j'))"
proof
  fix k
  show "pr_phase d' k = ((pr_phase d)(job_key j := status_phase (job_status j'))) k"
  proof (cases "k = job_key j")
    case True
    have "pr_phase d' (job_key j) = status_phase (job_status j')"
    proof (cases "active j'")
      case True
      then show ?thesis using pr_phase_active [OF assms(2), of j'] assms(5,6) by simp
    next
      case False
      have "\<not> active i" if "i \<in> set (jobs d')" "job_key i = job_key j" for i
        using that one_active_job [OF assms(1) _ assms(3) _ assms(4)] assms(6) False by auto
      then have "pr_phase d' (job_key j) = Free" by (simp add: pr_phase_Free)
      then show ?thesis using False status_phase_Free [of j'] by simp
    qed
    with True show ?thesis by simp
  next
    case False
    then have "pr_phase d' k = pr_phase d k"
      using assms(5,6) by (intro pr_phase_eqI [OF assms(1,2)]) auto
    with False show ?thesis by simp
  qed
qed

section \<open>Every step of the service\<close>

lemma pr_phase_same_jobs: "jobs d' = jobs d \<Longrightarrow> pr_phase d' = pr_phase d"
  by (simp add: pr_phase_def fun_eq_iff)

lemma lifecycle_finish:
  assumes "store_ok d" "store_ok d'" "j \<in> set (jobs d)" "job_status j = RUNNING" "st \<in> set TERMINAL_JOB_STATUSES"
    and "jobs d' = map (\<lambda>k. if job_id k = job_id j then set_status st detail err now k else k) (jobs d)"
  shows "lifecycle_step (pr_phase d) (pr_phase d')"
proof -
  have keys: "keys_ok d" and act: "active j" using assms(1,4) by (simp_all add: store_ok_def active_iff)
  have "pr_phase d' = (pr_phase d)(job_key j := status_phase st)"
    using pr_phase_replace [OF assms(1-3) act _ finish_rows [OF keys assms(3,6)]] by simp
  moreover have "status_phase st = Free" using assms(5) by (auto simp: TERMINAL_JOB_STATUSES_def)
  moreover have "pr_phase d (job_key j) = Busy" using pr_phase_active [OF assms(1,3) act] assms(4) by simp
  ultimately show ?thesis using lifecycle_step.finish by metis
qed

lemma live_step_refines:
  assumes "live_step s s'" "service_ok s"
  shows "pr_phase (sv_db s') = pr_phase (sv_db s) \<or> lifecycle_step (pr_phase (sv_db s)) (pr_phase (sv_db s'))"
proof -
  have ok: "store_ok (sv_db s)" "store_ok (sv_db s')"
    using service_ok_live_step [OF assms] assms(2) by (simp_all add: service_ok_def)
  then have keys: "keys_ok (sv_db s)" by (simp add: store_ok_def)
  from assms(1) show ?thesis
  proof cases
    case (delivery did now)
    then have "pr_phase (sv_db s') = pr_phase (sv_db s)"
      by (intro pr_phase_same_jobs) (auto simp: record_delivery_def insert_or_ignore_def)
    then show ?thesis ..
  next
    case (enqueue req now1 now2)
    show ?thesis
    proof (cases "lock_held (sv_db s) (req_key req)")
      case True
      then show ?thesis using enqueue by (simp add: enqueue_tx_cases)
    next
      case False
      let ?j = "new_job req now1 (sv_db s)"
      have jobs': "jobs (sv_db s') = jobs (sv_db s) @ [?j]" using enqueue False by (simp add: enqueue_tx_cases)
      have j: "job_key ?j = req_key req" "job_status ?j = PENDING" "active ?j" by (simp_all add: new_job_def active_iff)
      have free: "pr_phase (sv_db s) (req_key req) = Free"
        using active_holds_lock [OF ok(1)] False by (metis pr_phase_Free)
      have "pr_phase (sv_db s') = (pr_phase (sv_db s))(req_key req := Queued)"
      proof
        fix k
        show "pr_phase (sv_db s') k = ((pr_phase (sv_db s))(req_key req := Queued)) k"
          using pr_phase_active [OF ok(2), of ?j] pr_phase_eqI [OF ok, of k] j jobs' by (cases "k = req_key req") auto
      qed
      then show ?thesis using lifecycle_step.request [of "pr_phase (sv_db s)", OF free] by simp
    qed
  next
    case (claim now j d)
    from claimed_row(3,4) [OF ok(1) claim(3)] obtain row where row: "row \<in> set (jobs (sv_db s))" "job_status row = PENDING"
      "job_key row = job_key j" "set (jobs d) = insert j (set (jobs (sv_db s)) - {row})" "job_status j = RUNNING" by blast
    have act: "active row" using row(2) by (simp add: active_iff)
    have "pr_phase (sv_db s') = (pr_phase (sv_db s))(job_key row := Busy)"
      using pr_phase_replace [OF ok row(1) act row(3) [symmetric]] row(4,5) claim(1) by simp
    moreover have "pr_phase (sv_db s) (job_key row) = Queued" using pr_phase_active [OF ok(1) row(1) act] row(2) by simp
    ultimately show ?thesis using lifecycle_step.start by metis
  next
    case (persisted j r now1 now2)
    show ?thesis
      using lifecycle_finish [OF ok _ _ result_ok_terminal [OF persisted(3)], of j "detail_text (result_status_detail r)" "result_error r" now1]
        assms(2) persisted(1,2)
      by (simp add: service_ok_def jobs_persist_tx)
  next
    case (failed j detail err now)
    show ?thesis
      using lifecycle_finish [OF ok, of j FAILED "Some (status_detail_value detail)" "Some err" now] assms(2) failed
      by (simp add: service_ok_def jobs_finalize_failure_tx TERMINAL_JOB_STATUSES_def)
  next
    case (comment w k now)
    then have "pr_phase (sv_db s') = pr_phase (sv_db s)" by (intro pr_phase_same_jobs) simp
    then show ?thesis ..
  qed simp
qed

section \<open>Draining the queue\<close>

text \<open>A call that leaves the database as it is.\<close>

abbreviation quiet :: "('v world, 'a) io \<Rightarrow> bool" where
  "quiet \<equiv> io_keeps (\<lambda>w w'. world_db w' = world_db w)"

definition pending :: "database \<Rightarrow> nat" where
  "pending d = length (filter (\<lambda>j. job_status j = PENDING) (jobs d))"

text \<open>Nothing happened to a job, or it was pending and has ended.\<close>

definition settled :: "database \<Rightarrow> database \<Rightarrow> bool" where
  "settled d d' \<longleftrightarrow> list_all2 (\<lambda>j k. job_id k = job_id j \<and>
     (k = j \<or> job_status j = PENDING \<and> job_status k \<in> set TERMINAL_JOB_STATUSES)) (jobs d) (jobs d')"

lemma settled_refl: "settled d d"
  by (simp add: settled_def list.rel_refl)

lemma settled_trans: "settled d d' \<Longrightarrow> settled d' d'' \<Longrightarrow> settled d d''"
  unfolding settled_def by (rule list_all2_trans) (auto simp: TERMINAL_JOB_STATUSES_def)

lemma notify_failure_jobs:
  "\<exists>w'. notify_failure wk j msg w = (Inr (), w') \<and> jobs (world_db w') = jobs (world_db w)"
proof -
  obtain now v where now: "wk_utcnow wk (world_out w) = (now, v)" by (rule prod.exhaust)
  obtain b d where slot: "claim_slot (failure_comment_cooldown_seconds (wk_pipeline wk)) (job_key j) now (world_db w) = (b, d)"
    by (rule prod.exhaust)
  obtain r v' where post: "g_create_comment (wk_github wk) (job_installation_id j) (job_repo j) (job_pr_number j) msg v = (r, v')"
    by (rule prod.exhaust)
  have "jobs d = jobs (world_db w)"
    using claim_slot_others(1) [of "failure_comment_cooldown_seconds (wk_pipeline wk)" "job_key j" now "world_db w"] slot by simp
  then show ?thesis
    by (cases b; cases r) (simp_all add: notify_failure_def maybe_post_failure_comment_def io_defs now slot post)
qed

lemma finalize_failure_jobs:
  "\<exists>w' now. finalize_failure wk j detail err msg w = (Inr (), w') \<and>
    jobs (world_db w') = map (\<lambda>k. if job_id k = job_id j then set_status FAILED (Some (status_detail_value detail)) (Some err) now k else k) (jobs (world_db w))"
proof -
  obtain now v where now: "wk_utcnow wk (world_out w) = (now, v)" by (rule prod.exhaust)
  obtain w' where w': "notify_failure wk j msg (w\<lparr>world_out := v, world_db := finalize_failure_tx j detail err now (world_db w)\<rparr>) = (Inr (), w')"
    "jobs (world_db w') = jobs (finalize_failure_tx j detail err now (world_db w))"
    using notify_failure_jobs [of wk j msg "w\<lparr>world_out := v, world_db := finalize_failure_tx j detail err now (world_db w)\<rparr>"] by auto
  show ?thesis
    by (intro exI [of _ w'] exI [of _ now]) (simp add: finalize_failure_def io_defs now w' jobs_finalize_failure_tx)
qed

lemma persist_jobs:
  "\<exists>w' now. persist wk j r w = (Inr (), w') \<and>
    jobs (world_db w') = map (\<lambda>k. if job_id k = job_id j
      then set_status (result_status r) (detail_text (result_status_detail r)) (result_error r) now k else k) (jobs (world_db w))"
proof -
  obtain now1 v1 where now1: "wk_utcnow wk (world_out w) = (now1, v1)" by (rule prod.exhaust)
  obtain now2 v2 where now2: "posting_time wk r now1 (w\<lparr>world_out := v1\<rparr>) = (Inr now2, w\<lparr>world_out := v1, world_out := v2\<rparr>)"
    by (rule posting_time_runs)
  let ?w = "w\<lparr>world_out := v2, world_db := persist_tx j r now1 now2 (world_db w)\<rparr>"
  have run: "persist wk j r w = (case (result_status r, result_failure_message r) of
      (FAILED, Some msg) \<Rightarrow> notify_failure wk j msg | _ \<Rightarrow> io_return ()) ?w"
    by (simp add: persist_def io_defs now1 now2)
  have "\<exists>w'. persist wk j r w = (Inr (), w') \<and> jobs (world_db w') = jobs (world_db ?w)"
    unfolding run using notify_failure_jobs [of wk j _ ?w]
    by (cases "result_status r"; cases "result_failure_message r") (simp_all add: io_return_def)
  then show ?thesis by (auto simp: jobs_persist_tx)
qed

lemma process_quiet:
  assumes "quiet (reviewed wk j)" "io_yields result_ok (reviewed wk j)"
  shows "\<exists>w' st detail err now. process wk j w = (Inr (), w') \<and> st \<in> set TERMINAL_JOB_STATUSES \<and>
    jobs (world_db w') = map (\<lambda>k. if job_id k = job_id j then set_status st detail err now k else k) (jobs (world_db w))"
proof -
  obtain out w1 where run: "reviewed wk j w = (out, w1)" by (rule prod.exhaust)
  have db: "world_db w1 = world_db w" using assms(1) run unfolding io_keeps_def by (metis snd_conv)
  show ?thesis
  proof (cases out)
    case (Inl e)
    obtain detail err msg where "process wk j w = finalize_failure wk j detail err msg w1"
      using that by (cases "isinstance e TimeoutError") (simp_all add: process_def run Inl)
    moreover obtain w' now where "finalize_failure wk j detail err msg w1 = (Inr (), w')"
      "jobs (world_db w') = map (\<lambda>k. if job_id k = job_id j then set_status FAILED (Some (status_detail_value detail)) (Some err) now k else k) (jobs (world_db w))"
      using finalize_failure_jobs [of wk j detail err msg w1] unfolding db by blast
    ultimately show ?thesis
      by (intro exI [of _ w'] exI [of _ FAILED] exI [of _ "Some (status_detail_value detail)"] exI [of _ "Some err"] exI [of _ now])
        (simp add: TERMINAL_JOB_STATUSES_def)
  next
    case (Inr r)
    have "result_status r \<in> set TERMINAL_JOB_STATUSES"
      using io_yieldsD [OF assms(2) run [unfolded Inr]] by (rule result_ok_terminal)
    moreover have "process wk j w = persist wk j r w1" by (simp add: process_def run Inr)
    moreover obtain w' now where "persist wk j r w1 = (Inr (), w')"
      "jobs (world_db w') = map (\<lambda>k. if job_id k = job_id j
        then set_status (result_status r) (detail_text (result_status_detail r)) (result_error r) now k else k) (jobs (world_db w))"
      using persist_jobs [of wk j r w1] unfolding db by blast
    ultimately show ?thesis
      by (intro exI [of _ w'] exI [of _ "result_status r"] exI [of _ "detail_text (result_status_detail r)"]
          exI [of _ "result_error r"] exI [of _ now]) simp
  qed
qed

lemma length_filter_le_imp: "(\<And>x. P x \<Longrightarrow> Q x) \<Longrightarrow> length (filter P xs) \<le> length (filter Q xs)"
  by (induction xs) (auto simp: le_SucI)

lemma length_filter_less:
  assumes "\<And>x. P x \<Longrightarrow> Q x" "x \<in> set xs" "Q x" "\<not> P x"
  shows "length (filter P xs) < length (filter Q xs)"
proof -
  obtain ys zs where "xs = ys @ x # zs" using split_list [OF assms(2)] by blast
  then show ?thesis
    using length_filter_le_imp [of P Q ys, OF assms(1)] length_filter_le_imp [of P Q zs, OF assms(1)] assms(3,4) by simp
qed

text \<open>One turn of the loop with a pending job.\<close>

lemma turn_settles:
  assumes ok: "store_ok (world_db w)" and some: "pending (world_db w) \<noteq> 0"
    and reviews: "\<And>j. quiet (reviewed wk j)" "\<And>j. io_yields result_ok (reviewed wk j)"
  shows "\<exists>j w1 w2. claim_one wk w = (Inr (Some j), w1) \<and> process wk j w1 = (Inr (), w2) \<and>
    store_ok (world_db w2) \<and> settled (world_db w) (world_db w2) \<and> pending (world_db w2) < pending (world_db w)"
proof -
  let ?d = "world_db w"
  have keys: "keys_ok ?d" using ok by (simp add: store_ok_def)
  obtain now v where now: "wk_utcnow wk (world_out w) = (now, v)" by (rule prod.exhaust)
  have "next_pending ?d \<noteq> None" using some by (auto simp: next_pending_None pending_def filter_empty_conv)
  then obtain row where r: "next_pending ?d = Some row" and tx: "claim_tx now ?d =
      (Some (set_status RUNNING None None now row), update_job_status (job_id row) RUNNING None None now ?d)"
    using claim_tx_cases [OF keys, of now] by auto
  note row = next_pending_Some(1,2) [OF r]
  let ?j = "set_status RUNNING None None now row"
  let ?w1 = "w\<lparr>world_out := v, world_db := update_job_status (job_id row) RUNNING None None now ?d\<rparr>"
  have claim: "claim_one wk w = (Inr (Some ?j), ?w1)" by (simp add: claim_one_some [OF r now] in_db_def tx)
  have j: "store_ok (world_db ?w1)" "?j \<in> set (jobs (world_db ?w1))" "job_status ?j = RUNNING"
    using claimed_row(1-3) [OF ok tx] by simp_all
  obtain w2 st detail err now2 where run: "process wk ?j ?w1 = (Inr (), w2)" "st \<in> set TERMINAL_JOB_STATUSES"
    and jobs2: "jobs (world_db w2) = map (\<lambda>k. if job_id k = job_id ?j then set_status st detail err now2 k else k) (jobs (world_db ?w1))"
    using process_quiet [OF reviews(1,2), of ?j ?w1] by blast
  have "io_keeps interference (reviewed wk ?j)"
    using reviews(1) [of ?j] by (simp add: io_keeps_def interference_def)
  from process_finishes_lemma [OF j(1,2) _ refl refl this reviews(2)] j(3) run(1) have ok2: "store_ok (world_db w2)"
    by (auto simp: active_iff finished_def split: prod.splits)
  let ?fin = "\<lambda>k. if job_id k = job_id row then set_status st detail err now2 (set_status RUNNING None None now k) else k"
  have jobs_end: "jobs (world_db w2) = map ?fin (jobs ?d)"
    unfolding jobs2 by (simp add: jobs_update_job_status)
  have at_row: "k = row" if "k \<in> set (jobs ?d)" "job_id k = job_id row" for k
    using same_job_id [OF keys that(1) row(1) that(2)] .
  have "settled ?d (world_db w2)"
    unfolding settled_def jobs_end
    using at_row row(2) run(2) by (auto simp: list_all2_conv_all_nth dest: nth_mem)
  moreover have "pending (world_db w2) = length (filter (\<lambda>k. job_status k = PENDING \<and> job_id k \<noteq> job_id row) (jobs ?d))"
  proof -
    have "st \<noteq> PENDING" using run(2) by (auto simp: TERMINAL_JOB_STATUSES_def)
    then have "(\<lambda>k. job_status (?fin k) = PENDING) = (\<lambda>k. job_status k = PENDING \<and> job_id k \<noteq> job_id row)" by auto
    then show ?thesis by (simp add: pending_def jobs_end filter_map comp_def)
  qed
  moreover have "\<dots> < pending ?d" unfolding pending_def by (rule length_filter_less [OF _ row(1)]) (use row(2) in auto)
  ultimately show ?thesis using claim run(1) ok2 by auto
qed

lemma turn_without_job:
  assumes "pending (world_db w) = 0"
  shows "claim_one wk w = (Inr None, w)"
  by (rule claim_one_none) (use assms in \<open>auto simp: next_pending_None pending_def filter_empty_conv\<close>)

lemma run_turns_drains:
  assumes "store_ok (world_db w)" "pending (world_db w) \<le> n" "\<And>w. \<not> stopped w"
    and reviews: "\<And>j. quiet (reviewed wk j)" "\<And>j. io_yields result_ok (reviewed wk j)"
    and idle: "\<And>w. \<exists>w'. idle w = (Inr (), w') \<and> world_db w' = world_db w"
  shows "\<exists>w'. run_turns n wk stopped idle w = (Inr (), w') \<and> store_ok (world_db w') \<and>
    pending (world_db w') = 0 \<and> settled (world_db w) (world_db w')"
  using assms(1,2)
proof (induction n arbitrary: w)
  case 0
  then show ?case by (simp add: io_return_def settled_refl)
next
  case (Suc n)
  show ?case
  proof (cases "pending (world_db w) = 0")
    case True
    note w1 = turn_without_job [OF this, of wk]
    obtain w2 where w2: "idle w = (Inr (), w2)" "world_db w2 = world_db w" using idle [of w] by blast
    have "run_turns (Suc n) wk stopped idle w = run_turns n wk stopped idle w2"
      using assms(3) w1 w2(1) by (simp add: io_bind_def)
    moreover have "store_ok (world_db w2)" "pending (world_db w2) \<le> n" using Suc.prems(1) True w2(2) by simp_all
    ultimately show ?thesis using Suc.IH [of w2] w2(2) by simp
  next
    case False
    from turn_settles [OF Suc.prems(1) this reviews] obtain j w1 w2 where
      run: "claim_one wk w = (Inr (Some j), w1)" "process wk j w1 = (Inr (), w2)" and ok: "store_ok (world_db w2)"
      and settled: "settled (world_db w) (world_db w2)" and less: "pending (world_db w2) < pending (world_db w)" by blast
    have "run_turns (Suc n) wk stopped idle w = run_turns n wk stopped idle w2"
      using assms(3) run by (simp add: io_bind_def)
    moreover have "pending (world_db w2) \<le> n" using less Suc.prems(2) by simp
    ultimately show ?thesis using Suc.IH [OF ok] settled_trans [OF settled] by fastforce
  qed
qed

lemma quiet_review_worker: "quiet (reviewed (review_worker rv late) j)"
  by (auto simp: io_keeps_def reviewed_def wait_for_def review_worker_def in_out_def split: prod.splits option.splits)

section \<open>Properties\<close>

text \<open>C2: the service implements the machine of the three phases. After any run of webhooks, worker and
  restarts, a further step leaves every PR in its phase or is one step of the machine, for one PR:
  free to queued, queued to busy, busy to free. And the lock of a PR is held exactly while it is not
  free.\<close>

theorem service_refines_lifecycle:
  assumes "service_step\<^sup>*\<^sup>* (service_start empty_database) s" "service_step s s'"
  shows "(pr_phase (sv_db s') = pr_phase (sv_db s) \<or> lifecycle_step (pr_phase (sv_db s)) (pr_phase (sv_db s'))) \<and>
    (\<forall>k. lock_held (sv_db s) k \<longleftrightarrow> pr_phase (sv_db s) k \<noteq> Free) \<and>
    pr_phase (sv_db (service_start empty_database)) = (\<lambda>_. Free)"
proof -
  have ok: "service_ok s"
    by (rule service_inv.steps_keep [OF assms(1) service_ok_start [OF store_ok_empty]])
  then have store: "store_ok (sv_db s)" by (simp add: service_ok_def)
  from assms(2) have "pr_phase (sv_db s') = pr_phase (sv_db s) \<or> lifecycle_step (pr_phase (sv_db s)) (pr_phase (sv_db s'))"
    by (rule service_stepE) (use live_step_refines ok in auto)
  moreover have "lock_held (sv_db s) k \<longleftrightarrow> pr_phase (sv_db s) k \<noteq> Free" for k
    using active_holds_lock [OF store] store by (auto simp: pr_phase_Free store_ok_def locks_ok_def)
  ultimately show ?thesis by (auto simp: service_start_def pr_phase_def empty_database_def)
qed

theorem service_refines_lifecycle_witness:
  "\<exists>s'. service_step sample_service s' \<and>
    (pr_phase (sv_db s') = pr_phase (sv_db sample_service) \<or>
     lifecycle_step (pr_phase (sv_db sample_service)) (pr_phase (sv_db s'))) \<and>
    pr_phase (sv_db sample_service) (''o/r'', 1) \<noteq> Free"
proof -
  have step: "service_step sample_service (sample_service\<lparr>sv_running := None, sv_checked := []\<rparr>)" by (rule restart)
  have "lock_held (sv_db sample_service) (''o/r'', 1)" by (simp add: sample_service_def sample_running_eval)
  then show ?thesis using service_refines_lifecycle [OF sample_run_service step] step by blast
qed

end
