(* ===== verification/EndToEnd.thy ===== *)
theory EndToEnd
  imports Lifecycle
begin

text \<open>
  The program from end to end: a delivery of GitHub comes in at the endpoint, its handler enqueues a
  review, the worker takes it up, the reviewer posts it, and the outcome is recorded. The steps are
  the definitions of the components, run one after the other on one world.
\<close>

section \<open>Deliveries\<close>

text \<open>A delivery that passes the checks of the endpoint, and the event that is parsed from it.\<close>

definition signed_delivery ::
  "webhook_lib \<Rightarrow> string \<Rightarrow> webhook_request \<Rightarrow> string \<Rightarrow> string \<Rightarrow> webhook_event \<Rightarrow> bool" where
  "signed_delivery lib secret r did etype event \<longleftrightarrow>
     (case header_content_length r of None \<Rightarrow> True
      | Some s \<Rightarrow> (case parse_int s of None \<Rightarrow> False | Some n \<Rightarrow> n \<le> int MAX_BODY_BYTES)) \<and>
     length (request_body r) \<le> MAX_BODY_BYTES \<and>
     header_event r = Some etype \<and> header_delivery r = Some did \<and>
     (case header_signature r of None \<Rightarrow> False | Some sig \<Rightarrow> verify_signature lib secret (request_body r) sig) \<and>
     parse_webhook lib etype (request_body r) = Inr event"

definition pr_request :: "pull_request_event \<Rightarrow> enqueue_request" where
  "pr_request e =
     \<lparr>req_installation_id = pe_installation_id e, req_repo = pe_repo e, req_pr_number = pe_number e,
      req_head_sha = pe_head_sha e, req_trigger_kind = AUTO, req_extra_context = None\<rparr>"

section \<open>Lemmas\<close>

text \<open>The endpoint after its checks: the delivery is recorded and, when it is new, dispatched.\<close>

lemma process_webhook_signed:
  assumes "verify_signature lib secret body sig" "parse_webhook lib etype body = Inr event"
    and "h_utcnow h (world_out w) = (now, v)" "record_delivery did now (world_db w) = (is_new, d)"
  shows "process_webhook lib h secret body (Some etype) (Some did) (Some sig) w =
    (if is_new then io_bind (dispatch h etype event) (\<lambda>_. io_return True) else io_return False)
      (w\<lparr>world_out := v, world_db := d\<rparr>)"
proof -
  have parsed: "io_try (io_result (parse_webhook lib etype body)) c = io_return event" for c
    by (simp add: assms(2) io_defs)
  show ?thesis
    unfolding process_webhook_def option.case parsed io_bind_return
    using assms by (simp add: io_bind_def in_out_def in_db_def io_total_def)
qed

lemma webhook_endpoint_signed:
  assumes "signed_delivery lib secret r did etype event" "h_utcnow h (world_out w) = (now, v)"
    and "record_delivery did now (world_db w) = (is_new, d)"
  shows "webhook_endpoint lib h secret r w =
    (if is_new
     then io_try (io_bind (dispatch h etype event) (\<lambda>_. io_return 200))
       (\<lambda>e. if isinstance e WebhookAuthError then io_return 401
            else if isinstance e WebhookBadRequest then io_return 400 else io_raise e)
     else io_return 202) (w\<lparr>world_out := v, world_db := d\<rparr>)"
proof -
  obtain sig where r: "header_event r = Some etype" "header_delivery r = Some did" "header_signature r = Some sig"
    "verify_signature lib secret (request_body r) sig" "parse_webhook lib etype (request_body r) = Inr event"
    "length (request_body r) \<le> MAX_BODY_BYTES"
    and len: "map_option parse_int (header_content_length r) \<noteq> Some None"
    "\<not> (case map_option parse_int (header_content_length r) of Some (Some n) \<Rightarrow> int MAX_BODY_BYTES < n | _ \<Rightarrow> False)"
    using assms(1) by (auto simp: signed_delivery_def split: option.splits)
  note run = process_webhook_signed [OF r(4,5) assms(2,3)]
  show ?thesis
    using len r(6)
    by (simp add: webhook_endpoint_def r(1-3) Let_def io_try_def io_bind_def run io_return_def)
      (auto simp: io_bind_def io_return_def split: prod.splits sum.splits)
qed

text \<open>The handler of an event has a request enqueued, whatever the world is, when its PR is free.\<close>

definition enqueues :: "('v world, unit) io \<Rightarrow> enqueue_request \<Rightarrow> bool" where
  "enqueues m req \<longleftrightarrow> (\<forall>w. \<not> lock_held (world_db w) (req_key req) \<longrightarrow>
     (\<exists>now1 now2 v. m w = (Inr (), w\<lparr>world_out := v, world_db := snd (enqueue_tx req now1 now2 (world_db w))\<rparr>)))"

lemma handler_enqueue_enqueues: "enqueues (io_bind (handler_enqueue h req) (\<lambda>_. io_return ())) req"
  unfolding enqueues_def
proof (intro allI impI)
  fix w :: "'a world"
  assume "\<not> lock_held (world_db w) (req_key req)"
  then have "enqueue_allowed req (session_open (world_db w))"
    by (simp add: enqueue_allowed_def session_open_def fetch_lock_None)
  moreover obtain now1 v1 where "h_utcnow h (world_out w) = (now1, v1)" by (rule prod.exhaust)
  moreover obtain now2 v2 where "h_utcnow h v1 = (now2, v2)" by (rule prod.exhaust)
  ultimately show "\<exists>now1 now2 v. io_bind (handler_enqueue h req) (\<lambda>_. io_return ()) w =
      (Inr (), w\<lparr>world_out := v, world_db := snd (enqueue_tx req now1 now2 (world_db w))\<rparr>)"
    by (intro exI [of _ now1] exI [of _ now2] exI [of _ v2])
      (auto simp: handler_enqueue_def io_defs split: prod.splits)
qed

lemma on_pull_request_enqueues:
  assumes "pe_action e = Some ''opened'' \<or> pe_action e = Some ''ready_for_review''" "\<not> pe_draft e"
  shows "enqueues (on_pull_request h e) (pr_request e)"
  using assms handler_enqueue_enqueues [of h "pr_request e"]
  by (auto simp: on_pull_request_def AUTO_TRIGGER_ACTIONS_def pr_request_def)

text \<open>Calls that answer, at any time.\<close>

definition answers :: "('v, 'a) io \<Rightarrow> 'a \<Rightarrow> bool" where
  "answers m a \<longleftrightarrow> (\<forall>v. \<exists>v'. m v = (Inr a, v'))"

lemma enqueues_after:
  assumes "answers m a" "enqueues (f a) req"
  shows "enqueues (io_bind (in_out m) f) req"
  unfolding enqueues_def
proof (intro allI impI)
  fix w :: "'a world"
  assume "\<not> lock_held (world_db w) (req_key req)"
  moreover obtain v where m: "m (world_out w) = (Inr a, v)" using assms(1) by (auto simp: answers_def)
  ultimately obtain now1 now2 u where "f a (w\<lparr>world_out := v\<rparr>) =
      (Inr (), w\<lparr>world_out := v, world_out := u, world_db := snd (enqueue_tx req now1 now2 (world_db (w\<lparr>world_out := v\<rparr>)))\<rparr>)"
    using assms(2) [unfolded enqueues_def, rule_format, of "w\<lparr>world_out := v\<rparr>"] by auto
  then have "io_bind (in_out m) f w = (Inr (), w\<lparr>world_out := u, world_db := snd (enqueue_tx req now1 now2 (world_db w))\<rparr>)"
    by (simp add: io_bind_def in_out_def m)
  then show "\<exists>now1 now2 v. io_bind (in_out m) f w =
      (Inr (), w\<lparr>world_out := v, world_db := snd (enqueue_tx req now1 now2 (world_db w))\<rparr>)" by blast
qed

text \<open>A command on an open PR, by someone who may give it, in a repository where reviews are enabled.\<close>

definition accepted_command ::
  "('v, 'y) handler \<Rightarrow> issue_comment_event \<Rightarrow> pr_info \<Rightarrow> parsed_trigger \<Rightarrow> bool" where
  "accepted_command h e pr parsed \<longleftrightarrow>
     ce_action e = Some ''created'' \<and> ce_on_pull_request e \<and> ce_sender_login e \<noteq> h_bot_login h \<and>
     parse_trigger (ce_body e) = Some parsed \<and>
     answers (g_get_pr (h_client h) (ce_installation_id e) (ce_repo e) (ce_issue_number e)) pr \<and>
     (\<exists>cfg. answers (load_repo_config (handler_loader h (ce_installation_id e)) (ce_repo e) (info_base_ref pr)
         (ce_default_branch e)) cfg \<and> config_enabled cfg \<and>
       is_authorized (ce_sender_login e) (case ce_author_association e of Some a \<Rightarrow> a | None \<Rightarrow> []) cfg) \<and>
     answers (g_react_to_comment (h_client h) (ce_installation_id e) (ce_repo e) (ce_comment_id e) ''eyes'') ()"

lemma on_issue_comment_enqueues:
  assumes "accepted_command h e pr parsed"
  shows "enqueues (on_issue_comment h e) (comment_request e pr parsed)"
proof -
  obtain cfg where cfg: "answers (load_repo_config (handler_loader h (ce_installation_id e)) (ce_repo e)
      (info_base_ref pr) (ce_default_branch e)) cfg" "config_enabled cfg"
    "is_authorized (ce_sender_login e) (case ce_author_association e of Some a \<Rightarrow> a | None \<Rightarrow> []) cfg"
    using assms by (auto simp: accepted_command_def)
  have e: "ce_action e = Some ''created''" "ce_on_pull_request e" "ce_sender_login e \<noteq> h_bot_login h"
    "parse_trigger (ce_body e) = Some parsed"
    "answers (g_get_pr (h_client h) (ce_installation_id e) (ce_repo e) (ce_issue_number e)) pr"
    "answers (g_react_to_comment (h_client h) (ce_installation_id e) (ce_repo e) (ce_comment_id e) ''eyes'') ()"
    using assms by (auto simp: accepted_command_def)
  show ?thesis
    unfolding on_issue_comment_def
    by (simp only: e(1-4) not_True_eq_False if_False option.case simp_thms)
      (intro enqueues_after [OF e(5)] enqueues_after [OF cfg(1)],
       simp only: cfg(2,3) not_True_eq_False if_False,
       intro enqueues_after [OF e(6)] handler_enqueue_enqueues)
qed

text \<open>A review that is accepted at the first attempt.\<close>

lemma run_review_posts:
  assumes "retry_contract slept (rv_retrying rv)"
    and "prepare rv j False w = (Inr rendered, w1)" "early_result rendered = None" "rendered_body rendered = Some body"
    and "g_create_review (rv_github rv) (job_installation_id j) (job_repo j) (job_pr_number j) body w1 = (Inr rid, w2)"
  shows "run_review rv j w =
    (Inr ((posted_result rendered DONE (rendered_status_detail rendered))\<lparr>result_review_id := Some rid\<rparr>), w2)"
proof -
  have "rv_retrying rv (ExponentialJitter 1) 3 (\<lambda>e. isinstance e GitHubTransientError)
      (g_create_review (rv_github rv) (job_installation_id j) (job_repo j) (job_pr_number j) body) w1 =
      (map_sum id Some (Inr rid), w2)"
    by (rule retry_at_once [OF assms(1)]) (simp, rule assms(5), simp)
  then have "post_with_retry rv (job_installation_id j) (job_repo j) (job_pr_number j) body w1 = (Inr rid, w2)"
    by (simp add: post_with_retry_def io_bind_def io_return_def)
  then show ?thesis using assms(2-4) by (simp add: run_review_def io_defs)
qed

lemma next_pending_only:
  assumes "jobs d = js @ [j]" "job_status j = PENDING" "filter (\<lambda>j. job_status j = PENDING) js = []"
  shows "next_pending d = Some j"
  using assms by (simp add: next_pending_def)

text \<open>Taking up and finishing the only pending job.\<close>

lemma process_one_posts:
  assumes "store_ok (world_db w)" "jobs (world_db w) = js @ [j]" "job_status j = PENDING"
    and "filter (\<lambda>j. job_status j = PENDING) js = []"
    and run: "\<And>now v. \<exists>result v'. run_review rv (set_status RUNNING None None now j) v = (Inr result, v') \<and>
      result_status result = DONE \<and> result_review_id result = Some rid"
  shows "\<exists>w' j' p. process_one (review_worker rv (\<lambda>_. None)) w = (Inr True, w') \<and>
    jobs (world_db w') = js @ [j'] \<and> job_id j' = job_id j \<and> job_key j' = job_key j \<and> job_status j' = DONE \<and>
    job_extra_context j' = job_extra_context j \<and> reviews_posted (world_db w') = reviews_posted (world_db w) @ [p] \<and> posted_repo p = job_repo j \<and>
    posted_pr_number p = job_pr_number j \<and> posted_head_sha p = job_head_sha j \<and> posted_review_id p = rid \<and>
    pr_locks (world_db w') = filter (\<lambda>l. lock_key l \<noteq> job_key j) (pr_locks (world_db w)) \<and>
    deliveries (world_db w') = deliveries (world_db w)"
proof -
  let ?d = "world_db w"
  have keys: "keys_ok ?d" using assms(1) by (simp add: store_ok_def)
  then have ids: "job_id k \<noteq> job_id j" if "k \<in> set js" for k
    using that assms(2) by (auto simp: keys_ok_def image_iff)
  obtain now v where now: "rv_utcnow rv (world_out w) = (now, v)" by (rule prod.exhaust)
  let ?j = "set_status RUNNING None None now j"
  have pending: "next_pending ?d = Some j" by (rule next_pending_only [OF assms(2-4)])
  then have claim: "claim_tx now ?d = (Some ?j, update_job_status (job_id j) RUNNING None None now ?d)"
    using claim_tx_cases [OF keys, of now] by auto
  obtain result v1 where result: "run_review rv ?j v = (Inr result, v1)" "result_status result = DONE"
    "result_review_id result = Some rid" using run [of now v] by blast
  obtain now1 v2 where now1: "rv_utcnow rv v1 = (now1, v2)" by (rule prod.exhaust)
  obtain now2 v3 where now2: "rv_utcnow rv v2 = (now2, v3)" by (rule prod.exhaust)
  let ?d1 = "update_job_status (job_id j) RUNNING None None now ?d"
  let ?w = "w\<lparr>world_out := v3, world_db := persist_tx ?j result now1 now2 ?d1\<rparr>"
  have step: "process_one (review_worker rv (\<lambda>_. None)) w = (Inr True, ?w)"
    by (simp add: process_one_def claim_one_def process_def reviewed_def wait_for_def review_worker_def persist_def
        posting_time_def io_defs pending now claim result now1 now2)
  have jobs1: "jobs ?d1 = js @ [?j]" using ids by (simp add: jobs_update_job_status assms(2) map_idI)
  have "jobs (world_db ?w) = js @ [set_status DONE (detail_text (result_status_detail result)) (result_error result) now1 ?j]"
    using ids by (simp add: jobs_persist_tx jobs1 result(2) map_idI)
  moreover have "deliveries (world_db ?w) = deliveries ?d"
    "pr_locks (world_db ?w) = filter (\<lambda>l. lock_key l \<noteq> job_key j) (pr_locks ?d)"
    by (simp_all add: persist_tx_def result(3) Let_def release_lock_def record_review_posted_def)
  moreover define p where "p = \<lparr>posted_id = fresh_id (map posted_id (reviews_posted ?d)),
    posted_repo = job_repo j, posted_pr_number = job_pr_number j, posted_head_sha = job_head_sha j, posted_review_id = rid,
    posted_posted_at = now2, posted_duration_ms = py_int (result_duration_seconds result * 1000),
    posted_chunk_count = int (result_chunk_count result)\<rparr>"
  have "reviews_posted (world_db ?w) = reviews_posted ?d @ [p]"
    by (simp add: p_def persist_tx_def result(3) Let_def release_lock_def record_review_posted_def set_status_def)
  ultimately show ?thesis
    using step
    by (intro exI [of _ ?w] exI [of _ p] exI [of _ "set_status DONE (detail_text (result_status_detail result)) (result_error result) now1 ?j"])
      (simp add: p_def set_status_def)
qed

text \<open>Whenever the job is run, a review is written and GitHub accepts it under the given id.\<close>

definition review_accepted :: "('v, 'y) reviewer \<Rightarrow> int \<Rightarrow> job \<Rightarrow> bool" where
  "review_accepted rv rid j \<longleftrightarrow> (\<forall>v. \<exists>rendered body v1 v2.
     prepare rv j False v = (Inr rendered, v1) \<and> early_result rendered = None \<and> rendered_body rendered = Some body \<and>
     g_create_review (rv_github rv) (job_installation_id j) (job_repo j) (job_pr_number j) body v1 = (Inr rid, v2))"

lemma review_accepted_run:
  assumes "retry_contract slept (rv_retrying rv)" "review_accepted rv rid j"
  shows "\<exists>result v'. run_review rv j v = (Inr result, v') \<and> result_status result = DONE \<and> result_review_id result = Some rid"
proof -
  obtain rendered body v1 v2 where "prepare rv j False v = (Inr rendered, v1)" "early_result rendered = None"
    "rendered_body rendered = Some body"
    "g_create_review (rv_github rv) (job_installation_id j) (job_repo j) (job_pr_number j) body v1 = (Inr rid, v2)"
    using assms(2) unfolding review_accepted_def by blast
  from run_review_posts [OF assms(1) this] show ?thesis by (simp add: posted_result_def plain_result_def)
qed

text \<open>The endpoint for a new delivery: the delivery is recorded and the request enqueued.\<close>

lemma webhook_endpoint_enqueues:
  assumes "signed_delivery lib secret r did etype event" "did \<notin> delivery_id ` set (deliveries (world_db w))"
    and "enqueues (dispatch h etype event) req" "\<not> lock_held (world_db w) (req_key req)"
  shows "\<exists>now now1 now2 v. webhook_endpoint lib h secret r w =
    (Inr 200, w\<lparr>world_out := v, world_db := snd (enqueue_tx req now1 now2 (snd (record_delivery did now (world_db w))))\<rparr>)"
proof -
  obtain now v where now: "h_utcnow h (world_out w) = (now, v)" by (rule prod.exhaust)
  let ?d = "snd (record_delivery did now (world_db w))"
  have recorded: "record_delivery did now (world_db w) = (True, ?d)"
    using assms(2) fst_record_delivery [of did now "world_db w"] by (metis prod.collapse)
  have "pr_locks ?d = pr_locks (world_db w)" by (auto simp: record_delivery_def insert_or_ignore_def)
  then have "\<not> lock_held (world_db (w\<lparr>world_out := v, world_db := ?d\<rparr>)) (req_key req)" using assms(4) by simp
  then obtain now1 now2 v' where "dispatch h etype event (w\<lparr>world_out := v, world_db := ?d\<rparr>) =
      (Inr (), w\<lparr>world_out := v', world_db := snd (enqueue_tx req now1 now2 ?d)\<rparr>)"
    using assms(3) unfolding enqueues_def by fastforce
  then show ?thesis
    using webhook_endpoint_signed [OF assms(1) now recorded]
    by (intro exI [of _ now] exI [of _ now1] exI [of _ now2] exI [of _ v']) (simp add: io_defs)
qed

lemma webhook_endpoint_again:
  assumes "signed_delivery lib secret r did etype event" "did \<in> delivery_id ` set (deliveries (world_db w))"
  shows "\<exists>w'. webhook_endpoint lib h secret r w = (Inr 202, w') \<and> world_db w' = world_db w"
proof -
  obtain now v where now: "h_utcnow h (world_out w) = (now, v)" by (rule prod.exhaust)
  have "record_delivery did now (world_db w) = (False, world_db w)" by (rule dedup.put_again [OF assms(2)])
  from webhook_endpoint_signed [OF assms(1) now this] show ?thesis by (simp add: io_return_def)
qed

text \<open>
  From \<open>d\<close> to \<open>d'\<close> a job of the PR has come and is done, its review of the commit \<open>sha\<close> is recorded under
  the id \<open>rid\<close>, and no lock is left behind.
\<close>

definition reviewed_by :: "database \<Rightarrow> string \<times> int \<Rightarrow> string \<Rightarrow> string option \<Rightarrow> int \<Rightarrow> database \<Rightarrow> bool" where
  "reviewed_by d pr sha extra rid d' \<longleftrightarrow> (\<exists>j p. jobs d' = jobs d @ [j] \<and> job_key j = pr \<and> job_status j = DONE \<and>
     job_extra_context j = extra \<and>
     reviews_posted d' = reviews_posted d @ [p] \<and> (posted_repo p, posted_pr_number p) = pr \<and>
     posted_head_sha p = sha \<and> posted_review_id p = rid \<and> pr_locks d' = pr_locks d)"

text \<open>GitHub accepts the review of the commit, for whatever job it is made.\<close>

definition review_posted_for :: "('v, 'y) reviewer \<Rightarrow> int \<Rightarrow> string \<times> int \<Rightarrow> string \<Rightarrow> string option \<Rightarrow> bool" where
  "review_posted_for rv rid pr sha extra \<longleftrightarrow> (\<forall>j. job_key j = pr \<longrightarrow> job_head_sha j = sha \<longrightarrow>
     job_extra_context j = extra \<longrightarrow> review_accepted rv rid j)"

lemma enqueued_after_delivery:
  fixes d :: database and did :: string and now now1 now2 :: int
  assumes "store_ok d" "\<not> lock_held d (req_key req)"
  defines "d1 \<equiv> snd (record_delivery did now d)"
  defines "d2 \<equiv> snd (enqueue_tx req now1 now2 d1)"
  shows "jobs d2 = jobs d @ [new_job req now1 d1]" "pr_locks d2 = pr_locks d @ [new_lock req now2 d1]"
    "reviews_posted d2 = reviews_posted d" "did \<in> delivery_id ` set (deliveries d2)" "store_ok d2"
proof -
  have d1: "jobs d1 = jobs d" "pr_locks d1 = pr_locks d" "reviews_posted d1 = reviews_posted d"
    "delivery_id ` set (deliveries d1) = insert did (delivery_id ` set (deliveries d))" "store_ok d1"
    using deliveries_record_delivery store_ok_record_delivery [OF assms(1)]
    by (auto simp: d1_def record_delivery_def insert_or_ignore_def split: if_splits)
  then have "\<not> lock_held d1 (req_key req)" using assms(2) by simp
  then show "jobs d2 = jobs d @ [new_job req now1 d1]" "pr_locks d2 = pr_locks d @ [new_lock req now2 d1]"
    "reviews_posted d2 = reviews_posted d" "did \<in> delivery_id ` set (deliveries d2)"
    by (simp_all add: d2_def enqueue_tx_cases d1)
  show "store_ok d2" unfolding d2_def by (rule store_ok_enqueue_tx [OF d1(5)])
qed

lemma enqueued_request_is_reviewed:
  fixes w :: "'v world" and now now1 now2 :: int and did :: string and v :: 'v
  assumes "store_ok (world_db w)" "pending (world_db w) = 0" "\<not> lock_held (world_db w) (req_key req)"
    and "retry_contract slept (rv_retrying rv)" "review_posted_for rv rid (req_key req) (req_head_sha req) (req_extra_context req)"
  defines "d1 \<equiv> snd (record_delivery did now (world_db w))"
  defines "w1 \<equiv> w\<lparr>world_out := v, world_db := snd (enqueue_tx req now1 now2 d1)\<rparr>"
  shows "\<exists>w2. process_one (review_worker rv (\<lambda>_. None)) w1 = (Inr True, w2) \<and>
    reviewed_by (world_db w) (req_key req) (req_head_sha req) (req_extra_context req) rid (world_db w2) \<and> did \<in> delivery_id ` set (deliveries (world_db w2))"
proof -
  let ?d = "world_db w" and ?j = "new_job req now1 d1"
  note d2 = enqueued_after_delivery [OF assms(1,3), where did = did and now = now and ?now1.0 = now1 and ?now2.0 = now2,
      folded d1_def]
  have j: "job_status ?j = PENDING" "job_key ?j = req_key req" "job_head_sha ?j = req_head_sha req"
    "job_extra_context ?j = req_extra_context req" "job_repo ?j = req_repo req" "job_pr_number ?j = req_pr_number req"
    by (simp_all add: new_job_def)
  have idle: "filter (\<lambda>j. job_status j = PENDING) (jobs ?d) = []" using assms(2) by (simp add: pending_def)
  have "review_accepted rv rid (set_status RUNNING None None t ?j)" for t
    using assms(5) j by (simp add: review_posted_for_def set_status_def)
  then have run: "\<exists>result v'. run_review rv (set_status RUNNING None None t ?j) u = (Inr result, v') \<and>
      result_status result = DONE \<and> result_review_id result = Some rid" for t u
    by (rule review_accepted_run [OF assms(4)])
  have "store_ok (world_db w1)" "jobs (world_db w1) = jobs ?d @ [?j]" using d2(1,5) by (simp_all add: w1_def)
  from process_one_posts [OF this j(1) idle run] obtain w2 j' p where
    step: "process_one (review_worker rv (\<lambda>_. None)) w1 = (Inr True, w2)" and
    w2: "jobs (world_db w2) = jobs ?d @ [j']" "job_key j' = job_key ?j" "job_status j' = DONE"
      "job_extra_context j' = job_extra_context ?j"
      "reviews_posted (world_db w2) = reviews_posted (world_db w1) @ [p]" "posted_repo p = job_repo ?j"
      "posted_pr_number p = job_pr_number ?j" "posted_head_sha p = job_head_sha ?j" "posted_review_id p = rid"
      "pr_locks (world_db w2) = filter (\<lambda>l. lock_key l \<noteq> job_key ?j) (pr_locks (world_db w1))"
      "deliveries (world_db w2) = deliveries (world_db w1)" by blast
  have "filter (\<lambda>l. lock_key l \<noteq> req_key req) (pr_locks ?d) = pr_locks ?d"
    using assms(3) by (auto simp: filter_id_conv image_iff)
  then have "pr_locks (world_db w2) = pr_locks ?d" using w2(10) j(2) d2(2) by (simp add: w1_def new_lock_def)
  then have "reviewed_by ?d (req_key req) (req_head_sha req) (req_extra_context req) rid (world_db w2)"
    unfolding reviewed_by_def using w2 j d2(3) by (intro exI [of _ j'] exI [of _ p]) (simp add: w1_def)
  moreover have "did \<in> delivery_id ` set (deliveries (world_db w2))" using w2(11) d2(4) by (simp add: w1_def)
  ultimately show ?thesis using step by blast
qed

text \<open>Endpoint, worker, and the endpoint once more.\<close>

lemma delivery_is_reviewed:
  assumes "store_ok (world_db w)" "pending (world_db w) = 0" "\<not> lock_held (world_db w) (req_key req)"
    and "signed_delivery lib secret r did etype event" "did \<notin> delivery_id ` set (deliveries (world_db w))"
    and "enqueues (dispatch h etype event) req"
    and "retry_contract slept (rv_retrying rv)" "review_posted_for rv rid (req_key req) (req_head_sha req) (req_extra_context req)"
  shows "\<exists>w1 w2 w3. webhook_endpoint lib h secret r w = (Inr 200, w1) \<and>
    process_one (review_worker rv (\<lambda>_. None)) w1 = (Inr True, w2) \<and> reviewed_by (world_db w) (req_key req) (req_head_sha req) (req_extra_context req) rid (world_db w2) \<and>
    webhook_endpoint lib h secret r w2 = (Inr 202, w3) \<and> world_db w3 = world_db w2"
proof -
  obtain now now1 now2 v where endpoint: "webhook_endpoint lib h secret r w =
      (Inr 200, w\<lparr>world_out := v, world_db := snd (enqueue_tx req now1 now2 (snd (record_delivery did now (world_db w))))\<rparr>)"
    using webhook_endpoint_enqueues [OF assms(4-6,3)] by blast
  from enqueued_request_is_reviewed [OF assms(1-3,7,8)] obtain w2 where
    step: "process_one (review_worker rv (\<lambda>_. None))
      (w\<lparr>world_out := v, world_db := snd (enqueue_tx req now1 now2 (snd (record_delivery did now (world_db w))))\<rparr>) =
      (Inr True, w2)" "reviewed_by (world_db w) (req_key req) (req_head_sha req) (req_extra_context req) rid (world_db w2)" "did \<in> delivery_id ` set (deliveries (world_db w2))"
    by blast
  obtain w3 where "webhook_endpoint lib h secret r w2 = (Inr 202, w3)" "world_db w3 = world_db w2"
    using webhook_endpoint_again [OF assms(4) step(3)] by blast
  then show ?thesis using endpoint step(1,2) by blast
qed

section \<open>Properties\<close>

text \<open>C3: a PR that is opened gets its review. When GitHub delivers the event of a PR that is no draft and
  has no review under way, with a valid signature and a new delivery id, and the queue is empty, then
  the endpoint answers 200; one turn of the worker takes up the job of the PR and ends it as done; the
  id under which GitHub took the review is recorded with the commit of the event; and the locks are
  those from before. The same delivery sent once more is answered 202 and changes nothing.\<close>

theorem opened_pr_is_reviewed:
  assumes "store_ok (world_db w)" "pending (world_db w) = 0" "\<not> lock_held (world_db w) (pe_repo e, pe_number e)"
    and "signed_delivery lib secret r did ''pull_request'' (PullRequestEvent e)"
    and "did \<notin> delivery_id ` set (deliveries (world_db w))"
    and "pe_action e = Some ''opened'' \<or> pe_action e = Some ''ready_for_review''" "\<not> pe_draft e"
    and "retry_contract slept (rv_retrying rv)" "review_posted_for rv rid (pe_repo e, pe_number e) (pe_head_sha e) None"
  shows "\<exists>w1 w2 w3. webhook_endpoint lib h secret r w = (Inr 200, w1) \<and>
    process_one (review_worker rv (\<lambda>_. None)) w1 = (Inr True, w2) \<and>
    reviewed_by (world_db w) (pe_repo e, pe_number e) (pe_head_sha e) None rid (world_db w2) \<and>
    webhook_endpoint lib h secret r w2 = (Inr 202, w3) \<and> world_db w3 = world_db w2"
proof -
  have "enqueues (dispatch h ''pull_request'' (PullRequestEvent e)) (pr_request e)"
    using on_pull_request_enqueues [OF assms(6,7)] by (simp add: dispatch_def)
  from delivery_is_reviewed [OF assms(1,2) _ assms(4,5) this assms(8)] show ?thesis
    using assms(3,9) by (simp add: pr_request_def)
qed

text \<open>C4: a command gets its review. When an authorized user comments the command on a PR of a repository
  where reviews are enabled, and the PR has no review under way and the queue is empty, then the
  delivery is answered 200 and one turn of the worker reviews the commit that the PR is at, with the
  text of the command as extra context; the review is recorded and the locks are those from before. The
  same delivery sent once more is answered 202 and changes nothing.\<close>

theorem command_is_reviewed:
  assumes "store_ok (world_db w)" "pending (world_db w) = 0" "\<not> lock_held (world_db w) (ce_repo e, ce_issue_number e)"
    and "signed_delivery lib secret r did ''issue_comment'' (IssueCommentEvent e)"
    and "did \<notin> delivery_id ` set (deliveries (world_db w))"
    and "accepted_command h e pr parsed"
    and "retry_contract slept (rv_retrying rv)" "review_posted_for rv rid (ce_repo e, ce_issue_number e) (info_head_sha pr) (trigger_extra_context parsed)"
  shows "\<exists>w1 w2 w3. webhook_endpoint lib h secret r w = (Inr 200, w1) \<and>
    process_one (review_worker rv (\<lambda>_. None)) w1 = (Inr True, w2) \<and>
    reviewed_by (world_db w) (ce_repo e, ce_issue_number e) (info_head_sha pr) (trigger_extra_context parsed) rid (world_db w2) \<and>
    webhook_endpoint lib h secret r w2 = (Inr 202, w3) \<and> world_db w3 = world_db w2"
proof -
  have "enqueues (dispatch h ''issue_comment'' (IssueCommentEvent e)) (comment_request e pr parsed)"
    using on_issue_comment_enqueues [OF assms(6)] by (simp add: dispatch_def)
  from delivery_is_reviewed [OF assms(1,2) _ assms(4,5) this assms(7)] show ?thesis
    using assms(3,8) by (simp add: comment_request_def)
qed

section \<open>Witnesses\<close>

text \<open>A PR is opened, or the command is given, in an empty store, and GitHub takes the review as number 42.\<close>

definition opened_event :: pull_request_event where
  "opened_event = \<lparr>pe_action = Some ''opened'', pe_draft = False, pe_repo = ''o/r'', pe_installation_id = 7,
     pe_number = 1, pe_head_sha = ''sha''\<rparr>"

definition opened_lib :: webhook_lib where
  "opened_lib = \<lparr>verify_signature = (\<lambda>secret body sig. sig = secret @ body),
     parse_webhook = (\<lambda>etype body. if etype = ''issue_comment'' then Inr (IssueCommentEvent sample_comment)
       else Inr (PullRequestEvent opened_event))\<rparr>"

definition signed_request :: "string \<Rightarrow> webhook_request" where
  "signed_request etype = \<lparr>header_content_length = None, header_event = Some etype, header_delivery = Some ''d1'',
     header_signature = Some ''s3cret{}'', request_body = ''{}''\<rparr>"

abbreviation accepting_reviewer :: "(unit, string) reviewer" where
  "accepting_reviewer \<equiv> reviewer_posting (\<lambda>i repo n body w. (Inr 42, w))"

lemma accepting_reviewer_posts:
  "retry_contract no_sleep (rv_retrying accepting_reviewer)" "review_posted_for accepting_reviewer 42 pr sha None"
proof -
  show "retry_contract no_sleep (rv_retrying accepting_reviewer)"
    by (simp add: reviewer_posting_def sample_reviewer_def retry_loop_contract)
  have "g_create_review (rv_github accepting_reviewer) i repo n b () = (Inr 42, ())" for i repo n b
    by (simp add: reviewer_posting_def)
  then show "review_posted_for accepting_reviewer 42 pr sha None"
    using reviewer_posting_prepare [where c = "\<lambda>i repo n body w. (Inr 42, w)"]
    by (auto simp: review_accepted_def review_posted_for_def)
qed

lemma sample_command_accepted:
  "accepted_command sample_handler sample_comment (sample_pr\<lparr>info_draft := True\<rparr>) \<lparr>trigger_extra_context = None\<rparr>"
proof -
  have "parse_trigger (Some ''@vidi-pr review'') = Some \<lparr>trigger_extra_context = None\<rparr>" by code_simp
  then show ?thesis
    using sample_comment_config sample_comment_allowed
    by (auto simp: accepted_command_def sample_comment_def answers_def sample_handler_simps)
qed

lemma sample_world_idle: "store_ok (world_db sample_world)" "pending (world_db sample_world) = 0"
  "\<not> lock_held (world_db sample_world) k" "did \<notin> delivery_id ` set (deliveries (world_db sample_world))"
  by (simp_all add: sample_world_def store_ok_empty pending_def) (simp_all add: empty_database_def)

theorem opened_pr_is_reviewed_witness:
  "\<exists>w1 w2. webhook_endpoint opened_lib sample_handler ''s3cret'' (signed_request ''pull_request'') sample_world = (Inr 200, w1) \<and>
    process_one (review_worker accepting_reviewer (\<lambda>_. None)) w1 = (Inr True, w2) \<and>
    reviewed_by empty_database (''o/r'', 1) ''sha'' None 42 (world_db w2)"
proof -
  have signed: "signed_delivery opened_lib ''s3cret'' (signed_request ''pull_request'') ''d1'' ''pull_request'' (PullRequestEvent opened_event)"
    by (simp add: signed_delivery_def signed_request_def opened_lib_def MAX_BODY_BYTES_def)
  have "pe_action opened_event = Some ''opened'' \<or> pe_action opened_event = Some ''ready_for_review''" "\<not> pe_draft opened_event"
    by (simp_all add: opened_event_def)
  from opened_pr_is_reviewed [OF sample_world_idle(1-3) signed sample_world_idle(4) this accepting_reviewer_posts,
      where h = sample_handler]
  show ?thesis by (auto simp: opened_event_def sample_world_def)
qed

theorem command_is_reviewed_witness:
  "\<exists>w1 w2. webhook_endpoint opened_lib sample_handler ''s3cret'' (signed_request ''issue_comment'') sample_world = (Inr 200, w1) \<and>
    process_one (review_worker accepting_reviewer (\<lambda>_. None)) w1 = (Inr True, w2) \<and>
    reviewed_by empty_database (''o/r'', 1) (info_head_sha sample_pr) None 42 (world_db w2)"
proof -
  have signed: "signed_delivery opened_lib ''s3cret'' (signed_request ''issue_comment'') ''d1'' ''issue_comment'' (IssueCommentEvent sample_comment)"
    by (simp add: signed_delivery_def signed_request_def opened_lib_def MAX_BODY_BYTES_def)
  have "review_posted_for accepting_reviewer 42 (ce_repo sample_comment, ce_issue_number sample_comment)
      (info_head_sha (sample_pr\<lparr>info_draft := True\<rparr>)) (trigger_extra_context \<lparr>trigger_extra_context = None\<rparr>)"
    using accepting_reviewer_posts(2) by simp
  from command_is_reviewed [OF sample_world_idle(1-3) signed sample_world_idle(4) sample_command_accepted
      accepting_reviewer_posts(1) this]
  show ?thesis by (auto simp: sample_comment_def sample_world_def)
qed

end
