(* ===== verification/Schema.thy ===== *)
theory Schema
  imports Service
begin

text \<open>
  The tables in the database. \<open>models/storage.py\<close> declares them as classes, and the migration
  \<open>storage/alembic/versions/20260512_0001_initial.py\<close> creates them in the file; the two are written
  apart from each other. Here is what each of them says, what the statements of the migration do to
  the tables of a database, and how a row of the model is stored in the columns and loaded from them.
\<close>

section \<open>Tables\<close>

text \<open>\<open>Enum(values, name, native_enum=False, length)\<close> is a column of text with the given values.\<close>

datatype column_type =
    INTEGER_TYPE
  | STRING_TYPE
  | DATETIME_TYPE
  | ENUM_TYPE "string list" string nat

record column =
  col_name :: string
  col_type :: column_type
  col_nullable :: bool
  col_autoincrement :: bool

record table_index =
  index_name :: string
  index_columns :: "string list"
  index_unique :: bool

record table =
  tab_name :: string
  tab_columns :: "column list"
  tab_primary_key :: "string list"
  tab_indexes :: "table_index list"

type_synonym schema = "table list"

section \<open>models/storage.py: the declared tables\<close>

definition string_enum :: "string \<Rightarrow> string list \<Rightarrow> column_type" where
  "string_enum class_name values = ENUM_TYPE values (py_lower class_name) 16"

datatype annotation = PyInt | PyStr | PyDatetime

text \<open>
  \<open>name: Mapped[annotation] = mapped_column(type, primary_key, autoincrement)\<close>; an optional annotation
  makes the column nullable, and without a type the annotation chooses it.
\<close>

record mapped_attribute =
  at_name :: string
  at_annotation :: annotation
  at_optional :: bool
  at_type :: "column_type option"
  at_primary_key :: bool
  at_autoincrement :: bool

definition mapped :: "string \<Rightarrow> annotation \<Rightarrow> mapped_attribute" where
  "mapped name a = \<lparr>at_name = name, at_annotation = a, at_optional = False, at_type = None,
     at_primary_key = False, at_autoincrement = False\<rparr>"

fun annotation_type :: "annotation \<Rightarrow> column_type" where
  "annotation_type PyInt = INTEGER_TYPE"
| "annotation_type PyStr = STRING_TYPE"
| "annotation_type PyDatetime = DATETIME_TYPE"

definition declared_column :: "mapped_attribute \<Rightarrow> column" where
  "declared_column a = \<lparr>col_name = at_name a,
     col_type = (case at_type a of Some t \<Rightarrow> t | None \<Rightarrow> annotation_type (at_annotation a)),
     col_nullable = at_optional a, col_autoincrement = at_autoincrement a\<rparr>"

record model_class =
  class_tablename :: string
  class_indexes :: "table_index list"
  class_attributes :: "mapped_attribute list"

definition declared_table :: "model_class \<Rightarrow> table" where
  "declared_table c = \<lparr>tab_name = class_tablename c, tab_columns = map declared_column (class_attributes c),
     tab_primary_key = map at_name (filter at_primary_key (class_attributes c)), tab_indexes = class_indexes c\<rparr>"

definition WebhookDelivery :: model_class where
  "WebhookDelivery = \<lparr>class_tablename = ''webhook_deliveries'', class_indexes = [],
     class_attributes =
       [(mapped ''delivery_id'' PyStr)\<lparr>at_type := Some STRING_TYPE, at_primary_key := True\<rparr>,
        (mapped ''received_at'' PyDatetime)\<lparr>at_type := Some DATETIME_TYPE\<rparr>]\<rparr>"

definition Job :: model_class where
  "Job = \<lparr>class_tablename = ''jobs'',
     class_indexes = [\<lparr>index_name = ''jobs_status_created_at_idx'', index_columns = [''status'', ''created_at''],
       index_unique = False\<rparr>],
     class_attributes =
       [(mapped ''id'' PyInt)\<lparr>at_primary_key := True, at_autoincrement := True\<rparr>,
        (mapped ''job_type'' PyStr)\<lparr>at_type := Some (string_enum ''JobType'' (map job_type_value [REVIEW]))\<rparr>,
        mapped ''installation_id'' PyInt,
        mapped ''repo'' PyStr,
        mapped ''pr_number'' PyInt,
        mapped ''head_sha'' PyStr,
        (mapped ''trigger_kind'' PyStr)
          \<lparr>at_type := Some (string_enum ''TriggerKind'' (map trigger_kind_value [AUTO, COMMENT]))\<rparr>,
        (mapped ''extra_context'' PyStr)\<lparr>at_optional := True\<rparr>,
        (mapped ''status'' PyStr)
          \<lparr>at_type := Some (string_enum ''JobStatus'' (map job_status_value [PENDING, RUNNING, DONE, FAILED]))\<rparr>,
        (mapped ''status_detail'' PyStr)\<lparr>at_optional := True\<rparr>,
        mapped ''attempts'' PyInt,
        (mapped ''created_at'' PyDatetime)\<lparr>at_type := Some DATETIME_TYPE\<rparr>,
        (mapped ''updated_at'' PyDatetime)\<lparr>at_type := Some DATETIME_TYPE\<rparr>,
        (mapped ''error'' PyStr)\<lparr>at_optional := True\<rparr>]\<rparr>"

definition PrLock :: model_class where
  "PrLock = \<lparr>class_tablename = ''pr_locks'', class_indexes = [],
     class_attributes =
       [(mapped ''repo'' PyStr)\<lparr>at_primary_key := True\<rparr>,
        (mapped ''pr_number'' PyInt)\<lparr>at_primary_key := True\<rparr>,
        (mapped ''locked_at'' PyDatetime)\<lparr>at_type := Some DATETIME_TYPE\<rparr>,
        mapped ''job_id'' PyInt]\<rparr>"

definition ReviewPosted :: model_class where
  "ReviewPosted = \<lparr>class_tablename = ''reviews_posted'', class_indexes = [],
     class_attributes =
       [(mapped ''id'' PyInt)\<lparr>at_primary_key := True, at_autoincrement := True\<rparr>,
        mapped ''repo'' PyStr,
        mapped ''pr_number'' PyInt,
        mapped ''head_sha'' PyStr,
        mapped ''review_id'' PyInt,
        (mapped ''posted_at'' PyDatetime)\<lparr>at_type := Some DATETIME_TYPE\<rparr>,
        mapped ''duration_ms'' PyInt,
        mapped ''chunk_count'' PyInt]\<rparr>"

definition FailureCooldown :: model_class where
  "FailureCooldown = \<lparr>class_tablename = ''failure_cooldowns'', class_indexes = [],
     class_attributes =
       [(mapped ''repo'' PyStr)\<lparr>at_primary_key := True\<rparr>,
        (mapped ''pr_number'' PyInt)\<lparr>at_primary_key := True\<rparr>,
        (mapped ''last_posted_at'' PyDatetime)\<lparr>at_type := Some DATETIME_TYPE\<rparr>]\<rparr>"

text \<open>\<open>Base.metadata\<close>, the tables of all classes.\<close>

definition model_tables :: schema where
  "model_tables = map declared_table [WebhookDelivery, Job, PrLock, ReviewPosted, FailureCooldown]"

section \<open>The statements of a migration\<close>

abbreviation OperationalError :: exc_class where
  "OperationalError \<equiv> OtherError ''OperationalError''"

definition has_table :: "string \<Rightarrow> schema \<Rightarrow> bool" where
  "has_table name s = list_ex (\<lambda>t. tab_name t = name) s"

definition has_index :: "string \<Rightarrow> schema \<Rightarrow> bool" where
  "has_index name s = list_ex (\<lambda>t. list_ex (\<lambda>i. index_name i = name) (tab_indexes t)) s"

definition sa_column :: "string \<Rightarrow> column_type \<Rightarrow> bool \<Rightarrow> column" where
  "sa_column name t nullable = \<lparr>col_name = name, col_type = t, col_nullable = nullable, col_autoincrement = False\<rparr>"

text \<open>\<open>create table\<close>, \<open>create index\<close>, \<open>drop table\<close> and \<open>drop index\<close> on the tables of a database; what was
  done before a statement fails stays.\<close>

definition create_table :: "string \<Rightarrow> column list \<Rightarrow> string list \<Rightarrow> (schema, unit) io" where
  "create_table name columns primary_key =
     (\<lambda>s. if has_table name s then (Inl (raised OperationalError (''table '' @ name @ '' already exists'')), s)
       else (Inr (), s @ [\<lparr>tab_name = name, tab_columns = columns, tab_primary_key = primary_key, tab_indexes = []\<rparr>]))"

definition create_index :: "string \<Rightarrow> string \<Rightarrow> string list \<Rightarrow> bool \<Rightarrow> (schema, unit) io" where
  "create_index name table_name columns unique =
     (\<lambda>s. if has_index name s then (Inl (raised OperationalError (''index '' @ name @ '' already exists'')), s)
       else if \<not> has_table table_name s then (Inl (raised OperationalError (''no such table: '' @ table_name)), s)
       else (Inr (), map (\<lambda>t. if tab_name t = table_name
           then t\<lparr>tab_indexes := tab_indexes t @
             [\<lparr>index_name = name, index_columns = columns, index_unique = unique\<rparr>]\<rparr>
           else t) s))"

definition drop_table :: "string \<Rightarrow> (schema, unit) io" where
  "drop_table name =
     (\<lambda>s. if \<not> has_table name s then (Inl (raised OperationalError (''no such table: '' @ name)), s)
       else (Inr (), filter (\<lambda>t. tab_name t \<noteq> name) s))"

definition drop_index :: "string \<Rightarrow> (schema, unit) io" where
  "drop_index name =
     (\<lambda>s. if \<not> has_index name s then (Inl (raised OperationalError (''no such index: '' @ name)), s)
       else (Inr (), map (\<lambda>t. t\<lparr>tab_indexes := filter (\<lambda>i. index_name i \<noteq> name) (tab_indexes t)\<rparr>) s))"

section \<open>The initial migration\<close>

definition upgrade :: "(schema, unit) io" where
  "upgrade = io_steps
     [create_table ''jobs''
        [(sa_column ''id'' INTEGER_TYPE False)\<lparr>col_autoincrement := True\<rparr>,
         sa_column ''job_type'' (ENUM_TYPE [''review''] ''jobtype'' 16) False,
         sa_column ''installation_id'' INTEGER_TYPE False,
         sa_column ''repo'' STRING_TYPE False,
         sa_column ''pr_number'' INTEGER_TYPE False,
         sa_column ''head_sha'' STRING_TYPE False,
         sa_column ''trigger_kind'' (ENUM_TYPE [''auto'', ''comment''] ''triggerkind'' 16) False,
         sa_column ''extra_context'' STRING_TYPE True,
         sa_column ''status'' (ENUM_TYPE [''pending'', ''running'', ''done'', ''failed''] ''jobstatus'' 16) False,
         sa_column ''status_detail'' STRING_TYPE True,
         sa_column ''attempts'' INTEGER_TYPE False,
         sa_column ''created_at'' DATETIME_TYPE False,
         sa_column ''updated_at'' DATETIME_TYPE False,
         sa_column ''error'' STRING_TYPE True]
        [''id''],
      create_index ''jobs_status_created_at_idx'' ''jobs'' [''status'', ''created_at''] False,
      create_table ''pr_locks''
        [sa_column ''repo'' STRING_TYPE False,
         sa_column ''pr_number'' INTEGER_TYPE False,
         sa_column ''locked_at'' DATETIME_TYPE False,
         sa_column ''job_id'' INTEGER_TYPE False]
        [''repo'', ''pr_number''],
      create_table ''reviews_posted''
        [(sa_column ''id'' INTEGER_TYPE False)\<lparr>col_autoincrement := True\<rparr>,
         sa_column ''repo'' STRING_TYPE False,
         sa_column ''pr_number'' INTEGER_TYPE False,
         sa_column ''head_sha'' STRING_TYPE False,
         sa_column ''review_id'' INTEGER_TYPE False,
         sa_column ''posted_at'' DATETIME_TYPE False,
         sa_column ''duration_ms'' INTEGER_TYPE False,
         sa_column ''chunk_count'' INTEGER_TYPE False]
        [''id''],
      create_table ''webhook_deliveries''
        [sa_column ''delivery_id'' STRING_TYPE False,
         sa_column ''received_at'' DATETIME_TYPE False]
        [''delivery_id''],
      create_table ''failure_cooldowns''
        [sa_column ''repo'' STRING_TYPE False,
         sa_column ''pr_number'' INTEGER_TYPE False,
         sa_column ''last_posted_at'' DATETIME_TYPE False]
        [''repo'', ''pr_number'']]"

definition downgrade :: "(schema, unit) io" where
  "downgrade = io_steps
     [drop_table ''failure_cooldowns'', drop_table ''webhook_deliveries'', drop_table ''reviews_posted'',
      drop_table ''pr_locks'', drop_index ''jobs_status_created_at_idx'', drop_table ''jobs'']"

text \<open>Nothing in the database is in the way of the migration.\<close>

definition migratable :: "schema \<Rightarrow> bool" where
  "migratable s \<longleftrightarrow> list_all (\<lambda>t. \<not> has_table (tab_name t) s) model_tables \<and>
     \<not> has_index ''jobs_status_created_at_idx'' s"

section \<open>Lemmas\<close>

lemma has_table_simps [simp]:
  "\<not> has_table n []" "has_table n (s @ s') \<longleftrightarrow> has_table n s \<or> has_table n s'"
  "has_table n (t # s) \<longleftrightarrow> tab_name t = n \<or> has_table n s"
  by (simp_all add: has_table_def)

lemma has_index_simps [simp]:
  "\<not> has_index n []" "has_index n (s @ s') \<longleftrightarrow> has_index n s \<or> has_index n s'"
  "has_index n (t # s) \<longleftrightarrow> list_ex (\<lambda>i. index_name i = n) (tab_indexes t) \<or> has_index n s"
  by (simp_all add: has_index_def)

lemma filter_no_table: "\<not> has_table n s \<Longrightarrow> filter (\<lambda>t. tab_name t \<noteq> n) s = s"
  by (induction s) auto

lemma update_no_table: "\<not> has_table n s \<Longrightarrow> map (\<lambda>t. if tab_name t = n then f t else t) s = s"
  by (induction s) auto

lemma has_table_update [simp]:
  "has_table n (map (\<lambda>t. if tab_name t = m then t\<lparr>tab_indexes := g t\<rparr> else t) s) \<longleftrightarrow> has_table n s"
  by (induction s) auto

lemma drop_no_index: "\<not> has_index n s \<Longrightarrow>
    map (\<lambda>t. t\<lparr>tab_indexes := filter (\<lambda>i. index_name i \<noteq> n) (tab_indexes t)\<rparr>) s = s"
proof (induction s)
  case (Cons t s)
  then have "filter (\<lambda>i. index_name i \<noteq> n) (tab_indexes t) = tab_indexes t"
    by (simp add: filter_id_conv list_ex_iff)
  then show ?case using Cons by simp
qed simp

lemmas model_class_defs = WebhookDelivery_def Job_def PrLock_def ReviewPosted_def FailureCooldown_def

lemma map_tab_name_model_tables: "map tab_name model_tables =
    [''webhook_deliveries'', ''jobs'', ''pr_locks'', ''reviews_posted'', ''failure_cooldowns'']"
  by (simp add: model_tables_def declared_table_def model_class_defs)

lemma migratable_iff: "migratable s \<longleftrightarrow>
    \<not> has_table ''webhook_deliveries'' s \<and> \<not> has_table ''jobs'' s \<and> \<not> has_table ''pr_locks'' s \<and>
    \<not> has_table ''reviews_posted'' s \<and> \<not> has_table ''failure_cooldowns'' s \<and>
    \<not> has_index ''jobs_status_created_at_idx'' s"
proof -
  have "list_all (\<lambda>t. \<not> has_table (tab_name t) s) model_tables = list_all (\<lambda>n. \<not> has_table n s) (map tab_name model_tables)"
    by (simp add: list_all_iff)
  then show ?thesis unfolding migratable_def map_tab_name_model_tables by simp
qed

text \<open>The tables the migration adds, in its order.\<close>

definition migrated_tables :: schema where
  "migrated_tables = map declared_table [Job, PrLock, ReviewPosted, WebhookDelivery, FailureCooldown]"

lemma mset_migrated_tables: "mset migrated_tables = mset model_tables"
  by (simp add: migrated_tables_def model_tables_def)

lemma string_enum_simps [simp]:
  "string_enum ''JobType'' vs = ENUM_TYPE vs ''jobtype'' 16"
  "string_enum ''TriggerKind'' vs = ENUM_TYPE vs ''triggerkind'' 16"
  "string_enum ''JobStatus'' vs = ENUM_TYPE vs ''jobstatus'' 16"
proof -
  have "py_lower ''JobType'' = ''jobtype''" "py_lower ''TriggerKind'' = ''triggerkind''"
    "py_lower ''JobStatus'' = ''jobstatus''" by code_simp+
  then show "string_enum ''JobType'' vs = ENUM_TYPE vs ''jobtype'' 16"
    "string_enum ''TriggerKind'' vs = ENUM_TYPE vs ''triggerkind'' 16"
    "string_enum ''JobStatus'' vs = ENUM_TYPE vs ''jobstatus'' 16"
    by (simp_all add: string_enum_def)
qed

lemmas declared_simps = declared_table_def declared_column_def mapped_def model_class_defs

lemma upgrade_run:
  assumes "migratable s"
  shows "upgrade s = (Inr (), s @ migrated_tables)"
  using assms update_no_table [of "''jobs''" s]
  by (simp add: migratable_iff upgrade_def io_defs create_table_def create_index_def sa_column_def
      migrated_tables_def declared_simps)

lemma upgrade_conflict: "\<not> migratable s \<Longrightarrow> \<exists>e s'. upgrade s = (Inl e, s')"
  by (auto simp: migratable_iff upgrade_def io_defs create_table_def create_index_def split: if_splits)

lemma downgrade_run:
  assumes "migratable s"
  shows "downgrade (s @ migrated_tables) = (Inr (), s)"
  using assms filter_no_table [of _ s] drop_no_index [of _ s]
  by (simp add: migratable_iff downgrade_def io_defs drop_table_def drop_index_def migrated_tables_def declared_simps)

section \<open>Rows in columns\<close>

datatype sql_value = SqlNull | SqlInteger int | SqlText string | SqlDatetime int

type_synonym row = "(string \<times> sql_value) list"

text \<open>An integer of SQLite has 64 bits; binding a larger one raises, so that no row with it is written.\<close>

definition int64 :: "int \<Rightarrow> bool" where
  "int64 i \<longleftrightarrow> - (2 ^ 63) \<le> i \<and> i < 2 ^ 63"

fun fits_type :: "column_type \<Rightarrow> sql_value \<Rightarrow> bool" where
  "fits_type INTEGER_TYPE (SqlInteger i) = int64 i"
| "fits_type STRING_TYPE (SqlText s) = True"
| "fits_type DATETIME_TYPE (SqlDatetime t) = True"
| "fits_type (ENUM_TYPE values name n) (SqlText s) = (s \<in> set values \<and> length s \<le> n)"
| "fits_type _ _ = False"

definition fits :: "column \<Rightarrow> sql_value \<Rightarrow> bool" where
  "fits c v \<longleftrightarrow> (if v = SqlNull then col_nullable c else fits_type (col_type c) v)"

text \<open>The columns are filled in order, and no two rows agree on the primary key.\<close>

definition rows_fit :: "table \<Rightarrow> row list \<Rightarrow> bool" where
  "rows_fit t rows \<longleftrightarrow>
     list_all (\<lambda>r. list_all2 (\<lambda>c (n, v). n = col_name c \<and> fits c v) (tab_columns t) r) rows \<and>
     distinct (map (\<lambda>r. map (map_of r) (tab_primary_key t)) rows)"

fun sql_optional :: "('a \<Rightarrow> sql_value) \<Rightarrow> 'a option \<Rightarrow> sql_value" where
  "sql_optional f None = SqlNull"
| "sql_optional f (Some a) = f a"

definition delivery_row :: "webhook_delivery \<Rightarrow> row" where
  "delivery_row d = [(''delivery_id'', SqlText (delivery_id d)), (''received_at'', SqlDatetime (delivery_received_at d))]"

definition job_row :: "job \<Rightarrow> row" where
  "job_row j =
     [(''id'', SqlInteger (job_id j)), (''job_type'', SqlText (job_type_value (job_type j))),
      (''installation_id'', SqlInteger (job_installation_id j)), (''repo'', SqlText (job_repo j)),
      (''pr_number'', SqlInteger (job_pr_number j)), (''head_sha'', SqlText (job_head_sha j)),
      (''trigger_kind'', SqlText (trigger_kind_value (job_trigger_kind j))),
      (''extra_context'', sql_optional SqlText (job_extra_context j)),
      (''status'', SqlText (job_status_value (job_status j))),
      (''status_detail'', sql_optional SqlText (job_status_detail j)),
      (''attempts'', SqlInteger (job_attempts j)), (''created_at'', SqlDatetime (job_created_at j)),
      (''updated_at'', SqlDatetime (job_updated_at j)), (''error'', sql_optional SqlText (job_error j))]"

definition lock_row :: "pr_lock \<Rightarrow> row" where
  "lock_row l = [(''repo'', SqlText (lock_repo l)), (''pr_number'', SqlInteger (lock_pr_number l)),
     (''locked_at'', SqlDatetime (lock_locked_at l)), (''job_id'', SqlInteger (lock_job_id l))]"

definition posted_row :: "review_posted \<Rightarrow> row" where
  "posted_row p = [(''id'', SqlInteger (posted_id p)), (''repo'', SqlText (posted_repo p)),
     (''pr_number'', SqlInteger (posted_pr_number p)), (''head_sha'', SqlText (posted_head_sha p)),
     (''review_id'', SqlInteger (posted_review_id p)), (''posted_at'', SqlDatetime (posted_posted_at p)),
     (''duration_ms'', SqlInteger (posted_duration_ms p)), (''chunk_count'', SqlInteger (posted_chunk_count p))]"

definition cooldown_row :: "failure_cooldown \<Rightarrow> row" where
  "cooldown_row c = [(''repo'', SqlText (cooldown_repo c)), (''pr_number'', SqlInteger (cooldown_pr_number c)),
     (''last_posted_at'', SqlDatetime (cooldown_last_posted_at c))]"

definition database_rows :: "database \<Rightarrow> (string \<times> row list) list" where
  "database_rows db =
     [(''webhook_deliveries'', map delivery_row (deliveries db)), (''jobs'', map job_row (jobs db)),
      (''pr_locks'', map lock_row (pr_locks db)), (''reviews_posted'', map posted_row (reviews_posted db)),
      (''failure_cooldowns'', map cooldown_row (failure_cooldowns db))]"

text \<open>All integers in the rows.\<close>

fun value_integers :: "sql_value \<Rightarrow> int list" where
  "value_integers (SqlInteger i) = [i]"
| "value_integers _ = []"

definition row_integers :: "row \<Rightarrow> int list" where
  "row_integers r = concat (map (\<lambda>(n, v). value_integers v) r)"

definition database_integers :: "database \<Rightarrow> int list" where
  "database_integers db = concat (map (\<lambda>(n, rows). concat (map row_integers rows)) (database_rows db))"

text \<open>Every table of the program is there and holds its rows.\<close>

definition stores :: "schema \<Rightarrow> database \<Rightarrow> bool" where
  "stores s db \<longleftrightarrow> list_all (\<lambda>(name, rows). case find (\<lambda>t. tab_name t = name) s of
     None \<Rightarrow> False | Some t \<Rightarrow> rows_fit t rows) (database_rows db)"

section \<open>Loading a job\<close>

text \<open>The members of an enumeration column are found by their value; a value of none of them is an error.\<close>

fun sql_member :: "('a \<Rightarrow> string) \<Rightarrow> 'a list \<Rightarrow> sql_value \<Rightarrow> 'a option" where
  "sql_member value members (SqlText s) = find (\<lambda>m. value m = s) members"
| "sql_member value members _ = None"

fun sql_text :: "sql_value \<Rightarrow> string option" where
  "sql_text (SqlText s) = Some s"
| "sql_text _ = None"

fun sql_integer :: "sql_value \<Rightarrow> int option" where
  "sql_integer (SqlInteger i) = Some i"
| "sql_integer _ = None"

fun sql_datetime :: "sql_value \<Rightarrow> int option" where
  "sql_datetime (SqlDatetime t) = Some t"
| "sql_datetime _ = None"

definition get :: "row \<Rightarrow> string \<Rightarrow> (sql_value \<Rightarrow> 'a option) \<Rightarrow> 'a option" where
  "get r name f = Option.bind (map_of r name) f"

definition job_of_row :: "row \<Rightarrow> job option" where
  "job_of_row r =
     Option.bind (get r ''id'' sql_integer) (\<lambda>i.
     Option.bind (get r ''job_type'' (sql_member job_type_value [REVIEW])) (\<lambda>jt.
     Option.bind (get r ''installation_id'' sql_integer) (\<lambda>inst.
     Option.bind (get r ''repo'' sql_text) (\<lambda>repo.
     Option.bind (get r ''pr_number'' sql_integer) (\<lambda>pr.
     Option.bind (get r ''head_sha'' sql_text) (\<lambda>sha.
     Option.bind (get r ''trigger_kind'' (sql_member trigger_kind_value [AUTO, COMMENT])) (\<lambda>kind.
     Option.bind (get r ''status'' (sql_member job_status_value [PENDING, RUNNING, DONE, FAILED])) (\<lambda>st.
     Option.bind (get r ''attempts'' sql_integer) (\<lambda>n.
     Option.bind (get r ''created_at'' sql_datetime) (\<lambda>created.
     Option.bind (get r ''updated_at'' sql_datetime) (\<lambda>updated.
       Some \<lparr>job_id = i, job_type = jt, job_installation_id = inst, job_repo = repo, job_pr_number = pr,
         job_head_sha = sha, job_trigger_kind = kind, job_extra_context = get r ''extra_context'' sql_text,
         job_status = st,
         job_status_detail = get r ''status_detail'' sql_text,
         job_attempts = n, job_created_at = created, job_updated_at = updated,
         job_error = get r ''error'' sql_text\<rparr>)))))))))))"

lemma sql_text_optional [simp]: "sql_text (sql_optional SqlText x) = x"
  by (cases x) simp_all

lemma job_of_row_job_row: "job_of_row (job_row j) = Some j"
proof -
  have "sql_member job_type_value [REVIEW] (SqlText (job_type_value (job_type j))) = Some (job_type j)"
    by (cases "job_type j") simp
  moreover have "sql_member trigger_kind_value [AUTO, COMMENT] (SqlText (trigger_kind_value (job_trigger_kind j))) =
      Some (job_trigger_kind j)"
    by (cases "job_trigger_kind j") simp_all
  moreover have "sql_member job_status_value [PENDING, RUNNING, DONE, FAILED] (SqlText (job_status_value (job_status j))) =
      Some (job_status j)"
    by (cases "job_status j") simp_all
  ultimately show ?thesis by (simp add: job_of_row_def get_def job_row_def)
qed

section \<open>The store fits the tables\<close>

lemma fits_values [simp]:
  "fits c (SqlInteger i) \<longleftrightarrow> col_type c = INTEGER_TYPE \<and> int64 i" "fits c (SqlDatetime t) \<longleftrightarrow> col_type c = DATETIME_TYPE"
  "fits \<lparr>col_name = n, col_type = STRING_TYPE, col_nullable = b, col_autoincrement = a\<rparr> (SqlText x)"
  "fits \<lparr>col_name = n, col_type = STRING_TYPE, col_nullable = True, col_autoincrement = a\<rparr> (sql_optional SqlText y)"
  by (cases "col_type c"; simp add: fits_def; fail)+ (simp add: fits_def, cases y, simp_all add: fits_def)

lemma fits_enum:
  "fits \<lparr>col_name = n, col_type = ENUM_TYPE vs e k, col_nullable = b, col_autoincrement = a\<rparr> (SqlText x) \<longleftrightarrow>
   x \<in> set vs \<and> length x \<le> k"
  by (simp add: fits_def)

lemma fits_members:
  "fits \<lparr>col_name = n, col_type = ENUM_TYPE [''review''] e 16, col_nullable = b, col_autoincrement = a\<rparr>
     (SqlText (job_type_value jt))"
  "fits \<lparr>col_name = n, col_type = ENUM_TYPE [''auto'', ''comment''] e 16, col_nullable = b, col_autoincrement = a\<rparr>
     (SqlText (trigger_kind_value kind))"
  "fits \<lparr>col_name = n, col_type = ENUM_TYPE [''pending'', ''running'', ''done'', ''failed''] e 16, col_nullable = b,
     col_autoincrement = a\<rparr> (SqlText (job_status_value st))"
  unfolding fits_enum
  subgoal by (cases jt) simp
  subgoal by (cases kind) simp_all
  subgoal by (cases st) simp_all
  done

lemma value_integers_optional [simp]: "value_integers (sql_optional SqlText x) = []"
  by (cases x) simp_all

lemma job_row_fits:
  "list_all2 (\<lambda>c (n, v). n = col_name c \<and> fits c v) (tab_columns (declared_table Job)) (job_row j) \<longleftrightarrow>
   list_all int64 (row_integers (job_row j))"
  by (simp add: job_row_def declared_table_def declared_column_def mapped_def Job_def fits_members row_integers_def)

lemma primary_keys:
  "tab_primary_key (declared_table WebhookDelivery) = [''delivery_id'']"
  "tab_primary_key (declared_table Job) = [''id'']"
  "tab_primary_key (declared_table PrLock) = [''repo'', ''pr_number'']"
  "tab_primary_key (declared_table ReviewPosted) = [''id'']"
  "tab_primary_key (declared_table FailureCooldown) = [''repo'', ''pr_number'']"
  by (simp_all add: declared_table_def mapped_def model_class_defs)

lemma find_declared: "find (\<lambda>t. tab_name t = n) (map declared_table cs) =
    map_option declared_table (find (\<lambda>c. class_tablename c = n) cs)"
  by (induction cs) (simp_all add: declared_table_def)

lemma tablenames:
  "class_tablename WebhookDelivery = ''webhook_deliveries''" "class_tablename Job = ''jobs''"
  "class_tablename PrLock = ''pr_locks''" "class_tablename ReviewPosted = ''reviews_posted''"
  "class_tablename FailureCooldown = ''failure_cooldowns''"
  by (simp_all add: model_class_defs)

lemma rows_fit_map:
  assumes "\<And>x. list_all2 (\<lambda>c (n, v). n = col_name c \<and> fits c v) (tab_columns t) (f x) \<longleftrightarrow> list_all int64 (row_integers (f x))"
    and "\<And>x y. map (map_of (f x)) (tab_primary_key t) = map (map_of (f y)) (tab_primary_key t) \<longleftrightarrow> key x = key y"
    and "distinct (map key xs)"
  shows "rows_fit t (map f xs) \<longleftrightarrow> list_all int64 (concat (map row_integers (map f xs)))"
  using assms by (auto simp: rows_fit_def list_all_iff distinct_map inj_on_def comp_def)

lemma stores_migrated:
  assumes "keys_ok db"
  shows "stores migrated_tables db \<longleftrightarrow> list_all int64 (database_integers db)"
proof -
  have "rows_fit (declared_table WebhookDelivery) (map delivery_row (deliveries db)) \<longleftrightarrow>
      list_all int64 (concat (map row_integers (map delivery_row (deliveries db))))"
  proof (rule rows_fit_map [where key = delivery_id])
    show "distinct (map delivery_id (deliveries db))" using assms by (simp add: keys_ok_def)
  qed (simp_all add: delivery_row_def primary_keys row_integers_def, simp add: declared_simps)
  moreover have "rows_fit (declared_table Job) (map job_row (jobs db)) \<longleftrightarrow>
      list_all int64 (concat (map row_integers (map job_row (jobs db))))"
  proof (rule rows_fit_map [where key = job_id, OF job_row_fits])
    show "distinct (map job_id (jobs db))" using assms by (simp add: keys_ok_def)
  qed (simp add: job_row_def primary_keys)
  moreover have "rows_fit (declared_table PrLock) (map lock_row (pr_locks db)) \<longleftrightarrow>
      list_all int64 (concat (map row_integers (map lock_row (pr_locks db))))"
  proof (rule rows_fit_map [where key = lock_key])
    show "distinct (map lock_key (pr_locks db))" using assms by (simp add: keys_ok_def)
  qed (simp_all add: lock_row_def primary_keys row_integers_def, simp add: declared_simps)
  moreover have "rows_fit (declared_table ReviewPosted) (map posted_row (reviews_posted db)) \<longleftrightarrow>
      list_all int64 (concat (map row_integers (map posted_row (reviews_posted db))))"
  proof (rule rows_fit_map [where key = posted_id])
    show "distinct (map posted_id (reviews_posted db))" using assms by (simp add: keys_ok_def)
  qed (simp_all add: posted_row_def primary_keys row_integers_def, simp add: declared_simps)
  moreover have "rows_fit (declared_table FailureCooldown) (map cooldown_row (failure_cooldowns db)) \<longleftrightarrow>
      list_all int64 (concat (map row_integers (map cooldown_row (failure_cooldowns db))))"
  proof (rule rows_fit_map [where key = cooldown_key])
    show "distinct (map cooldown_key (failure_cooldowns db))" using assms by (simp add: keys_ok_def)
  qed (simp_all add: cooldown_row_def primary_keys row_integers_def, simp add: declared_simps)
  moreover have "database_integers db = concat (map row_integers (map delivery_row (deliveries db))) @
      concat (map row_integers (map job_row (jobs db))) @ concat (map row_integers (map lock_row (pr_locks db))) @
      concat (map row_integers (map posted_row (reviews_posted db))) @ concat (map row_integers (map cooldown_row (failure_cooldowns db)))"
    by (simp add: database_integers_def database_rows_def)
  ultimately show ?thesis
    by (simp add: stores_def database_rows_def migrated_tables_def find_declared tablenames conj_ac del: list.map)
qed

section \<open>Properties\<close>

text \<open>C19: the migration creates what the models declare. Whatever else is in the database, \<open>upgrade\<close>
  succeeds exactly when none of the tables and not the index is there; then it adds exactly the tables
  that the classes of the models describe, with their columns, types, keys and index, and \<open>downgrade\<close>
  takes them away again and nothing else.\<close>

theorem migration_creates_model_tables:
  "case upgrade s of
     (Inr _, s') \<Rightarrow> migratable s \<and> mset s' = mset s + mset model_tables \<and> downgrade s' = (Inr (), s)
   | (Inl e, s') \<Rightarrow> \<not> migratable s"
  using upgrade_run [of s] upgrade_conflict [of s] downgrade_run [of s]
  by (cases "migratable s") (auto simp: mset_migrated_tables)

text \<open>C18: the tables of the migration take every row the service ever writes, as far as its integers
  have 64 bits. In every state the service reaches, no two rows of a table share the primary key, each row
  has the columns of its table, and the rows fit the types, the lengths, the enumerations and the
  nullability of the columns exactly when all integers in them are in the range of SQLite; a job is loaded
  from its row as it was stored.\<close>

theorem reachable_store_fits_schema:
  assumes "service_step\<^sup>*\<^sup>* (service_start empty_database) s"
  shows "(stores (snd (upgrade [])) (sv_db s) \<longleftrightarrow> list_all int64 (database_integers (sv_db s))) \<and>
    map job_of_row (map job_row (jobs (sv_db s))) = map Some (jobs (sv_db s))"
proof -
  have "service_ok s"
    by (rule service_inv.steps_keep [OF assms service_ok_start [OF store_ok_empty]])
  then have "keys_ok (sv_db s)" by (simp add: service_ok_def store_ok_def)
  moreover have "upgrade [] = (Inr (), migrated_tables)" using upgrade_run [of "[]"] by (simp add: migratable_iff)
  ultimately show ?thesis by (simp add: stores_migrated job_of_row_job_row)
qed

theorem reachable_store_fits_schema_witness:
  "stores (snd (upgrade [])) sample_running \<and> jobs sample_running \<noteq> []"
proof -
  have "deliveries sample_running = []" "reviews_posted sample_running = []" "failure_cooldowns sample_running = []"
    by (simp_all add: sample_running_def enqueue_tx_cases empty_database_def update_job_status_def)
  then have "list_all int64 (database_integers sample_running)"
    by (simp add: database_integers_def database_rows_def row_integers_def job_row_def lock_row_def sample_running_eval int64_def)
  then show ?thesis
    using reachable_store_fits_schema [OF sample_run_service] by (simp add: sample_service_def sample_running_eval)
qed

end
