(* ===== verification/Migrate.thy ===== *)
theory Migrate
  imports Schema
begin

text \<open>
  Running the migrations: \<open>storage/alembic/env.py\<close>, the script that Alembic's \<open>upgrade\<close> executes. The
  objects it talks to, the context of Alembic and the engine of SQLAlchemy, are the fields of
  \<open>alembic_env\<close>; what Alembic documents about them is \<open>applies_revision\<close>.
\<close>

text \<open>The arguments of \<open>context.configure\<close>: with a connection, or with a URL.\<close>

datatype configuration =
    OnConnection schema bool                                       \<comment> \<open>\<open>render_as_batch\<close>\<close>
  | OnUrl "string option" schema bool "(string \<times> string) list"   \<comment> \<open>\<open>literal_binds\<close>, \<open>dialect_opts\<close>\<close>

text \<open>
  \<open>context.config.config_file_name\<close>, \<open>fileConfig\<close>, \<open>context.is_offline_mode()\<close>, the option
  \<open>sqlalchemy.url\<close>, \<open>context.configure\<close>, entering and leaving \<open>context.begin_transaction()\<close> (the
  argument: whether its body returned), \<open>context.run_migrations()\<close>, the engine without a pool, its
  connection, closing the connection and \<open>dispose\<close>.
\<close>

record 'w alembic_env =
  ae_config_file_name :: "string option"
  ae_file_config :: "string \<Rightarrow> ('w, unit) io"
  ae_is_offline :: bool
  ae_url :: "string option"
  ae_configure :: "configuration \<Rightarrow> ('w, unit) io"
  ae_enter :: "('w, unit) io"
  ae_exit :: "bool \<Rightarrow> ('w, unit) io"
  ae_run_migrations :: "('w, unit) io"
  ae_create_engine :: "('w, unit) io"
  ae_connect :: "('w, unit) io"
  ae_disconnect :: "('w, unit) io"
  ae_dispose :: "('w, unit) io"

text \<open>\<open>with context.begin_transaction(): m\<close>.\<close>

definition in_transaction :: "'w alembic_env \<Rightarrow> ('w, unit) io \<Rightarrow> ('w, unit) io" where
  "in_transaction ae m = io_bind (ae_enter ae) (\<lambda>_ w.
     case m w of
       (Inl e, w1) \<Rightarrow> io_finally (io_raise e) (ae_exit ae False) w1
     | (Inr _, w1) \<Rightarrow> ae_exit ae True w1)"

definition target_metadata :: schema where
  "target_metadata = model_tables"

definition migrate_connection :: "'w alembic_env \<Rightarrow> ('w, unit) io" where
  "migrate_connection ae =
     io_steps [ae_configure ae (OnConnection target_metadata True), in_transaction ae (ae_run_migrations ae)]"

definition run_async_migrations :: "'w alembic_env \<Rightarrow> ('w, unit) io" where
  "run_async_migrations ae = io_steps
     [ae_create_engine ae,
      io_bind (ae_connect ae) (\<lambda>_. io_finally (migrate_connection ae) (ae_disconnect ae)),
      ae_dispose ae]"

definition run_migrations_offline :: "'w alembic_env \<Rightarrow> ('w, unit) io" where
  "run_migrations_offline ae = io_steps
     [ae_configure ae (OnUrl (ae_url ae) target_metadata True [(''paramstyle'', ''named'')]),
      in_transaction ae (ae_run_migrations ae)]"

definition run_migrations_online :: "'w alembic_env \<Rightarrow> ('w, unit) io" where
  "run_migrations_online ae = run_async_migrations ae"

text \<open>The script as a whole.\<close>

definition alembic_env_script :: "'w alembic_env \<Rightarrow> ('w, unit) io" where
  "alembic_env_script ae =
     io_bind (case ae_config_file_name ae of Some f \<Rightarrow> ae_file_config ae f | None \<Rightarrow> io_return ()) (\<lambda>_.
       if ae_is_offline ae then run_migrations_offline ae else run_migrations_online ae)"

section \<open>The revision of a database\<close>

definition revision :: string where
  "revision = ''0001''"

definition down_revision :: "string option" where
  "down_revision = None"

text \<open>A database file: its tables, and the revision noted in it.\<close>

record database_file =
  file_tables :: schema
  file_revision :: "string option"

text \<open>
  What Alembic documents: \<open>run_migrations\<close> runs the \<open>upgrade\<close> of a revision that the database has not
  had yet, the one after \<open>down_revision\<close>, and then notes it, unless it was asked for the SQL only; the
  other calls do not change the tables.
  In particular leaving a transaction undoes nothing, since Alembic counts SQLite among the databases
  whose \<open>create table\<close> takes effect at once.
\<close>

definition applies_revision :: "database_file alembic_env \<Rightarrow> bool" where
  "applies_revision ae \<longleftrightarrow>
     (\<forall>f. ae_run_migrations ae f =
       (if file_revision f = down_revision
        then (case upgrade (file_tables f) of
            (Inl e, t) \<Rightarrow> (Inl e, f\<lparr>file_tables := t\<rparr>)
          | (Inr _, t) \<Rightarrow> (Inr (), f\<lparr>file_tables := t, file_revision := Some revision\<rparr>))
        else (Inr (), f))) \<and>
     (\<forall>c f. ae_configure ae c f = (Inr (), f)) \<and> (\<forall>s f. ae_file_config ae s f = (Inr (), f)) \<and>
     (\<forall>b f. ae_exit ae b f = (Inr (), f)) \<and>
     \<not> ae_is_offline ae \<and>
     list_all (\<lambda>m. \<forall>f. m f = (Inr (), f))
       [ae_enter ae, ae_create_engine ae, ae_connect ae, ae_disconnect ae, ae_dispose ae]"

text \<open>The script does to the tables what \<open>run_migrations\<close> does.\<close>

lemma alembic_env_script_run:
  assumes "applies_revision ae"
  shows "alembic_env_script ae f =
    (if file_revision f = None
     then (case upgrade (file_tables f) of
         (Inl e, t) \<Rightarrow> (Inl e, f\<lparr>file_tables := t\<rparr>)
       | (Inr _, t) \<Rightarrow> (Inr (), f\<lparr>file_tables := t, file_revision := Some revision\<rparr>))
     else (Inr (), f))"
proof -
  have calls: "\<And>c f. ae_configure ae c f = (Inr (), f)" "\<And>s f. ae_file_config ae s f = (Inr (), f)"
    "\<And>f. ae_create_engine ae f = (Inr (), f)" "\<And>f. ae_connect ae f = (Inr (), f)"
    "\<And>f. ae_disconnect ae f = (Inr (), f)" "\<And>f. ae_dispose ae f = (Inr (), f)"
    "\<And>f. ae_enter ae f = (Inr (), f)" "\<And>b f. ae_exit ae b f = (Inr (), f)"
    and online: "\<not> ae_is_offline ae"
    using assms by (simp_all add: applies_revision_def)
  have run: "ae_run_migrations ae f =
    (if file_revision f = None
     then (case upgrade (file_tables f) of
         (Inl e, t) \<Rightarrow> (Inl e, f\<lparr>file_tables := t\<rparr>)
       | (Inr _, t) \<Rightarrow> (Inr (), f\<lparr>file_tables := t, file_revision := Some revision\<rparr>))
     else (Inr (), f))"
    using assms by (simp add: applies_revision_def down_revision_def)
  have skip: "(case ae_config_file_name ae of Some s \<Rightarrow> ae_file_config ae s | None \<Rightarrow> io_return ()) f = (Inr (), f)"
    by (simp add: calls io_return_def split: option.split)
  obtain r f' where migrated: "ae_run_migrations ae f = (r, f')" by (rule prod.exhaust)
  have "alembic_env_script ae f = (r, f')"
    using skip migrated
    by (cases r) (simp_all add: alembic_env_script_def online run_migrations_online_def
        run_async_migrations_def migrate_connection_def in_transaction_def io_defs calls)
  then show ?thesis using migrated run by simp
qed

text \<open>A statement of the migration never removes a table or an index, so what was in the way stays.\<close>

definition extended :: "schema \<Rightarrow> schema \<Rightarrow> bool" where
  "extended s s' \<longleftrightarrow> (\<forall>n. has_table n s \<longrightarrow> has_table n s') \<and> (\<forall>n. has_index n s \<longrightarrow> has_index n s')"

interpretation growth: io_frame extended
  by unfold_locales (auto simp: extended_def)

lemma has_index_add:
  "has_index n s \<Longrightarrow> has_index n (map (\<lambda>t. if tab_name t = m then t\<lparr>tab_indexes := tab_indexes t @ is\<rparr> else t) s)"
  by (induction s) auto

lemma create_extends: "io_keeps extended (create_table n cs pk)" "io_keeps extended (create_index n t is u)"
  by (auto simp: io_keeps_def create_table_def create_index_def extended_def intro: has_index_add)

lemma upgrade_extends: "io_keeps extended upgrade"
  unfolding upgrade_def by (rule growth.keeps_steps) (simp add: create_extends)

lemma extended_not_migratable: "extended s s' \<Longrightarrow> \<not> migratable s \<Longrightarrow> \<not> migratable s'"
  unfolding migratable_iff extended_def by blast

lemma upgrade_fails_again:
  assumes "upgrade s = (Inl e, s')"
  shows "\<exists>e' s''. upgrade s' = (Inl e', s'')"
proof -
  have "\<not> migratable s" using assms upgrade_run [of s] by (metis prod.inject sum.distinct(1))
  moreover have "extended s s'" using upgrade_extends assms by (metis io_keeps_def snd_conv)
  ultimately show ?thesis using extended_not_migratable upgrade_conflict by blast
qed

lemma upgrade_adds: "upgrade s = (Inr u, s') \<Longrightarrow> s' = s @ migrated_tables"
  using upgrade_run [of s] upgrade_conflict [of s] by (metis prod.inject sum.distinct(1))

section \<open>Starting on a database file\<close>

text \<open>The database is migrated once. On a file without a revision the script creates exactly the tables
  of the models and notes the revision; on a file that has had it the script changes nothing, so a
  restart does not touch the tables; and it fails only when tables of the same names are in the way of a
  file without a revision, which then stays without, so that every later start fails as well.\<close>

lemma alembic_env_migrates_once:
  assumes "applies_revision ae"
  shows "case alembic_env_script ae f of
     (Inl _, f') \<Rightarrow> file_revision f = None \<and> \<not> migratable (file_tables f) \<and> file_revision f' = None \<and>
       (\<exists>e f''. alembic_env_script ae f' = (Inl e, f''))
   | (Inr _, f') \<Rightarrow> file_revision f' \<noteq> None \<and> alembic_env_script ae f' = (Inr (), f') \<and>
       (if file_revision f = None then mset (file_tables f') = mset (file_tables f) + mset model_tables else f' = f)"
proof (cases "file_revision f = None")
  case new: True
  obtain r t where up: "upgrade (file_tables f) = (r, t)" by (rule prod.exhaust)
  show ?thesis
  proof (cases r)
    case (Inl e)
    then obtain e' t' where "upgrade t = (Inl e', t')" using upgrade_fails_again up by blast
    moreover have "\<not> migratable (file_tables f)" using Inl up upgrade_run by fastforce
    ultimately show ?thesis using new up Inl by (simp add: alembic_env_script_run [OF assms])
  next
    case Inr
    then have "t = file_tables f @ migrated_tables" using up by (intro upgrade_adds) simp
    then show ?thesis
      using new up Inr by (simp add: alembic_env_script_run [OF assms] mset_migrated_tables)
  qed
next
  case False
  then have "alembic_env_script ae f = (Inr (), f)" using alembic_env_script_run [OF assms, of f] by (simp only: if_False)
  then show ?thesis by (simp only: prod.case sum.case False if_False simp_thms)
qed

text \<open>A context that does what Alembic documents.\<close>

definition sample_alembic :: "database_file alembic_env" where
  "sample_alembic =
     \<lparr>ae_config_file_name = None, ae_file_config = (\<lambda>s. io_return ()), ae_is_offline = False, ae_url = None,
      ae_configure = (\<lambda>c. io_return ()), ae_enter = io_return (), ae_exit = (\<lambda>ok. io_return ()),
      ae_run_migrations = (\<lambda>f.
        if file_revision f = down_revision
        then (case upgrade (file_tables f) of
            (Inl e, t) \<Rightarrow> (Inl e, f\<lparr>file_tables := t\<rparr>)
          | (Inr _, t) \<Rightarrow> (Inr (), f\<lparr>file_tables := t, file_revision := Some revision\<rparr>))
        else (Inr (), f)),
      ae_create_engine = io_return (), ae_connect = io_return (), ae_disconnect = io_return (),
      ae_dispose = io_return ()\<rparr>"

lemma sample_alembic_applies: "applies_revision sample_alembic"
  by (simp add: applies_revision_def sample_alembic_def io_return_def)

lemma alembic_env_migrates_once_witness:
  "\<exists>f'. alembic_env_script sample_alembic \<lparr>file_tables = [], file_revision = None\<rparr> = (Inr (), f') \<and>
    mset (file_tables f') = mset model_tables \<and> alembic_env_script sample_alembic f' = (Inr (), f')"
  using alembic_env_migrates_once [OF sample_alembic_applies, of "\<lparr>file_tables = [], file_revision = None\<rparr>"]
  by (auto simp: migratable_iff split: prod.splits sum.splits)

end
