(* ===== verification/DryRun.thy ===== *)
theory DryRun
  imports Handlers
begin

text \<open>
  The dry-run inspector, \<open>dryrun.py\<close>: the reference to a PR on the command line, its configuration,
  the pipeline of the reviewer without posting, and the report it prints.
\<close>

section \<open>References to a PR\<close>

text \<open>The groups \<open>owner\<close>, \<open>repo\<close> and \<open>number\<close> are the groups 1, 2 and 3.\<close>

definition PR_URL_RE :: rx where
  "PR_URL_RE = rx_seq [Lit ''github.com'', One (OneOf ''/:''), Group 1 (Some1 (NotSpaceNor ''/'')), Lit ''/'',
     Group 2 (Some1 (NotSpaceNor ''/'')), Lit ''/pull/'', Group 3 (Some1 Digit)]"

definition PR_SHORT_RE :: rx where
  "PR_SHORT_RE = rx_seq [TextStart, Group 1 (Some1 (NotSpaceNor ''/'')), Lit ''/'',
     Group 2 (Some1 (NotSpaceNor ''/#'')), Lit ''#'', Group 3 (Some1 Digit), TextEnd]"

definition group_text :: "string \<Rightarrow> captures \<Rightarrow> nat \<Rightarrow> string" where
  "group_text s cs n = (case rx_group s cs n of None \<Rightarrow> [] | Some g \<Rightarrow> g)"

definition parse_pr_url :: "string \<Rightarrow> exc + string \<times> int" where
  "parse_pr_url value =
     (let stripped_value = strip value in
      case (case rx_search PR_URL_RE stripped_value of Some h \<Rightarrow> Some h | None \<Rightarrow> rx_match PR_SHORT_RE stripped_value) of
        None \<Rightarrow> Inl (raised DryRunError (''could not parse a PR reference from '' @ quoted value @
          ''; expected a URL like https://github.com/owner/repo/pull/123 or owner/repo#123''))
      | Some (a, b, cs) \<Rightarrow>
          Inr (group_text stripped_value cs 1 @ ''/'' @ group_text stripped_value cs 2,
               int_of_digits (group_text stripped_value cs 3)))"

section \<open>Configuration\<close>

record dry_run_config =
  dry_llm :: llm_config
  dry_pipeline :: pipeline_config
  dry_defaults :: defaults_config

text \<open>\<open>validate\<close> is \<open>cls.model_validate\<close> of pydantic.\<close>

definition load_dry_run_config ::
  "(string \<Rightarrow> exc + string) \<Rightarrow> 'y yaml_lib \<Rightarrow> ('y \<Rightarrow> exc + dry_run_config) \<Rightarrow> string \<Rightarrow> exc + dry_run_config" where
  "load_dry_run_config read_text lib validate path =
     (case read_text path of
        Inl e \<Rightarrow> if isinstance e OSError
          then Inl (raised DryRunError (''config not readable at '' @ path @ '': '' @ exc_message e)) else Inl e
      | Inr content \<Rightarrow>
          (case yaml_load lib content of
             Inl e \<Rightarrow> if isinstance e YAMLError
               then Inl (raised DryRunError (''config at '' @ path @ '' is not valid YAML: '' @ exc_message e)) else Inl e
           | Inr loaded \<Rightarrow>
               (let data = (if yaml_truthy lib loaded then loaded else yaml_empty_dict lib) in
                if \<not> yaml_is_dict lib data
                then Inl (raised DryRunError (''config at '' @ path @ '' must be a YAML mapping''))
                else
                  (case validate data of
                     Inl e \<Rightarrow> if isinstance e ValidationError
                       then Inl (raised DryRunError (''config at '' @ path @ '' failed validation: '' @ exc_message e)) else Inl e
                   | Inr cfg \<Rightarrow> Inr cfg))))"

definition TOKEN_ENV_VARS :: "string list" where
  "TOKEN_ENV_VARS = [''VIDI_PR_GITHUB_TOKEN'', ''GITHUB_TOKEN'']"

fun first_token :: "(string \<Rightarrow> string option) \<Rightarrow> string list \<Rightarrow> string option" where
  "first_token environ [] = None"
| "first_token environ (name # names) =
     (case environ name of
        None \<Rightarrow> first_token environ names
      | Some t \<Rightarrow> if t = [] then first_token environ names else Some t)"

definition github_token :: "(string \<Rightarrow> string option) \<Rightarrow> string option" where
  "github_token environ = first_token environ TOKEN_ENV_VARS"

definition LLM_API_KEY_ENV :: string where
  "LLM_API_KEY_ENV = ''VIDI_PR_LLM_API_KEY''"

section \<open>Running the pipeline\<close>

text \<open>The database has not assigned an id to the job; 0 stands for it and is not read.\<close>

definition build_job :: "string \<Rightarrow> int \<Rightarrow> string option \<Rightarrow> int \<Rightarrow> job" where
  "build_job repo pr_number extra_context now =
     \<lparr>job_id = 0, job_type = REVIEW, job_installation_id = 0, job_repo = repo, job_pr_number = pr_number,
      job_head_sha = [], job_trigger_kind = COMMENT, job_extra_context = extra_context,
      job_status = RUNNING, job_status_detail = None, job_attempts = 0, job_created_at = now,
      job_updated_at = now, job_error = None\<rparr>"

text \<open>What the process finds outside: GitHub, the endpoint of the model, the clocks, the packages.\<close>

record ('w, 'y) outside =
  os_api :: "'w gh_api"
  os_http :: "'w http"
  os_chat_retrying :: "('w, chat_response) retrying"
  os_post_retrying :: "(client_state \<times> 'w, int) retrying"
  os_files :: prompt_files
  os_match_file :: "string list \<Rightarrow> string \<Rightarrow> bool"
  os_perf_counter :: "'w \<Rightarrow> rat \<times> 'w"
  os_utcnow :: "'w \<Rightarrow> int \<times> 'w"
  os_yaml :: "'y yaml_lib"
  os_validate :: "'y \<Rightarrow> exc + repo_config"

definition beside :: "('w \<Rightarrow> 'a \<times> 'w) \<Rightarrow> client_state \<times> 'w \<Rightarrow> 'a \<times> client_state \<times> 'w" where
  "beside f = (\<lambda>(cs, w). case f w of (a, w') \<Rightarrow> (a, (cs, w')))"

definition dry_run_github :: "('w, 'y) outside \<Rightarrow> string option \<Rightarrow> 'w gh_client" where
  "dry_run_github os token = from_token (os_api os) token DEFAULT_TIMEOUT"

definition dry_run_llm :: "('w, 'y) outside \<Rightarrow> (string \<Rightarrow> string option) \<Rightarrow> dry_run_config \<Rightarrow> 'w llm_client" where
  "dry_run_llm os environ config =
     new_llm_client (llm_base_url (dry_llm config)) (llm_model (dry_llm config)) (environ LLM_API_KEY_ENV)
       (of_int (llm_timeout_seconds (dry_llm config))) DEFAULT_MAX_ATTEMPTS DEFAULT_RETRY_INITIAL_DELAY
       (llm_extra_body (dry_llm config)) (os_http os) (os_chat_retrying os)"

definition dry_run_reviewer ::
  "('w, 'y) outside \<Rightarrow> (string \<Rightarrow> string option) \<Rightarrow> dry_run_config \<Rightarrow> string option \<Rightarrow>
   (client_state \<times> 'w, 'y) reviewer" where
  "dry_run_reviewer os environ config token =
     \<lparr>rv_github = github_of (dry_run_github os token),
      rv_chat = (\<lambda>messages t n. api_call (chat (dry_run_llm os environ config) messages t n None)),
      rv_files = os_files os, rv_match_file = os_match_file os,
      rv_perf_counter = beside (os_perf_counter os), rv_utcnow = beside (os_utcnow os),
      rv_yaml = os_yaml os, rv_validate = os_validate os, rv_retrying = os_post_retrying os,
      rv_defaults = dry_defaults config, rv_pipeline = dry_pipeline config, rv_llm = dry_llm config,
      rv_bot_login = DEFAULT_BOT_LOGIN\<rparr>"

text \<open>The GitHub client is made here, with an empty cache, and is gone at the end.\<close>

definition with_new_client :: "(client_state \<times> 'w, 'a) io \<Rightarrow> ('w, 'a) io" where
  "with_new_client m = (\<lambda>w. case m (new_client_state, w) of (r, (cs, w')) \<Rightarrow> (r, w'))"

definition github_aclose :: "('w, unit) client_io" where
  "github_aclose = (\<lambda>(cs, w). (Inr (), (aclose cs, w)))"

definition render_pr ::
  "('w, 'y) outside \<Rightarrow> (string \<Rightarrow> string option) \<Rightarrow> string \<Rightarrow> int \<Rightarrow> dry_run_config \<Rightarrow> string option \<Rightarrow> string option \<Rightarrow>
   ('w, rendered_review) io" where
  "render_pr os environ repo pr_number config token extra_context =
     with_new_client
       (io_finally
         (io_bind (io_total (beside (os_utcnow os))) (\<lambda>now.
           prepare (dry_run_reviewer os environ config token) (build_job repo pr_number extra_context now) True))
         (io_steps [api_call (llm_aclose (dry_run_llm os environ config)), github_aclose]))"

section \<open>The report\<close>

definition format_prompts :: "prompt_dump list \<Rightarrow> string list" where
  "format_prompts dumps = concat (map (\<lambda>d.
     (nl @ ''===== prompt: '' @ dump_label d @ '' ====='') #
     concat (map (\<lambda>m. [nl @ ''----- '' @ role_value (msg_role m) @ '' -----'', msg_content m]) (dump_messages d))) dumps)"

definition format_report :: "string \<Rightarrow> int \<Rightarrow> string \<Rightarrow> rendered_review \<Rightarrow> bool \<Rightarrow> string \<times> string" where
  "format_report repo pr_number model rendered dump_prompts =
     (let header_lines = [''# dry-run: '' @ repo @ ''#'' @ str_int pr_number, ''model: '' @ model] in
      case early_result rendered of
        Some result \<Rightarrow>
          (let header = header_lines @ [''status: '' @ job_status_value (result_status result)] @
             (case result_status_detail result of None \<Rightarrow> [] | Some d \<Rightarrow> [''detail: '' @ status_detail_value d]) @
             (case result_error result of None \<Rightarrow> [] | Some e \<Rightarrow> if e = [] then [] else [''error: '' @ e])
           in (''(no review body: '' @ (case result_status_detail result of Some d \<Rightarrow> status_detail_value d
                 | None \<Rightarrow> job_status_value (result_status result)) @ '')'',
               join nl header))
      | None \<Rightarrow>
          (let header = header_lines @
             [''chunks: '' @ str_nat (rendered_chunk_count rendered),
              ''tokens: '' @ str_int (rendered_prompt_tokens rendered) @ '' prompt / '' @
                str_int (rendered_completion_tokens rendered) @ '' completion'',
              ''duration: '' @ fmt_1f (rendered_duration_seconds rendered) @ ''s'',
              ''parse_failed: '' @ (if rendered_status_detail rendered \<noteq> None then ''True'' else ''False'')] @
             (if dump_prompts then format_prompts (rendered_prompts rendered) else [])
           in (case rendered_body rendered of Some b \<Rightarrow> b | None \<Rightarrow> [], join nl header)))"

text \<open>\<open>p in s\<close> for strings.\<close>

fun contains :: "string \<Rightarrow> string \<Rightarrow> bool" where
  "contains [] p = (p = [])"
| "contains (c # s) p = (starts_with (c # s) p \<or> contains s p)"

record dry_run_output =
  dr_exit :: int
  dr_stdout :: "string list"
  dr_stderr :: "string list"

definition run_dry_run ::
  "('w, 'y) outside \<Rightarrow> (string \<Rightarrow> string option) \<Rightarrow> (string \<Rightarrow> exc + string) \<Rightarrow> ('y \<Rightarrow> exc + dry_run_config) \<Rightarrow>
   string \<Rightarrow> string \<Rightarrow> bool \<Rightarrow> string option \<Rightarrow> ('w, dry_run_output) io" where
  "run_dry_run os environ read_text validate url config_path dump_prompts context_text =
     io_bind (io_result (parse_pr_url url)) (\<lambda>(repo, pr_number).
     io_bind (io_result (load_dry_run_config read_text (os_yaml os) validate config_path)) (\<lambda>config.
       (let token = github_token environ;
            warning = (if token = None
              then [''warning: no GitHub token in '' @ join '' or '' TOKEN_ENV_VARS @ ''; only public PRs will be reachable'']
              else [])
        in io_try
          (io_bind (render_pr os environ repo pr_number config token context_text) (\<lambda>rendered.
            (case format_report repo pr_number (llm_model (dry_llm config)) rendered dump_prompts of (out, err) \<Rightarrow>
              io_return \<lparr>dr_exit = (if early_result rendered = None then 0 else 1), dr_stdout = [out],
                dr_stderr = warning @ [err]\<rparr>)))
          (\<lambda>e.
            if isinstance e GitHubError
            then io_return \<lparr>dr_exit = 2, dr_stdout = [],
              dr_stderr = warning @ [''GitHub fetch failed: '' @ exc_message e @ ''.'' @
                (if contains (exc_message e) ''rate limited'' then '' Set GITHUB_TOKEN to raise the limit.'' else [])]\<rparr>
            else io_raise e))))"

section \<open>What a dry run leaves alone\<close>

text \<open>The client and the outside with other ways of writing to GitHub.\<close>

definition other_writes ::
  "(int \<Rightarrow> string \<Rightarrow> int \<Rightarrow> string \<Rightarrow> ('v, int) io) \<Rightarrow> (int \<Rightarrow> string \<Rightarrow> int \<Rightarrow> string \<Rightarrow> ('v, int) io) \<Rightarrow>
   (int \<Rightarrow> string \<Rightarrow> int \<Rightarrow> string \<Rightarrow> ('v, unit) io) \<Rightarrow> 'v github \<Rightarrow> 'v github" where
  "other_writes review comment reaction g =
     g\<lparr>g_create_review := review, g_create_comment := comment, g_react_to_comment := reaction\<rparr>"

lemma other_writes_reads [simp]:
  "g_get_pr (other_writes a b c g) = g_get_pr g" "g_get_pr_files (other_writes a b c g) = g_get_pr_files g"
  "g_get_pr_comments (other_writes a b c g) = g_get_pr_comments g" "g_get_repo (other_writes a b c g) = g_get_repo g"
  "g_for_installation (other_writes a b c g) = g_for_installation g"
  by (simp_all add: other_writes_def)

abbreviation other_reviewer :: "('v, 'y) reviewer \<Rightarrow> 'v github \<Rightarrow> ('v, int) retrying \<Rightarrow> ('v, 'y) reviewer" where
  "other_reviewer rv g t \<equiv> rv\<lparr>rv_github := g, rv_retrying := t\<rparr>"

lemma run_chunks_from_other: "run_chunks_from (other_reviewer rv g t) j content cfg n i cs = run_chunks_from rv j content cfg n i cs"
proof (induction cs arbitrary: i)
  case (Cons c cs)
  have "review_chunk (other_reviewer rv g t) j content cfg n i c = review_chunk rv j content cfg n i c"
    by (intro ext) (simp add: review_chunk_def)
  with Cons show ?case by (intro ext) simp
qed (intro ext, simp)

lemma early_done_other: "early_done (other_reviewer rv g t) = early_done rv"
  by (intro ext) (simp add: early_done_def)

lemma review_chunks_other: "review_chunks (other_reviewer rv g t) = review_chunks rv"
proof -
  have "run_chunks (other_reviewer rv g t) = run_chunks rv" by (intro ext) (simp add: run_chunks_def run_chunks_from_other)
  moreover have "maybe_synthesize (other_reviewer rv g t) = maybe_synthesize rv" by (intro ext) (simp add: maybe_synthesize_def)
  moreover have "failure_from (other_reviewer rv g t) = failure_from rv" by (intro ext) (simp add: failure_from_def)
  moreover have "finish_review (other_reviewer rv g t) = finish_review rv"
    by (intro ext) (simp add: finish_review_def Let_def)
  ultimately show ?thesis unfolding review_chunks_def by (simp cong: if_cong)
qed

lemma review_content_other: "review_content (other_reviewer rv g t) = review_content rv"
  by (intro ext) (simp add: review_content_def early_done_other review_chunks_other Let_def cong: if_cong)

text \<open>Up to the rendered review the reviewer only reads from GitHub.\<close>

lemma prepare_other_writes:
  "prepare (other_reviewer rv (other_writes a b c (rv_github rv)) t) = prepare rv"
proof -
  let ?rv = "other_reviewer rv (other_writes a b c (rv_github rv)) t"
  have "review_repo_config ?rv = review_repo_config rv"
    by (intro ext) (simp add: review_repo_config_def reviewer_loader_def)
  moreover have "fetch_pr_content (other_writes a b c (rv_github rv)) = fetch_pr_content (rv_github rv)"
    by (intro ext) (simp add: fetch_pr_content_def cong: if_cong)
  ultimately show ?thesis
    by (intro ext) (simp add: prepare_def review_content_other early_done_other Let_def cong: if_cong option.case_cong)
qed

definition other_endpoints ::
  "(gh_handle \<Rightarrow> string \<Rightarrow> string \<Rightarrow> int \<Rightarrow> string \<Rightarrow> string \<Rightarrow> ('w, int) io) \<Rightarrow>
   (gh_handle \<Rightarrow> string \<Rightarrow> string \<Rightarrow> int \<Rightarrow> string \<Rightarrow> ('w, int) io) \<Rightarrow>
   (gh_handle \<Rightarrow> string \<Rightarrow> string \<Rightarrow> int \<Rightarrow> string \<Rightarrow> ('w, unit) io) \<Rightarrow> ('w, 'y) outside \<Rightarrow> ('w, 'y) outside" where
  "other_endpoints review comment reaction os = os\<lparr>os_api := (os_api os)
     \<lparr>api_create_review := review, api_create_comment := comment, api_create_reaction := reaction\<rparr>\<rparr>"

lemma with_auth_retry_api:
  "gh_io (cl\<lparr>cl_api := api\<rparr>) i = gh_io cl i" "with_auth_retry (cl\<lparr>cl_api := api\<rparr>) i op = with_auth_retry cl i op"
proof -
  have "token_client (cl\<lparr>cl_api := api\<rparr>) = token_client cl"
    by (intro ext) (simp add: token_client_def Let_def cong: option.case_cong)
  moreover have "installation_github (cl\<lparr>cl_api := api\<rparr>) = installation_github cl"
    by (intro ext) (simp add: installation_github_def)
  ultimately show io: "gh_io (cl\<lparr>cl_api := api\<rparr>) i = gh_io cl i"
    by (simp add: gh_io_def gh_def Let_def cong: if_cong option.case_cong)
  show "with_auth_retry (cl\<lparr>cl_api := api\<rparr>) i op = with_auth_retry cl i op"
    unfolding with_auth_retry_def io ..
qed

lemma github_of_other_writes:
  "\<exists>a b c. github_of (cl\<lparr>cl_api := (cl_api cl)\<lparr>api_create_review := review, api_create_comment := comment,
     api_create_reaction := reaction\<rparr>\<rparr>) = other_writes a b c (github_of cl)"
proof -
  let ?cl = "cl\<lparr>cl_api := (cl_api cl)\<lparr>api_create_review := review, api_create_comment := comment,
     api_create_reaction := reaction\<rparr>\<rparr>"
  have "get_pr ?cl = get_pr cl" "get_pr_files ?cl = get_pr_files cl" "get_pr_comments ?cl = get_pr_comments cl"
    "get_repo ?cl = get_repo cl" "fetch_text ?cl = fetch_text cl"
    by (intro ext; simp add: get_pr_def get_pr_files_def get_pr_comments_def get_repo_def fetch_text_def with_auth_retry_api
        cong: if_cong option.case_cong gh_content.case_cong)+
  then show ?thesis
    by (intro exI [of _ "create_review ?cl"] exI [of _ "create_comment ?cl"] exI [of _ "react_to_comment ?cl"])
      (simp add: github_of_def other_writes_def)
qed

lemma render_pr_other:
  "render_pr (other_endpoints review comment reaction os\<lparr>os_post_retrying := t\<rparr>) environ repo n config token extra =
   render_pr os environ repo n config token extra"
proof -
  let ?os = "other_endpoints review comment reaction os\<lparr>os_post_retrying := t\<rparr>"
  let ?rv = "dry_run_reviewer os environ config token"
  obtain a b c where g: "github_of (dry_run_github ?os token) = other_writes a b c (github_of (dry_run_github os token))"
    using github_of_other_writes [where cl = "dry_run_github os token" and review = review and comment = comment and reaction = reaction]
    by (auto simp: dry_run_github_def from_token_def new_gh_client_def other_endpoints_def)
  have llm: "dry_run_llm ?os environ config = dry_run_llm os environ config"
    by (simp add: dry_run_llm_def other_endpoints_def)
  have "dry_run_reviewer ?os environ config token = other_reviewer ?rv (other_writes a b c (rv_github ?rv)) t"
    unfolding dry_run_reviewer_def g llm by (simp add: other_endpoints_def)
  then have "prepare (dry_run_reviewer ?os environ config token) = prepare ?rv" using prepare_other_writes by metis
  then show ?thesis unfolding render_pr_def llm by (simp add: other_endpoints_def)
qed

section \<open>Lemmas\<close>

lemma rx_head_Seq_Group_Some1:
  assumes "run_length c s i = Suc n" and "rx_head b s (i + Suc n) = Some (k, cb)"
  shows "rx_head (Seq (Group g (Some1 c)) b) s i = Some (k, (g, i, i + Suc n) # cb)"
proof -
  have "rx_run (Group g (Some1 c)) s i =
      [] @ (i + Suc n, [(g, i, i + Suc n)]) # map (\<lambda>k. (i + k, [(g, i, i + k)])) (rev [1..<Suc n])"
    by (simp add: assms(1))
  from rx_head_Seq [OF this, of b k cb] assms(2) show ?thesis by simp
qed

lemma rx_head_Seq_Lit:
  "rx_head (Seq (Lit t) b) (p @ t @ s) (length p) = rx_head b (p @ t @ s) (length p + length t)"
  by (rule rx_head_Seq_guard) (simp add: starts_with_iff)

lemma rx_head_captured_run:
  assumes "w \<noteq> []" "\<forall>x \<in> set w. in_class c x" "case s of [] \<Rightarrow> True | x # _ \<Rightarrow> \<not> in_class c x"
    and "rx_head b (p @ w @ s) (length p + length w) = Some (k, cb)"
  shows "rx_head (Seq (Group g (Some1 c)) b) (p @ w @ s) (length p) = Some (k, (g, length p, length p + length w) # cb)"
proof -
  obtain n where n: "length w = Suc n" using assms(1) by (cases w) auto
  have "run_length c (p @ w @ s) (length p) = Suc n"
    using takeWhile_append_stop [of w "in_class c" s] assms(2,3) n by (simp add: run_length_split)
  from rx_head_Seq_Group_Some1 [OF this] assms(4) n show ?thesis by simp
qed

lemma rx_head_last_run:
  assumes "w \<noteq> []" "\<forall>x \<in> set w. in_class c x" "case s of [] \<Rightarrow> True | x # _ \<Rightarrow> \<not> in_class c x"
  shows "rx_head (Group g (Some1 c)) (p @ w @ s) (length p) =
    Some (length p + length w, [(g, length p, length p + length w)])"
proof -
  obtain n where n: "length w = Suc n" using assms(1) by (cases w) auto
  have "run_length c (p @ w @ s) (length p) = Suc n"
    using takeWhile_append_stop [of w "in_class c" s] assms(2,3) n by (simp add: run_length_split)
  then show ?thesis by (simp add: rx_head_Group n) (simp add: rx_head_def)
qed

text \<open>The match of a PR's page, for a text split as \<open>p\<close>, the host, the path and the rest.\<close>

lemma PR_URL_RE_head:
  assumes "owner \<noteq> []" "repo \<noteq> []" "\<forall>c \<in> set owner \<union> set repo. c \<noteq> CHR ''/'' \<and> \<not> py_space c"
    and "case rest of [] \<Rightarrow> True | c # _ \<Rightarrow> \<not> py_digit c"
    and t: "t = p @ ''github.com/'' @ owner @ ''/'' @ repo @ ''/pull/'' @ str_nat n @ rest"
  shows "\<exists>k a b c. rx_head PR_URL_RE t (length p) = Some (k,
      [(1, a, a + length owner), (2, b, b + length repo), (3, c, c + length (str_nat n))]) \<and>
    a = length p + 11 \<and> b = a + length owner + 1 \<and> c = b + length repo + 6"
proof -
  define p1 where "p1 = p @ ''github.com''"
  define p2 where "p2 = p1 @ ''/''"
  define p3 where "p3 = p2 @ owner"
  define p4 where "p4 = p3 @ ''/''"
  define p5 where "p5 = p4 @ repo"
  define p6 where "p6 = p5 @ ''/pull/''"
  note ps = p1_def p2_def p3_def p4_def p5_def p6_def
  have t6: "t = p6 @ str_nat n @ rest" and t5: "t = p5 @ ''/pull/'' @ (str_nat n @ rest)"
    and t4: "t = p4 @ repo @ (''/pull/'' @ str_nat n @ rest)"
    and t3: "t = p3 @ ''/'' @ (repo @ ''/pull/'' @ str_nat n @ rest)"
    and t2: "t = p2 @ owner @ (''/'' @ repo @ ''/pull/'' @ str_nat n @ rest)"
    and t0: "t = p @ ''github.com'' @ (''/'' @ owner @ ''/'' @ repo @ ''/pull/'' @ str_nat n @ rest)"
    by (simp_all add: t ps)
  have h6: "rx_head (Group 3 (Some1 Digit)) t (length p6) =
      Some (length p6 + length (str_nat n), [(3, length p6, length p6 + length (str_nat n))])"
    unfolding t6 by (rule rx_head_last_run) (use assms(4) str_nat_digits in \<open>auto split: list.splits\<close>)
  have "rx_head (Seq (Lit ''/pull/'') (Group 3 (Some1 Digit))) t (length p5) = rx_head (Group 3 (Some1 Digit)) t (length p5 + length ''/pull/'')"
    unfolding t5 by (rule rx_head_Seq_Lit)
  then have h5: "rx_head (Seq (Lit ''/pull/'') (Group 3 (Some1 Digit))) t (length p5) =
      Some (length p6 + length (str_nat n), [(3, length p6, length p6 + length (str_nat n))])"
    using h6 by (simp add: p6_def)
  let ?r4 = "Seq (Group 2 (Some1 (NotSpaceNor ''/''))) (Seq (Lit ''/pull/'') (Group 3 (Some1 Digit)))"
  have h4: "rx_head ?r4 t (length p4) = Some (length p6 + length (str_nat n),
      [(2, length p4, length p4 + length repo), (3, length p6, length p6 + length (str_nat n))])"
    unfolding t4
  proof (rule rx_head_captured_run)
    show "rx_head (Seq (Lit ''/pull/'') (Group 3 (Some1 Digit))) (p4 @ repo @ ''/pull/'' @ str_nat n @ rest)
        (length p4 + length repo) = Some (length p6 + length (str_nat n), [(3, length p6, length p6 + length (str_nat n))])"
      using h5 unfolding t4 by (simp add: p5_def)
  qed (use assms(2,3) in auto)
  have "rx_head (Seq (Lit ''/'') ?r4) t (length p3) = rx_head ?r4 t (length p3 + length ''/'')"
    unfolding t3 by (rule rx_head_Seq_Lit)
  then have h3: "rx_head (Seq (Lit ''/'') ?r4) t (length p3) = Some (length p6 + length (str_nat n),
      [(2, length p4, length p4 + length repo), (3, length p6, length p6 + length (str_nat n))])"
    using h4 by (simp add: p4_def)
  let ?r2 = "Seq (Group 1 (Some1 (NotSpaceNor ''/''))) (Seq (Lit ''/'') ?r4)"
  have h2: "rx_head ?r2 t (length p2) = Some (length p6 + length (str_nat n),
      [(1, length p2, length p2 + length owner), (2, length p4, length p4 + length repo),
       (3, length p6, length p6 + length (str_nat n))])"
    unfolding t2
  proof (rule rx_head_captured_run)
    show "rx_head (Seq (Lit ''/'') ?r4) (p2 @ owner @ ''/'' @ repo @ ''/pull/'' @ str_nat n @ rest)
        (length p2 + length owner) = Some (length p6 + length (str_nat n),
        [(2, length p4, length p4 + length repo), (3, length p6, length p6 + length (str_nat n))])"
      using h3 unfolding t2 by (simp add: p3_def)
  qed (use assms(1,3) in auto)
  have "rx_head (Seq (One (OneOf ''/:'')) ?r2) t (length p1) = rx_head ?r2 t (length p2)"
    by (rule rx_head_Seq_guard) (simp add: t p1_def p2_def nth_append)
  moreover have "rx_head (Seq (Lit ''github.com'') (Seq (One (OneOf ''/:'')) ?r2)) t (length p) =
      rx_head (Seq (One (OneOf ''/:'')) ?r2) t (length p + length ''github.com'')"
    unfolding t0 by (rule rx_head_Seq_Lit)
  moreover have "length p + length ''github.com'' = length p1" by (simp add: p1_def)
  ultimately have "rx_head PR_URL_RE t (length p) = rx_head ?r2 t (length p2)"
    unfolding PR_URL_RE_def rx_seq.simps by (simp only:)
  with h2 show ?thesis by (simp add: ps)
qed

lemma slice_mid: "slice (p @ w @ s) (length p) (length p + length w) = w"
  by (simp add: slice_def)

section \<open>Properties\<close>

text \<open>C37: a dry run writes nothing to GitHub. Whatever the endpoints that create reviews, comments and
  reactions would do, and however posting would be retried, the run does the same: it ends with the same
  exit code, the same output and the same world, so none of them is called.\<close>

theorem dry_run_posts_nothing:
  "run_dry_run (other_endpoints review comment reaction os\<lparr>os_post_retrying := t\<rparr>) environ read_text validate url
     config_path dump_prompts context_text =
   run_dry_run os environ read_text validate url config_path dump_prompts context_text"
proof -
  have "os_yaml (other_endpoints review comment reaction os\<lparr>os_post_retrying := t\<rparr>) = os_yaml os"
    by (simp add: other_endpoints_def)
  then show ?thesis unfolding run_dry_run_def render_pr_other by simp
qed

text \<open>C38: the address of a PR's page is read back: from the address of PR \<open>n\<close> of a repository, whatever
  follows the number, the inspector gets that repository and that number.\<close>

theorem parse_pr_url_roundtrip:
  assumes "owner \<noteq> []" "repo \<noteq> []" "\<forall>c \<in> set owner \<union> set repo. c \<noteq> CHR ''/'' \<and> \<not> py_space c"
    and "case rest of [] \<Rightarrow> True | c # _ \<Rightarrow> \<not> py_digit c" "rest = [] \<or> \<not> py_space (last rest)"
  shows "parse_pr_url (''https://github.com/'' @ owner @ ''/'' @ repo @ ''/pull/'' @ str_nat n @ rest) =
    Inr (owner @ ''/'' @ repo, int n)"
proof -
  define t where "t = ''https://'' @ ''github.com/'' @ owner @ ''/'' @ repo @ ''/pull/'' @ str_nat n @ rest"
  have "last t = (if rest = [] then last (str_nat n) else last rest)" by (simp add: t_def)
  moreover have "\<not> py_space (last (str_nat n))"
    using str_nat_digits [of "last (str_nat n)" n] by (auto simp: py_digit_def py_space_def Let_def)
  ultimately have "stripped t" using assms(5) by (auto simp: stripped_def t_def py_space_def)
  then have strip: "strip t = t" by (rule strip_id)
  obtain k a b c where head: "rx_head PR_URL_RE t (length ''https://'') = Some (k,
      [(1, a, a + length owner), (2, b, b + length repo), (3, c, c + length (str_nat n))])"
    and pos: "a = length ''https://'' + 11" "b = a + length owner + 1" "c = b + length repo + 6"
    using PR_URL_RE_head [OF assms(1-4) t_def] by blast
  have early: "rx_run PR_URL_RE t j = []" if j: "j < 8" for j
  proof -
    consider "j = 0" | "j = 1" | "j = 2" | "j = 3" | "j = 4" | "j = 5" | "j = 6" | "j = 7" using j by linarith
    then have "\<not> starts_with (drop j t) ''github.com''" by cases (simp_all add: t_def)
    then show ?thesis by (simp add: PR_URL_RE_def guard_at_def)
  qed
  have "rx_search PR_URL_RE t = Some (8, k,
      [(1, a, a + length owner), (2, b, b + length repo), (3, c, c + length (str_nat n))])"
    unfolding rx_search_def
  proof (rule rx_search_from_at)
    show "8 \<le> length t" by (simp add: t_def)
    show "rx_match_at PR_URL_RE t 8 = Some (8, k,
        [(1, a, a + length owner), (2, b, b + length repo), (3, c, c + length (str_nat n))])"
      using head by (simp add: rx_match_at_head numeral_eq_Suc)
  qed (use early in auto)
  moreover have "slice t a (a + length owner) = owner" "slice t b (b + length repo) = repo"
    "slice t c (c + length (str_nat n)) = str_nat n"
    using slice_mid [of "''https://github.com/''" owner "''/'' @ repo @ ''/pull/'' @ str_nat n @ rest"]
      slice_mid [of "''https://github.com/'' @ owner @ ''/''" repo "''/pull/'' @ str_nat n @ rest"]
      slice_mid [of "''https://github.com/'' @ owner @ ''/'' @ repo @ ''/pull/''" "str_nat n" rest]
    by (simp_all add: pos t_def add.assoc numeral_eq_Suc)
  ultimately have "parse_pr_url t = Inr (owner @ ''/'' @ repo, int n)"
    by (simp add: parse_pr_url_def strip group_text_def rx_group_def)
  then show ?thesis by (simp add: t_def)
qed

theorem parse_pr_url_roundtrip_witness:
  "parse_pr_url (''https://github.com/'' @ ''octo'' @ ''/'' @ ''cat'' @ ''/pull/'' @ str_nat 42 @ ''/files'') =
    Inr (''octo'' @ ''/'' @ ''cat'', int 42)"
  by (rule parse_pr_url_roundtrip) (auto simp: py_space_def py_digit_def)

end
