(* ===== verification/Startup.thy ===== *)
theory Startup
  imports Lifecycle DryRun
begin

text \<open>
  Starting the service, \<open>__main__.py\<close>: the probe of the model's endpoint, and how \<open>_serve\<close> builds the
  clients, the handler, the reviewer and the worker from the operator's configuration. The world of
  the parts is the cache of the GitHub client with the world outside. The server, the argument parser,
  the migrations and the logging are packages or set up packages.
\<close>

section \<open>The probe\<close>

text \<open>What the probe logs: a warning with the error, the number of models, or a warning with the models.\<close>

datatype probe_outcome = Unreachable string | Ready nat | ModelMissing "string list"

definition probe_llm :: "'w llm_client \<Rightarrow> string \<Rightarrow> ('w, probe_outcome) io" where
  "probe_llm cl expected_model =
     io_try
       (io_bind (list_models cl) (\<lambda>available.
         if expected_model \<in> set available then io_return (Ready (length available))
         else io_return (ModelMissing available)))
       (\<lambda>e. if isinstance e LLMError then io_return (Unreachable (exc_message e)) else io_raise e)"

section \<open>The parts of the service\<close>

text \<open>\<open>key\<close> is the text of the file with the private key.\<close>

definition serve_github :: "('w, 'y) outside \<Rightarrow> string \<Rightarrow> 'n operator_config \<Rightarrow> 'w gh_client" where
  "serve_github os key cfg = new_gh_client (os_api os) (app_id (op_github cfg)) key DEFAULT_TIMEOUT"

definition serve_llm :: "('w, 'y) outside \<Rightarrow> 'n operator_config \<Rightarrow> 'w llm_client" where
  "serve_llm os cfg = new_llm_client (llm_base_url (op_llm cfg)) (llm_model (op_llm cfg)) (op_llm_api_key cfg)
     (of_int (llm_timeout_seconds (op_llm cfg))) DEFAULT_MAX_ATTEMPTS DEFAULT_RETRY_INITIAL_DELAY
     (llm_extra_body (op_llm cfg)) (os_http os) (os_chat_retrying os)"

definition serve_handler :: "('w, 'y) outside \<Rightarrow> string \<Rightarrow> 'n operator_config \<Rightarrow> (client_state \<times> 'w, 'y) handler" where
  "serve_handler os key cfg =
     \<lparr>h_client = github_of (serve_github os key cfg), h_utcnow = beside (os_utcnow os), h_yaml = os_yaml os,
      h_validate = os_validate os, h_defaults = op_defaults cfg, h_bot_login = DEFAULT_BOT_LOGIN\<rparr>"

definition serve_reviewer :: "('w, 'y) outside \<Rightarrow> string \<Rightarrow> 'n operator_config \<Rightarrow> (client_state \<times> 'w, 'y) reviewer" where
  "serve_reviewer os key cfg =
     \<lparr>rv_github = github_of (serve_github os key cfg),
      rv_chat = (\<lambda>messages t n. api_call (chat (serve_llm os cfg) messages t n None)),
      rv_files = os_files os, rv_match_file = os_match_file os,
      rv_perf_counter = beside (os_perf_counter os), rv_utcnow = beside (os_utcnow os),
      rv_yaml = os_yaml os, rv_validate = os_validate os, rv_retrying = os_post_retrying os,
      rv_defaults = op_defaults cfg, rv_pipeline = op_pipeline cfg, rv_llm = op_llm cfg,
      rv_bot_login = DEFAULT_BOT_LOGIN\<rparr>"

text \<open>\<open>late timeout\<close> tells whether, and in which world, \<open>asyncio.wait_for\<close> cuts the review off.\<close>

definition serve_worker ::
  "('w, 'y) outside \<Rightarrow> string \<Rightarrow> (int \<Rightarrow> client_state \<times> 'w \<Rightarrow> (client_state \<times> 'w) option) \<Rightarrow> 'n operator_config \<Rightarrow> (client_state \<times> 'w) worker" where
  "serve_worker os key late cfg =
     \<lparr>wk_github = github_of (serve_github os key cfg), wk_review = (\<lambda>j. in_out (run_review (serve_reviewer os key cfg) j)),
      wk_expires = (\<lambda>j w. map_option (\<lambda>v. w\<lparr>world_out := v\<rparr>)
        (late (job_timeout_seconds (op_pipeline cfg)) (world_out w))),
      wk_utcnow = beside (os_utcnow os), wk_pipeline = op_pipeline cfg\<rparr>"

lemma serve_worker_reviews:
  "serve_worker os key late cfg =
     review_worker (serve_reviewer os key cfg) (late (job_timeout_seconds (op_pipeline cfg)))"
  by (simp add: serve_worker_def review_worker_def serve_reviewer_def)

section \<open>What the probe makes of an answer\<close>

text \<open>The models that a decoded payload names. The payload has to be an object; \<open>data\<close> may be missing,
  null, or anything that can be iterated over, of which only objects with an \<open>id\<close> count; a number
  other than 0, or true, ends in a type error.\<close>

fun payload_models :: "(json \<Rightarrow> string) \<Rightarrow> json \<Rightarrow> exc + string list" where
  "payload_models show_json (JObj kvs) =
     (case map_of kvs ''data'' of
        Some (JArr entries) \<Rightarrow> Inr (concat (map (model_id show_json) entries))
      | Some (JBool b) \<Rightarrow> if b then Inl (raised TypeError ''object is not iterable'') else Inr []
      | Some (JInt n) \<Rightarrow> if n = 0 then Inr [] else Inl (raised TypeError ''object is not iterable'')
      | Some (JFloat x) \<Rightarrow> if x = 0 then Inr [] else Inl (raised TypeError ''object is not iterable'')
      | _ \<Rightarrow> Inr [])"
| "payload_models show_json _ = Inl (raised AttributeError ''object has no attribute get'')"

text \<open>The verdict on what the HTTP library returned: an exception that stops the start, None for an
  endpoint that counts as not reachable, or the models it has. Not reachable is: a connection that
  failed or timed out, an error status, and a body that is not JSON.\<close>

definition probe_verdict ::
  "(json \<Rightarrow> string) \<Rightarrow> exc + int \<times> string \<times> (exc + json) \<Rightarrow> exc + string list option" where
  "probe_verdict show_json answer =
     (case answer of
        Inl e \<Rightarrow> if isinstance e HttpRequestError \<or> isinstance e LLMError then Inr None else Inl e
      | Inr (status, body, doc) \<Rightarrow>
          if status \<in> {400..599} then Inr None
          else (case doc of
              Inl e \<Rightarrow> if isinstance e ValueError \<or> isinstance e LLMError then Inr None else Inl e
            | Inr payload \<Rightarrow> map_sum id Some (payload_models show_json payload)))"

lemma llm_error_classes:
  "isinstance (raised LLMError t) LLMError" "isinstance (raised LLMTransientError t) LLMError"
  "isinstance (raised LLMPermanentError t) LLMError" "\<not> isinstance (raised AttributeError t) LLMError"
  "\<not> isinstance (raised TypeError t) LLMError"
  by (simp_all add: isinstance_def is_subclass.simps)

lemma timeout_is_request_error: "isinstance e HttpTimeoutException \<Longrightarrow> isinstance e HttpRequestError"
  unfolding isinstance_def by (erule is_subclass_trans) (simp add: is_subclass.simps)

text \<open>How the probe ends, by what \<open>list_models\<close> did.\<close>

lemma probe_llm_listed: "list_models cl w = (Inr available, w1) \<Longrightarrow>
    probe_llm cl m w = (Inr (if m \<in> set available then Ready (length available) else ModelMissing available), w1)"
  by (simp add: probe_llm_def io_defs)

lemma probe_llm_failed: "list_models cl w = (Inl e, w1) \<Longrightarrow>
    probe_llm cl m w = (if isinstance e LLMError then Inr (Unreachable (exc_message e)) else Inl e, w1)"
  by (simp add: probe_llm_def io_defs)

lemma payload_error: "payload_models show_json payload = Inl e \<Longrightarrow> \<not> isinstance e LLMError"
  by (induction show_json payload rule: payload_models.induct)
    (auto simp: llm_error_classes split: option.splits json.splits if_splits)

lemma listed_payload:
  "except_bind (json_get payload ''data'') (\<lambda>data.
     except_bind (json_iter (json_or data (JArr []))) (\<lambda>entries. Inr (concat (map (model_id show_json) entries)))) =
   payload_models show_json payload"
proof (cases payload)
  case (JObj kvs)
  have "concat (map (model_id show_json) (map (\<lambda>(k, v). JStr k) xs)) = []" for xs :: "(string \<times> json) list"
    by (induction xs) auto
  moreover have "concat (map (model_id show_json) (map (\<lambda>c. JStr [c]) t)) = []" for t
    by (induction t) auto
  ultimately show ?thesis
    by (auto simp: JObj json_or_def split: option.splits json.splits)
qed simp_all

text \<open>What \<open>list_models\<close> does with an exception of the library, and with a response.\<close>

lemma list_models_raises:
  assumes "http_get (client_http cl) (client_session cl) (client_base_url cl @ ''/models'') 10 w = (Inl e, w1)"
  shows "list_models cl w = (Inl (if isinstance e HttpTimeoutException
      then raised LLMTransientError (''LLM /models request timed out: '' @ exc_message e)
      else if isinstance e HttpRequestError then raised LLMTransientError (''LLM /models request failed: '' @ exc_message e)
      else e), w1)"
  using assms by (simp add: list_models_def http_errors_def io_defs)

lemma list_models_answers:
  assumes "http_get (client_http cl) (client_session cl) (client_base_url cl @ ''/models'') 10 w = (Inr (status, body, doc), w1)"
  shows "list_models cl w =
    (case status_error ''LLM /models'' status body of Some e \<Rightarrow> Inl e
     | None \<Rightarrow> except_bind (decode_json ''LLM /models'' doc) (payload_models (http_show_json (client_http cl))), w1)"
  using assms by (simp add: list_models_def http_errors_def listed_payload io_defs split: option.splits)

lemma status_error_range: "(\<exists>e. status_error what status body = Some e) \<longleftrightarrow> status \<in> {400..599}"
  "status_error what status body = Some e \<Longrightarrow> isinstance e LLMError"
  by (auto simp: status_error_def llm_error_classes split: if_splits)

lemma probe_llm_decoded:
  assumes "list_models cl w = (except_bind (decode_json what doc) (payload_models show_json), w1)" "status \<notin> {400..599}"
    and "answer = Inr (status, body, doc)"
  shows "case probe_verdict show_json answer of
      Inl e \<Rightarrow> probe_llm cl m w = (Inl e, w1)
    | Inr None \<Rightarrow> (\<exists>warning. probe_llm cl m w = (Inr (Unreachable warning), w1))
    | Inr (Some available) \<Rightarrow> probe_llm cl m w =
        (Inr (if m \<in> set available then Ready (length available) else ModelMissing available), w1)"
proof (cases doc)
  case e: (Inl e)
  from assms(1) have "list_models cl w = (Inl (if isinstance e ValueError
      then raised LLMError (what @ '' response was not valid JSON: '' @ exc_message e) else e), w1)"
    by (simp add: e decode_json_def)
  from probe_llm_failed [OF this] assms(2) show ?thesis
    by (auto simp: assms(3) e probe_verdict_def llm_error_classes)
next
  case payload: (Inr payload)
  from assms(1) have "list_models cl w = (payload_models show_json payload, w1)"
    by (simp add: payload decode_json_def)
  moreover have "probe_verdict show_json answer = map_sum id Some (payload_models show_json payload)"
    using assms(2) by (auto simp: assms(3) payload probe_verdict_def)
  ultimately show ?thesis
    by (cases "payload_models show_json payload") (auto dest: payload_error simp: probe_llm_listed probe_llm_failed)
qed

section \<open>Properties\<close>

text \<open>C8: the queue of the service drains. For every configuration and whatever GitHub, the endpoint of
  the model, the clocks and the timeouts do: when nobody enqueues meanwhile, a worker with at least as
  many turns as there are pending jobs ends with none; every job that was pending has ended, done or
  failed, and every other job is untouched.\<close>

theorem served_queue_drains:
  assumes "store_ok (world_db w)" "pending (world_db w) \<le> n" "\<forall>w. \<not> stopped w"
    and "\<forall>w. \<exists>w'. idle w = (Inr (), w') \<and> world_db w' = world_db w"
  shows "\<exists>w'. run_turns n (serve_worker os key late cfg) stopped idle w = (Inr (), w') \<and> store_ok (world_db w') \<and>
    pending (world_db w') = 0 \<and> settled (world_db w) (world_db w')"
  unfolding serve_worker_reviews
  by (rule run_turns_drains) (use assms quiet_review_worker reviewed_review_worker(2) in simp_all)

text \<open>GitHub that knows no PR, an endpoint that is down, clocks at rest.\<close>

definition sample_outside :: "('w, string) outside" where
  "sample_outside =
     \<lparr>os_api = \<lparr>
        api_get_pull = (\<lambda>h owner name n w. (Inl (raised (RequestFailed 404 ''gone'') []), w)),
        api_list_files = (\<lambda>h owner name n per w. (Inr [], w)),
        api_list_comments = (\<lambda>h owner name n per w. (Inr [], w)),
        api_get_repo = (\<lambda>h owner name w. (Inl (raised (RequestFailed 404 ''gone'') []), w)),
        api_create_review = (\<lambda>h owner name n body event w. (Inr 1, w)),
        api_create_comment = (\<lambda>h owner name n body w. (Inr 5, w)),
        api_create_reaction = (\<lambda>h owner name n reaction w. (Inr (), w)),
        api_get_content = (\<lambda>h owner name path ref etag w. (Inl (raised (RequestFailed 404 ''none'') []), w)),
        api_decode = (\<lambda>s. Inr s)\<rparr>,
      os_http = \<lparr>http_post = (\<lambda>session url doc w. (Inl (raised HttpRequestError ''refused''), w)),
        http_get = (\<lambda>session url timeout w. (Inl (raised HttpRequestError ''refused''), w)), http_aclose = (\<lambda>session. io_return ()), http_show_json = (\<lambda>_. []),
        http_validate_usage = (\<lambda>_. Inr \<lparr>usage_prompt_tokens = 0, usage_completion_tokens = 0, usage_total_tokens = 0\<rparr>)\<rparr>,
      os_chat_retrying = retry_loop, os_post_retrying = retry_loop, os_files = sample_files,
      os_match_file = (\<lambda>globs path. False), os_perf_counter = (\<lambda>w. (0, w)), os_utcnow = (\<lambda>w. (0, w)),
      os_yaml = ld_yaml sample_loader, os_validate = ld_validate sample_loader\<rparr>"

definition sample_operator :: "string operator_config" where
  "sample_operator =
     \<lparr>op_github = \<lparr>app_id = 1, private_key_path = ''key.pem''\<rparr>,
      op_llm = \<lparr>llm_base_url = ''http://llm'', llm_model = ''m'', llm_temperature = 1 / 5,
        llm_timeout_seconds = 600, llm_max_tokens = 4096, llm_extra_body = []\<rparr>,
      op_server = default_server, op_db_path = ''vidi.db'', op_logging = default_logging,
      op_pipeline = default_pipeline, op_defaults = default_defaults, op_webhook_secret = ''s3cret'',
      op_llm_api_key = None\<rparr>"

theorem served_queue_drains_witness:
  "\<exists>w'. run_turns 2 (serve_worker sample_outside ''key'' (\<lambda>n w. None) sample_operator) (\<lambda>_. False) (io_return ())
      \<lparr>world_db = sample_enqueued, world_out = (new_client_state, ())\<rparr> = (Inr (), w') \<and>
    pending sample_enqueued = 1 \<and> pending (world_db w') = 0 \<and> settled sample_enqueued (world_db w')"
proof -
  have "store_ok sample_enqueued" by (simp add: sample_enqueued_def store_ok_enqueue_tx store_ok_empty)
  moreover have "pending sample_enqueued = 1"
    by (simp add: pending_def sample_enqueued_def enqueue_tx_cases empty_database_def new_job_def)
  ultimately show ?thesis
    using served_queue_drains [of "\<lparr>world_db = sample_enqueued, world_out = (new_client_state, ())\<rparr>" 2 "\<lambda>_. False"
        "io_return ()" sample_outside "''key''" "\<lambda>n w. None" sample_operator]
    by (auto simp: io_return_def)
qed

text \<open>C40: the probe at startup tolerates an endpoint that is down, and only that. For every answer of the
  HTTP library the end of the probe is fixed: a connection that failed or timed out, an error status or
  a body that is not JSON ends in the warning; the models of a good answer decide between ready and
  missing; and exactly any other exception, the attribute error of a JSON answer that is no object
  among them, leaves the probe unchanged and stops the start.\<close>

theorem probe_llm_tolerates_only_outages:
  assumes "http_get (client_http cl) (client_session cl) (client_base_url cl @ ''/models'') 10 w = (answer, w1)"
  shows "case probe_verdict (http_show_json (client_http cl)) answer of
      Inl e \<Rightarrow> probe_llm cl m w = (Inl e, w1)
    | Inr None \<Rightarrow> (\<exists>warning. probe_llm cl m w = (Inr (Unreachable warning), w1))
    | Inr (Some available) \<Rightarrow> probe_llm cl m w =
        (Inr (if m \<in> set available then Ready (length available) else ModelMissing available), w1)"
proof (cases answer)
  case e: (Inl e)
  from probe_llm_failed [OF list_models_raises [OF assms [unfolded e]]] show ?thesis
    by (auto simp: e probe_verdict_def llm_error_classes timeout_is_request_error)
next
  case (Inr response)
  then obtain status body doc where answer: "answer = Inr (status, body, doc)" by (cases response) auto
  note listed = list_models_answers [OF assms [unfolded answer]]
  show ?thesis
  proof (cases "status_error ''LLM /models'' status body")
    case None
    then have "status \<notin> {400..599}" using status_error_range(1) [of "''LLM /models''" status body] by simp
    with None listed show ?thesis by (intro probe_llm_decoded [OF _ _ answer]) simp_all
  next
    case (Some e)
    then have "status \<in> {400..599}" "isinstance e LLMError"
      using status_error_range [of "''LLM /models''" status body] by auto
    then show ?thesis using probe_llm_failed [of cl w e w1 m] listed Some by (simp add: answer probe_verdict_def)
  qed
qed

text \<open>An endpoint whose list of models is a bare JSON array.\<close>

definition sample_array_llm :: "unit llm_client" where
  "sample_array_llm = new_llm_client ''http://llm'' ''m'' None 600 DEFAULT_MAX_ATTEMPTS DEFAULT_RETRY_INITIAL_DELAY []
     \<lparr>http_post = (\<lambda>session url doc w. (Inr (200, [], Inr JNull), w)), http_get = (\<lambda>session url timeout w. (Inr (200, [], Inr (JArr [])), w)),
      http_aclose = (\<lambda>session. io_return ()),
      http_show_json = (\<lambda>_. []),
      http_validate_usage = (\<lambda>_. Inr \<lparr>usage_prompt_tokens = 0, usage_completion_tokens = 0, usage_total_tokens = 0\<rparr>)\<rparr>
     retry_loop"

theorem probe_llm_tolerates_only_outages_witness:
  "probe_llm sample_array_llm ''m'' () = (Inl (raised AttributeError ''object has no attribute get''), ())"
  using probe_llm_tolerates_only_outages [of sample_array_llm "()" "Inr (200, [], Inr (JArr []))" "()" "''m''"]
  by (simp add: sample_array_llm_def new_llm_client_def probe_verdict_def)

end
