(* ===== verification/Launch.thy ===== *)
theory Launch
  imports Startup Schema
begin

text \<open>
  Launching the program: \<open>main\<close>, \<open>_serve_main\<close> and \<open>_serve\<close> of \<open>__main__.py\<close> with the engine of
  \<open>storage/db.py\<close>, the logging of \<open>transport/logging_setup.py\<close> and the migrations, in the order in
  which the code runs them. What the packages do at each of these points is a field of \<open>host\<close>; the
  parts of the service that are built on the way are those of \<open>Startup.thy\<close>.
\<close>

section \<open>storage/db.py\<close>

definition make_database_url :: "string \<Rightarrow> string" where
  "make_database_url path = ''sqlite+aiosqlite:///'' @ path"

text \<open>What is executed on every new connection of the engine.\<close>

definition connection_pragmas :: "string list" where
  "connection_pragmas = [''PRAGMA journal_mode=WAL'', ''PRAGMA foreign_keys=ON'']"

text \<open>The listener, with the \<open>execute\<close> and the \<open>close\<close> of the cursor.\<close>

definition set_pragmas :: "(string \<Rightarrow> ('w, unit) io) \<Rightarrow> ('w, unit) io \<Rightarrow> ('w, unit) io" where
  "set_pragmas execute close = io_steps (map execute connection_pragmas @ [close])"

section \<open>transport/logging_setup.py\<close>

datatype log_processor =
    MergeContextvars
  | AddLogLevel
  | TimeStamper string bool       \<comment> \<open>format, UTC\<close>
  | JSONRenderer
  | ConsoleRenderer

record logging_setup =
  basic_format :: string
  basic_level :: log_level
  basic_force :: bool
  log_processors :: "log_processor list"
  filter_level :: log_level
  cache_on_first_use :: bool

definition setup_logging :: "logging_config \<Rightarrow> logging_setup" where
  "setup_logging config =
     \<lparr>basic_format = ''%(message)s'', basic_level = log_level_of config, basic_force = True,
      log_processors = [MergeContextvars, AddLogLevel, TimeStamper ''iso'' True] @
        (if log_format_of config = JSON_FORMAT then [JSONRenderer] else [ConsoleRenderer]),
      filter_level = log_level_of config, cache_on_first_use = True\<rparr>"

section \<open>The host\<close>

text \<open>
  In the order of the calls: \<open>OperatorConfig.load()\<close>; the two \<open>configure\<close> calls of the logging; Alembic's
  \<open>upgrade\<close> of a database to a revision; the engine, the listener with the statements for its
  connections, and the factory of sessions with \<open>expire_on_commit\<close>; reading a file; \<open>httpx.AsyncClient\<close>
  with the timeout and the headers of the session; \<open>create_task(worker.run_forever())\<close>; \<open>FastAPI()\<close> with
  the two routes; \<open>uvicorn.Server(uvicorn.Config(...))\<close>, which raises for instance when the environment
  has a \<open>WEB_CONCURRENCY\<close> that is no number; \<open>server.serve()\<close>, during which the worker's task runs too;
  \<open>worker.stop()\<close>; \<open>await worker_task\<close>; and the closing of the clients and the engine.
\<close>

record ('w, 'n) host =
  ho_load_config :: "('w, 'n operator_config) io"
  ho_configure_logging :: "logging_setup \<Rightarrow> ('w, unit) io"
  ho_alembic_upgrade :: "string \<Rightarrow> string \<Rightarrow> ('w, unit) io"
  ho_create_engine :: "string \<Rightarrow> ('w, unit) io"
  ho_on_connect :: "string list \<Rightarrow> 'w \<Rightarrow> 'w"
  ho_sessionmaker :: "bool \<Rightarrow> 'w \<Rightarrow> 'w"
  ho_read_text :: "string \<Rightarrow> ('w, string) io"
  ho_http_client :: "http_session \<Rightarrow> ('w, unit) io"
  ho_start_worker :: "'w \<Rightarrow> 'w"
  ho_create_app :: "('w, unit) io"
  ho_configure_server :: "string \<Rightarrow> int \<Rightarrow> string list option \<Rightarrow> ('w, unit) io"
  ho_serve :: "('w, unit) io"
  ho_stop_worker :: "'w \<Rightarrow> 'w"
  ho_await_worker :: "('w, unit) io"
  ho_close_llm :: "('w, unit) io"
  ho_close_github :: "('w, unit) io"
  ho_dispose_engine :: "('w, unit) io"
  ho_show_network :: "'n \<Rightarrow> string"

abbreviation io_always :: "('w \<Rightarrow> 'w) \<Rightarrow> ('w, unit) io" where
  "io_always f \<equiv> (\<lambda>w. (Inr (), f w))"

text \<open>\<open>Database.open\<close> and \<open>Database.aclose\<close>.\<close>

definition open_database :: "('w, 'n) host \<Rightarrow> string \<Rightarrow> ('w, unit) io" where
  "open_database ho path = io_steps
     [ho_create_engine ho (make_database_url path), io_always (ho_on_connect ho connection_pragmas),
      io_always (ho_sessionmaker ho False)]"

definition close_database :: "('w, 'n) host \<Rightarrow> ('w, unit) io" where
  "close_database ho = ho_dispose_engine ho"

section \<open>__main__.py\<close>

definition run_migrations :: "('w, 'n) host \<Rightarrow> string \<Rightarrow> ('w, unit) io" where
  "run_migrations ho db_url = ho_alembic_upgrade ho db_url ''head''"

text \<open>\<open>[str(n) for n in networks] or None\<close>.\<close>

definition forwarded_ips :: "('n \<Rightarrow> string) \<Rightarrow> 'n list \<Rightarrow> string list option" where
  "forwarded_ips show_network networks = (if networks = [] then None else Some (map show_network networks))"

text \<open>The part of \<open>_serve\<close> behind the probe: the inner \<open>try\<close>, the start of the worker before it, and the
  outer \<open>try\<close>.\<close>

definition serve_until_stopped :: "('w, 'n) host \<Rightarrow> ('w, unit) io" where
  "serve_until_stopped ho =
     io_finally (ho_serve ho) (io_steps [io_always (ho_stop_worker ho), ho_await_worker ho])"

definition serve_with_worker :: "('w, 'n) host \<Rightarrow> 'n operator_config \<Rightarrow> ('w, unit) io" where
  "serve_with_worker ho cfg =
     io_bind (io_always (ho_start_worker ho)) (\<lambda>_.
     io_bind (ho_create_app ho) (\<lambda>_.
     io_bind (ho_configure_server ho (server_host (op_server cfg)) (server_port (op_server cfg))
         (forwarded_ips (ho_show_network ho) (forwarded_allow_ips (op_server cfg)))) (\<lambda>_.
       serve_until_stopped ho)))"

definition serve_running :: "('w, 'n) host \<Rightarrow> 'n operator_config \<Rightarrow> ('w, unit) io" where
  "serve_running ho cfg =
     io_finally (serve_with_worker ho cfg) (io_steps [ho_close_llm ho, ho_close_github ho, close_database ho])"

definition serve :: "('w, 'y) outside \<Rightarrow> ('w, 'n) host \<Rightarrow> 'n operator_config \<Rightarrow> ('w, unit) io" where
  "serve os ho cfg =
     io_bind (open_database ho (op_db_path cfg)) (\<lambda>_.
     io_bind (ho_read_text ho (private_key_path (op_github cfg))) (\<lambda>private_key.
     io_bind (ho_http_client ho (client_session (serve_llm os cfg))) (\<lambda>_.
     io_bind (probe_llm (serve_llm os cfg) (llm_model (op_llm cfg))) (\<lambda>_.
       serve_running ho cfg))))"

definition serve_main :: "('w, 'y) outside \<Rightarrow> ('w, 'n) host \<Rightarrow> ('w, unit) io" where
  "serve_main os ho =
     io_bind (ho_load_config ho) (\<lambda>cfg.
     io_bind (ho_configure_logging ho (setup_logging (op_logging cfg))) (\<lambda>_.
     io_bind (run_migrations ho (make_database_url (op_db_path cfg))) (\<lambda>_.
       serve os ho cfg)))"

text \<open>The parsed arguments. The default of \<open>--config\<close> is taken from the environment.\<close>

record cli_args =
  arg_command :: "string option"
  arg_url :: string
  arg_config :: string
  arg_dump_prompts :: bool
  arg_context :: "string option"

definition default_config_arg :: "(string \<Rightarrow> string option) \<Rightarrow> string" where
  "default_config_arg environ = (case environ CONFIG_PATH_ENV of Some p \<Rightarrow> p | None \<Rightarrow> DEFAULT_CONFIG_PATH)"

text \<open>The result is the code of the \<open>SystemExit\<close> that a dry run ends with, None when \<open>main\<close> returns.\<close>

definition main ::
  "('w, 'y) outside \<Rightarrow> ('w, 'n) host \<Rightarrow> (string \<Rightarrow> string option) \<Rightarrow> (string \<Rightarrow> exc + string) \<Rightarrow>
   ('y \<Rightarrow> exc + dry_run_config) \<Rightarrow> cli_args \<Rightarrow> ('w, int option) io" where
  "main os ho environ read_text validate args =
     (if arg_command args = Some ''dry-run''
      then io_bind (run_dry_run os environ read_text validate (arg_url args) (arg_config args)
          (arg_dump_prompts args) (arg_context args)) (\<lambda>out. io_return (Some (dr_exit out)))
      else io_bind (serve_main os ho) (\<lambda>_. io_return None))"

section \<open>What a launch does, and in which order\<close>

datatype launch_event =
    ConfigLoad | LoggingSet | Migrated string string | EngineOpened string | KeyRead | HttpOpened
  | WorkerStarted | AppCreated | ServerConfigured | ServerRan | WorkerStopped | WorkerAwaited | LLMClosed | GitHubClosed | EngineDisposed

text \<open>A host whose calls are written down, whatever they return, raise or do.\<close>

definition logged :: "launch_event \<Rightarrow> ('w, 'a) io \<Rightarrow> ('w \<times> launch_event list, 'a) io" where
  [io_defs]: "logged e m = (\<lambda>(w, evs). case m w of (r, w') \<Rightarrow> (r, (w', evs @ [e])))"

definition logged_host :: "('w, 'n) host \<Rightarrow> ('w \<times> launch_event list, 'n) host" where
  "logged_host ho =
     \<lparr>ho_load_config = logged ConfigLoad (ho_load_config ho),
      ho_configure_logging = (\<lambda>s. logged LoggingSet (ho_configure_logging ho s)),
      ho_alembic_upgrade = (\<lambda>url target. logged (Migrated url target) (ho_alembic_upgrade ho url target)),
      ho_create_engine = (\<lambda>url. logged (EngineOpened url) (ho_create_engine ho url)),
      ho_on_connect = (\<lambda>statements (w, evs). (ho_on_connect ho statements w, evs)),
      ho_sessionmaker = (\<lambda>expire (w, evs). (ho_sessionmaker ho expire w, evs)),
      ho_read_text = (\<lambda>path. logged KeyRead (ho_read_text ho path)),
      ho_http_client = (\<lambda>session. logged HttpOpened (ho_http_client ho session)),
      ho_start_worker = (\<lambda>(w, evs). (ho_start_worker ho w, evs @ [WorkerStarted])),
      ho_create_app = logged AppCreated (ho_create_app ho),
      ho_configure_server = (\<lambda>h p f. logged ServerConfigured (ho_configure_server ho h p f)),
      ho_serve = logged ServerRan (ho_serve ho),
      ho_stop_worker = (\<lambda>(w, evs). (ho_stop_worker ho w, evs @ [WorkerStopped])),
      ho_await_worker = logged WorkerAwaited (ho_await_worker ho),
      ho_close_llm = logged LLMClosed (ho_close_llm ho),
      ho_close_github = logged GitHubClosed (ho_close_github ho),
      ho_dispose_engine = logged EngineDisposed (ho_dispose_engine ho),
      ho_show_network = ho_show_network ho\<rparr>"

text \<open>The closing, a whole service, and what is left of one when \<open>create_app\<close> or the configuration of the
  server raises: the worker is started, and neither stopped nor awaited.\<close>

definition closing_events :: "launch_event list" where
  "closing_events = [LLMClosed, GitHubClosed, EngineDisposed]"

definition service_events :: "launch_event list" where
  "service_events = [WorkerStarted, AppCreated, ServerConfigured, ServerRan, WorkerStopped, WorkerAwaited] @ closing_events"

definition abandoned_events :: "launch_event list list" where
  "abandoned_events = [[WorkerStarted, AppCreated] @ closing_events, [WorkerStarted, AppCreated, ServerConfigured] @ closing_events]"

definition startup_events :: "string \<Rightarrow> launch_event list" where
  "startup_events db_path = [ConfigLoad, LoggingSet, Migrated (make_database_url db_path) ''head'',
     EngineOpened (make_database_url db_path), KeyRead, HttpOpened]"

lemma logged_host_simps [simp]:
  "ho_load_config (logged_host ho) = logged ConfigLoad (ho_load_config ho)"
  "ho_configure_logging (logged_host ho) s = logged LoggingSet (ho_configure_logging ho s)"
  "ho_alembic_upgrade (logged_host ho) url target = logged (Migrated url target) (ho_alembic_upgrade ho url target)"
  "ho_create_engine (logged_host ho) url = logged (EngineOpened url) (ho_create_engine ho url)"
  "ho_on_connect (logged_host ho) statements (w, evs) = (ho_on_connect ho statements w, evs)"
  "ho_sessionmaker (logged_host ho) expire (w, evs) = (ho_sessionmaker ho expire w, evs)"
  "ho_read_text (logged_host ho) path = logged KeyRead (ho_read_text ho path)"
  "ho_start_worker (logged_host ho) (w, evs) = (ho_start_worker ho w, evs @ [WorkerStarted])"
  "ho_http_client (logged_host ho) session = logged HttpOpened (ho_http_client ho session)"
  "ho_create_app (logged_host ho) = logged AppCreated (ho_create_app ho)"
  "ho_configure_server (logged_host ho) h p f = logged ServerConfigured (ho_configure_server ho h p f)"
  "ho_serve (logged_host ho) = logged ServerRan (ho_serve ho)"
  "ho_stop_worker (logged_host ho) (w, evs) = (ho_stop_worker ho w, evs @ [WorkerStopped])"
  "ho_await_worker (logged_host ho) = logged WorkerAwaited (ho_await_worker ho)"
  "ho_close_llm (logged_host ho) = logged LLMClosed (ho_close_llm ho)"
  "ho_close_github (logged_host ho) = logged GitHubClosed (ho_close_github ho)"
  "ho_dispose_engine (logged_host ho) = logged EngineDisposed (ho_dispose_engine ho)"
  by (simp_all add: logged_host_def)

text \<open>The closing of a client as the packages document it: it does not raise.\<close>

definition closes :: "('w, unit) io \<Rightarrow> bool" where
  "closes m \<longleftrightarrow> (\<forall>w. \<exists>w'. m w = (Inr (), w'))"

lemma logged_run: "logged e m (w, evs) = (case m w of (r, w') \<Rightarrow> (r, (w', evs @ [e])))"
  by (simp add: logged_def)

text \<open>One call of the launch: its event is added, and the run goes on only if it returned.\<close>

lemma logged_step:
  "io_bind (logged e m) f (w, evs) =
    (case m w of (Inl x, w') \<Rightarrow> (Inl x, (w', evs @ [e])) | (Inr a, w') \<Rightarrow> f a (w', evs @ [e]))"
  by (simp add: io_bind_def logged_run split: prod.splits sum.splits)

lemma open_database_logged:
  "open_database (logged_host ho) path = logged (EngineOpened (make_database_url path)) (open_database ho path)"
  by (intro ext) (auto simp: open_database_def logged_step logged_def io_bind_def io_return_def
      split: prod.splits sum.splits)

lemma closing_log:
  assumes "closes (ho_close_llm ho)" "closes (ho_close_github ho)"
  shows "\<exists>r w'. io_steps [ho_close_llm (logged_host ho), ho_close_github (logged_host ho), close_database (logged_host ho)]
    (w, evs) = (r, (w', evs @ closing_events))"
proof -
  obtain w1 where w1: "ho_close_llm ho w = (Inr (), w1)" using assms(1) by (auto simp: closes_def)
  obtain w2 where w2: "ho_close_github ho w1 = (Inr (), w2)" using assms(2) by (auto simp: closes_def)
  obtain r w3 where "ho_dispose_engine ho w2 = (r, w3)" by (rule prod.exhaust)
  then show ?thesis by (cases r) (simp_all add: close_database_def closing_events_def logged_step logged_run w1 w2)
qed

lemma finally_log:
  assumes "m (w, evs) = (r1, (w1, evs @ es))" "\<And>v l. \<exists>r w'. f (v, l) = (r, (w', l @ fs))"
  shows "\<exists>r w'. io_finally m f (w, evs) = (r, (w', evs @ es @ fs)) \<and> ((\<exists>e. r1 = Inl e) \<longrightarrow> (\<exists>e. r = Inl e))"
proof -
  obtain r2 w2 where "f (w1, evs @ es) = (r2, (w2, (evs @ es) @ fs))" using assms(2) by blast
  with assms(1) show ?thesis by (cases r2) (auto simp: io_finally_def)
qed

lemma serving_log:
  "\<exists>r w'. serve_until_stopped (logged_host ho) (w, evs) = (r, (w', evs @ [ServerRan, WorkerStopped, WorkerAwaited]))"
proof -
  obtain r1 w1 where serve: "ho_serve ho w = (r1, w1)" by (rule prod.exhaust)
  obtain r2 w2 where "ho_await_worker ho (ho_stop_worker ho w1) = (r2, w2)" by (rule prod.exhaust)
  then show ?thesis by (cases r2) (simp_all add: serve_until_stopped_def io_defs serve)
qed

lemma worker_log:
  "\<exists>r w' es. serve_with_worker (logged_host ho) cfg (w, evs) = (r, (w', evs @ es)) \<and>
    (es = [WorkerStarted, AppCreated, ServerConfigured, ServerRan, WorkerStopped, WorkerAwaited] \<or>
     es \<in> {[WorkerStarted, AppCreated], [WorkerStarted, AppCreated, ServerConfigured]} \<and> (\<exists>e. r = Inl e))"
proof -
  let ?conf = "ho_configure_server ho (server_host (op_server cfg)) (server_port (op_server cfg))
    (forwarded_ips (ho_show_network (logged_host ho)) (forwarded_allow_ips (op_server cfg)))"
  obtain r1 w1 where app: "ho_create_app ho (ho_start_worker ho w) = (r1, w1)" by (rule prod.exhaust)
  obtain r2 w2 where conf: "?conf w1 = (r2, w2)" by (rule prod.exhaust)
  obtain r3 w3 where served: "serve_until_stopped (logged_host ho) (w2, evs @ [WorkerStarted, AppCreated, ServerConfigured]) =
      (r3, (w3, (evs @ [WorkerStarted, AppCreated, ServerConfigured]) @ [ServerRan, WorkerStopped, WorkerAwaited]))"
    using serving_log [of ho w2] by metis
  have run: "serve_with_worker (logged_host ho) cfg (w, evs) =
      io_bind (logged AppCreated (ho_create_app ho)) (\<lambda>_. io_bind (logged ServerConfigured ?conf)
        (\<lambda>_. serve_until_stopped (logged_host ho))) (ho_start_worker ho w, evs @ [WorkerStarted])"
    by (simp add: serve_with_worker_def io_bind_def)
  show ?thesis
  proof (cases r1)
    case (Inl e)
    then show ?thesis by (simp add: run logged_step app)
  next
    case (Inr u)
    then show ?thesis by (cases r2) (simp_all add: run logged_step app conf served)
  qed
qed

lemma serve_running_log:
  assumes "closes (ho_close_llm ho)" "closes (ho_close_github ho)"
  shows "\<exists>r w' es. serve_running (logged_host ho) cfg (w, evs) = (r, (w', evs @ es)) \<and>
    (es = service_events \<or> es \<in> set abandoned_events \<and> (\<exists>e. r = Inl e))"
proof -
  obtain r1 w1 es where run: "serve_with_worker (logged_host ho) cfg (w, evs) = (r1, (w1, evs @ es))"
    and es: "es = [WorkerStarted, AppCreated, ServerConfigured, ServerRan, WorkerStopped, WorkerAwaited] \<or>
      es \<in> {[WorkerStarted, AppCreated], [WorkerStarted, AppCreated, ServerConfigured]} \<and> (\<exists>e. r1 = Inl e)"
    using worker_log [of ho cfg w evs] by blast
  obtain r w' where "serve_running (logged_host ho) cfg (w, evs) = (r, (w', evs @ es @ closing_events))"
    "(\<exists>e. r1 = Inl e) \<longrightarrow> (\<exists>e. r = Inl e)"
    using finally_log [where m = "serve_with_worker (logged_host ho) cfg", OF run closing_log [OF assms]]
    unfolding serve_running_def by blast
  with es show ?thesis by (auto simp: service_events_def abandoned_events_def)
qed

lemma serve_log:
  assumes probe: "io_keeps (\<lambda>w w'. snd w' = snd w) (probe_llm (serve_llm os cfg) (llm_model (op_llm cfg)))"
    and closes: "closes (ho_close_llm ho)" "closes (ho_close_github ho)"
    and run: "serve os (logged_host ho) cfg (w, l) = (r, (w', l'))"
    and first_calls: "first_calls = [EngineOpened (make_database_url (op_db_path cfg)), KeyRead, HttpOpened]"
  shows "l' = l @ first_calls @ service_events \<or>
    (\<exists>e. r = Inl e) \<and> ((\<exists>es \<in> set abandoned_events. l' = l @ first_calls @ es) \<or> (\<exists>k. l' = l @ take k first_calls))"
proof -
  obtain r1 w1 where opened: "open_database ho (op_db_path cfg) w = (r1, w1)" by (rule prod.exhaust)
  obtain r2 w2 where key: "ho_read_text ho (private_key_path (op_github cfg)) w1 = (r2, w2)" by (rule prod.exhaust)
  obtain r3 w3 where http: "ho_http_client ho (client_session (serve_llm os cfg)) w2 = (r3, w3)" by (rule prod.exhaust)
  obtain r4 w4 where p: "probe_llm (serve_llm os cfg) (llm_model (op_llm cfg)) (w3, l @ first_calls) = (r4, (w4, l @ first_calls))"
    using probe unfolding io_keeps_def by (metis prod.collapse snd_conv)
  note steps = serve_def open_database_logged logged_step opened key http
  consider e where "r1 = Inl e" | e where "r1 = Inr ()" "r2 = Inl e" | k e where "r1 = Inr ()" "r2 = Inr k" "r3 = Inl e"
    | k e where "r1 = Inr ()" "r2 = Inr k" "r3 = Inr ()" "r4 = Inl e"
    | k x where "r1 = Inr ()" "r2 = Inr k" "r3 = Inr ()" "r4 = Inr x" by (cases r1; cases r2; cases r3; cases r4) auto
  then show ?thesis
  proof cases
    case 1
    then have "l' = l @ take 1 first_calls" "r = Inl e" using run by (simp_all add: steps first_calls)
    then show ?thesis by blast
  next
    case 2
    then have "l' = l @ take 2 first_calls" "r = Inl e" using run by (simp_all add: steps first_calls)
    then show ?thesis by blast
  next
    case 3
    then have "l' = l @ take 3 first_calls" "r = Inl e" using run by (simp_all add: steps first_calls)
    then show ?thesis by blast
  next
    case 4
    then have "l' = l @ take 3 first_calls" "r = Inl e"
      using run p by (simp_all add: steps first_calls) (simp_all add: io_bind_def)
    then show ?thesis by blast
  next
    case 5
    then have "serve os (logged_host ho) cfg (w, l) = serve_running (logged_host ho) cfg (w4, l @ first_calls)"
      using p by (simp add: steps first_calls) (simp add: io_bind_def)
    with run obtain es where "l' = (l @ first_calls) @ es" "es = service_events \<or> es \<in> set abandoned_events \<and> (\<exists>e. r = Inl e)"
      using serve_running_log [OF closes, of cfg w4 "l @ first_calls"] by (metis prod.inject)
    then show ?thesis by auto
  qed
qed

section \<open>Properties\<close>

text \<open>C20: what a launch does, on every path. It loads the configuration, sets up the logging, migrates the
  database and opens an engine on this same database before anything is served. Once the server runs,
  then however it and the worker end, the worker is stopped and awaited before the clients and the
  engine are closed, and all of them are. The launch ends otherwise only with an error: of one of the
  first calls or of the probe, and nothing after it is done (an engine opened by then is not closed); or
  of the building or the configuration of the server, between the start of the worker and the \<open>try\<close>
  that stops it, and then the clients and the engine are closed under a worker that is neither stopped
  nor awaited.\<close>

theorem serve_main_events:
  fixes ho :: "('w, 'n) host" and os :: "('w \<times> launch_event list, 'y) outside"
  assumes "\<And>cfg :: 'n operator_config. io_keeps (\<lambda>w w'. snd w' = snd w) (probe_llm (serve_llm os cfg) (llm_model (op_llm cfg)))"
    and "closes (ho_close_llm ho)" "closes (ho_close_github ho)"
    and "serve_main os (logged_host ho) (w, []) = (r, (w', evs))"
  shows "\<exists>db_path. evs = startup_events db_path @ service_events \<or>
    (\<exists>e. r = Inl e) \<and> ((\<exists>es \<in> set abandoned_events. evs = startup_events db_path @ es) \<or>
      (\<exists>k. evs = take k (startup_events db_path)))"
proof -
  obtain r1 w1 where load: "ho_load_config ho w = (r1, w1)" by (rule prod.exhaust)
  show ?thesis
  proof (cases r1)
    case (Inl e)
    then have "evs = take 1 (startup_events [])" "r = Inl e"
      using assms(4) load by (simp_all add: serve_main_def logged_step startup_events_def)
    then show ?thesis by blast
  next
    case cfg: (Inr cfg)
    let ?path = "op_db_path cfg" and ?url = "make_database_url (op_db_path cfg)"
    obtain r2 w2 where log_set: "ho_configure_logging ho (setup_logging (op_logging cfg)) w1 = (r2, w2)" by (rule prod.exhaust)
    obtain r3 w3 where migrated: "ho_alembic_upgrade ho ?url ''head'' w2 = (r3, w3)" by (rule prod.exhaust)
    note run = assms(4) [unfolded serve_main_def run_migrations_def logged_host_simps, simplified logged_step load cfg log_set migrated prod.case sum.case]
    consider e where "r2 = Inl e" | e where "r2 = Inr ()" "r3 = Inl e" | "r2 = Inr ()" "r3 = Inr ()"
      by (cases r2; cases r3) auto
    then show ?thesis
    proof cases
      case 1
      then have "evs = take 2 (startup_events ?path)" "r = Inl e" using run by (simp_all add: startup_events_def)
      then show ?thesis by blast
    next
      case 2
      then have "evs = take 3 (startup_events ?path)" "r = Inl e"
        using run migrated by (simp_all add: logged_step startup_events_def)
      then show ?thesis by blast
    next
      case 3
      then have "serve os (logged_host ho) cfg (w3, take 3 (startup_events ?path)) = (r, (w', evs))"
        using run migrated by (simp add: logged_step startup_events_def)
      moreover have "startup_events ?path = take 3 (startup_events ?path) @ drop 3 (startup_events ?path)" by simp
      moreover have "drop 3 (startup_events ?path) = [EngineOpened ?url, KeyRead, HttpOpened]" by (simp add: startup_events_def)
      moreover have "take 3 (startup_events ?path) @ take k (drop 3 (startup_events ?path)) = take (3 + k) (startup_events ?path)" for k
        by (rule take_add [symmetric])
      ultimately show ?thesis using serve_log [OF assms(1-3), of cfg] by (metis append.assoc)
    qed
  qed
qed

text \<open>A host on which everything works; only the endpoint of the model is down. \<open>configured\<close> is what the
  configuration of the server does.\<close>

definition sample_host :: "(unit, unit) io \<Rightarrow> (unit, string) host" where
  "sample_host configured = \<lparr>ho_load_config = io_return sample_operator, ho_configure_logging = (\<lambda>s. io_return ()),
     ho_alembic_upgrade = (\<lambda>url target. io_return ()), ho_create_engine = (\<lambda>url. io_return ()),
     ho_on_connect = (\<lambda>statements. id), ho_sessionmaker = (\<lambda>expire. id),
     ho_read_text = (\<lambda>path. io_return ''key''), ho_http_client = (\<lambda>session. io_return ()), ho_start_worker = id,
     ho_create_app = io_return (), ho_configure_server = (\<lambda>h p f. configured),
     ho_serve = io_return (), ho_stop_worker = id,
     ho_await_worker = io_return (), ho_close_llm = io_return (), ho_close_github = io_return (),
     ho_dispose_engine = io_return (), ho_show_network = id\<rparr>"

lemma sample_probe: "probe_llm (serve_llm sample_outside cfg) m w =
    (Inr (Unreachable ''LLM /models request failed: refused''), w)"
proof -
  have "isinstance (raised LLMTransientError t) LLMError" for t by (simp add: isinstance_def is_subclass.simps)
  moreover have "isinstance (raised HttpRequestError t) HttpRequestError"
    "\<not> isinstance (raised HttpRequestError t) HttpTimeoutException" for t
    by (simp_all add: isinstance_def is_subclass.simps)
  ultimately show ?thesis
    by (simp add: probe_llm_def list_models_def http_errors_def serve_llm_def new_llm_client_def sample_outside_def io_defs)
qed

text \<open>A launch that cannot configure its server leaves the worker behind.\<close>

lemma worker_left_behind:
  "serve_main sample_outside (logged_host (sample_host (io_raise e))) ((), []) =
     (Inl e, ((), startup_events ''vidi.db'' @ [WorkerStarted, AppCreated, ServerConfigured] @ closing_events))"
  by (simp add: sample_probe serve_main_def run_migrations_def serve_def serve_running_def serve_with_worker_def serve_until_stopped_def open_database_def
      close_database_def sample_host_def sample_operator_def logged_host_def startup_events_def closing_events_def io_defs)

theorem serve_main_events_witness:
  "\<exists>w' evs db_path. serve_main sample_outside (logged_host (sample_host (io_return ()))) ((), []) = (Inr (), (w', evs)) \<and>
    evs = startup_events db_path @ service_events"
proof -
  let ?ho = "sample_host (io_return ())"
  have probe: "io_keeps (\<lambda>w w'. snd w' = snd w) (probe_llm (serve_llm sample_outside cfg) (llm_model (op_llm cfg)))"
    for cfg :: "string operator_config"
    by (simp add: io_keeps_def sample_probe)
  have closes: "closes (ho_close_llm ?ho)" "closes (ho_close_github ?ho)"
    by (simp_all add: sample_host_def closes_def io_return_def)
  obtain r w' evs where run: "serve_main sample_outside (logged_host ?ho) ((), []) = (r, (w', evs))"
    by (metis surj_pair)
  then have "r = Inr ()"
    by (simp add: sample_probe serve_main_def run_migrations_def serve_def serve_running_def serve_with_worker_def serve_until_stopped_def open_database_def
        close_database_def sample_host_def logged_host_def io_defs)
  with serve_main_events [OF probe closes run] run show ?thesis by auto
qed

end
