(* ===== verification/AppToken.thy ===== *)
theory AppToken
  imports Effects
begin

text \<open>
  \<open>transport/auth.py\<close>: the token an app signs to authenticate itself to GitHub. Times are microseconds
  since 1970 in UTC; \<open>jwt.encode\<close> is the argument \<open>encode\<close>.
\<close>

record app_claims =
  claim_iat :: int
  claim_exp :: int
  claim_iss :: string

text \<open>\<open>int(t.timestamp())\<close>: the fraction of a second is cut off.\<close>

definition unix_seconds :: "int \<Rightarrow> int" where
  "unix_seconds t = (if t < 0 then - (- t div 1000000) else t div 1000000)"

definition app_claims_at :: "int \<Rightarrow> int \<Rightarrow> int \<Rightarrow> app_claims" where
  "app_claims_at now app_id ttl_seconds =
     \<lparr>claim_iat = unix_seconds now, claim_exp = unix_seconds (now + 1000000 * ttl_seconds),
      claim_iss = str_int app_id\<rparr>"

definition DEFAULT_TTL :: int where
  "DEFAULT_TTL = 540"

definition make_app_jwt :: "(app_claims \<Rightarrow> string \<Rightarrow> string \<Rightarrow> exc + string) \<Rightarrow> ('w \<Rightarrow> int \<times> 'w) \<Rightarrow>
   int \<Rightarrow> string \<Rightarrow> int \<Rightarrow> ('w, string) io" where
  "make_app_jwt encode utcnow app_id private_key ttl_seconds =
     io_bind (io_total utcnow) (\<lambda>now. io_result (encode (app_claims_at now app_id ttl_seconds) private_key ''RS256''))"

lemma unix_seconds_nonneg: "0 \<le> t \<Longrightarrow> unix_seconds t = t div 1000000"
  by (simp add: unix_seconds_def)

lemma app_claims_window:
  assumes "0 \<le> now" "0 < ttl"
  shows "1000000 * claim_iat (app_claims_at now app ttl) \<le> now"
    and "now < 1000000 * claim_exp (app_claims_at now app ttl)"
    and "claim_exp (app_claims_at now app ttl) - claim_iat (app_claims_at now app ttl) = ttl"
  using assms by (simp_all add: app_claims_at_def unix_seconds_nonneg)

text \<open>The token is valid when it is made and not for longer than asked. What is signed, with RS256,
  names the app; its time of issue is not in the future, its end is, and they are \<open>ttl_seconds\<close> apart; with
  the default this is less than the ten minutes that GitHub accepts.\<close>

lemma make_app_jwt_window:
  assumes "utcnow w = (now, w')" "0 \<le> now" "0 < ttl"
  shows "\<exists>c. make_app_jwt encode utcnow app key ttl w = (encode c key ''RS256'', w') \<and>
    claim_iss c = str_int app \<and> 1000000 * claim_iat c \<le> now \<and> now < 1000000 * claim_exp c \<and>
    claim_exp c - claim_iat c = ttl \<and> DEFAULT_TTL < 600"
  using app_claims_window [OF assms(2,3)]
  by (intro exI [of _ "app_claims_at now app ttl"])
    (simp add: make_app_jwt_def io_defs assms(1) DEFAULT_TTL_def, simp add: app_claims_at_def)

lemma make_app_jwt_window_witness:
  "\<exists>c :: app_claims. make_app_jwt (\<lambda>c key alg. Inr (key @ alg @ claim_iss c)) (\<lambda>w. (1700000000999999, w)) 12 ''k'' DEFAULT_TTL () =
      (Inr (''k'' @ ''RS256'' @ claim_iss c), ()) \<and> claim_iss c = str_int 12 \<and>
    1000000 * claim_iat c \<le> 1700000000999999 \<and> 1700000000999999 < 1000000 * claim_exp c \<and>
    claim_exp c - claim_iat c = DEFAULT_TTL \<and> DEFAULT_TTL < 600"
  using make_app_jwt_window [of "\<lambda>w. (1700000000999999, w)" "()" 1700000000999999 "()" DEFAULT_TTL
      "\<lambda>c key alg. Inr (key @ alg @ claim_iss c)" 12 "''k''"]
  by (simp add: DEFAULT_TTL_def)

end
