(* ===== verification/Spec2Isabelle.thy ===== *)
theory Spec2Isabelle
  imports Chunking ReplySections Triggers Footer Templates JobLocks Config RepoConfig ConfigCache GitHubClient
    Retry LLMClient Composer Reviewer Worker Faults Handlers Service Lifecycle EndToEnd Schema Migrate DryRun Startup
    Launch AppToken
begin

text \<open>
  A verification library for vidi-pr, a GitHub App that reviews pull requests with a language model.
  Paths are relative to \<open>src/vidi_pr\<close> of the repository.

  The program. GitHub delivers webhooks to an endpoint (\<open>transport/server.py\<close>), which verifies and
  deduplicates them (\<open>transport/webhook.py\<close>) and passes them to the event handlers
  (\<open>orchestration/handlers.py\<close>). A handler decides whether the event asks for a review
  (\<open>orchestration/triggers.py\<close>, \<open>orchestration/authz.py\<close>, the configuration of the repository in
  \<open>config/repo.py\<close>) and inserts a job and the lock of its PR into the database
  (\<open>orchestration/locks.py\<close>, \<open>storage/\<close>). The worker (\<open>pipeline/worker.py\<close>) claims one job after the
  other and runs the reviewer (\<open>pipeline/reviewer.py\<close>): it fetches the PR (\<open>pipeline/fetcher.py\<close>),
  packs the changed files into chunks (\<open>pipeline/chunking.py\<close>), composes a prompt for each
  (\<open>prompts/\<close>), asks the model (\<open>llm/client.py\<close>), reads its answers (\<open>pipeline/parsing.py\<close>) and posts
  the review (\<open>transport/github_client.py\<close>); a failure is told in a comment
  (\<open>pipeline/failure.py\<close>). \<open>__main__.py\<close> builds and runs these parts; \<open>dryrun.py\<close> runs the pipeline for
  one PR on the command line.

  The theories, in the order of their imports:

    \<^item> \<open>Prelude\<close>: lemmas on lists, filters and keys that the components share.
    \<^item> \<open>PyText\<close>, \<open>PyRegex\<close>: Python's string operations and regular expressions as far as the program
      uses them; the matcher explores alternatives in Python's order.
    \<^item> \<open>Models\<close>: the data of \<open>models/review.py\<close>, \<open>models/storage.py\<close>, \<open>config/defaults.py\<close> and
      \<open>llm/types.py\<close>: an enumeration is a datatype, a model class a record.
    \<^item> \<open>Effects\<close>: the exceptions of \<open>errors.py\<close>, \<open>llm/errors.py\<close> and \<open>transport/errors.py\<close>, and calls
      that may raise and change the world.
    \<^item> \<open>Chunking\<close>, \<open>Parsing\<close>, \<open>Triggers\<close>, \<open>Footer\<close>, \<open>Templates\<close>: \<open>pack_chunks\<close>, \<open>parse_review_output\<close>,
      \<open>parse_trigger\<close>, \<open>format_duration\<close> and \<open>render_template\<close>, each with its specification.
    \<^item> \<open>ReplySections\<close>: the round trip of \<open>parse_review_output\<close>: a reply in the format the prompt asks for
      is taken apart into the bodies that were put in.
    \<^item> \<open>Storage\<close>, \<open>StoreLaws\<close>, \<open>JobLocks\<close>: the statements of \<open>storage/\<close> and the transaction of
      \<open>orchestration/locks.py\<close>; the contracts of the deduplication, of the locks and of the failure
      slots as locales, interpreted on the statements; and the invariant \<open>store_ok\<close>: locks and
      unfinished jobs correspond.
    \<^item> \<open>Config\<close>, \<open>RepoConfig\<close>, \<open>ConfigCache\<close>: the configuration of the operator and of a repository, the
      trust rules with their cache, and the rules over plain files that the cached loader refines.
    \<^item> \<open>GitHubClient\<close>, \<open>Retry\<close>, \<open>LLMClient\<close>: the two clients, with the authentication, headers and
      timeouts they hand to their libraries. Retrying is described by the contract \<open>retry_contract\<close> of
      the package, the failed attempts with the sleep after each; the clients are proved against the
      contract, and \<open>retry_loop\<close> is a loop that keeps it.
    \<^item> \<open>Composer\<close>, \<open>Reviewer\<close>: the prompts, the fetcher, the pipeline of one review.
    \<^item> \<open>Worker\<close>, \<open>Handlers\<close>: the worker with the failure comments; the handlers, the webhook and its
      endpoint. Both are proved for a database that the other side changes meanwhile.
    \<^item> \<open>Faults\<close>: the worker again, on a database whose transactions may raise; without faults it is that
      of \<open>Worker\<close>.
    \<^item> \<open>Service\<close>: handlers and worker as a step relation over one database, one step for a database
      access, with restarts; its invariants are proved by the locale \<open>step_system\<close>.
    \<^item> \<open>Lifecycle\<close>: the abstract machine of a PR (free, queued, busy), the refinement of it by the
      service, and the draining of the queue.
    \<^item> \<open>EndToEnd\<close>: a delivery, its job, the review and the recorded outcome, one after the other.
    \<^item> \<open>Schema\<close>, \<open>Migrate\<close>: the tables as the classes of \<open>models/storage.py\<close> declare them and as the
      migration \<open>0001\<close> creates them, the rows of the model in their columns, and Alembic's \<open>env.py\<close>.
    \<^item> \<open>DryRun\<close>, \<open>Startup\<close>, \<open>Launch\<close>: \<open>dryrun.py\<close>; what \<open>__main__.py\<close> builds; and how it starts and
      stops it, with \<open>storage/db.py\<close> and \<open>transport/logging_setup.py\<close>.
    \<^item> \<open>AppToken\<close>: \<open>transport/auth.py\<close>, which no other module uses.

  What the properties show. The queue: one unfinished job for a PR, single flight, all or nothing when
  enqueueing, first in first out, every claimed job ends whatever its review does, the queue drains,
  the phases of a PR. The gate: signatures, deduplication, authorization, the trust rules for
  configuration files; a delivery, processed well or not, is not dispatched again, whatever the service
  does in between; a dry run posts nothing. The review: each file is in a prompt or among the skipped files
  the body is rendered with; limits are kept; templates are filled once; the outcome of a run. From end to
  end: a PR that is opened gets its review, and so does a command; the delivery sent again changes nothing.
  The database: the migration creates what the models declare, and the rows the service writes fit the
  tables as far as their integers have 64 bits. The launch: the events of every path, in order; once the
  server runs, the worker is stopped and awaited before anything is closed. The errors: what is retried,
  how often and with how much waiting (a review is posted three times at most, within five seconds of
  sleep), what each operation of the GitHub client raises, and which answers of the model's endpoint stop
  the start.

  Some properties record behaviour that the repository's own documentation does not announce: a restart
  blocks the PR of the running job, the automatic trigger ignores the repository's switch, one exception
  of the database ends the worker, a failed delivery cannot be replayed, a body that is cut loses its list
  of skipped files, a command may be spread over lines, a network error of githubkit passes the client
  unchanged, a probe answered by a JSON array stops the start and leaves the engine open, and a server that
  cannot be configured leaves the worker running while the clients are closed under it.

  Parameters. Code of other packages is an argument of the definitions that call it: the endpoints of
  githubkit (\<open>gh_api\<close>), httpx (\<open>http\<close>), tenacity (\<open>retrying\<close>), YAML (\<open>yaml_lib\<close>), the pydantic
  constructors (\<open>validate\<close>), pathspec (\<open>match_file\<close>), the signature check and the parser of payloads
  (\<open>webhook_lib\<close>), \<open>ip_network\<close>, the packaged Markdown files (\<open>prompt_files\<close>), the clocks, Alembic
  (\<open>alembic_env\<close>), and the calls by which the program is launched (\<open>host\<close>). What they answer may depend
  on the world and is not restricted, except by the named hypotheses: \<open>retry_contract\<close> (\<open>Retry\<close>),
  \<open>serves\<close> (\<open>ConfigCache\<close>), \<open>closes\<close> (\<open>Launch\<close>) and \<open>applies_revision\<close> (\<open>Migrate\<close>). A SQLAlchemy session is a committed and a
  working copy of the tables; a table is the list of its rows.

  Choices. Integers are \<open>int\<close> or \<open>nat\<close>, as Python's are unbounded; in \<open>Schema\<close>, where they meet the
  columns of SQLite, the rows that fit are those whose integers have 64 bits (\<open>int64\<close>). The enumerations
  of a job are datatypes; its status detail, a column of plain text, is a text. Floats are rationals,
  characters have 8 bits, times are microseconds. Loops over lists are structural; the worker's endless
  loop is \<open>run_turns\<close>, for a number of turns, and as many turns as there are pending jobs are enough to
  drain the queue (\<open>served_queue_drains\<close>). The matcher of regular expressions is total: a repetition is
  bounded by the length of the text.

  Not modelled: the log calls, and with them \<open>LoggingEventHandler\<close>, which no other module uses; the
  FastAPI object with its health check, the web server and the argument parser, whose results are
  arguments; SQL statements that raise while a webhook is handled (those of the worker do in \<open>Faults\<close>, where
  a transaction that raises was not committed). Still open: Unicode beyond 8-bit characters in case folding and white space, and how pydantic
  merges the settings of its sources.
\<close>

end
